(* ===== verification/Prelude.thy ===== *)
theory Prelude
  imports "HOL-Library.Word" "HOL-Library.Finite_Map"
begin

text \<open>
  Shared ground of the development: bytes and strings, the hexadecimal and decimal
  encodings of the Python standard library, results that may be an exception, and the
  lemma collections the component theories extend.

  A Python \<^verbatim>\<open>str\<close> is a \<^typ>\<open>string\<close>, one character per code point, so the
  model covers strings whose code points are below 256. A Python \<^verbatim>\<open>bytes\<close> is a
  list of 8-bit words. A Python \<^verbatim>\<open>int\<close> is an \<^typ>\<open>int\<close>. A Python dict whose
  order nobody observes is a finite map, so that equality of maps is equality of dicts.
\<close>

section \<open>Collections of rewrite rules\<close>

named_theorems res_simps \<open>when a chain of checks succeeds\<close>
named_theorems wp_simps \<open>postconditions of stateful programs, computed backwards\<close>

section \<open>Bytes and text\<close>

type_synonym byte = "8 word"
type_synonym bytes = "byte list"
type_synonym dict = "(string, string) fmap"

definition byte_of :: "nat \<Rightarrow> byte" where
  "byte_of n = word_of_nat n"

lemma unat_byte_of [simp]: "n < 256 \<Longrightarrow> unat (byte_of n) = n"
  by (simp add: byte_of_def unat_of_nat)

lemma unat_byte_less [simp]: "unat (b :: byte) < 256"
  using unsigned_less [of b] by simp

lemma unat_byte_div_less [simp]: "unat (b :: byte) div 16 < 16"
  using unat_byte_less [of b] by linarith

lemma byte_of_unat [simp]: "byte_of (unat b) = b"
  by (simp add: byte_of_def)

subsection \<open>Hexadecimal: \<^verbatim>\<open>bytes.hex\<close>, \<^verbatim>\<open>hexdigest\<close> and \<^verbatim>\<open>bytes.fromhex\<close>\<close>

definition hex_digits :: string where
  "hex_digits = ''0123456789abcdef''"

definition hex_digit :: "nat \<Rightarrow> char" where
  "hex_digit n = hex_digits ! n"

definition hex_of_byte :: "byte \<Rightarrow> string" where
  "hex_of_byte b = [hex_digit (unat b div 16), hex_digit (unat b mod 16)]"

primrec bytes_hex :: "bytes \<Rightarrow> string" where
  "bytes_hex [] = []"
| "bytes_hex (b # bs) = hex_of_byte b @ bytes_hex bs"

definition lower_hex_char :: "char \<Rightarrow> bool" where
  "lower_hex_char c \<longleftrightarrow> c \<in> set hex_digits"

text \<open>The regular expression \<^verbatim>\<open>^[0-9a-f]{n}$\<close> under \<^verbatim>\<open>fullmatch\<close>.\<close>

definition lower_hex :: "nat \<Rightarrow> string \<Rightarrow> bool" where
  "lower_hex n s \<longleftrightarrow> length s = n \<and> list_all lower_hex_char s"

text \<open>Value of one hexadecimal digit of either case, as \<^verbatim>\<open>bytes.fromhex\<close> reads it.\<close>

definition hex_val :: "char \<Rightarrow> nat option" where
  "hex_val c = (let n = of_char c :: nat in
     if 48 \<le> n \<and> n \<le> 57 then Some (n - 48)
     else if 97 \<le> n \<and> n \<le> 102 then Some (n - 87)
     else if 65 \<le> n \<and> n \<le> 70 then Some (n - 55)
     else None)"

definition ascii_space :: "char \<Rightarrow> bool" where
  "ascii_space c \<longleftrightarrow> (let n = of_char c :: nat in n = 32 \<or> (9 \<le> n \<and> n \<le> 13))"

text \<open>\<^verbatim>\<open>bytes.fromhex\<close>: ASCII whitespace is skipped between bytes, anything else that
  is not a pair of digits is a \<^verbatim>\<open>ValueError\<close> (here \<^term>\<open>None\<close>).\<close>

fun fromhex :: "string \<Rightarrow> bytes option" where
  "fromhex [] = Some []"
| "fromhex (c # cs) =
     (if ascii_space c then fromhex cs
      else case hex_val c of
        None \<Rightarrow> None
      | Some h \<Rightarrow> (case cs of
          [] \<Rightarrow> None
        | d # ds \<Rightarrow> (case hex_val d of
            None \<Rightarrow> None
          | Some l \<Rightarrow> map_option ((#) (byte_of (16 * h + l))) (fromhex ds))))"

lemma length_bytes_hex [simp]: "length (bytes_hex bs) = 2 * length bs"
  by (induction bs) (simp_all add: hex_of_byte_def)

lemma lower_hex_hex_digit: "n < 16 \<Longrightarrow> lower_hex_char (hex_digit n)"
  unfolding lower_hex_char_def hex_digit_def
  by (rule nth_mem) (simp add: hex_digits_def)

lemma list_all_bytes_hex: "list_all lower_hex_char (bytes_hex bs)"
  by (induction bs) (simp_all add: hex_of_byte_def lower_hex_hex_digit)

lemma lower_hex_bytes_hex [simp]: "lower_hex n (bytes_hex bs) \<longleftrightarrow> n = 2 * length bs"
  by (auto simp: lower_hex_def list_all_bytes_hex)

lemma hex_digit_cases:
  "n < 16 \<Longrightarrow> hex_val (hex_digit n) = Some n \<and> \<not> ascii_space (hex_digit n)"
proof -
  have "\<forall>n \<in> set [0..<16]. hex_val (hex_digit n) = Some n \<and> \<not> ascii_space (hex_digit n)"
    by code_simp
  then show "n < 16 \<Longrightarrow> ?thesis" by simp
qed

lemma fromhex_bytes_hex [simp]: "fromhex (bytes_hex bs) = Some bs"
  by (induction bs) (simp_all add: hex_of_byte_def hex_digit_cases)

lemma bytes_hex_inject [simp]: "bytes_hex xs = bytes_hex ys \<longleftrightarrow> xs = ys"
  by (metis fromhex_bytes_hex option.inject)

lemma lower_hex_char_val:
  "lower_hex_char c \<Longrightarrow> \<exists>n. hex_val c = Some n \<and> n < 16 \<and> \<not> ascii_space c"
proof -
  assume "lower_hex_char c"
  then obtain n where "n < length hex_digits" "c = hex_digit n"
    unfolding lower_hex_char_def hex_digit_def in_set_conv_nth by blast
  moreover have "length hex_digits = 16" by (simp add: hex_digits_def)
  ultimately have "n < 16" "c = hex_digit n" by simp_all
  then show ?thesis using hex_digit_cases by auto
qed

lemma fromhex_lower_hex: "lower_hex (2 * n) s \<Longrightarrow> \<exists>bs. fromhex s = Some bs \<and> length bs = n"
proof (induction n arbitrary: s)
  case 0
  then show ?case by (simp add: lower_hex_def)
next
  case (Suc n)
  then obtain c d ds where s: "s = c # d # ds"
    by (cases s; cases "tl s") (auto simp: lower_hex_def)
  with Suc.prems have cd: "lower_hex_char c" "lower_hex_char d" and ds: "lower_hex (2 * n) ds"
    by (auto simp: lower_hex_def)
  from Suc.IH [OF ds] obtain bs where bs: "fromhex ds = Some bs" "length bs = n" by blast
  from cd [THEN lower_hex_char_val] bs show ?case by (auto simp: s)
qed

subsection \<open>Encodings\<close>

text \<open>\<^verbatim>\<open>str.encode("utf-8")\<close> on code points below 256.\<close>

definition utf8_char :: "char \<Rightarrow> bytes" where
  "utf8_char c = (let n = of_char c :: nat in
     if n < 128 then [byte_of n] else [byte_of (192 + n div 64), byte_of (128 + n mod 64)])"

definition utf8 :: "string \<Rightarrow> bytes" where
  "utf8 s = concat (map utf8_char s)"

text \<open>\<^verbatim>\<open>str.encode("ascii")\<close>: \<^term>\<open>None\<close> is the \<^verbatim>\<open>UnicodeEncodeError\<close>.\<close>

definition ascii_encode :: "string \<Rightarrow> bytes option" where
  "ascii_encode s =
     (if list_all (\<lambda>c. of_char c < (128 :: nat)) s then Some (map (\<lambda>c. byte_of (of_char c)) s)
      else None)"

subsection \<open>Decimal: \<^verbatim>\<open>str(int)\<close> and \<^verbatim>\<open>int(str)\<close>\<close>

fun nat_str :: "nat \<Rightarrow> string" where
  "nat_str n = (if n < 10 then [hex_digit n] else nat_str (n div 10) @ [hex_digit (n mod 10)])"

declare nat_str.simps [simp del]

definition int_str :: "int \<Rightarrow> string" where
  "int_str i = (if i < 0 then CHR ''-'' # nat_str (nat (- i)) else nat_str (nat i))"

definition dec_val :: "char \<Rightarrow> nat option" where
  "dec_val c = (let n = of_char c :: nat in if 48 \<le> n \<and> n \<le> 57 then Some (n - 48) else None)"

text \<open>The digits after the first one: single underscores may separate digits.\<close>

fun dec_tail :: "nat \<Rightarrow> string \<Rightarrow> nat option" where
  "dec_tail acc [] = Some acc"
| "dec_tail acc (c # cs) =
     (case dec_val c of
        Some d \<Rightarrow> dec_tail (10 * acc + d) cs
      | None \<Rightarrow>
          if c = CHR ''_'' then
            (case cs of
               [] \<Rightarrow> None
             | d # ds \<Rightarrow> (case dec_val d of None \<Rightarrow> None | Some v \<Rightarrow> dec_tail (10 * acc + v) ds))
          else None)"

definition dec_nat :: "string \<Rightarrow> nat option" where
  "dec_nat s = (case s of
     [] \<Rightarrow> None
   | c # cs \<Rightarrow> (case dec_val c of None \<Rightarrow> None | Some d \<Rightarrow> dec_tail d cs))"

text \<open>White space that \<^verbatim>\<open>int()\<close> strips, on code points below 256.\<close>

definition py_space :: "char \<Rightarrow> bool" where
  "py_space c \<longleftrightarrow> (let n = of_char c :: nat in
     n = 32 \<or> (9 \<le> n \<and> n \<le> 13) \<or> (28 \<le> n \<and> n \<le> 31) \<or> n = 133 \<or> n = 160)"

definition py_strip :: "string \<Rightarrow> string" where
  "py_strip s = rev (dropWhile py_space (rev (dropWhile py_space s)))"

definition py_int :: "string \<Rightarrow> int option" where
  "py_int s = (case py_strip s of
     [] \<Rightarrow> None
   | c # cs \<Rightarrow>
       if c = CHR ''-'' then map_option (\<lambda>n. - int n) (dec_nat cs)
       else if c = CHR ''+'' then map_option int (dec_nat cs)
       else map_option int (dec_nat (c # cs)))"

text \<open>\<^verbatim>\<open>str.split(sep)\<close> for a one-character separator.\<close>

fun split_on :: "char \<Rightarrow> string \<Rightarrow> string list" where
  "split_on sep [] = [[]]"
| "split_on sep (c # cs) =
     (if c = sep then [] # split_on sep cs
      else case split_on sep cs of [] \<Rightarrow> [[c]] | w # ws \<Rightarrow> (c # w) # ws)"

lemma split_on_nonempty [simp]: "split_on sep s \<noteq> []"
  by (induction s) (auto split: list.splits)

lemma split_on_append:
  "sep \<notin> set xs \<Longrightarrow> split_on sep (xs @ sep # ys) = xs # split_on sep ys"
  by (induction xs) auto

lemma split_on_last: "sep \<notin> set xs \<Longrightarrow> split_on sep xs = [xs]"
  by (induction xs) auto

lemma hex_digit_dec: "n < 10 \<Longrightarrow> dec_val (hex_digit n) = Some n \<and> \<not> py_space (hex_digit n)
    \<and> hex_digit n \<noteq> CHR ''-'' \<and> hex_digit n \<noteq> CHR ''+''"
proof -
  have "\<forall>n \<in> set [0..<10]. dec_val (hex_digit n) = Some n \<and> \<not> py_space (hex_digit n)
    \<and> hex_digit n \<noteq> CHR ''-'' \<and> hex_digit n \<noteq> CHR ''+''"
    by code_simp
  then show "n < 10 \<Longrightarrow> ?thesis" by simp
qed

lemma dec_tail_snoc:
  "dec_tail acc s = Some v \<Longrightarrow> dec_val c = Some d \<Longrightarrow> dec_tail acc (s @ [c]) = Some (10 * v + d)"
proof (induction acc s rule: dec_tail.induct)
  case (2 acc x cs)
  show ?case
  proof (cases "dec_val x")
    case (Some e)
    with 2 show ?thesis by simp
  next
    case None
    with 2 show ?thesis by (cases cs; simp split: option.splits if_splits)
  qed
qed simp

lemma dec_nat_snoc:
  "dec_nat s = Some v \<Longrightarrow> dec_val c = Some d \<Longrightarrow> dec_nat (s @ [c]) = Some (10 * v + d)"
  by (auto simp: dec_nat_def dec_tail_snoc split: list.splits option.splits)

lemma dec_nat_nat_str: "dec_nat (nat_str n) = Some n"
proof (induction n rule: nat_str.induct)
  case (1 n)
  show ?case
  proof (cases "n < 10")
    case True
    then show ?thesis
      by (simp add: nat_str.simps [of n] dec_nat_def hex_digit_dec)
  next
    case False
    with 1 have "dec_nat (nat_str (n div 10)) = Some (n div 10)" by simp
    then have "dec_nat (nat_str (n div 10) @ [hex_digit (n mod 10)]) = Some (10 * (n div 10) + n mod 10)"
      by (rule dec_nat_snoc) (simp add: hex_digit_dec)
    with False show ?thesis by (simp add: nat_str.simps [of n])
  qed
qed

lemma nat_str_chars: "c \<in> set (nat_str n) \<Longrightarrow> \<exists>d < 10. c = hex_digit d"
proof (induction n rule: nat_str.induct)
  case (1 n)
  have m: "\<exists>d < 10. hex_digit (n mod 10) = hex_digit d"
    by (rule exI [of _ "n mod 10"]) simp
  show ?case
  proof (cases "n < 10")
    case True
    with 1 show ?thesis by (auto simp: nat_str.simps [of n])
  next
    case False
    with 1 m show ?thesis by (auto simp: nat_str.simps [of n])
  qed
qed

lemma nat_str_digit: "c \<in> set (nat_str n) \<Longrightarrow> \<not> py_space c \<and> c \<noteq> CHR ''-'' \<and> c \<noteq> CHR ''+''"
  using nat_str_chars [of c n] hex_digit_dec by auto

lemma nat_str_nonempty [simp]: "nat_str n \<noteq> []"
  by (subst nat_str.simps) simp

lemma py_strip_id: "\<forall>c \<in> set s. \<not> py_space c \<Longrightarrow> py_strip s = s"
proof -
  assume a: "\<forall>c \<in> set s. \<not> py_space c"
  have "dropWhile py_space s = s" using a by (cases s) auto
  moreover have "dropWhile py_space (rev s) = rev s"
    using a by (metis dropWhile_eq_self_iff hd_in_set set_rev)
  ultimately show ?thesis by (simp add: py_strip_def)
qed

lemma py_int_int_str: "0 \<le> i \<Longrightarrow> py_int (int_str i) = Some i"
proof -
  assume i: "0 \<le> i"
  let ?s = "nat_str (nat i)"
  obtain c cs where s: "?s = c # cs" by (cases ?s) auto
  then have "c \<in> set ?s" by simp
  then have c: "c \<noteq> CHR ''-'' \<and> c \<noteq> CHR ''+''" by (rule nat_str_digit [THEN conjunct2])
  have "py_strip ?s = ?s"
    by (rule py_strip_id) (simp add: nat_str_digit)
  moreover have "dec_nat ?s = Some (nat i)" by (rule dec_nat_nat_str)
  ultimately show ?thesis using i c s by (simp add: py_int_def int_str_def)
qed

section \<open>Results that may be an exception\<close>

text \<open>\<^term>\<open>Inl e\<close> is a raised exception, \<^term>\<open>Inr x\<close> a returned value.
  \<open>bindE\<close> sequences two computations, \<open>require\<close> is
  \<^verbatim>\<open>if not cond: raise e\<close>.\<close>

definition bindE :: "'e + 'a \<Rightarrow> ('a \<Rightarrow> 'e + 'b) \<Rightarrow> 'e + 'b" where
  "bindE m f = (case m of Inl e \<Rightarrow> Inl e | Inr x \<Rightarrow> f x)"

definition require :: "bool \<Rightarrow> 'e \<Rightarrow> 'e + unit" where
  "require b e = (if b then Inr () else Inl e)"

definition of_option :: "'e \<Rightarrow> 'a option \<Rightarrow> 'e + 'a" where
  "of_option e x = (case x of None \<Rightarrow> Inl e | Some v \<Rightarrow> Inr v)"

text \<open>\<^verbatim>\<open>try: m except <caught> as exc: raise handler(exc)\<close>.\<close>

definition mapE :: "('e \<Rightarrow> 'e) \<Rightarrow> 'e + 'a \<Rightarrow> 'e + 'a" where
  "mapE h m = (case m of Inl e \<Rightarrow> Inl (h e) | Inr x \<Rightarrow> Inr x)"

primrec forE :: "('a \<Rightarrow> 'e + unit) \<Rightarrow> 'a list \<Rightarrow> 'e + unit" where
  "forE f [] = Inr ()"
| "forE f (x # xs) = bindE (f x) (\<lambda>_. forE f xs)"

lemma bindE_simps [simp]: "bindE (Inl e) f = Inl e" "bindE (Inr x) f = f x"
  by (simp_all add: bindE_def)

lemma bindE_Inr_iff [res_simps]: "bindE m f = Inr y \<longleftrightarrow> (\<exists>x. m = Inr x \<and> f x = Inr y)"
  by (cases m) auto

lemma require_Inr_iff [simp]: "require b e = Inr u \<longleftrightarrow> b"
  by (simp add: require_def)

lemma require_Inl_iff [simp]: "require b e = Inl e' \<longleftrightarrow> \<not> b \<and> e' = e"
  by (auto simp: require_def)

lemma require_simps [simp]: "require True e = Inr ()" "require False e = Inl e"
  by (simp_all add: require_def)

lemma of_option_Inr_iff [simp]: "of_option e x = Inr v \<longleftrightarrow> x = Some v"
  by (auto simp: of_option_def split: option.splits)

lemma of_option_simps [simp]: "of_option e None = Inl e" "of_option e (Some v) = Inr v"
  by (simp_all add: of_option_def)

lemma mapE_Inr_iff [simp]: "mapE h m = Inr v \<longleftrightarrow> m = Inr v"
  by (auto simp: mapE_def split: sum.splits)

lemma mapE_simps [simp]: "mapE h (Inl e) = Inl (h e)" "mapE h (Inr x) = Inr x"
  by (simp_all add: mapE_def)

lemma forE_Inr_iff [res_simps]: "forE f xs = Inr u \<longleftrightarrow> (\<forall>x \<in> set xs. f x = Inr ())"
  by (induction xs) (auto simp: bindE_Inr_iff)

text \<open>A loop that threads a value and stops at the first exception.\<close>

primrec foldE :: "('a \<Rightarrow> 's \<Rightarrow> 'e + 's) \<Rightarrow> 'a list \<Rightarrow> 's \<Rightarrow> 'e + 's" where
  "foldE f [] s = Inr s"
| "foldE f (x # xs) s = bindE (f x s) (foldE f xs)"

section \<open>Finite maps as Python dicts\<close>

lemma fmlookup_fmap_of_list [simp]: "fmlookup (fmap_of_list xs) k = map_of xs k"
  by (simp add: fmlookup_of_list)

text \<open>Truth value of an optional string: \<^verbatim>\<open>None\<close> and the empty string are false.\<close>

fun truthy :: "string option \<Rightarrow> bool" where
  "truthy None = False"
| "truthy (Some s) = (s \<noteq> [])"

lemma truthy_iff: "truthy x \<longleftrightarrow> (\<exists>s. x = Some s \<and> s \<noteq> [])"
  by (cases x) auto

end
