(* ===== verification/Errors.thy ===== *)
theory Errors
  imports Prelude
begin

text \<open>
  The decision reasons of \<^verbatim>\<open>src/atcap/errors.py\<close> and the exception classes the
  program raises, catches or lets pass. The constructors of \<open>exn\<close> are the classes that
  some \<^verbatim>\<open>except\<close> clause of the program tells apart; \<open>OtherError\<close> stands for
  every other subclass of \<^verbatim>\<open>Exception\<close>.
\<close>

section \<open>Reasons\<close>

datatype reason =
  ALLOW | UNAUTHENTICATED | CHALLENGE_INVALID | CHALLENGE_STALE | CHALLENGE_CONSUMED
  | TPM_INVALID | TPM_UNTRUSTED | PCR_POLICY | MANIFEST_INVALID | MANIFEST_POLICY
  | IDENTITY_UNAUTHORIZED | IDENTITY_SIGNATURE | REQUEST_BINDING | CREDENTIAL_INVALID
  | CREDENTIAL_EXPIRED | SCOPE_DENIED | HOLDER_PROOF_INVALID | CREDENTIAL_SPENT
  | RECEIPT_INVALID | HANDLER_FAILED | INTERNAL_ERROR

definition all_reasons :: "reason list" where
  "all_reasons =
    [ALLOW, UNAUTHENTICATED, CHALLENGE_INVALID, CHALLENGE_STALE, CHALLENGE_CONSUMED,
     TPM_INVALID, TPM_UNTRUSTED, PCR_POLICY, MANIFEST_INVALID, MANIFEST_POLICY,
     IDENTITY_UNAUTHORIZED, IDENTITY_SIGNATURE, REQUEST_BINDING, CREDENTIAL_INVALID,
     CREDENTIAL_EXPIRED, SCOPE_DENIED, HOLDER_PROOF_INVALID, CREDENTIAL_SPENT,
     RECEIPT_INVALID, HANDLER_FAILED, INTERNAL_ERROR]"

text \<open>The value of a \<^verbatim>\<open>StrEnum\<close> member, and the lookup \<^verbatim>\<open>Reason(value)\<close>.\<close>

primrec reason_str :: "reason \<Rightarrow> string" where
  "reason_str ALLOW = ''ALLOW''"
| "reason_str UNAUTHENTICATED = ''UNAUTHENTICATED''"
| "reason_str CHALLENGE_INVALID = ''CHALLENGE_INVALID''"
| "reason_str CHALLENGE_STALE = ''CHALLENGE_STALE''"
| "reason_str CHALLENGE_CONSUMED = ''CHALLENGE_CONSUMED''"
| "reason_str TPM_INVALID = ''TPM_INVALID''"
| "reason_str TPM_UNTRUSTED = ''TPM_UNTRUSTED''"
| "reason_str PCR_POLICY = ''PCR_POLICY''"
| "reason_str MANIFEST_INVALID = ''MANIFEST_INVALID''"
| "reason_str MANIFEST_POLICY = ''MANIFEST_POLICY''"
| "reason_str IDENTITY_UNAUTHORIZED = ''IDENTITY_UNAUTHORIZED''"
| "reason_str IDENTITY_SIGNATURE = ''IDENTITY_SIGNATURE''"
| "reason_str REQUEST_BINDING = ''REQUEST_BINDING''"
| "reason_str CREDENTIAL_INVALID = ''CREDENTIAL_INVALID''"
| "reason_str CREDENTIAL_EXPIRED = ''CREDENTIAL_EXPIRED''"
| "reason_str SCOPE_DENIED = ''SCOPE_DENIED''"
| "reason_str HOLDER_PROOF_INVALID = ''HOLDER_PROOF_INVALID''"
| "reason_str CREDENTIAL_SPENT = ''CREDENTIAL_SPENT''"
| "reason_str RECEIPT_INVALID = ''RECEIPT_INVALID''"
| "reason_str HANDLER_FAILED = ''HANDLER_FAILED''"
| "reason_str INTERNAL_ERROR = ''INTERNAL_ERROR''"

definition reason_of :: "string \<Rightarrow> reason option" where
  "reason_of s = List.find (\<lambda>r. reason_str r = s) all_reasons"

lemma set_all_reasons: "r \<in> set all_reasons"
  by (cases r) (simp_all add: all_reasons_def)

lemma reason_of_str [simp]: "reason_of (reason_str r) = Some r"
  by (cases r) (simp_all add: reason_of_def all_reasons_def)

lemma reason_str_inject [simp]: "reason_str r = reason_str r' \<longleftrightarrow> r = r'"
  by (metis option.inject reason_of_str)

lemma reason_of_Some: "reason_of s = Some r \<longleftrightarrow> s = reason_str r"
proof
  show "reason_of s = Some r \<Longrightarrow> s = reason_str r"
    by (auto simp: reason_of_def find_Some_iff)
qed simp

section \<open>Exceptions\<close>

datatype exn =
  DecisionError reason string
| PostInvocationError string int bool
| ValueError string
| TypeError string
| ValidationError string
| AkCertificatePolicyError string
| AttestationFailed string
| TpmVerificationError string
| CredentialExpired string
| UntrustedDelegationRoot string
| InvalidCredential string
| HolderProofInvalid string
| OtherCA2AError string
| InvalidSignature
| IntegrityError string
| OperationalError string
| LabProtocolError string
| LabBindingError string
| DuplicateRunIdError string
| LabTimeoutError string
| ExperimentRecordError string
| ProviderReadbackError string
| CaptureError string
| VerificationError string
| OSError string
| OtherError string

text \<open>
  Which exceptions an \<^verbatim>\<open>except\<close> clause catches: the subclasses of
  \<^verbatim>\<open>ValueError\<close> among the classes above (\<^verbatim>\<open>pydantic.ValidationError\<close>, \<^verbatim>\<open>ProviderReadbackError\<close> and
  \<^verbatim>\<open>AkCertificatePolicyError\<close> are subclasses), and the subclasses of
  \<^verbatim>\<open>CA2AError\<close>.
\<close>

fun is_value_error :: "exn \<Rightarrow> bool" where
  "is_value_error (ValueError _) = True"
| "is_value_error (ValidationError _) = True"
| "is_value_error (AkCertificatePolicyError _) = True"
| "is_value_error (ProviderReadbackError _) = True"
| "is_value_error _ = False"

fun is_type_error :: "exn \<Rightarrow> bool" where
  "is_type_error (TypeError _) = True"
| "is_type_error _ = False"

fun is_ca2a_error :: "exn \<Rightarrow> bool" where
  "is_ca2a_error (AttestationFailed _) = True"
| "is_ca2a_error (CredentialExpired _) = True"
| "is_ca2a_error (UntrustedDelegationRoot _) = True"
| "is_ca2a_error (InvalidCredential _) = True"
| "is_ca2a_error (HolderProofInvalid _) = True"
| "is_ca2a_error (OtherCA2AError _) = True"
| "is_ca2a_error _ = False"

text \<open>\<^verbatim>\<open>try: m except <caught> as exc: raise new from exc\<close>.\<close>

definition catching :: "(exn \<Rightarrow> bool) \<Rightarrow> exn \<Rightarrow> exn + 'a \<Rightarrow> exn + 'a" where
  "catching caught new = mapE (\<lambda>e. if caught e then new else e)"

lemma catching_Inr_iff [simp]: "catching caught new m = Inr x \<longleftrightarrow> m = Inr x"
  by (simp add: catching_def)

lemma catching_simps [simp]:
  "catching caught new (Inl e) = Inl (if caught e then new else e)" "catching caught new (Inr x) = Inr x"
  by (simp_all add: catching_def)

text \<open>\<^verbatim>\<open>str(exc).lower()\<close> and the test \<^verbatim>\<open>needle in text\<close>.\<close>

definition lower_char :: "char \<Rightarrow> char" where
  "lower_char c = (let n = of_char c :: nat in
     if (65 \<le> n \<and> n \<le> 90) \<or> (192 \<le> n \<and> n \<le> 222 \<and> n \<noteq> 215) then char_of (n + 32) else c)"

definition str_lower :: "string \<Rightarrow> string" where
  "str_lower s = map lower_char s"

fun str_contains :: "string \<Rightarrow> string \<Rightarrow> bool" where
  "str_contains needle [] = (needle = [])"
| "str_contains needle (c # cs) = (take (length needle) (c # cs) = needle \<or> str_contains needle cs)"

end
