(* ===== verification/Sha256.thy ===== *)
theory Sha256
  imports Prelude
begin

unbundle bit_operations_syntax

text \<open>
  \<^verbatim>\<open>hashlib.sha256\<close> and \<^verbatim>\<open>hmac.new(key, msg, sha256)\<close> of the Python standard
  library, as FIPS 180-4 and RFC 2104 define them, over 32-bit words with wrap-around
  addition. The rest of the development uses only that a digest is 32 bytes long, but
  every digest of the model is the digest the program computes.
\<close>

section \<open>FIPS 180-4\<close>

type_synonym u32 = "32 word"

definition rotr :: "nat \<Rightarrow> u32 \<Rightarrow> u32" where
  "rotr n w = (drop_bit n w) OR (push_bit (32 - n) w)"

definition ch :: "u32 \<Rightarrow> u32 \<Rightarrow> u32 \<Rightarrow> u32" where
  "ch x y z = (x AND y) XOR (NOT x AND z)"

definition maj :: "u32 \<Rightarrow> u32 \<Rightarrow> u32 \<Rightarrow> u32" where
  "maj x y z = (x AND y) XOR (x AND z) XOR (y AND z)"

definition big_sigma0 :: "u32 \<Rightarrow> u32" where
  "big_sigma0 x = rotr 2 x XOR rotr 13 x XOR rotr 22 x"

definition big_sigma1 :: "u32 \<Rightarrow> u32" where
  "big_sigma1 x = rotr 6 x XOR rotr 11 x XOR rotr 25 x"

definition small_sigma0 :: "u32 \<Rightarrow> u32" where
  "small_sigma0 x = rotr 7 x XOR rotr 18 x XOR drop_bit 3 x"

definition small_sigma1 :: "u32 \<Rightarrow> u32" where
  "small_sigma1 x = rotr 17 x XOR rotr 19 x XOR drop_bit 10 x"

definition round_constants :: "u32 list" where
  "round_constants =
    [1116352408, 1899447441, 3049323471, 3921009573, 961987163, 1508970993, 2453635748, 2870763221,
     3624381080, 310598401, 607225278, 1426881987, 1925078388, 2162078206, 2614888103, 3248222580,
     3835390401, 4022224774, 264347078, 604807628, 770255983, 1249150122, 1555081692, 1996064986,
     2554220882, 2821834349, 2952996808, 3210313671, 3336571891, 3584528711, 113926993, 338241895,
     666307205, 773529912, 1294757372, 1396182291, 1695183700, 1986661051, 2177026350, 2456956037,
     2730485921, 2820302411, 3259730800, 3345764771, 3516065817, 3600352804, 4094571909, 275423344,
     430227734, 506948616, 659060556, 883997877, 958139571, 1322822218, 1537002063, 1747873779,
     1955562222, 2024104815, 2227730452, 2361852424, 2428436474, 2756734187, 3204031479, 3329325298]"

definition initial_hash :: "u32 list" where
  "initial_hash =
    [1779033703, 3144134277, 1013904242, 2773480762, 1359893119, 2600822924, 528734635, 1541459225]"

text \<open>Big-endian words.\<close>

definition word_of_be :: "byte \<Rightarrow> byte \<Rightarrow> byte \<Rightarrow> byte \<Rightarrow> u32" where
  "word_of_be a b c d =
     push_bit 24 (ucast a) OR push_bit 16 (ucast b) OR push_bit 8 (ucast c) OR ucast d"

definition be_of_word :: "u32 \<Rightarrow> bytes" where
  "be_of_word w =
     [ucast (drop_bit 24 w), ucast (drop_bit 16 w), ucast (drop_bit 8 w), ucast w]"

definition be64 :: "nat \<Rightarrow> bytes" where
  "be64 n = (let w = word_of_nat n :: 64 word in
     map (\<lambda>k. ucast (drop_bit k w)) [56, 48, 40, 32, 24, 16, 8, 0])"

fun words_of :: "bytes \<Rightarrow> u32 list" where
  "words_of (a # b # c # d # rest) = word_of_be a b c d # words_of rest"
| "words_of _ = []"

text \<open>The message schedule, kept newest word first.\<close>

primrec schedule :: "nat \<Rightarrow> u32 list \<Rightarrow> u32 list" where
  "schedule 0 ws = ws"
| "schedule (Suc n) ws =
     schedule n ((small_sigma1 (ws ! 1) + ws ! 6 + small_sigma0 (ws ! 14) + ws ! 15) # ws)"

fun sha_round :: "u32 list \<Rightarrow> u32 \<times> u32 \<Rightarrow> u32 list" where
  "sha_round [a, b, c, d, e, f, g, h] (k, w) =
     (let t1 = h + big_sigma1 e + ch e f g + k + w; t2 = big_sigma0 a + maj a b c
      in [t1 + t2, a, b, c, d + t1, e, f, g])"
| "sha_round st _ = st"

definition sha_block :: "u32 list \<Rightarrow> bytes \<Rightarrow> u32 list" where
  "sha_block st block =
     (let ws = rev (schedule 48 (rev (words_of block)))
      in map2 (+) st (foldl sha_round st (zip round_constants ws)))"

definition sha_pad :: "bytes \<Rightarrow> bytes" where
  "sha_pad m =
     m @ 128 # replicate (nat ((55 - int (length m)) mod 64)) 0 @ be64 (8 * length m)"

function sha_blocks :: "u32 list \<Rightarrow> bytes \<Rightarrow> u32 list" where
  "sha_blocks st m = (if m = [] then st else sha_blocks (sha_block st (take 64 m)) (drop 64 m))"
  by pat_completeness auto
termination
  by (relation "measure (\<lambda>(st, m). length m)") auto

declare sha_blocks.simps [simp del]

definition sha256 :: "bytes \<Rightarrow> bytes" where
  "sha256 m = concat (map be_of_word (sha_blocks initial_hash (sha_pad m)))"

section \<open>RFC 2104\<close>

definition hmac_sha256 :: "bytes \<Rightarrow> bytes \<Rightarrow> bytes" where
  "hmac_sha256 secret msg =
     (let k = (if length secret > 64 then sha256 secret else secret);
          block = k @ replicate (64 - length k) 0
      in sha256 (map (\<lambda>b. b XOR 0x5c) block @ sha256 (map (\<lambda>b. b XOR 0x36) block @ msg)))"

section \<open>Digest length\<close>

lemma length_be_of_word [simp]: "length (be_of_word w) = 4"
  by (simp add: be_of_word_def)

lemma length_sha_round [simp]: "length (sha_round st kw) = length st"
  by (cases "(st, kw)" rule: sha_round.cases) (simp_all add: Let_def)

lemma length_foldl_sha_round: "length (foldl sha_round st kws) = length st"
  by (induction kws arbitrary: st) simp_all

lemma length_sha_block [simp]: "length (sha_block st b) = length st"
  by (simp add: sha_block_def Let_def length_foldl_sha_round)

lemma length_sha_blocks [simp]: "length (sha_blocks st m) = length st"
proof (induction st m rule: sha_blocks.induct)
  case (1 st m)
  then show ?case by (subst sha_blocks.simps) simp
qed

lemma length_sha256 [simp]: "length (sha256 m) = 32"
  by (simp add: sha256_def length_concat o_def sum_list_triv initial_hash_def)

lemma length_hmac_sha256 [simp]: "length (hmac_sha256 k m) = 32"
  by (simp add: hmac_sha256_def Let_def)

end
