(* ===== verification/Json.thy ===== *)
theory Json
  imports Errors Sha256
begin

text \<open>
  JSON values as the program sees them, the two ways it builds them from parsed text
  (\<^verbatim>\<open>json.loads\<close> with and without the duplicate-rejecting hook of
  \<^verbatim>\<open>lab/worker_wire.py\<close>), the accessors that a strict, closed pydantic schema performs,
  and \<^verbatim>\<open>src/atcap/canonical.py\<close>.

  The RFC 8785 serializer (package \<^verbatim>\<open>rfc8785\<close>) and the JSON text scanner are arguments of
  the definitions that use them. The scanner yields objects as lists of pairs, so that what
  the program does with repeated member names is part of the model. A float is its 64-bit
  pattern.
\<close>

section \<open>Values\<close>

datatype json =
  JNull
| JBool bool
| JInt int
| JFloat "64 word"
| JStr string
| JArr "json list"
| JObj "(string, json) fmap"

datatype raw_json =
  RNull
| RBool bool
| RInt int
| RFloat "64 word"
| RStr string
| RArr "raw_json list"
| RObj "(string \<times> raw_json) list"

text \<open>What the scanner and the serializer are: functions on bytes that may raise.\<close>

type_synonym json_dumps = "json \<Rightarrow> exn + bytes"
type_synonym json_scan = "bytes \<Rightarrow> exn + raw_json"

definition obj :: "(string \<times> json) list \<Rightarrow> json" where
  "obj kvs = JObj (fmap_of_list kvs)"

definition jopt_str :: "string option \<Rightarrow> json" where
  "jopt_str x = (case x of None \<Rightarrow> JNull | Some s \<Rightarrow> JStr s)"

definition jopt_int :: "int option \<Rightarrow> json" where
  "jopt_int x = (case x of None \<Rightarrow> JNull | Some i \<Rightarrow> JInt i)"

definition jdict :: "dict \<Rightarrow> json" where
  "jdict d = JObj (fmmap JStr d)"

section \<open>Building objects from parsed text\<close>

text \<open>Without a hook a later member replaces an earlier one of the same name.\<close>

fun plain_json :: "raw_json \<Rightarrow> json" where
  "plain_json RNull = JNull"
| "plain_json (RBool b) = JBool b"
| "plain_json (RInt i) = JInt i"
| "plain_json (RFloat f) = JFloat f"
| "plain_json (RStr s) = JStr s"
| "plain_json (RArr xs) = JArr (map plain_json xs)"
| "plain_json (RObj ps) = JObj (fmap_of_list (rev (map (\<lambda>p. (fst p, plain_json (snd p))) ps)))"

definition mapM_E :: "('a \<Rightarrow> 'e + 'b) \<Rightarrow> 'a list \<Rightarrow> 'e + 'b list" where
  "mapM_E f xs = foldr (\<lambda>x acc. bindE (f x) (\<lambda>y. bindE acc (\<lambda>ys. Inr (y # ys)))) xs (Inr [])"

lemma mapM_E_simps [simp]:
  "mapM_E f [] = Inr []"
  "mapM_E f (x # xs) = bindE (f x) (\<lambda>y. bindE (mapM_E f xs) (\<lambda>ys. Inr (y # ys)))"
  by (simp_all add: mapM_E_def)

lemma mapM_E_cong [fundef_cong]:
  "xs = ys \<Longrightarrow> (\<And>x. x \<in> set ys \<Longrightarrow> f x = g x) \<Longrightarrow> mapM_E f xs = mapM_E g ys"
  by (induction xs arbitrary: ys) auto

lemma mapM_E_Inr: "mapM_E f xs = Inr ys \<longleftrightarrow> list_all2 (\<lambda>x y. f x = Inr y) xs ys"
  by (induction xs arbitrary: ys) (auto simp: bindE_Inr_iff list_all2_Cons1)

text \<open>\<^verbatim>\<open>unique_object\<close>: the hook that rejects a repeated member name, at every depth.\<close>

fun unique_json :: "raw_json \<Rightarrow> exn + json" where
  "unique_json RNull = Inr JNull"
| "unique_json (RBool b) = Inr (JBool b)"
| "unique_json (RInt i) = Inr (JInt i)"
| "unique_json (RFloat f) = Inr (JFloat f)"
| "unique_json (RStr s) = Inr (JStr s)"
| "unique_json (RArr xs) = bindE (mapM_E unique_json xs) (\<lambda>ys. Inr (JArr ys))"
| "unique_json (RObj ps) =
     bindE (mapM_E (\<lambda>p. bindE (unique_json (snd p)) (\<lambda>v. Inr (fst p, v))) ps) (\<lambda>kvs.
     bindE (require (distinct (map fst kvs))
              (ValueError ''wire document has duplicate JSON member names'')) (\<lambda>_.
     Inr (JObj (fmap_of_list kvs))))"

section \<open>Reading members under a strict, closed schema\<close>

definition invalid :: exn where
  "invalid = ValidationError ''''"

definition closed_keys :: "string list \<Rightarrow> (string, json) fmap \<Rightarrow> exn + unit" where
  "closed_keys names m = require (fset (fmdom m) \<subseteq> set names) invalid"

definition get_str :: "(string, json) fmap \<Rightarrow> string \<Rightarrow> exn + string" where
  "get_str m k = (case fmlookup m k of Some (JStr s) \<Rightarrow> Inr s | _ \<Rightarrow> Inl invalid)"

definition get_int :: "(string, json) fmap \<Rightarrow> string \<Rightarrow> exn + int" where
  "get_int m k = (case fmlookup m k of Some (JInt i) \<Rightarrow> Inr i | _ \<Rightarrow> Inl invalid)"

definition get_bool :: "(string, json) fmap \<Rightarrow> string \<Rightarrow> exn + bool" where
  "get_bool m k = (case fmlookup m k of Some (JBool b) \<Rightarrow> Inr b | _ \<Rightarrow> Inl invalid)"

definition get_obj :: "(string, json) fmap \<Rightarrow> string \<Rightarrow> exn + (string, json) fmap" where
  "get_obj m k = (case fmlookup m k of Some (JObj o') \<Rightarrow> Inr o' | _ \<Rightarrow> Inl invalid)"

definition get_opt_str :: "(string, json) fmap \<Rightarrow> string \<Rightarrow> exn + string option" where
  "get_opt_str m k = (case fmlookup m k of
     Some (JStr s) \<Rightarrow> Inr (Some s) | Some JNull \<Rightarrow> Inr None | _ \<Rightarrow> Inl invalid)"

definition get_opt_int :: "(string, json) fmap \<Rightarrow> string \<Rightarrow> exn + int option" where
  "get_opt_int m k = (case fmlookup m k of
     Some (JInt i) \<Rightarrow> Inr (Some i) | Some JNull \<Rightarrow> Inr None | _ \<Rightarrow> Inl invalid)"

text \<open>\<^verbatim>\<open>dict[str, str]\<close>: every value is a string.\<close>

definition is_jstr :: "json \<Rightarrow> bool" where
  "is_jstr v = (case v of JStr _ \<Rightarrow> True | _ \<Rightarrow> False)"

definition un_jstr :: "json \<Rightarrow> string" where
  "un_jstr v = (case v of JStr s \<Rightarrow> s | _ \<Rightarrow> [])"

definition get_dict :: "(string, json) fmap \<Rightarrow> string \<Rightarrow> exn + dict" where
  "get_dict m k = (case fmlookup m k of
     Some (JObj o') \<Rightarrow> if fmpred (\<lambda>_ v. is_jstr v) o' then Inr (fmmap un_jstr o') else Inl invalid
   | _ \<Rightarrow> Inl invalid)"

lemmas get_defs = get_str_def get_int_def get_bool_def get_obj_def get_opt_str_def get_opt_int_def get_dict_def

lemma jopt_cases [simp]:
  "jopt_str None = JNull" "jopt_str (Some s) = JStr s" "jopt_int None = JNull" "jopt_int (Some i) = JInt i"
  by (simp_all add: jopt_str_def jopt_int_def)

lemma jopt_inject [simp]:
  "jopt_str x = jopt_str y \<longleftrightarrow> x = y" "jopt_int a = jopt_int b \<longleftrightarrow> a = b"
  by (auto simp: jopt_str_def jopt_int_def split: option.splits)

lemma get_opt_str_jopt: "fmlookup m k = Some (jopt_str x) \<Longrightarrow> get_opt_str m k = Inr x"
  by (cases x) (simp_all add: get_opt_str_def)

lemma get_opt_int_jopt: "fmlookup m k = Some (jopt_int x) \<Longrightarrow> get_opt_int m k = Inr x"
  by (cases x) (simp_all add: get_opt_int_def)

lemma jdict_inject [simp]: "jdict x = jdict y \<longleftrightarrow> x = y"
proof
  assume "jdict x = jdict y"
  then have "map_option JStr (fmlookup x k) = map_option JStr (fmlookup y k)" for k
    by (metis fmlookup_map jdict_def json.inject(6))
  then have "fmlookup x k = fmlookup y k" for k
    by (metis (no_types, lifting) json.inject(4) option.inj_map_strong)
  then show "x = y" by (rule fmap_ext)
qed simp

lemma get_dict_jdict: "fmlookup m k = Some (jdict d) \<Longrightarrow> get_dict m k = Inr d"
proof -
  have "fmpred (\<lambda>_ v. is_jstr v) (fmmap JStr d)"
    by (auto simp: fmpred_iff is_jstr_def)
  moreover have "fmmap un_jstr (fmmap JStr d) = d"
    by (rule fmap_ext) (simp add: un_jstr_def option.map_comp o_def option.map_ident)
  ultimately show "fmlookup m k = Some (jdict d) \<Longrightarrow> ?thesis"
    by (simp add: get_dict_def jdict_def)
qed

section \<open>\<^verbatim>\<open>src/atcap/canonical.py\<close>\<close>

definition canonical_json :: "json_dumps \<Rightarrow> json \<Rightarrow> exn + bytes" where
  "canonical_json dumps v = dumps v"

definition sha256_hex :: "bytes \<Rightarrow> string" where
  "sha256_hex data = bytes_hex (sha256 data)"

definition canonical_digest :: "json_dumps \<Rightarrow> json \<Rightarrow> exn + string" where
  "canonical_digest dumps v = bindE (canonical_json dumps v) (\<lambda>b. Inr (sha256_hex b))"

definition challenge_token_hash :: "string \<Rightarrow> string" where
  "challenge_token_hash token = sha256_hex (utf8 token)"

lemma lower_hex_sha256_hex [simp]: "lower_hex n (sha256_hex d) \<longleftrightarrow> n = 64"
  by (simp add: sha256_hex_def)

lemma sha256_hex_nonempty [simp]: "sha256_hex d \<noteq> []"
proof -
  have "length (sha256_hex d) = 64" by (simp add: sha256_hex_def)
  then show ?thesis by auto
qed

lemma lower_hex_challenge_token_hash [simp]: "lower_hex n (challenge_token_hash t) \<longleftrightarrow> n = 64"
  by (simp add: challenge_token_hash_def)

lemma challenge_token_hash_nonempty [simp]: "challenge_token_hash t \<noteq> []"
  by (simp add: challenge_token_hash_def)

lemma canonical_digest_Inr:
  "canonical_digest dumps v = Inr d \<longleftrightarrow> (\<exists>b. dumps v = Inr b \<and> d = sha256_hex b)"
  by (auto simp: canonical_digest_def canonical_json_def res_simps)

end
