(* ===== verification/Models.thy ===== *)
theory Models
  imports Json
begin

text \<open>
  \<^verbatim>\<open>src/atcap/models.py\<close> and \<^verbatim>\<open>src/atcap/policy.py\<close>: the frozen dataclasses of the wire
  protocol and of the verifier-owned policy, their dictionary forms, and the fact that each
  dictionary form determines what it describes.
\<close>

section \<open>Wire models\<close>

record issuance_request =
  ir_version :: string
  ir_broker_id :: string
  ir_challenge :: string
  ir_manifest_digest :: string
  ir_identity_key :: string
  ir_holder_key :: string
  ir_resource_issuer_kid :: string
  ir_resource_issuer_key :: string
  ir_requested_scope :: string
  ir_identity_signature :: string

definition body_items :: "issuance_request \<Rightarrow> (string \<times> json) list" where
  "body_items r =
    [(''version'', JStr (ir_version r)),
     (''broker_id'', JStr (ir_broker_id r)),
     (''challenge'', JStr (ir_challenge r)),
     (''manifest_digest'', JStr (ir_manifest_digest r)),
     (''identity_key'', JStr (ir_identity_key r)),
     (''holder_key'', JStr (ir_holder_key r)),
     (''resource_issuer_kid'', JStr (ir_resource_issuer_kid r)),
     (''resource_issuer_key'', JStr (ir_resource_issuer_key r)),
     (''requested_scope'', JStr (ir_requested_scope r))]"

definition request_body :: "issuance_request \<Rightarrow> json" where
  "request_body r = obj (body_items r)"

definition signing_bytes :: "json_dumps \<Rightarrow> issuance_request \<Rightarrow> exn + bytes" where
  "signing_bytes dumps r = canonical_json dumps (request_body r)"

definition request_to_dict :: "issuance_request \<Rightarrow> json" where
  "request_to_dict r = obj (body_items r @ [(''identity_signature'', JStr (ir_identity_signature r))])"

record resource_challenge =
  rc_token :: string
  rc_credential_id :: string
  rc_method :: string
  rc_arguments_digest :: string
  rc_record_id :: string
  rc_audience :: string
  rc_expires_at :: int

record signed_decision_receipt =
  compact_jws :: string

record decision =
  d_allowed :: bool
  d_reason :: reason
  d_receipt :: signed_decision_receipt
  d_result :: "json option"

definition decision_to_dict :: "decision \<Rightarrow> json" where
  "decision_to_dict d =
     obj ([(''allowed'', JBool (d_allowed d)),
           (''reason'', JStr (reason_str (d_reason d))),
           (''receipt_jws'', JStr (compact_jws (d_receipt d)))] @
          (case d_result d of None \<Rightarrow> [] | Some v \<Rightarrow> [(''result'', v)]))"

record tpm_evidence =
  te_attest :: bytes
  te_signature :: bytes
  te_ak_chain_pem :: bytes

definition digestable :: "tpm_evidence \<Rightarrow> dict" where
  "digestable e =
     fmap_of_list
       [(''tpm_attest_sha256'', sha256_hex (te_attest e)),
        (''tpm_signature_sha256'', sha256_hex (te_signature e)),
        (''tpm_ak_chain_sha256'', sha256_hex (te_ak_chain_pem e))]"

section \<open>Policy\<close>

record manifest_policy =
  mp_expected_digest :: string
  mp_issuer :: string
  mp_signing_key_id :: string
  mp_signing_public_b64url :: string
  mp_identity_public_hex :: string
  mp_system_prompt_hash :: string
  mp_policy_bundle_hash :: string
  mp_model_hash :: string

definition manifest_public_dict :: "manifest_policy \<Rightarrow> json" where
  "manifest_public_dict p = obj
    [(''expected_digest'', JStr (mp_expected_digest p)),
     (''issuer'', JStr (mp_issuer p)),
     (''signing_key_id'', JStr (mp_signing_key_id p)),
     (''signing_public_b64url'', JStr (mp_signing_public_b64url p)),
     (''identity_public_hex'', JStr (mp_identity_public_hex p)),
     (''system_prompt_hash'', JStr (mp_system_prompt_hash p)),
     (''policy_bundle_hash'', JStr (mp_policy_bundle_hash p)),
     (''model_hash'', JStr (mp_model_hash p))]"

type_synonym pcr_selection = "(string \<times> int list) list"

record tpm_policy =
  tp_selection :: pcr_selection
  tp_expected_pcr_digest :: bytes
  tp_trusted_roots_pem :: bytes

definition selection_json :: "pcr_selection \<Rightarrow> json" where
  "selection_json sel =
     JArr (map (\<lambda>(bank, indices). obj [(''bank'', JStr bank), (''indices'', JArr (map JInt indices))]) sel)"

definition tpm_public_dict :: "tpm_policy \<Rightarrow> json" where
  "tpm_public_dict p = obj
    [(''selection'', selection_json (tp_selection p)),
     (''expected_pcr_digest'', JStr (bytes_hex (tp_expected_pcr_digest p))),
     (''trusted_roots_sha256'', JStr (sha256_hex (tp_trusted_roots_pem p)))]"

record broker_policy =
  bp_broker_id :: string
  bp_qualified_scope :: string
  bp_resource_issuer_kid :: string
  bp_resource_issuer_public_hex :: string
  bp_challenge_ttl_seconds :: int
  bp_credential_ttl_seconds :: int
  bp_manifest :: manifest_policy
  bp_tpm :: tpm_policy

definition bytes_fromhex :: "string \<Rightarrow> exn + bytes" where
  "bytes_fromhex s = of_option (ValueError ''non-hexadecimal number found in fromhex() arg'') (fromhex s)"

definition broker_public_dict :: "broker_policy \<Rightarrow> exn + json" where
  "broker_public_dict p =
     bindE (bytes_fromhex (bp_resource_issuer_public_hex p)) (\<lambda>issuer.
     Inr (obj
      [(''broker_id'', JStr (bp_broker_id p)),
       (''qualified_scope'', JStr (bp_qualified_scope p)),
       (''resource_issuer_kid'', JStr (bp_resource_issuer_kid p)),
       (''resource_issuer_public_hex'', JStr (bp_resource_issuer_public_hex p)),
       (''resource_issuer_key_sha256'', JStr (sha256_hex issuer)),
       (''challenge_ttl_seconds'', JInt (bp_challenge_ttl_seconds p)),
       (''credential_ttl_seconds'', JInt (bp_credential_ttl_seconds p)),
       (''manifest'', manifest_public_dict (bp_manifest p)),
       (''tpm'', tpm_public_dict (bp_tpm p))]))"

record resource_policy =
  rp_audience :: string
  rp_method :: string
  rp_qualified_scope :: string
  rp_trusted_broker_public_hex :: string
  rp_challenge_ttl_seconds :: int
  rp_max_credential_lifetime_seconds :: int

definition resource_public_dict :: "resource_policy \<Rightarrow> json" where
  "resource_public_dict p = obj
    [(''audience'', JStr (rp_audience p)),
     (''method'', JStr (rp_method p)),
     (''qualified_scope'', JStr (rp_qualified_scope p)),
     (''trusted_broker_public_hex'', JStr (rp_trusted_broker_public_hex p)),
     (''challenge_ttl_seconds'', JInt (rp_challenge_ttl_seconds p)),
     (''max_credential_lifetime_seconds'', JInt (rp_max_credential_lifetime_seconds p))]"

section \<open>Dictionary forms determine what they describe\<close>

lemma obj_eq_iff: "obj xs = obj ys \<longleftrightarrow> map_of xs = map_of ys"
  unfolding obj_def json.inject by (metis ext fmap_ext fmlookup_fmap_of_list)

lemma obj_lookup: "obj xs = obj ys \<Longrightarrow> map_of xs k = map_of ys k"
  by (simp add: obj_eq_iff)

lemma request_body_inject:
  "request_body r = request_body r' \<longleftrightarrow> r\<lparr>ir_identity_signature := []\<rparr> = r'\<lparr>ir_identity_signature := []\<rparr>"
proof
  assume "request_body r = request_body r'"
  then have eq: "map_of (body_items r) k = map_of (body_items r') k" for k
    unfolding request_body_def by (rule obj_lookup)
  show "r\<lparr>ir_identity_signature := []\<rparr> = r'\<lparr>ir_identity_signature := []\<rparr>"
    using eq [of "''version''"] eq [of "''broker_id''"] eq [of "''challenge''"] eq [of "''manifest_digest''"]
      eq [of "''identity_key''"] eq [of "''holder_key''"] eq [of "''resource_issuer_kid''"]
      eq [of "''resource_issuer_key''"] eq [of "''requested_scope''"]
    by (simp add: body_items_def)
next
  assume eq: "r\<lparr>ir_identity_signature := []\<rparr> = r'\<lparr>ir_identity_signature := []\<rparr>"
  have "body_items r = body_items (r\<lparr>ir_identity_signature := []\<rparr>)" for r
    by (simp add: body_items_def)
  with eq show "request_body r = request_body r'" by (metis request_body_def)
qed

text \<open>The dictionary form of an issuance request determines the request, so the qualifying data and
  the request digest are computed from a faithful image of every field, the identity signature included.\<close>

theorem request_to_dict_inject: "request_to_dict r = request_to_dict r' \<longleftrightarrow> r = r'"
proof
  assume "request_to_dict r = request_to_dict r'"
  then have eq: "map_of (body_items r @ [(''identity_signature'', JStr (ir_identity_signature r))]) k =
      map_of (body_items r' @ [(''identity_signature'', JStr (ir_identity_signature r'))]) k" for k
    unfolding request_to_dict_def by (rule obj_lookup)
  show "r = r'"
    using eq [of "''version''"] eq [of "''broker_id''"] eq [of "''challenge''"] eq [of "''manifest_digest''"]
      eq [of "''identity_key''"] eq [of "''holder_key''"] eq [of "''resource_issuer_kid''"]
      eq [of "''resource_issuer_key''"] eq [of "''requested_scope''"] eq [of "''identity_signature''"]
    by (simp add: body_items_def)
qed simp

lemma manifest_public_dict_inject: "manifest_public_dict p = manifest_public_dict q \<longleftrightarrow> p = q"
proof
  assume a: "manifest_public_dict p = manifest_public_dict q"
  note eq = a [unfolded manifest_public_dict_def, THEN obj_lookup]
  show "p = q"
    using eq [of "''expected_digest''"] eq [of "''issuer''"] eq [of "''signing_key_id''"]
      eq [of "''signing_public_b64url''"] eq [of "''identity_public_hex''"]
      eq [of "''system_prompt_hash''"] eq [of "''policy_bundle_hash''"] eq [of "''model_hash''"]
    by simp
qed simp

lemma resource_public_dict_inject: "resource_public_dict p = resource_public_dict q \<longleftrightarrow> p = q"
proof
  assume a: "resource_public_dict p = resource_public_dict q"
  note eq = a [unfolded resource_public_dict_def, THEN obj_lookup]
  show "p = q"
    using eq [of "''audience''"] eq [of "''method''"] eq [of "''qualified_scope''"]
      eq [of "''trusted_broker_public_hex''"] eq [of "''challenge_ttl_seconds''"]
      eq [of "''max_credential_lifetime_seconds''"]
    by simp
qed simp

lemma bank_json_inject:
  "obj [(''bank'', JStr b), (''indices'', JArr (map JInt is))]
   = obj [(''bank'', JStr b'), (''indices'', JArr (map JInt is'))] \<longleftrightarrow> b = b' \<and> is = is'"
proof
  assume a: "obj [(''bank'', JStr b), (''indices'', JArr (map JInt is))]
   = obj [(''bank'', JStr b'), (''indices'', JArr (map JInt is'))]"
  have "inj JInt" by (rule injI) simp
  then show "b = b' \<and> is = is'"
    using obj_lookup [OF a, of "''bank''"] obj_lookup [OF a, of "''indices''"]
    by (simp add: inj_map_eq_map)
qed simp

lemma selection_json_inject: "selection_json s = selection_json s' \<longleftrightarrow> s = s'"
proof -
  have "inj (\<lambda>(bank, indices). obj [(''bank'', JStr bank), (''indices'', JArr (map JInt indices))])"
    by (rule injI) (auto simp: bank_json_inject)
  then show ?thesis by (simp add: selection_json_def inj_map_eq_map)
qed

lemma tpm_public_dict_inject:
  "tpm_public_dict p = tpm_public_dict q \<Longrightarrow>
   tp_selection p = tp_selection q \<and> tp_expected_pcr_digest p = tp_expected_pcr_digest q \<and>
   sha256_hex (tp_trusted_roots_pem p) = sha256_hex (tp_trusted_roots_pem q)"
proof -
  assume a: "tpm_public_dict p = tpm_public_dict q"
  note eq = a [unfolded tpm_public_dict_def, THEN obj_lookup]
  show ?thesis
    using eq [of "''selection''"] eq [of "''expected_pcr_digest''"] eq [of "''trusted_roots_sha256''"]
    by (simp add: selection_json_inject)
qed

text \<open>The public dictionary of a broker policy, whose digest every broker receipt carries,
  determines the policy: equal dictionaries come from policies that agree in every field, and in the
  digest of the trusted roots, the one field that is published as a digest.\<close>

lemma broker_public_dict_inject:
  assumes "broker_public_dict p = Inr j" "broker_public_dict q = Inr j"
  shows "p\<lparr>bp_tpm := (bp_tpm p)\<lparr>tp_trusted_roots_pem := []\<rparr>\<rparr>
       = q\<lparr>bp_tpm := (bp_tpm q)\<lparr>tp_trusted_roots_pem := []\<rparr>\<rparr> \<and>
     sha256_hex (tp_trusted_roots_pem (bp_tpm p)) = sha256_hex (tp_trusted_roots_pem (bp_tpm q))"
proof -
  from assms obtain ip iq where
    "obj [(''broker_id'', JStr (bp_broker_id p)), (''qualified_scope'', JStr (bp_qualified_scope p)),
       (''resource_issuer_kid'', JStr (bp_resource_issuer_kid p)),
       (''resource_issuer_public_hex'', JStr (bp_resource_issuer_public_hex p)),
       (''resource_issuer_key_sha256'', JStr (sha256_hex ip)),
       (''challenge_ttl_seconds'', JInt (bp_challenge_ttl_seconds p)),
       (''credential_ttl_seconds'', JInt (bp_credential_ttl_seconds p)),
       (''manifest'', manifest_public_dict (bp_manifest p)), (''tpm'', tpm_public_dict (bp_tpm p))]
     = obj [(''broker_id'', JStr (bp_broker_id q)), (''qualified_scope'', JStr (bp_qualified_scope q)),
       (''resource_issuer_kid'', JStr (bp_resource_issuer_kid q)),
       (''resource_issuer_public_hex'', JStr (bp_resource_issuer_public_hex q)),
       (''resource_issuer_key_sha256'', JStr (sha256_hex iq)),
       (''challenge_ttl_seconds'', JInt (bp_challenge_ttl_seconds q)),
       (''credential_ttl_seconds'', JInt (bp_credential_ttl_seconds q)),
       (''manifest'', manifest_public_dict (bp_manifest q)), (''tpm'', tpm_public_dict (bp_tpm q))]"
    by (auto simp: broker_public_dict_def res_simps dest: sym)
  note eq = this [THEN obj_lookup]
  have "tpm_public_dict (bp_tpm p) = tpm_public_dict (bp_tpm q)"
    using eq [of "''tpm''"] by simp
  note tpm = tpm_public_dict_inject [OF this]
  show ?thesis
    using eq [of "''broker_id''"] eq [of "''qualified_scope''"] eq [of "''resource_issuer_kid''"]
      eq [of "''resource_issuer_public_hex''"] eq [of "''challenge_ttl_seconds''"]
      eq [of "''credential_ttl_seconds''"] eq [of "''manifest''"] tpm
    by (simp add: manifest_public_dict_inject)
qed

definition demo_policy :: broker_policy where
  "demo_policy = \<lparr>bp_broker_id = ''b'', bp_qualified_scope = ''s'', bp_resource_issuer_kid = ''k'',
     bp_resource_issuer_public_hex = bytes_hex [7], bp_challenge_ttl_seconds = 60, bp_credential_ttl_seconds = 60,
     bp_manifest = \<lparr>mp_expected_digest = ''d'', mp_issuer = ''i'', mp_signing_key_id = ''k'', mp_signing_public_b64url = ''AA'',
       mp_identity_public_hex = ''00'', mp_system_prompt_hash = ''p'', mp_policy_bundle_hash = ''b'', mp_model_hash = ''m''\<rparr>,
     bp_tpm = \<lparr>tp_selection = [(''sha256'', [0])], tp_expected_pcr_digest = [9], tp_trusted_roots_pem = [5]\<rparr>\<rparr>"

lemma broker_public_dict_inject_witness:
  "\<exists>j. broker_public_dict demo_policy = Inr j \<and> sha256_hex (tp_trusted_roots_pem (bp_tpm demo_policy)) = sha256_hex [5]"
proof -
  have "\<exists>j. broker_public_dict demo_policy = Inr j"
    by (simp add: broker_public_dict_def bytes_fromhex_def demo_policy_def del: bytes_hex.simps)
  then obtain j where j: "broker_public_dict demo_policy = Inr j" ..
  from broker_public_dict_inject [OF j j] j show ?thesis by (simp add: demo_policy_def)
qed

end
