(* ===== verification/External.thy ===== *)
theory External
  imports Models
begin

text \<open>
  The packages the program calls and does not contain: \<^verbatim>\<open>cryptography\<close> (Ed25519 and X.509),
  \<^verbatim>\<open>joserfc\<close> (compact JWS), \<^verbatim>\<open>ca2a_runtime\<close> (challenges, delegation credentials, holder
  proofs), \<^verbatim>\<open>agent_manifest\<close> and \<^verbatim>\<open>tpm2_pytss\<close>. Each is a record of functions that the
  definitions take as an argument, one function per entry point the program calls, with the data
  that crosses the boundary. Nothing is assumed about them here; a theorem that relies on documented
  behaviour names it as a hypothesis, with the predicates at the end of this theory.
\<close>

section \<open>\<^verbatim>\<open>cryptography\<close>: Ed25519\<close>

text \<open>Keys are their raw bytes: \<^verbatim>\<open>private_key.public_key().public_bytes_raw()\<close>,
  \<^verbatim>\<open>private_key.sign(m)\<close>, \<^verbatim>\<open>Ed25519PublicKey.from_public_bytes(b)\<close> and
  \<^verbatim>\<open>public_key.verify(signature, m)\<close>.\<close>

record ed25519_lib =
  ed_public :: "bytes \<Rightarrow> bytes"
  ed_sign :: "bytes \<Rightarrow> bytes \<Rightarrow> bytes"
  ed_load :: "bytes \<Rightarrow> exn + unit"
  ed_verify :: "bytes \<Rightarrow> bytes \<Rightarrow> bytes \<Rightarrow> exn + unit"

section \<open>\<^verbatim>\<open>joserfc\<close>: compact JWS\<close>

text \<open>An \<^verbatim>\<open>OKPKey\<close> is an opaque handle.\<close>

type_synonym okp_key = bytes

record jws_lib =
  serialize_compact :: "dict \<Rightarrow> bytes \<Rightarrow> okp_key \<Rightarrow> string list \<Rightarrow> exn + string"
  deserialize_compact :: "string \<Rightarrow> okp_key \<Rightarrow> string list \<Rightarrow> exn + (dict \<times> bytes)"
  okp_as_dict :: "okp_key \<Rightarrow> bool \<Rightarrow> json"
  okp_import :: "json \<Rightarrow> exn + okp_key"

section \<open>\<^verbatim>\<open>ca2a_runtime\<close>\<close>

record delegation_credential =
  dc_credential_id :: string
  dc_issuer :: string
  dc_subject :: string
  dc_scope :: "string fset"
  dc_depth :: int
  dc_parent_id :: "string option"
  dc_not_before :: "int option"
  dc_not_after :: "int option"
  dc_signature :: string

text \<open>Of a holder proof the program reads only the challenge; the rest stays opaque.\<close>

record holder_proof =
  hp_challenge :: string
  hp_rest :: json

record ca2a_lib =
  verify_challenge :: "bytes \<Rightarrow> string \<Rightarrow> int \<Rightarrow> exn + unit"
  new_credential :: "string \<Rightarrow> string \<Rightarrow> string \<Rightarrow> string fset \<Rightarrow> int \<Rightarrow> string option
    \<Rightarrow> int option \<Rightarrow> int option \<Rightarrow> exn + delegation_credential"
  sign_credential :: "delegation_credential \<Rightarrow> bytes \<Rightarrow> exn + delegation_credential"
  credential_body :: "delegation_credential \<Rightarrow> (string, json) fmap"
  credential_from_dict :: "(string, json) fmap \<Rightarrow> exn + delegation_credential"
  verify_chain :: "delegation_credential list \<Rightarrow> int \<Rightarrow> string fset \<Rightarrow> int \<Rightarrow> exn + unit"
  proof_from_dict :: "(string, json) fmap \<Rightarrow> exn + holder_proof"
  verify_holder_proof :: "holder_proof \<Rightarrow> delegation_credential \<Rightarrow> string \<Rightarrow> bytes \<Rightarrow> string
    \<Rightarrow> string \<Rightarrow> bytes \<Rightarrow> exn + unit"

section \<open>\<^verbatim>\<open>agent_manifest\<close> and \<^verbatim>\<open>tpm2_pytss\<close>\<close>

record verification_context =
  vc_system_prompt_hash :: string
  vc_policy_bundle_hash :: string
  vc_enforcement_mode :: string
  vc_model_version :: string
  vc_trusted_keys :: dict
  vc_trusted_key_issuers :: "(string, string list) fmap"
  vc_strict_artifact_verification :: bool

text \<open>\<^verbatim>\<open>verify_manifest\<close> answers with a result object; the program tests whether its
  \<^verbatim>\<open>result\<close> is \<^verbatim>\<open>OverallResult.VALID\<close> and its \<^verbatim>\<open>signature_verified\<close> is
  \<^verbatim>\<open>True\<close>.\<close>

record manifest_result =
  mr_valid :: bool
  mr_signature_verified :: bool

record manifest_lib =
  model_validate_dump :: "json \<Rightarrow> exn + (string, json) fmap"
  canonical_hash :: "(string, json) fmap \<Rightarrow> exn + string"
  verify_manifest :: "(string, json) fmap \<Rightarrow> verification_context \<Rightarrow> exn + manifest_result"

text \<open>A time as \<^verbatim>\<open>datetime\<close> objects carry it: not a datetime at all, without a zone, or an
  instant (microseconds since the epoch).\<close>

datatype py_time = NotDatetime | NaiveTime | AwareTime int

record pcr_select =
  ps_hash :: string
  ps_sizeof_select :: nat
  ps_pcr_select :: bytes

record tpm_lib =
  parse_tpm_attest :: "bytes \<Rightarrow> exn + bytes"
  attest_unmarshal :: "bytes \<Rightarrow> exn + (pcr_select list \<times> nat)"
  verify_tpm_quote :: "bytes \<Rightarrow> bytes \<Rightarrow> bytes \<Rightarrow> bytes \<Rightarrow> bytes \<Rightarrow> bytes \<Rightarrow> int \<Rightarrow> exn + bool"

section \<open>\<^verbatim>\<open>cryptography\<close>: X.509\<close>

text \<open>A certificate as far as the program reads it. Reading an extension may raise.\<close>

record basic_constraints =
  bc_ca :: bool
  bc_path_length :: "int option"

record key_usage =
  ku_digital_signature :: bool
  ku_key_cert_sign :: bool

record certificate =
  not_valid_before_utc :: int
  not_valid_after_utc :: int
  ext_basic_constraints :: "exn + basic_constraints"
  ext_key_usage :: "exn + key_usage"

type_synonym load_pem = "bytes \<Rightarrow> exn + certificate list"

section \<open>The packages together\<close>

text \<open>With them: the RFC 8785 serializer, the scanner and the text encoder of the \<^verbatim>\<open>json\<close>
  module, and the JSON schema pydantic derives for a named model.\<close>

record libs =
  lib_ed :: ed25519_lib
  lib_jws :: jws_lib
  lib_ca2a :: ca2a_lib
  lib_manifest :: manifest_lib
  lib_dumps :: json_dumps
  lib_scan :: json_scan
  lib_json_text :: "json \<Rightarrow> string"
  lib_json_schema :: "string \<Rightarrow> json"

section \<open>Documented behaviour used as hypotheses\<close>

text \<open>A signature made with a private key verifies under its public key, which loads and has 32
  bytes.\<close>

definition ed25519_ok :: "ed25519_lib \<Rightarrow> bytes \<Rightarrow> bool" where
  "ed25519_ok ed key \<longleftrightarrow>
     length (ed_public ed key) = 32 \<and> ed_load ed (ed_public ed key) = Inr () \<and>
     (\<forall>m. ed_sign ed key m \<noteq> [] \<and> ed_verify ed (ed_public ed key) (ed_sign ed key m) m = Inr ())"

text \<open>The credential constructor keeps its arguments, and signing adds only the signature.\<close>

definition credential_ok :: "ca2a_lib \<Rightarrow> bool" where
  "credential_ok ca \<longleftrightarrow>
     (\<forall>i iss sub sc d p nb na c. new_credential ca i iss sub sc d p nb na = Inr c \<longrightarrow>
        dc_credential_id c = i \<and> dc_issuer c = iss \<and> dc_subject c = sub \<and> dc_scope c = sc \<and>
        dc_depth c = d \<and> dc_parent_id c = p \<and> dc_not_before c = nb \<and> dc_not_after c = na) \<and>
     (\<forall>c k c'. sign_credential ca c k = Inr c' \<longrightarrow> c' = c\<lparr>dc_signature := dc_signature c'\<rparr>)"

text \<open>A result that is not one of the program's own decision errors: no package raises those.\<close>

definition foreign :: "exn + 'a \<Rightarrow> bool" where
  "foreign x \<longleftrightarrow> (\<forall>e. x = Inl e \<longrightarrow> (\<forall>reason msg. e \<noteq> DecisionError reason msg))"

definition packages_foreign :: "libs \<Rightarrow> bool" where
  "packages_foreign lib \<longleftrightarrow>
     (\<forall>i iss sub sc d p nb na. foreign (new_credential (lib_ca2a lib) i iss sub sc d p nb na)) \<and>
     (\<forall>c k. foreign (sign_credential (lib_ca2a lib) c k)) \<and>
     (\<forall>v. foreign (lib_dumps lib v)) \<and>
     (\<forall>h p k algs. foreign (serialize_compact (lib_jws lib) h p k algs))"

text \<open>What a signer serializes, a verifier that holds its public key reads back.\<close>

definition jws_ok :: "jws_lib \<Rightarrow> okp_key \<Rightarrow> okp_key \<Rightarrow> string list \<Rightarrow> bool" where
  "jws_ok jws private public algs \<longleftrightarrow>
     (\<forall>h p c. serialize_compact jws h p private algs = Inr c \<longrightarrow>
        deserialize_compact jws c public algs = Inr (h, p))"

text \<open>Text that RFC 8785 serialization produced for a value parses back to that value.\<close>

definition json_reads_back :: "json_dumps \<Rightarrow> json_scan \<Rightarrow> json \<Rightarrow> bool" where
  "json_reads_back dumps scan v \<longleftrightarrow>
     (\<forall>b. dumps v = Inr b \<longrightarrow> (\<exists>r. scan b = Inr r \<and> plain_json r = v))"

end
