(* ===== verification/Runtime.thy ===== *)
theory Runtime
  imports Errors
begin

text \<open>
  The effects of the program. A stateful operation is a function from a state to a
  result and the state it leaves: an exception does not undo what was done before it.
  The part of the state every component sees is the environment: the readings an injected
  clock will return, the bytes the operating system's random source will return, and which
  of the coming SQLite connections fail to get their lock. Each is a stream with a
  position, so an operation takes the next reading and later operations see the ones after
  it; nothing is assumed about the readings, in particular not that time is monotonic.
\<close>

section \<open>Programs\<close>

type_synonym ('s, 'a) prog = "'s \<Rightarrow> (exn + 'a) \<times> 's"

definition returnM :: "'a \<Rightarrow> ('s, 'a) prog" where
  "returnM x s = (Inr x, s)"

definition raiseM :: "exn \<Rightarrow> ('s, 'a) prog" where
  "raiseM e s = (Inl e, s)"

definition liftE :: "exn + 'a \<Rightarrow> ('s, 'a) prog" where
  "liftE r s = (r, s)"

definition bindM :: "('s, 'a) prog \<Rightarrow> ('a \<Rightarrow> ('s, 'b) prog) \<Rightarrow> ('s, 'b) prog" where
  "bindM m f s = (case m s of (Inl e, s') \<Rightarrow> (Inl e, s') | (Inr x, s') \<Rightarrow> f x s')"

definition modifyM :: "('s \<Rightarrow> 's) \<Rightarrow> ('s, unit) prog" where
  "modifyM f s = (Inr (), f s)"

definition getM :: "('s \<Rightarrow> 'a) \<Rightarrow> ('s, 'a) prog" where
  "getM f s = (Inr (f s), s)"

text \<open>\<^verbatim>\<open>try: m except Exception as exc: h(exc)\<close>; the handler re-raises what it does not
  catch.\<close>

definition tryM :: "('s, 'a) prog \<Rightarrow> (exn \<Rightarrow> ('s, 'a) prog) \<Rightarrow> ('s, 'a) prog" where
  "tryM m h s = (case m s of (Inl e, s') \<Rightarrow> h e s' | (Inr x, s') \<Rightarrow> (Inr x, s'))"

section \<open>Postconditions\<close>

text \<open>
  \<open>post m s Q E\<close>: running \<open>m\<close> in \<open>s\<close> ends in \<open>Q\<close> when it returns and in \<open>E\<close>
  when it raises. The rules below compute it backwards through a program.
\<close>

definition post :: "('s, 'a) prog \<Rightarrow> 's \<Rightarrow> ('a \<Rightarrow> 's \<Rightarrow> bool) \<Rightarrow> (exn \<Rightarrow> 's \<Rightarrow> bool) \<Rightarrow> bool" where
  "post m s Q E = (case m s of (Inl e, s') \<Rightarrow> E e s' | (Inr x, s') \<Rightarrow> Q x s')"

lemma post_returnM [wp_simps]: "post (returnM x) s Q E = Q x s"
  by (simp add: post_def returnM_def)

lemma post_raiseM [wp_simps]: "post (raiseM e) s Q E = E e s"
  by (simp add: post_def raiseM_def)

lemma post_liftE [wp_simps]:
  "post (liftE r) s Q E = ((\<forall>x. r = Inr x \<longrightarrow> Q x s) \<and> (\<forall>e. r = Inl e \<longrightarrow> E e s))"
  by (auto simp: post_def liftE_def split: sum.splits)

lemma post_bindM [wp_simps]:
  "post (bindM m f) s Q E = post m s (\<lambda>x s'. post (f x) s' Q E) E"
  by (auto simp: post_def bindM_def split: prod.splits sum.splits)

lemma post_modifyM [wp_simps]: "post (modifyM f) s Q E = Q () (f s)"
  by (simp add: post_def modifyM_def)

lemma post_getM [wp_simps]: "post (getM f) s Q E = Q (f s) s"
  by (simp add: post_def getM_def)

lemma post_tryM [wp_simps]:
  "post (tryM m h) s Q E = post m s Q (\<lambda>e s'. post (h e) s' Q E)"
  by (auto simp: post_def tryM_def split: prod.splits sum.splits)

lemma post_if [wp_simps]:
  "post (if b then m else m') s Q E = ((b \<longrightarrow> post m s Q E) \<and> (\<not> b \<longrightarrow> post m' s Q E))"
  by simp

lemma post_mono:
  "post m s Q E \<Longrightarrow> (\<And>x s'. m s = (Inr x, s') \<Longrightarrow> Q x s' \<Longrightarrow> Q' x s') \<Longrightarrow>
   (\<And>e s'. m s = (Inl e, s') \<Longrightarrow> E e s' \<Longrightarrow> E' e s') \<Longrightarrow> post m s Q' E'"
  by (auto simp: post_def split: prod.splits sum.splits)

lemma post_conj:
  "post m s Q E \<Longrightarrow> post m s Q' E' \<Longrightarrow> post m s (\<lambda>x s'. Q x s' \<and> Q' x s') (\<lambda>e s'. E e s' \<and> E' e s')"
  by (auto simp: post_def split: prod.splits sum.splits)

lemma post_resultD:
  assumes "post m s Q E" and "m s = (r, s')"
  shows "case r of Inl e \<Rightarrow> E e s' | Inr x \<Rightarrow> Q x s'"
  using assms by (auto simp: post_def split: sum.splits)

lemma post_returnD: "post m s Q E \<Longrightarrow> m s = (Inr x, s') \<Longrightarrow> Q x s'"
  by (simp add: post_def)

lemma post_raiseD: "post m s Q E \<Longrightarrow> m s = (Inl e, s') \<Longrightarrow> E e s'"
  by (simp add: post_def)

lemma postI: "(\<And>x s'. m s = (Inr x, s') \<Longrightarrow> Q x s') \<Longrightarrow>
    (\<And>e s'. m s = (Inl e, s') \<Longrightarrow> E e s') \<Longrightarrow> post m s Q E"
  by (auto simp: post_def split: prod.splits sum.splits)

lemma post_cong: "m s = m' s \<Longrightarrow> post m' s Q E \<Longrightarrow> post m s Q E"
  by (simp add: post_def)

lemma post_total: "post m s Q (\<lambda>_ _. False) \<Longrightarrow> \<exists>x s'. m s = (Inr x, s') \<and> Q x s'"
  by (auto simp: post_def split: prod.splits sum.splits)

lemma run_simps:
  "returnM x s = (Inr x, s)"
  "raiseM e s = (Inl e, s)"
  "liftE r s = (r, s)"
  "bindM m f s = (case m s of (Inl e, s') \<Rightarrow> (Inl e, s') | (Inr x, s') \<Rightarrow> f x s')"
  "modifyM g s = (Inr (), g s)"
  "getM h s = (Inr (h s), s)"
  "tryM m k s = (case m s of (Inl e, s') \<Rightarrow> k e s' | (Inr x, s') \<Rightarrow> (Inr x, s'))"
  by (simp_all add: returnM_def raiseM_def liftE_def bindM_def modifyM_def getM_def tryM_def)

section \<open>The environment\<close>

record env =
  clock_at :: "nat \<Rightarrow> int"
  ticks :: nat
  entropy :: "nat \<Rightarrow> byte"
  drawn :: nat
  db_busy :: "nat \<Rightarrow> bool"
  db_calls :: nat

text \<open>\<^verbatim>\<open>self.clock()\<close>\<close>

definition read_clock :: "('a env_scheme, int) prog" where
  "read_clock s = (Inr (clock_at s (ticks s)), s\<lparr>ticks := Suc (ticks s)\<rparr>)"

text \<open>\<^verbatim>\<open>secrets.token_hex(n)\<close>: the next \<open>n\<close> random bytes in hexadecimal.\<close>

definition token_hex :: "nat \<Rightarrow> ('a env_scheme, string) prog" where
  "token_hex n s =
     (Inr (bytes_hex (map (entropy s) [drawn s..<drawn s + n])), s\<lparr>drawn := drawn s + n\<rparr>)"

text \<open>Opening a connection and taking the lock a statement needs, or committing: when SQLite
  cannot, after its busy timeout, it raises \<^verbatim>\<open>sqlite3.OperationalError\<close>.\<close>

definition db_connect :: "('a env_scheme, unit) prog" where
  "db_connect s =
     (if db_busy s (db_calls s) then Inl (OperationalError ''database is locked'') else Inr (),
      s\<lparr>db_calls := Suc (db_calls s)\<rparr>)"

abbreviation db_commit :: "('a env_scheme, unit) prog" where
  "db_commit \<equiv> db_connect"

lemma post_read_clock [wp_simps]:
  "post read_clock s Q E = Q (clock_at s (ticks s)) (s\<lparr>ticks := Suc (ticks s)\<rparr>)"
  by (simp add: post_def read_clock_def)

lemma post_token_hex [wp_simps]:
  "post (token_hex n) s Q E =
   Q (bytes_hex (map (entropy s) [drawn s..<drawn s + n])) (s\<lparr>drawn := drawn s + n\<rparr>)"
  by (simp add: post_def token_hex_def)

lemma post_db_connect [wp_simps]:
  "post db_connect s Q E =
   (if db_busy s (db_calls s)
    then E (OperationalError ''database is locked'') (s\<lparr>db_calls := Suc (db_calls s)\<rparr>)
    else Q () (s\<lparr>db_calls := Suc (db_calls s)\<rparr>))"
  by (simp add: post_def db_connect_def)

text \<open>\<^verbatim>\<open>secrets.token_bytes\<close> and the other direct readers of the random source.\<close>

definition token_bytes :: "nat \<Rightarrow> ('a env_scheme, bytes) prog" where
  "token_bytes n s = (Inr (map (entropy s) [drawn s..<drawn s + n]), s\<lparr>drawn := drawn s + n\<rparr>)"

lemma post_token_bytes [wp_simps]:
  "post (token_bytes n) s Q E = Q (map (entropy s) [drawn s..<drawn s + n]) (s\<lparr>drawn := drawn s + n\<rparr>)"
  by (simp add: post_def token_bytes_def)

section \<open>Loops\<close>

text \<open>A list comprehension or a \<^verbatim>\<open>for\<close> loop that collects results; the first exception ends it.\<close>

primrec mapM_M :: "('a \<Rightarrow> ('s, 'b) prog) \<Rightarrow> 'a list \<Rightarrow> ('s, 'b list) prog" where
  "mapM_M f [] = returnM []"
| "mapM_M f (x # xs) = bindM (f x) (\<lambda>y. bindM (mapM_M f xs) (\<lambda>ys. returnM (y # ys)))"

lemma post_mapM_M:
  assumes "\<And>x s. x \<in> set xs \<Longrightarrow> I s \<Longrightarrow> post (f x) s (\<lambda>y s'. R x y \<and> I s') (\<lambda>_. J)" and "I s"
  shows "post (mapM_M f xs) s (\<lambda>ys s'. list_all2 R xs ys \<and> I s') (\<lambda>_. J)"
  using assms
proof (induction xs arbitrary: s)
  case Nil
  then show ?case by (simp add: wp_simps)
next
  case (Cons x xs)
  have rest: "post (mapM_M f xs) s' (\<lambda>ys s'. list_all2 R xs ys \<and> I s') (\<lambda>_. J)" if "I s'" for s'
    using Cons.IH [OF Cons.prems(1) that] by simp
  have "post (f x) s (\<lambda>y s'. R x y \<and> I s') (\<lambda>_. J)"
    using Cons.prems by simp
  then show ?case
    by (simp add: wp_simps) (erule post_mono, rule post_mono [OF rest], auto)
qed

end
