(* ===== verification/Challenge.thy ===== *)
theory Challenge
  imports External Runtime
begin

text \<open>
  \<^verbatim>\<open>src/atcap/challenge.py\<close>: the challenge tokens that the broker and the resource issue,
  \<^verbatim>\<open>v1.<expiry>.<random>.<HMAC-SHA256>\<close>, and the expiry reader of
  \<^verbatim>\<open>src/atcap/broker.py\<close>.
\<close>

definition challenge_authenticated :: "int \<Rightarrow> string \<Rightarrow> string" where
  "challenge_authenticated expiry random_hex = ''v1.'' @ int_str expiry @ ''.'' @ random_hex"

definition challenge_mac :: "bytes \<Rightarrow> string \<Rightarrow> exn + string" where
  "challenge_mac secret authenticated =
     bindE (of_option (ValueError ''UnicodeEncodeError'') (ascii_encode authenticated)) (\<lambda>message.
     Inr (bytes_hex (hmac_sha256 secret message)))"

definition issue_ca2a_challenge_at ::
  "ca2a_lib \<Rightarrow> bytes \<Rightarrow> int \<Rightarrow> int \<Rightarrow> ('a env_scheme, string \<times> int) prog" where
  "issue_ca2a_challenge_at ca secret now ttl_seconds =
     bindM (liftE (require (\<not> ttl_seconds \<le> 0) (ValueError ''challenge TTL must be positive''))) (\<lambda>_.
     bindM (liftE (require (\<not> now < 0) (ValueError ''challenge time must be non-negative''))) (\<lambda>_.
     let expiry = now + ttl_seconds in
     bindM (token_hex 16) (\<lambda>random_hex.
     let authenticated = challenge_authenticated expiry random_hex in
     bindM (liftE (challenge_mac secret authenticated)) (\<lambda>mac.
     let token = authenticated @ ''.'' @ mac in
     bindM (liftE (verify_challenge ca secret token now)) (\<lambda>_.
     returnM (token, expiry))))))"

text \<open>\<^verbatim>\<open>int(token.split(".")[1])\<close>, with its two exceptions mapped to one decision.\<close>

definition challenge_expiry :: "string \<Rightarrow> exn + int" where
  "challenge_expiry token =
     of_option (DecisionError CHALLENGE_INVALID ''challenge has no valid expiry'')
       (case split_on CHR ''.'' token of _ # e # _ \<Rightarrow> py_int e | _ \<Rightarrow> None)"

section \<open>Format\<close>

lemma ascii_append:
  "list_all (\<lambda>c. of_char c < (128 :: nat)) (challenge_authenticated e (bytes_hex bs))"
  if "0 \<le> e"
proof -
  have digit: "n < 16 \<Longrightarrow> of_char (hex_digit n) < (128 :: nat)" for n
  proof -
    have "\<forall>n \<in> set [0..<16]. of_char (hex_digit n) < (128 :: nat)" by code_simp
    then show "n < 16 \<Longrightarrow> ?thesis" by simp
  qed
  have "of_char c < (128 :: nat)" if "c \<in> set (nat_str n)" for c n
    using nat_str_chars [OF that] digit by auto
  moreover have "of_char c < (128 :: nat)" if "c \<in> set (bytes_hex bs)" for c
    using that digit by (induction bs) (auto simp: hex_of_byte_def)
  ultimately show ?thesis
    using that by (auto simp: challenge_authenticated_def list_all_iff int_str_def)
qed

lemma challenge_mac_total:
  "0 \<le> e \<Longrightarrow> \<exists>m. challenge_mac secret (challenge_authenticated e (bytes_hex bs)) = Inr (bytes_hex (hmac_sha256 secret m))
     \<and> ascii_encode (challenge_authenticated e (bytes_hex bs)) = Some m"
  using ascii_append [of e bs] by (simp add: challenge_mac_def ascii_encode_def)

text \<open>Every outcome of the issuer: what it checks, the token it builds, the randomness it takes.\<close>

definition challenge_token :: "bytes \<Rightarrow> int \<Rightarrow> bytes \<Rightarrow> string" where
  "challenge_token secret expiry random =
     (let authenticated = challenge_authenticated expiry (bytes_hex random)
      in authenticated @ ''.'' @ bytes_hex (hmac_sha256 secret (the (ascii_encode authenticated))))"

lemma post_issue_ca2a_challenge_at [wp_simps]:
  "post (issue_ca2a_challenge_at ca secret now ttl) s Q E =
   (if ttl \<le> 0 then E (ValueError ''challenge TTL must be positive'') s
    else if now < 0 then E (ValueError ''challenge time must be non-negative'') s
    else let token = challenge_token secret (now + ttl) (map (entropy s) [drawn s..<drawn s + 16]);
             s' = s\<lparr>drawn := drawn s + 16\<rparr>
         in (\<forall>e. verify_challenge ca secret token now = Inl e \<longrightarrow> E e s') \<and>
            (verify_challenge ca secret token now = Inr () \<longrightarrow> Q (token, now + ttl) s'))"
proof (cases "ttl \<le> 0 \<or> now < 0")
  case True
  then show ?thesis by (auto simp: issue_ca2a_challenge_at_def wp_simps)
next
  case False
  then have pos: "0 \<le> now + ttl" by simp
  define rnd where "rnd = map (entropy s) [drawn s..<drawn s + 16]"
  let ?auth = "challenge_authenticated (now + ttl) (bytes_hex rnd)"
  have mac: "challenge_mac secret ?auth = Inr (bytes_hex (hmac_sha256 secret (the (ascii_encode ?auth))))"
    using challenge_mac_total [OF pos, of secret rnd] by auto
  from False show ?thesis
    unfolding rnd_def [symmetric]
    by (simp add: issue_ca2a_challenge_at_def wp_simps Let_def challenge_token_def mac rnd_def [symmetric]
        del: upt_Suc)
       blast
qed

lemma dot_not_hex: "CHR ''.'' \<notin> set (bytes_hex bs)"
proof
  assume "CHR ''.'' \<in> set (bytes_hex bs)"
  then have "lower_hex_char (CHR ''.'')" using list_all_bytes_hex by (auto simp: list_all_iff)
  then show False by (simp add: lower_hex_char_def hex_digits_def)
qed

lemma dot_not_digit: "CHR ''.'' \<notin> set (nat_str n)"
proof
  assume "CHR ''.'' \<in> set (nat_str n)"
  from nat_str_chars [OF this] obtain d where "d < 10" "CHR ''.'' = hex_digit d" by blast
  then have "dec_val (CHR ''.'') = Some d" using hex_digit_dec by metis
  then show False by (simp add: dec_val_def)
qed

lemma split_challenge_token:
  assumes "0 \<le> e"
  shows "split_on CHR ''.'' (challenge_token secret e random) =
    [''v1'', int_str e, bytes_hex random,
     bytes_hex (hmac_sha256 secret (the (ascii_encode (challenge_authenticated e (bytes_hex random)))))]"
proof -
  let ?mac = "bytes_hex (hmac_sha256 secret (the (ascii_encode (challenge_authenticated e (bytes_hex random)))))"
  have "challenge_token secret e random
      = ''v1'' @ CHR ''.'' # int_str e @ CHR ''.'' # bytes_hex random @ CHR ''.'' # ?mac"
    by (simp add: challenge_token_def Let_def challenge_authenticated_def)
  moreover have "CHR ''.'' \<notin> set (int_str e)" using assms by (simp add: int_str_def dot_not_digit)
  moreover have "CHR ''.'' \<notin> set ''v1''" by simp
  ultimately show ?thesis
    using split_on_append [of "CHR ''.''" "''v1''"] split_on_append [of "CHR ''.''" "int_str e"]
      split_on_append [of "CHR ''.''" "bytes_hex random"] split_on_last [of "CHR ''.''" ?mac]
    by (simp add: dot_not_hex del: split_on.simps)
qed

lemma challenge_expiry_token: "0 \<le> e \<Longrightarrow> challenge_expiry (challenge_token secret e random) = Inr e"
  by (simp add: challenge_expiry_def split_challenge_token py_int_int_str)

lemma challenge_token_inject:
  assumes "0 \<le> e" "0 \<le> e'" "challenge_token secret e random = challenge_token secret' e' random'"
  shows "e = e' \<and> random = random'"
proof -
  have "split_on CHR ''.'' (challenge_token secret e random)
      = split_on CHR ''.'' (challenge_token secret' e' random')" using assms(3) by simp
  then have "int_str e = int_str e' \<and> random = random'"
    by (simp add: split_challenge_token assms(1,2))
  then show ?thesis using py_int_int_str assms(1,2) by (metis option.inject)
qed

text \<open>C26: a token that the issuer returns has the documented form, four dot-separated parts with the
  version, the expiry in decimal, sixteen random bytes in hexadecimal and the HMAC-SHA256 of the first
  three under the secret; its expiry is the given time plus the lifetime, reading the expiry back gives
  that number, and the packaged verifier accepted it.\<close>

theorem challenge_token_format:
  assumes "issue_ca2a_challenge_at ca secret now ttl s = (Inr (token, expiry), s')"
  shows "\<exists>random message. length random = 16 \<and> expiry = now + ttl \<and> 0 \<le> now \<and> now < expiry \<and>
    ascii_encode (''v1.'' @ int_str expiry @ ''.'' @ bytes_hex random) = Some message \<and>
    split_on CHR ''.'' token = [''v1'', int_str expiry, bytes_hex random, bytes_hex (hmac_sha256 secret message)] \<and>
    challenge_expiry token = Inr expiry \<and> verify_challenge ca secret token now = Inr ()"
proof -
  have "post (issue_ca2a_challenge_at ca secret now ttl) s
      (\<lambda>(token, expiry) _. 0 < ttl \<and> 0 \<le> now \<and> expiry = now + ttl \<and> verify_challenge ca secret token now = Inr () \<and>
         (\<exists>random. length random = 16 \<and> token = challenge_token secret (now + ttl) random)) (\<lambda>_ _. True)"
    by (auto simp: wp_simps Let_def simp del: upt_Suc intro!: exI [of _ "map (entropy s) [drawn s..<drawn s + 16]"])
  from post_returnD [OF this assms] obtain random where t: "0 < ttl" "0 \<le> now" "expiry = now + ttl"
      "verify_challenge ca secret token now = Inr ()" "length random = 16" "token = challenge_token secret expiry random"
    by auto
  then have e: "0 \<le> expiry" by simp
  from challenge_mac_total [OF e, of secret random] obtain m where
    "ascii_encode (challenge_authenticated expiry (bytes_hex random)) = Some m" by blast
  with t e show ?thesis
    by (intro exI [of _ random] exI [of _ m])
       (simp add: split_challenge_token challenge_expiry_token challenge_authenticated_def)
qed

definition demo_challenge_lib :: "ca2a_lib \<Rightarrow> ca2a_lib" where
  "demo_challenge_lib ca = ca\<lparr>verify_challenge := \<lambda>secret token now. Inr ()\<rparr>"

definition demo_env :: env where
  "demo_env = \<lparr>clock_at = (\<lambda>_. 100), ticks = 0, entropy = (\<lambda>_. 0), drawn = 0, db_busy = (\<lambda>_. False), db_calls = 0\<rparr>"

theorem challenge_token_format_witness:
  "\<forall>ca. \<exists>token s'. issue_ca2a_challenge_at (demo_challenge_lib ca) [1] 100 60 demo_env = (Inr (token, 160), s') \<and>
     challenge_expiry token = Inr 160"
proof
  fix ca
  have "post (issue_ca2a_challenge_at (demo_challenge_lib ca) [1] 100 60) demo_env (\<lambda>(_, e) _. e = 160) (\<lambda>_ _. False)"
    by (simp add: wp_simps Let_def demo_challenge_lib_def)
  from post_total [OF this] obtain token s' where
    run: "issue_ca2a_challenge_at (demo_challenge_lib ca) [1] 100 60 demo_env = (Inr (token, 160), s')" by auto
  from challenge_token_format [OF run] run
  show "\<exists>token s'. issue_ca2a_challenge_at (demo_challenge_lib ca) [1] 100 60 demo_env = (Inr (token, 160), s') \<and>
     challenge_expiry token = Inr 160" by blast
qed

end
