(* ===== verification/Identity.thy ===== *)
theory Identity
  imports External
begin

text \<open>
  \<^verbatim>\<open>src/atcap/identity.py\<close>: the endorsement of an issuance request by the identity the
  policy binds to the manifest. The checks are proved equivalent to one condition on request and
  policy, and an endorsed request is proved to pass them.
\<close>

definition issuance_version :: string where
  "issuance_version = ''atcap-issuance/v1''"

definition public_key_hex :: "ed25519_lib \<Rightarrow> bytes \<Rightarrow> string" where
  "public_key_hex ed private_key = bytes_hex (ed_public ed private_key)"

definition identity_key_id :: "string \<Rightarrow> exn + string" where
  "identity_key_id public_hex = bindE (bytes_fromhex public_hex) (\<lambda>b. Inr (bytes_hex (sha256 b)))"

definition endorse_request ::
  "ed25519_lib \<Rightarrow> json_dumps \<Rightarrow> issuance_request \<Rightarrow> bytes \<Rightarrow> exn + issuance_request" where
  "endorse_request ed dumps request private_key =
     bindE (require (public_key_hex ed private_key = ir_identity_key request)
              (ValueError ''identity private key does not match the issuance request'')) (\<lambda>_.
     bindE (signing_bytes dumps request) (\<lambda>message.
     Inr (request\<lparr>ir_identity_signature := bytes_hex (ed_sign ed private_key message)\<rparr>)))"

definition verify_identity_endorsement ::
  "ed25519_lib \<Rightarrow> json_dumps \<Rightarrow> issuance_request \<Rightarrow> broker_policy \<Rightarrow> exn + unit" where
  "verify_identity_endorsement ed dumps request policy =
     bindE (require (ir_version request = issuance_version)
              (DecisionError REQUEST_BINDING ''issuance protocol version is unsupported'')) (\<lambda>_.
     let expected_identity = mp_identity_public_hex (bp_manifest policy) in
     bindE (require (ir_identity_key request = expected_identity)
              (DecisionError IDENTITY_UNAUTHORIZED
                ''requester identity is not the identity bound to this manifest policy'')) (\<lambda>_.
     bindE (require (ir_manifest_digest request = mp_expected_digest (bp_manifest policy))
              (DecisionError MANIFEST_POLICY ''manifest digest is not authorized'')) (\<lambda>_.
     bindE (require (ir_broker_id request = bp_broker_id policy)
              (DecisionError REQUEST_BINDING ''issuance request names another broker'')) (\<lambda>_.
     bindE (require (ir_requested_scope request = bp_qualified_scope policy)
              (DecisionError SCOPE_DENIED ''requested scope is not authorized'')) (\<lambda>_.
     bindE (require (ir_resource_issuer_kid request = bp_resource_issuer_kid policy)
              (DecisionError REQUEST_BINDING ''resource issuer kid is not authorized'')) (\<lambda>_.
     bindE (require (ir_resource_issuer_key request = bp_resource_issuer_public_hex policy)
              (DecisionError REQUEST_BINDING ''resource issuer key is not authorized'')) (\<lambda>_.
     bindE (require (lower_hex 64 (ir_holder_key request))
              (DecisionError REQUEST_BINDING
                ''holder key must be a lowercase 32-byte Ed25519 public key'')) (\<lambda>_.
     bindE (catching is_value_error (DecisionError REQUEST_BINDING ''holder key is malformed'')
              (bindE (bytes_fromhex (ir_holder_key request)) (ed_load ed))) (\<lambda>_.
     bindE (require (ir_identity_signature request \<noteq> [])
              (DecisionError IDENTITY_SIGNATURE ''identity endorsement is missing'')) (\<lambda>_.
     catching (\<lambda>e. e = InvalidSignature \<or> is_value_error e)
       (DecisionError IDENTITY_SIGNATURE ''identity endorsement did not verify'')
       (bindE (bytes_fromhex expected_identity) (\<lambda>public_key.
        bindE (ed_load ed public_key) (\<lambda>_.
        bindE (bytes_fromhex (ir_identity_signature request)) (\<lambda>signature.
        bindE (signing_bytes dumps request) (\<lambda>message.
        ed_verify ed public_key signature message)))))))))))))))"

section \<open>What acceptance means\<close>

text \<open>The request is the one the policy authorizes, field by field, and carries a signature of
  that identity over its own body.\<close>

definition request_matches :: "issuance_request \<Rightarrow> broker_policy \<Rightarrow> bool" where
  "request_matches r p \<longleftrightarrow>
     ir_version r = issuance_version \<and>
     ir_identity_key r = mp_identity_public_hex (bp_manifest p) \<and>
     ir_manifest_digest r = mp_expected_digest (bp_manifest p) \<and>
     ir_broker_id r = bp_broker_id p \<and>
     ir_requested_scope r = bp_qualified_scope p \<and>
     ir_resource_issuer_kid r = bp_resource_issuer_kid p \<and>
     ir_resource_issuer_key r = bp_resource_issuer_public_hex p"

definition endorsed :: "ed25519_lib \<Rightarrow> json_dumps \<Rightarrow> issuance_request \<Rightarrow> bool" where
  "endorsed ed dumps r \<longleftrightarrow>
     (\<exists>holder key sig msg. lower_hex 64 (ir_holder_key r) \<and> fromhex (ir_holder_key r) = Some holder \<and>
        ed_load ed holder = Inr () \<and> ir_identity_signature r \<noteq> [] \<and>
        fromhex (ir_identity_key r) = Some key \<and> ed_load ed key = Inr () \<and>
        fromhex (ir_identity_signature r) = Some sig \<and> dumps (request_body r) = Inr msg \<and>
        ed_verify ed key sig msg = Inr ())"

lemma verify_identity_endorsement_Inr:
  "verify_identity_endorsement ed dumps r p = Inr u \<longleftrightarrow> request_matches r p \<and> endorsed ed dumps r"
  unfolding verify_identity_endorsement_def request_matches_def endorsed_def
  by (auto simp: res_simps Let_def bytes_fromhex_def signing_bytes_def canonical_json_def)

lemma signing_bytes_signature [simp]:
  "request_body (r\<lparr>ir_identity_signature := sig\<rparr>) = request_body r"
  by (simp add: request_body_def body_items_def)

lemma endorse_request_Inr:
  "endorse_request ed dumps r key = Inr r' \<longleftrightarrow>
   (\<exists>msg. public_key_hex ed key = ir_identity_key r \<and> dumps (request_body r) = Inr msg \<and>
      r' = r\<lparr>ir_identity_signature := bytes_hex (ed_sign ed key msg)\<rparr>)"
  by (auto simp: endorse_request_def res_simps signing_bytes_def canonical_json_def)

lemma bytes_hex_Nil [simp]: "bytes_hex bs = [] \<longleftrightarrow> bs = []"
  by (cases bs) (simp_all add: hex_of_byte_def)

text \<open>A request that matches the policy and was endorsed with the private key of the identity it
  names passes the endorsement check, given that Ed25519 signatures verify under their public key and
  the holder key loads.\<close>

theorem endorse_then_verify:
  assumes "ed25519_ok ed key" and "endorse_request ed dumps r key = Inr r'"
    and "request_matches r p" and "lower_hex 64 (ir_holder_key r)"
    and "\<And>holder. fromhex (ir_holder_key r) = Some holder \<Longrightarrow> ed_load ed holder = Inr ()"
  shows "verify_identity_endorsement ed dumps r' p = Inr ()"
proof -
  from assms(2) obtain msg where m: "public_key_hex ed key = ir_identity_key r"
      "dumps (request_body r) = Inr msg"
    and r': "r' = r\<lparr>ir_identity_signature := bytes_hex (ed_sign ed key msg)\<rparr>"
    by (auto simp: endorse_request_Inr)
  obtain holder where h: "fromhex (ir_holder_key r) = Some holder"
    using fromhex_lower_hex [of 32 "ir_holder_key r"] assms(4) by auto
  have k: "fromhex (ir_identity_key r) = Some (ed_public ed key)"
    using m(1) [symmetric] by (simp add: public_key_hex_def)
  have "endorsed ed dumps r'"
    using assms(1,4) h assms(5) [OF h] k m(2) by (auto simp: endorsed_def r' ed25519_ok_def)
  moreover have "request_matches r' p"
    using assms(3) by (simp add: r' request_matches_def)
  ultimately show ?thesis by (simp add: verify_identity_endorsement_Inr)
qed

definition demo_unendorsed :: issuance_request where
  "demo_unendorsed = \<lparr>ir_version = ''atcap-issuance/v1'', ir_broker_id = ''b'', ir_challenge = ''t'', ir_manifest_digest = ''d'',
     ir_identity_key = bytes_hex (replicate 32 7), ir_holder_key = bytes_hex (replicate 32 3), ir_resource_issuer_kid = ''k'',
     ir_resource_issuer_key = ''i'', ir_requested_scope = ''s'', ir_identity_signature = []\<rparr>"

definition demo_identity_policy :: broker_policy where
  "demo_identity_policy = \<lparr>bp_broker_id = ''b'', bp_qualified_scope = ''s'', bp_resource_issuer_kid = ''k'',
     bp_resource_issuer_public_hex = ''i'', bp_challenge_ttl_seconds = 1, bp_credential_ttl_seconds = 1,
     bp_manifest = \<lparr>mp_expected_digest = ''d'', mp_issuer = [], mp_signing_key_id = [], mp_signing_public_b64url = [],
       mp_identity_public_hex = bytes_hex (replicate 32 7), mp_system_prompt_hash = [], mp_policy_bundle_hash = [], mp_model_hash = []\<rparr>,
     bp_tpm = \<lparr>tp_selection = [], tp_expected_pcr_digest = [], tp_trusted_roots_pem = []\<rparr>\<rparr>"

definition demo_identity_ed :: ed25519_lib where
  "demo_identity_ed = \<lparr>ed_public = (\<lambda>k. replicate 32 7), ed_sign = (\<lambda>k m. 0 # m), ed_load = (\<lambda>b. Inr ()),
     ed_verify = (\<lambda>k sg m. if sg = 0 # m then Inr () else Inl InvalidSignature)\<rparr>"

theorem endorse_then_verify_witness:
  "\<exists>r'. endorse_request demo_identity_ed (\<lambda>v. Inr [1]) demo_unendorsed [5] = Inr r' \<and>
     verify_identity_endorsement demo_identity_ed (\<lambda>v. Inr [1]) r' demo_identity_policy = Inr ()"
proof -
  have ok: "ed25519_ok demo_identity_ed [5]" by (simp add: ed25519_ok_def demo_identity_ed_def)
  have "\<exists>r'. endorse_request demo_identity_ed (\<lambda>v. Inr [1]) demo_unendorsed [5] = Inr r'"
    by (simp add: endorse_request_Inr public_key_hex_def demo_identity_ed_def demo_unendorsed_def)
  then obtain r' where r': "endorse_request demo_identity_ed (\<lambda>v. Inr [1]) demo_unendorsed [5] = Inr r'" ..
  have m: "request_matches demo_unendorsed demo_identity_policy" "lower_hex 64 (ir_holder_key demo_unendorsed)"
    by (simp_all add: request_matches_def demo_unendorsed_def demo_identity_policy_def issuance_version_def)
  have "ed_load demo_identity_ed holder = Inr ()" for holder by (simp add: demo_identity_ed_def)
  with endorse_then_verify [OF ok r' m] r' show ?thesis by blast
qed

text \<open>C23: the endorsement check accepts exactly the requests whose version, broker, scope, resource
  issuer, identity and manifest digest are the policy's, whose holder key is a loadable 32-byte key in
  lowercase hexadecimal, and whose signature by that identity over the request's own body verifies.\<close>

theorem endorsement_accepted_iff:
  "verify_identity_endorsement ed dumps r p = Inr u \<longleftrightarrow>
   ir_version r = issuance_version \<and> ir_identity_key r = mp_identity_public_hex (bp_manifest p) \<and>
   ir_manifest_digest r = mp_expected_digest (bp_manifest p) \<and> ir_broker_id r = bp_broker_id p \<and>
   ir_requested_scope r = bp_qualified_scope p \<and> ir_resource_issuer_kid r = bp_resource_issuer_kid p \<and>
   ir_resource_issuer_key r = bp_resource_issuer_public_hex p \<and> endorsed ed dumps r"
  by (simp add: verify_identity_endorsement_Inr request_matches_def)

text \<open>Which reasons a rejection can carry.\<close>

lemma verify_identity_endorsement_reason:
  assumes "verify_identity_endorsement ed dumps r p = Inl (DecisionError reason msg)"
    and "\<And>b reason msg. ed_load ed b \<noteq> Inl (DecisionError reason msg)"
    and "\<And>k s m reason msg. ed_verify ed k s m \<noteq> Inl (DecisionError reason msg)"
    and "\<And>v reason msg. dumps v \<noteq> Inl (DecisionError reason msg)"
  shows "reason \<in> {REQUEST_BINDING, IDENTITY_UNAUTHORIZED, MANIFEST_POLICY, SCOPE_DENIED, IDENTITY_SIGNATURE}"
  using assms
  by (auto simp: verify_identity_endorsement_def bindE_def require_def catching_def mapE_def Let_def
      bytes_fromhex_def of_option_def signing_bytes_def canonical_json_def
      split: if_splits sum.splits option.splits)

end
