(* ===== verification/Manifest_Verifier.thy ===== *)
theory Manifest_Verifier
  imports External
begin

text \<open>
  \<^verbatim>\<open>src/atcap/manifest_verifier.py\<close>: the composition of the released Agent Manifest verifier
  with the policy's issuer and digest.
\<close>

fun is_validation_error :: "exn \<Rightarrow> bool" where
  "is_validation_error (ValidationError _) = True"
| "is_validation_error _ = False"

definition normalize_signed_manifest :: "manifest_lib \<Rightarrow> json \<Rightarrow> exn + (string, json) fmap" where
  "normalize_signed_manifest ml manifest =
     catching is_validation_error (DecisionError MANIFEST_INVALID ''manifest schema validation failed'')
       (model_validate_dump ml manifest)"

definition signed_manifest_digest :: "manifest_lib \<Rightarrow> json \<Rightarrow> exn + string" where
  "signed_manifest_digest ml manifest =
     bindE (normalize_signed_manifest ml manifest) (canonical_hash ml)"

definition manifest_context :: "manifest_policy \<Rightarrow> verification_context" where
  "manifest_context policy =
     \<lparr>vc_system_prompt_hash = mp_system_prompt_hash policy,
      vc_policy_bundle_hash = mp_policy_bundle_hash policy,
      vc_enforcement_mode = ''enforce'',
      vc_model_version = mp_model_hash policy,
      vc_trusted_keys = fmap_of_list [(mp_signing_key_id policy, mp_signing_public_b64url policy)],
      vc_trusted_key_issuers = fmap_of_list [(mp_signing_key_id policy, [mp_issuer policy])],
      vc_strict_artifact_verification = True\<rparr>"

definition verify_signed_manifest ::
  "manifest_lib \<Rightarrow> json \<Rightarrow> manifest_policy \<Rightarrow> exn + (string, json) fmap" where
  "verify_signed_manifest ml manifest policy =
     bindE (normalize_signed_manifest ml manifest) (\<lambda>normalized.
     bindE (require (fmlookup normalized ''issuer'' = Some (JStr (mp_issuer policy)))
              (DecisionError MANIFEST_POLICY ''manifest issuer is not authorized'')) (\<lambda>_.
     bindE (canonical_hash ml normalized) (\<lambda>digest.
     bindE (require (digest = mp_expected_digest policy)
              (DecisionError MANIFEST_POLICY ''manifest digest is not authorized'')) (\<lambda>_.
     bindE (verify_manifest ml normalized (manifest_context policy)) (\<lambda>result.
     bindE (require (mr_valid result \<and> mr_signature_verified result)
              (DecisionError MANIFEST_INVALID ''Agent Manifest verification was not VALID'')) (\<lambda>_.
     Inr normalized))))))"

text \<open>Acceptance: the normalized manifest has the policy's issuer and digest and the verifier,
  run in enforcing, strict mode with the policy's key as its only trusted key, found it valid.\<close>

definition manifest_accepted :: "manifest_lib \<Rightarrow> json \<Rightarrow> manifest_policy \<Rightarrow> (string, json) fmap \<Rightarrow> bool" where
  "manifest_accepted ml manifest policy normalized \<longleftrightarrow>
     model_validate_dump ml manifest = Inr normalized \<and>
     fmlookup normalized ''issuer'' = Some (JStr (mp_issuer policy)) \<and>
     canonical_hash ml normalized = Inr (mp_expected_digest policy) \<and>
     (\<exists>result. verify_manifest ml normalized (manifest_context policy) = Inr result \<and>
        mr_valid result \<and> mr_signature_verified result)"

lemma verify_signed_manifest_Inr:
  "verify_signed_manifest ml manifest policy = Inr normalized \<longleftrightarrow>
   manifest_accepted ml manifest policy normalized"
  by (auto simp: verify_signed_manifest_def manifest_accepted_def normalize_signed_manifest_def res_simps)

text \<open>The digest a requester computes for an accepted manifest is the one the policy pins.\<close>

lemma accepted_manifest_digest:
  "verify_signed_manifest ml manifest policy = Inr normalized \<Longrightarrow>
   signed_manifest_digest ml manifest = Inr (mp_expected_digest policy)"
  by (simp add: verify_signed_manifest_Inr manifest_accepted_def signed_manifest_digest_def
      normalize_signed_manifest_def)

end
