(* ===== verification/Schema.thy ===== *)
theory Schema
  imports Json
begin

text \<open>
  Closed, strict pydantic models in general (\<^verbatim>\<open>extra="forbid"\<close>, \<^verbatim>\<open>strict=True\<close>): a model
  with required members only accepts exactly the objects it dumps to. The locale states what the
  definitions of one model have to provide, each model of the program is an interpretation, and
  reading a member that is itself a model or a list of models follows from the member's model.
  Further, the string patterns that the models of \<^verbatim>\<open>lab/worker_wire.py\<close> and
  \<^verbatim>\<open>lab/wire.py\<close> use.
\<close>

section \<open>Members\<close>

lemma get_Inr:
  "get_str m k = Inr s \<longleftrightarrow> fmlookup m k = Some (JStr s)"
  "get_int m k = Inr i \<longleftrightarrow> fmlookup m k = Some (JInt i)"
  "get_bool m k = Inr b \<longleftrightarrow> fmlookup m k = Some (JBool b)"
  "get_obj m k = Inr o' \<longleftrightarrow> fmlookup m k = Some (JObj o')"
  "get_opt_str m k = Inr x \<longleftrightarrow> fmlookup m k = Some (jopt_str x)"
  "get_opt_int m k = Inr y \<longleftrightarrow> fmlookup m k = Some (jopt_int y)"
  by (auto simp: get_defs jopt_str_def jopt_int_def split: option.splits json.splits)

lemma get_dict_Inr: "get_dict m k = Inr d \<longleftrightarrow> fmlookup m k = Some (jdict d)"
proof
  assume "get_dict m k = Inr d"
  then obtain o' where o': "fmlookup m k = Some (JObj o')" "fmpred (\<lambda>_ v. is_jstr v) o'" "d = fmmap un_jstr o'"
    by (auto simp: get_dict_def split: option.splits json.splits if_splits)
  have "fmmap JStr (fmmap un_jstr o') = o'"
  proof (rule fmap_ext)
    fix x
    have "JStr (un_jstr v) = v" if "fmlookup o' x = Some v" for v
      using o'(2) that by (cases v) (auto simp: is_jstr_def un_jstr_def dest: fmpredD)
    then show "fmlookup (fmmap JStr (fmmap un_jstr o')) x = fmlookup o' x"
      by (cases "fmlookup o' x") auto
  qed
  then show "fmlookup m k = Some (jdict d)" by (simp add: o' jdict_def)
qed (rule get_dict_jdict)

lemma closed_keys_Inr: "closed_keys names m = Inr u \<longleftrightarrow> (\<forall>k. k \<notin> set names \<longrightarrow> fmlookup m k = None)"
  by (auto simp: closed_keys_def res_simps fmlookup_dom_iff)

text \<open>A member that is a model, and a member that is a list of models.\<close>

definition get_model :: "((string, json) fmap \<Rightarrow> exn + 'a) \<Rightarrow> (string, json) fmap \<Rightarrow> string \<Rightarrow> exn + 'a" where
  "get_model rd m k = bindE (get_obj m k) rd"

definition read_item :: "((string, json) fmap \<Rightarrow> exn + 'a) \<Rightarrow> json \<Rightarrow> exn + 'a" where
  "read_item rd v = (case v of JObj o' \<Rightarrow> rd o' | _ \<Rightarrow> Inl invalid)"

definition get_list :: "((string, json) fmap \<Rightarrow> exn + 'a) \<Rightarrow> (string, json) fmap \<Rightarrow> string \<Rightarrow> exn + 'a list" where
  "get_list rd m k = (case fmlookup m k of Some (JArr vs) \<Rightarrow> mapM_E (read_item rd) vs | _ \<Rightarrow> Inl invalid)"

lemma read_item_Inr: "read_item rd v = Inr x \<longleftrightarrow> (\<exists>o'. v = JObj o' \<and> rd o' = Inr x)"
  by (auto simp: read_item_def split: json.splits)

lemma as_object_Inr: "(case v of JObj m \<Rightarrow> Inr m | _ \<Rightarrow> Inl e) = Inr m \<longleftrightarrow> v = JObj m"
  by (cases v) auto

section \<open>Closed models\<close>

lemma obj_closed:
  assumes names: "map fst kvs = names" and d: "distinct names"
  shows "JObj m = obj kvs \<longleftrightarrow>
    closed_keys names m = Inr () \<and> (\<forall>(k, v) \<in> set kvs. fmlookup m k = Some v)"
proof -
  have "JObj m = obj kvs \<longleftrightarrow> fmlookup m = map_of kvs"
    unfolding obj_def json.inject by (metis ext fmap_ext fmlookup_fmap_of_list)
  moreover have "map_of kvs k = Some v" if "(k, v) \<in> set kvs" for k v
    using d that unfolding names [symmetric] by (rule map_of_is_SomeI)
  moreover have n: "map_of kvs k = None \<longleftrightarrow> k \<notin> set names" for k
    unfolding names [symmetric] by (simp add: map_of_eq_None_iff)
  moreover have "fmlookup m k = map_of kvs k"
    if "\<forall>k. k \<notin> set names \<longrightarrow> fmlookup m k = None" "\<forall>(k, v) \<in> set kvs. fmlookup m k = Some v" for k
  proof (cases "map_of kvs k")
    case None
    then have "k \<notin> set names" using n [of k] by metis
    with that(1) None show ?thesis by simp
  next
    case (Some v)
    with that(2) map_of_SomeD [OF Some] show ?thesis by auto
  qed
  ultimately show ?thesis
    unfolding closed_keys_Inr by fastforce
qed

text \<open>What the definitions of one model provide: its member names, the members it dumps, the reader of
  a decoded object and the condition its validators check.\<close>

locale closed_model =
  fixes names :: "string list" and members :: "'m \<Rightarrow> (string \<times> json) list"
    and rd :: "(string, json) fmap \<Rightarrow> exn + 'm" and valid :: "'m \<Rightarrow> bool"
  assumes names_members: "map fst (members x) = names"
    and distinct_names: "distinct names"
    and reads: "rd m = Inr x \<longleftrightarrow>
      closed_keys names m = Inr () \<and> (\<forall>(k, v) \<in> set (members x). fmlookup m k = Some v) \<and> valid x"
begin

lemma accepts_iff: "rd m = Inr x \<longleftrightarrow> JObj m = obj (members x) \<and> valid x"
  using obj_closed [OF names_members distinct_names] reads by auto

lemma reads_back: "valid x \<Longrightarrow> rd (fmap_of_list (members x)) = Inr x"
  by (simp add: accepts_iff obj_def)

lemma dump_inject: "valid x \<Longrightarrow> valid y \<Longrightarrow> obj (members x) = obj (members y) \<longleftrightarrow> x = y"
  by (metis accepts_iff obj_def reads_back sum.inject(2))

lemma get_model_Inr: "get_model rd m k = Inr x \<longleftrightarrow> fmlookup m k = Some (obj (members x)) \<and> valid x"
  unfolding get_model_def bindE_Inr_iff get_Inr accepts_iff by (metis obj_def)

lemma read_item_iff: "read_item rd v = Inr x \<longleftrightarrow> v = obj (members x) \<and> valid x"
  unfolding read_item_Inr accepts_iff by (metis obj_def)

lemma read_items: "mapM_E (read_item rd) vs = Inr xs \<longleftrightarrow> vs = map (\<lambda>x. obj (members x)) xs \<and> list_all valid xs"
proof (induction vs arbitrary: xs)
  case Nil
  then show ?case by auto
next
  case (Cons v vs)
  then show ?case by (cases xs) (auto simp: bindE_Inr_iff read_item_iff)
qed

lemma get_list_Inr:
  "get_list rd m k = Inr xs \<longleftrightarrow> fmlookup m k = Some (JArr (map (\<lambda>x. obj (members x)) xs)) \<and> list_all valid xs"
  by (auto simp: get_list_def read_items split: option.splits json.splits)

end

section \<open>Patterns\<close>

definition alnum :: "char \<Rightarrow> bool" where
  "alnum c = (let n = of_char c :: nat in (48 \<le> n \<and> n \<le> 57) \<or> (65 \<le> n \<and> n \<le> 90) \<or> (97 \<le> n \<and> n \<le> 122))"

text \<open>\<^verbatim>\<open>HEX_32_PATTERN\<close> and \<^verbatim>\<open>HEX_64_PATTERN\<close> are \<^term>\<open>lower_hex 64\<close> and
  \<^term>\<open>lower_hex 128\<close>.\<close>

definition id_char :: "char \<Rightarrow> bool" where
  "id_char c \<longleftrightarrow> alnum c \<or> c \<in> set ''._:-''"

text \<open>An alphanumeric character followed by at most \<open>n\<close> of the class \<^verbatim>\<open>[A-Za-z0-9._:-]\<close>.\<close>

fun bounded_id :: "nat \<Rightarrow> string \<Rightarrow> bool" where
  "bounded_id n [] = False"
| "bounded_id n (c # cs) = (alnum c \<and> list_all id_char cs \<and> length cs \<le> n)"

definition run_id_pattern :: "string \<Rightarrow> bool" where
  "run_id_pattern = bounded_id 127"

text \<open>\<^verbatim>\<open>IMAGE_PATTERN\<close>: a repository name with a slash that an alphanumeric character follows, then
  \<^verbatim>\<open>@sha256:\<close> and 64 lowercase hexadecimal digits. The class of the name's characters contains
  the slash and not the at sign, so one slash of the name can be the pattern's.\<close>

definition image_char :: "char \<Rightarrow> bool" where
  "image_char c \<longleftrightarrow> alnum c \<or> c \<in> set ''._:/-''"

fun slash_then_alnum :: "string \<Rightarrow> bool" where
  "slash_then_alnum (x # y # cs) = (x = CHR ''/'' \<and> alnum y \<or> slash_then_alnum (y # cs))"
| "slash_then_alnum _ = False"

fun image_name :: "string \<Rightarrow> bool" where
  "image_name [] = False"
| "image_name (c # cs) = (alnum c \<and> list_all image_char cs \<and> slash_then_alnum cs)"

definition image_pattern :: "string \<Rightarrow> bool" where
  "image_pattern s =
     (let n = length s - 72; name = take n s; tail = drop n s in
      72 \<le> length s \<and> image_name name \<and> take 8 tail = ''@sha256:'' \<and> lower_hex 64 (drop 8 tail))"

text \<open>A length between two bounds, \<^verbatim>\<open>Field(min_length=..., max_length=...)\<close>.\<close>

definition len_in :: "nat \<Rightarrow> nat \<Rightarrow> 'a list \<Rightarrow> bool" where
  "len_in lo hi s \<longleftrightarrow> lo \<le> length s \<and> length s \<le> hi"

end
