(* ===== verification/Receipt.thy ===== *)
theory Receipt
  imports External Schema
begin

text \<open>
  \<^verbatim>\<open>src/atcap/receipt.py\<close>: the claims of a decision receipt with their closed schema and
  their consistency rules, the signer and the verifier. A rejected field or an inconsistent
  state is a pydantic \<^verbatim>\<open>ValidationError\<close>.
\<close>

definition JWS_ALGORITHM :: string where
  "JWS_ALGORITHM = ''Ed25519''"

definition JWS_TYPE :: string where
  "JWS_TYPE = ''atcap-decision+jws''"

section \<open>Claims\<close>

record decision_receipt_payload =
  rp_schema_version :: string
  rp_receipt_id :: string
  rp_deciding_service :: string
  rp_decision :: string
  rp_reason :: string
  rp_decided_at :: int
  rp_credential_id :: "string option"
  rp_scope :: "string option"
  rp_challenge_token_hash :: "string option"
  rp_manifest_digest :: "string option"
  rp_call_method :: "string option"
  rp_call_audience :: "string option"
  rp_arguments_digest :: "string option"
  rp_record_id :: "string option"
  rp_invocation_id :: "int option"
  rp_handler_count_snapshot :: int
  rp_handler_invoked :: bool
  rp_business_result :: string
  rp_artifact_hashes :: dict

text \<open>The literals, bounds and the \<^verbatim>\<open>_known_reason\<close> validator of the single fields.\<close>

definition field_checks :: "decision_receipt_payload \<Rightarrow> bool" where
  "field_checks p \<longleftrightarrow>
     rp_schema_version p = ''atcap-decision-receipt/v1'' \<and>
     32 \<le> length (rp_receipt_id p) \<and>
     rp_deciding_service p \<in> {''broker'', ''inventoryd''} \<and>
     rp_decision p \<in> {''allow'', ''deny''} \<and>
     reason_of (rp_reason p) \<noteq> None \<and>
     0 \<le> rp_decided_at p \<and>
     (case rp_invocation_id p of None \<Rightarrow> True | Some n \<Rightarrow> 1 \<le> n) \<and>
     0 \<le> rp_handler_count_snapshot p \<and>
     rp_business_result p \<in> {''not_applicable'', ''not_invoked'', ''completed'', ''failed''}"

definition inconsistent :: "string \<Rightarrow> exn" where
  "inconsistent message = ValidationError message"

definition broker_state :: "decision_receipt_payload \<Rightarrow> reason \<Rightarrow> exn + unit" where
  "broker_state p reason =
     bindE (require (\<not> (rp_handler_invoked p \<or> rp_business_result p \<noteq> ''not_applicable''))
              (inconsistent ''broker receipts cannot describe handler execution'')) (\<lambda>_.
     bindE (require (\<not> rp_handler_count_snapshot p \<noteq> 0)
              (inconsistent ''broker receipts cannot carry a handler counter'')) (\<lambda>_.
     bindE (require (\<not> reason = HANDLER_FAILED)
              (inconsistent ''broker receipts cannot carry a handler result reason'')) (\<lambda>_.
     bindE (require ((rp_decision p = ''allow'') = (reason = ALLOW))
              (inconsistent ''broker decision and reason disagree'')) (\<lambda>_.
     bindE (require (\<not> (rp_decision p = ''allow'' \<and> rp_credential_id p = None))
              (inconsistent ''broker allow receipt must identify the credential'')) (\<lambda>_.
     bindE (require (\<not> (rp_decision p = ''deny'' \<and> rp_credential_id p \<noteq> None))
              (inconsistent ''broker denial receipt cannot identify an issued credential'')) (\<lambda>_.
     require (\<not> (rp_decision p = ''allow'' \<and>
                 \<not> (truthy (rp_manifest_digest p) \<and> truthy (rp_challenge_token_hash p) \<and>
                    truthy (rp_scope p) \<and>
                    truthy (fmlookup (rp_artifact_hashes p) ''broker_policy_sha256''))))
       (inconsistent ''broker allow receipt is missing security bindings'')))))))"

definition inventory_decision_state :: "decision_receipt_payload \<Rightarrow> reason \<Rightarrow> exn + unit" where
  "inventory_decision_state p reason =
     bindE (require (truthy (rp_scope p) \<and> truthy (rp_call_method p) \<and> truthy (rp_call_audience p) \<and>
                     truthy (rp_arguments_digest p))
              (inconsistent ''inventory receipt is missing resource-binding claims'')) (\<lambda>_.
     if rp_decision p = ''deny'' then
       bindE (require (\<not> reason \<in> {ALLOW, HANDLER_FAILED})
                (inconsistent ''denial receipt carries an allow-path reason'')) (\<lambda>_.
       require (\<not> (rp_handler_invoked p \<or> rp_business_result p \<noteq> ''not_invoked''))
         (inconsistent ''denial receipt cannot describe handler execution''))
     else
       bindE (require (\<not> (rp_credential_id p = None \<or> \<not> rp_handler_invoked p))
                (inconsistent ''inventory allow receipt must identify an invocation'')) (\<lambda>_.
       bindE (require (truthy (rp_challenge_token_hash p) \<and> truthy (rp_record_id p) \<and>
                       truthy (fmlookup (rp_artifact_hashes p) ''resource_policy_sha256''))
                (inconsistent ''inventory allow receipt is missing security bindings'')) (\<lambda>_.
       if reason = ALLOW \<and> rp_business_result p = ''completed'' then Inr ()
       else if reason = HANDLER_FAILED \<and> rp_business_result p = ''failed'' then Inr ()
       else Inl (inconsistent ''inventory allow decision, reason, and result disagree''))))"

definition consistent_decision_state :: "decision_receipt_payload \<Rightarrow> exn + unit" where
  "consistent_decision_state p =
     bindE (of_option (ValueError ''Reason'') (reason_of (rp_reason p))) (\<lambda>reason.
     bindE (require (rp_handler_invoked p = (rp_invocation_id p \<noteq> None))
              (inconsistent ''handler_invoked and invocation_id disagree'')) (\<lambda>_.
     bindE (require (case rp_invocation_id p of None \<Rightarrow> True
                     | Some n \<Rightarrow> \<not> rp_handler_count_snapshot p < n)
              (inconsistent ''handler counter snapshot precedes this invocation'')) (\<lambda>_.
     if rp_deciding_service p = ''broker'' then broker_state p reason
     else inventory_decision_state p reason)))"

text \<open>Constructing a payload: the field checks, then the model validator.\<close>

definition new_payload :: "decision_receipt_payload \<Rightarrow> exn + decision_receipt_payload" where
  "new_payload p =
     bindE (require (field_checks p) invalid) (\<lambda>_.
     bindE (consistent_decision_state p) (\<lambda>_. Inr p))"

subsection \<open>JSON form\<close>

definition payload_items :: "decision_receipt_payload \<Rightarrow> (string \<times> json) list" where
  "payload_items p =
    [(''schema_version'', JStr (rp_schema_version p)),
     (''receipt_id'', JStr (rp_receipt_id p)),
     (''deciding_service'', JStr (rp_deciding_service p)),
     (''decision'', JStr (rp_decision p)),
     (''reason'', JStr (rp_reason p)),
     (''decided_at'', JInt (rp_decided_at p)),
     (''credential_id'', jopt_str (rp_credential_id p)),
     (''qualified_scope'', jopt_str (rp_scope p)),
     (''challenge_token_hash'', jopt_str (rp_challenge_token_hash p)),
     (''manifest_digest'', jopt_str (rp_manifest_digest p)),
     (''method'', jopt_str (rp_call_method p)),
     (''audience'', jopt_str (rp_call_audience p)),
     (''arguments_digest'', jopt_str (rp_arguments_digest p)),
     (''record_id'', jopt_str (rp_record_id p)),
     (''invocation_id'', jopt_int (rp_invocation_id p)),
     (''handler_count_snapshot'', JInt (rp_handler_count_snapshot p)),
     (''handler_invoked'', JBool (rp_handler_invoked p)),
     (''business_result'', JStr (rp_business_result p)),
     (''artifact_hashes'', jdict (rp_artifact_hashes p))]"

definition payload_names :: "string list" where
  "payload_names =
    [''schema_version'', ''receipt_id'', ''deciding_service'', ''decision'', ''reason'',
     ''decided_at'', ''credential_id'', ''qualified_scope'', ''challenge_token_hash'',
     ''manifest_digest'', ''method'', ''audience'', ''arguments_digest'', ''record_id'',
     ''invocation_id'', ''handler_count_snapshot'', ''handler_invoked'', ''business_result'',
     ''artifact_hashes'']"

definition payload_dump :: "decision_receipt_payload \<Rightarrow> json" where
  "payload_dump p = obj (payload_items p)"

text \<open>\<^verbatim>\<open>DecisionReceiptPayload.model_validate\<close> on a decoded object: no other member, every
  member present with its exact JSON type, then the checks above.\<close>

definition payload_validate :: "(string, json) fmap \<Rightarrow> exn + decision_receipt_payload" where
  "payload_validate m =
     bindE (closed_keys payload_names m) (\<lambda>_.
     bindE (get_str m ''schema_version'') (\<lambda>schema_version.
     bindE (get_str m ''receipt_id'') (\<lambda>receipt_id.
     bindE (get_str m ''deciding_service'') (\<lambda>deciding_service.
     bindE (get_str m ''decision'') (\<lambda>decision.
     bindE (get_str m ''reason'') (\<lambda>reason.
     bindE (get_int m ''decided_at'') (\<lambda>decided_at.
     bindE (get_opt_str m ''credential_id'') (\<lambda>credential_id.
     bindE (get_opt_str m ''qualified_scope'') (\<lambda>qualified_scope.
     bindE (get_opt_str m ''challenge_token_hash'') (\<lambda>challenge_token_hash.
     bindE (get_opt_str m ''manifest_digest'') (\<lambda>manifest_digest.
     bindE (get_opt_str m ''method'') (\<lambda>method.
     bindE (get_opt_str m ''audience'') (\<lambda>audience.
     bindE (get_opt_str m ''arguments_digest'') (\<lambda>arguments_digest.
     bindE (get_opt_str m ''record_id'') (\<lambda>record_id.
     bindE (get_opt_int m ''invocation_id'') (\<lambda>invocation_id.
     bindE (get_int m ''handler_count_snapshot'') (\<lambda>handler_count_snapshot.
     bindE (get_bool m ''handler_invoked'') (\<lambda>handler_invoked.
     bindE (get_str m ''business_result'') (\<lambda>business_result.
     bindE (get_dict m ''artifact_hashes'') (\<lambda>artifact_hashes.
     new_payload
       \<lparr>rp_schema_version = schema_version, rp_receipt_id = receipt_id,
        rp_deciding_service = deciding_service, rp_decision = decision, rp_reason = reason,
        rp_decided_at = decided_at, rp_credential_id = credential_id, rp_scope = qualified_scope,
        rp_challenge_token_hash = challenge_token_hash, rp_manifest_digest = manifest_digest,
        rp_call_method = method, rp_call_audience = audience,
        rp_arguments_digest = arguments_digest, rp_record_id = record_id,
        rp_invocation_id = invocation_id, rp_handler_count_snapshot = handler_count_snapshot,
        rp_handler_invoked = handler_invoked, rp_business_result = business_result,
        rp_artifact_hashes = artifact_hashes\<rparr>))))))))))))))))))))"

section \<open>Signer and verifier\<close>

record receipt_signer =
  signer_key :: okp_key
  signer_key_id :: string

record receipt_verifier =
  verifier_key :: okp_key
  verifier_key_id :: string

definition protected_header :: "string \<Rightarrow> dict" where
  "protected_header key_id =
     fmap_of_list [(''alg'', JWS_ALGORITHM), (''kid'', key_id), (''typ'', JWS_TYPE)]"

definition signer_public_key :: "jws_lib \<Rightarrow> receipt_signer \<Rightarrow> exn + okp_key" where
  "signer_public_key jws signer = okp_import jws (okp_as_dict jws (signer_key signer) False)"

definition receipt_sign ::
  "jws_lib \<Rightarrow> json_dumps \<Rightarrow> receipt_signer \<Rightarrow> decision_receipt_payload \<Rightarrow> exn + signed_decision_receipt" where
  "receipt_sign jws dumps signer payload =
     bindE (canonical_json dumps (payload_dump payload)) (\<lambda>claims.
     bindE (serialize_compact jws (protected_header (signer_key_id signer)) claims (signer_key signer)
              [JWS_ALGORITHM]) (\<lambda>compact.
     Inr \<lparr>compact_jws = compact\<rparr>))"

definition verifier_public_jwk :: "jws_lib \<Rightarrow> receipt_verifier \<Rightarrow> json" where
  "verifier_public_jwk jws verifier = okp_as_dict jws (verifier_key verifier) False"

definition receipt_verify ::
  "jws_lib \<Rightarrow> json_dumps \<Rightarrow> json_scan \<Rightarrow> receipt_verifier \<Rightarrow> signed_decision_receipt
   \<Rightarrow> exn + decision_receipt_payload" where
  "receipt_verify jws dumps scan verifier signed_receipt =
     catching (\<lambda>_. True) (DecisionError RECEIPT_INVALID ''decision receipt failed verification'')
       (bindE (deserialize_compact jws (compact_jws signed_receipt) (verifier_key verifier)
                 [JWS_ALGORITHM]) (\<lambda>(header, payload).
        bindE (require (header = protected_header (verifier_key_id verifier))
                 (ValueError ''unexpected protected JWS header'')) (\<lambda>_.
        bindE (scan payload) (\<lambda>raw.
        bindE (case plain_json raw of JObj m \<Rightarrow> Inr m
               | _ \<Rightarrow> Inl (ValueError ''receipt payload is not an object'')) (\<lambda>decoded.
        bindE (canonical_json dumps (JObj decoded)) (\<lambda>canonical.
        bindE (require (canonical = payload)
                 (ValueError ''receipt payload is not RFC 8785 canonical JSON'')) (\<lambda>_.
        payload_validate decoded)))))))"

section \<open>The legal receipts\<close>

text \<open>
  The five shapes a receipt can have: the broker allows or denies, the inventory denies, completes
  an invocation or reports a failed one. The validators accept exactly these.
\<close>

datatype receipt_shape =
  BrokerAllow | BrokerDeny reason | InventoryDeny reason | InventoryCompleted | InventoryFailed

primrec shape_reason :: "receipt_shape \<Rightarrow> reason" where
  "shape_reason BrokerAllow = ALLOW"
| "shape_reason (BrokerDeny r) = r"
| "shape_reason (InventoryDeny r) = r"
| "shape_reason InventoryCompleted = ALLOW"
| "shape_reason InventoryFailed = HANDLER_FAILED"

definition not_invoked :: "decision_receipt_payload \<Rightarrow> bool" where
  "not_invoked p \<longleftrightarrow> \<not> rp_handler_invoked p \<and> rp_invocation_id p = None"

definition was_invoked :: "decision_receipt_payload \<Rightarrow> bool" where
  "was_invoked p \<longleftrightarrow> rp_handler_invoked p \<and>
     (\<exists>n. rp_invocation_id p = Some n \<and> 1 \<le> n \<and> n \<le> rp_handler_count_snapshot p)"

definition bound_call :: "decision_receipt_payload \<Rightarrow> bool" where
  "bound_call p \<longleftrightarrow> truthy (rp_scope p) \<and> truthy (rp_call_method p) \<and> truthy (rp_call_audience p) \<and>
     truthy (rp_arguments_digest p)"

definition bound_spend :: "decision_receipt_payload \<Rightarrow> bool" where
  "bound_spend p \<longleftrightarrow> rp_credential_id p \<noteq> None \<and> truthy (rp_challenge_token_hash p) \<and>
     truthy (rp_record_id p) \<and> truthy (fmlookup (rp_artifact_hashes p) ''resource_policy_sha256'')"

primrec has_shape :: "receipt_shape \<Rightarrow> decision_receipt_payload \<Rightarrow> bool" where
  "has_shape BrokerAllow p \<longleftrightarrow>
     rp_deciding_service p = ''broker'' \<and> rp_decision p = ''allow'' \<and> not_invoked p \<and>
     rp_handler_count_snapshot p = 0 \<and> rp_business_result p = ''not_applicable'' \<and>
     rp_credential_id p \<noteq> None \<and> truthy (rp_manifest_digest p) \<and>
     truthy (rp_challenge_token_hash p) \<and> truthy (rp_scope p) \<and>
     truthy (fmlookup (rp_artifact_hashes p) ''broker_policy_sha256'')"
| "has_shape (BrokerDeny r) p \<longleftrightarrow>
     rp_deciding_service p = ''broker'' \<and> rp_decision p = ''deny'' \<and> not_invoked p \<and>
     rp_handler_count_snapshot p = 0 \<and> rp_business_result p = ''not_applicable'' \<and>
     rp_credential_id p = None \<and> r \<noteq> ALLOW \<and> r \<noteq> HANDLER_FAILED"
| "has_shape (InventoryDeny r) p \<longleftrightarrow>
     rp_deciding_service p = ''inventoryd'' \<and> rp_decision p = ''deny'' \<and> not_invoked p \<and>
     rp_business_result p = ''not_invoked'' \<and> bound_call p \<and> r \<noteq> ALLOW \<and> r \<noteq> HANDLER_FAILED"
| "has_shape InventoryCompleted p \<longleftrightarrow>
     rp_deciding_service p = ''inventoryd'' \<and> rp_decision p = ''allow'' \<and> was_invoked p \<and>
     rp_business_result p = ''completed'' \<and> bound_call p \<and> bound_spend p"
| "has_shape InventoryFailed p \<longleftrightarrow>
     rp_deciding_service p = ''inventoryd'' \<and> rp_decision p = ''allow'' \<and> was_invoked p \<and>
     rp_business_result p = ''failed'' \<and> bound_call p \<and> bound_spend p"

definition legal_receipt :: "decision_receipt_payload \<Rightarrow> bool" where
  "legal_receipt p \<longleftrightarrow>
     rp_schema_version p = ''atcap-decision-receipt/v1'' \<and> 32 \<le> length (rp_receipt_id p) \<and>
     0 \<le> rp_decided_at p \<and> 0 \<le> rp_handler_count_snapshot p \<and>
     (\<exists>shape. has_shape shape p \<and> rp_reason p = reason_str (shape_reason shape))"

lemmas shape_defs = not_invoked_def was_invoked_def bound_call_def bound_spend_def

lemma broker_state_Inr:
  "rp_decision p \<in> {''allow'', ''deny''} \<Longrightarrow>
   broker_state p r = Inr u \<longleftrightarrow>
   \<not> rp_handler_invoked p \<and> rp_business_result p = ''not_applicable'' \<and>
   rp_handler_count_snapshot p = 0 \<and>
   (rp_decision p = ''allow'' \<and> r = ALLOW \<and> rp_credential_id p \<noteq> None \<and>
      truthy (rp_manifest_digest p) \<and> truthy (rp_challenge_token_hash p) \<and> truthy (rp_scope p) \<and>
      truthy (fmlookup (rp_artifact_hashes p) ''broker_policy_sha256'')
    \<or> rp_decision p = ''deny'' \<and> r \<noteq> ALLOW \<and> r \<noteq> HANDLER_FAILED \<and> rp_credential_id p = None)"
  by (auto simp: broker_state_def res_simps)

lemma inventory_state_Inr:
  "rp_decision p \<in> {''allow'', ''deny''} \<Longrightarrow>
   inventory_decision_state p r = Inr u \<longleftrightarrow> bound_call p \<and>
   (rp_decision p = ''deny'' \<and> r \<noteq> ALLOW \<and> r \<noteq> HANDLER_FAILED \<and> \<not> rp_handler_invoked p \<and>
      rp_business_result p = ''not_invoked''
    \<or> rp_decision p = ''allow'' \<and> rp_handler_invoked p \<and> bound_spend p \<and>
      (r = ALLOW \<and> rp_business_result p = ''completed'' \<or>
       r = HANDLER_FAILED \<and> rp_business_result p = ''failed''))"
  by (auto simp: inventory_decision_state_def res_simps shape_defs split: if_splits)

lemma has_shape_fields:
  "has_shape shape p \<Longrightarrow> rp_deciding_service p \<in> {''broker'', ''inventoryd''} \<and>
     rp_decision p \<in> {''allow'', ''deny''} \<and>
     rp_business_result p \<in> {''not_applicable'', ''not_invoked'', ''completed'', ''failed''} \<and>
     (case rp_invocation_id p of None \<Rightarrow> True | Some n \<Rightarrow> 1 \<le> n)"
  by (cases shape) (auto simp: shape_defs)

lemma consistent_has_shape:
  assumes "field_checks p"
  shows "consistent_decision_state p = Inr u \<longleftrightarrow>
    (\<exists>shape. has_shape shape p \<and> rp_reason p = reason_str (shape_reason shape))"
proof -
  from assms have dec: "rp_decision p \<in> {''allow'', ''deny''}"
    and svc: "rp_deciding_service p \<in> {''broker'', ''inventoryd''}"
    and pos: "case rp_invocation_id p of None \<Rightarrow> True | Some n \<Rightarrow> 1 \<le> n"
    by (simp_all add: field_checks_def)
  from assms obtain r where r: "rp_reason p = reason_str r"
    by (auto simp: field_checks_def reason_of_Some)
  have ex: "(\<exists>shape. P shape) \<longleftrightarrow> P BrokerAllow \<or> (\<exists>r. P (BrokerDeny r)) \<or> (\<exists>r. P (InventoryDeny r))
      \<or> P InventoryCompleted \<or> P InventoryFailed" for P
    by (metis receipt_shape.exhaust)
  have inv: "rp_handler_invoked p = (rp_invocation_id p \<noteq> None) \<and>
      (case rp_invocation_id p of None \<Rightarrow> True | Some n \<Rightarrow> \<not> rp_handler_count_snapshot p < n)
      \<longleftrightarrow> not_invoked p \<or> was_invoked p"
    using pos by (cases "rp_invocation_id p") (auto simp: shape_defs)
  have excl: "not_invoked p \<Longrightarrow> \<not> rp_handler_invoked p" "was_invoked p \<Longrightarrow> rp_handler_invoked p"
    by (simp_all add: shape_defs)
  have state: "consistent_decision_state p = Inr () \<longleftrightarrow> (not_invoked p \<or> was_invoked p) \<and>
      (if rp_deciding_service p = ''broker'' then broker_state p r else inventory_decision_state p r) = Inr ()"
    unfolding inv [symmetric] by (simp add: consistent_decision_state_def res_simps r)
  show ?thesis
  proof (cases "rp_deciding_service p = ''broker''")
    case True
    then show ?thesis
      using excl by (auto simp: state ex r broker_state_Inr [OF dec])
  next
    case False
    with svc have "rp_deciding_service p = ''inventoryd''" by simp
    then show ?thesis
      using excl by (auto simp: state ex r inventory_state_Inr [OF dec])
  qed
qed

lemma new_payload_Inr: "new_payload p = Inr q \<longleftrightarrow> q = p \<and> legal_receipt p"
proof
  assume "new_payload p = Inr q"
  then have f: "field_checks p" and c: "consistent_decision_state p = Inr ()" and "q = p"
    by (auto simp: new_payload_def res_simps)
  then show "q = p \<and> legal_receipt p"
    using consistent_has_shape [OF f] by (auto simp: legal_receipt_def field_checks_def)
next
  assume a: "q = p \<and> legal_receipt p"
  then obtain shape where sh: "has_shape shape p" "rp_reason p = reason_str (shape_reason shape)"
    by (auto simp: legal_receipt_def)
  have f: "field_checks p"
    using a has_shape_fields [OF sh(1)] sh(2) by (auto simp: legal_receipt_def field_checks_def)
  with a sh show "new_payload p = Inr q"
    using consistent_has_shape [OF f] by (auto simp: new_payload_def res_simps)
qed

section \<open>Decoding is exact\<close>

lemma payload_names_items: "map fst (payload_items p) = payload_names"
  by (simp add: payload_items_def payload_names_def)

interpretation receipt_model: closed_model payload_names payload_items payload_validate legal_receipt
proof
  show "payload_validate m = Inr p \<longleftrightarrow> closed_keys payload_names m = Inr () \<and>
      (\<forall>(k, v) \<in> set (payload_items p). fmlookup m k = Some v) \<and> legal_receipt p" for m p
    unfolding payload_validate_def
    by (cases p) (auto simp: res_simps get_Inr get_dict_Inr new_payload_Inr payload_items_def)
qed (simp_all add: payload_names_items, simp add: payload_names_def)

lemma payload_validate_Inr:
  "payload_validate m = Inr p \<longleftrightarrow> JObj m = payload_dump p \<and> legal_receipt p"
  unfolding payload_dump_def by (rule receipt_model.accepts_iff)

lemma payload_dump_inject: "payload_dump p = payload_dump q \<longleftrightarrow> p = q"
proof
  assume a: "payload_dump p = payload_dump q"
  note eq = a [unfolded payload_dump_def, THEN obj_lookup]
  have "list_all (\<lambda>k. map_of (payload_items p) k = map_of (payload_items q) k) payload_names"
    using eq by (simp add: list_all_iff)
  then show "p = q"
    by (simp add: payload_names_def payload_items_def)
qed simp

section \<open>Signing and verifying\<close>

lemma receipt_verify_Inr:
  "receipt_verify jws dumps scan v r = Inr p \<longleftrightarrow>
   (\<exists>claims raw. deserialize_compact jws (compact_jws r) (verifier_key v) [JWS_ALGORITHM]
        = Inr (protected_header (verifier_key_id v), claims) \<and>
      scan claims = Inr raw \<and> plain_json raw = payload_dump p \<and>
      dumps (payload_dump p) = Inr claims \<and> legal_receipt p)"
  by (auto simp: receipt_verify_def res_simps split_beta canonical_json_def payload_validate_Inr as_object_Inr)
     (metis obj_def payload_dump_def payload_validate_Inr)

lemma receipt_sign_Inr:
  "receipt_sign jws dumps sg p = Inr r \<longleftrightarrow>
   (\<exists>claims. dumps (payload_dump p) = Inr claims \<and>
      serialize_compact jws (protected_header (signer_key_id sg)) claims (signer_key sg) [JWS_ALGORITHM]
        = Inr (compact_jws r))"
  by (cases r) (auto simp: receipt_sign_def res_simps canonical_json_def)

lemma receipt_verify_error:
  "receipt_verify jws dumps scan v r = Inl e \<Longrightarrow>
   e = DecisionError RECEIPT_INVALID ''decision receipt failed verification''"
  by (auto simp: receipt_verify_def catching_def mapE_def split: sum.splits)

text \<open>C17: a receipt is accepted exactly when its JWS verifies under the configured key with exactly the
  expected protected header, its payload parses to the members of a receipt and nothing else, is the
  canonical text of those members, and the claims are legal: one of the five consistent shapes.\<close>

theorem receipt_accepted_iff:
  "receipt_verify jws dumps scan v r = Inr p \<longleftrightarrow>
   (\<exists>claims raw. deserialize_compact jws (compact_jws r) (verifier_key v) [JWS_ALGORITHM]
        = Inr (protected_header (verifier_key_id v), claims) \<and>
      scan claims = Inr raw \<and> plain_json raw = payload_dump p \<and>
      dumps (payload_dump p) = Inr claims \<and> legal_receipt p)"
  by (rule receipt_verify_Inr)

text \<open>C18: a verifier that holds the public key and the key id of a signer reads back exactly the claims
  that were signed. The hypotheses say that the JWS package returns what it signed and that the
  canonical text parses back.\<close>

theorem sign_then_verify:
  assumes "receipt_sign jws dumps sg p = Inr r" "legal_receipt p"
    and "jws_ok jws (signer_key sg) (verifier_key v) [JWS_ALGORITHM]" "verifier_key_id v = signer_key_id sg"
    and "json_reads_back dumps scan (payload_dump p)"
  shows "receipt_verify jws dumps scan v r = Inr p"
proof -
  from assms(1) obtain claims where c: "dumps (payload_dump p) = Inr claims"
      "serialize_compact jws (protected_header (signer_key_id sg)) claims (signer_key sg) [JWS_ALGORITHM]
        = Inr (compact_jws r)"
    by (auto simp: receipt_sign_Inr)
  with assms(3-5) show ?thesis
    using assms(2) by (auto simp: receipt_verify_Inr jws_ok_def json_reads_back_def)
qed

text \<open>A denial receipt of the broker, with a codec for its canonical text.\<close>

definition demo_claims :: decision_receipt_payload where
  "demo_claims = \<lparr>rp_schema_version = ''atcap-decision-receipt/v1'', rp_receipt_id = replicate 32 (CHR ''0''),
     rp_deciding_service = ''broker'', rp_decision = ''deny'', rp_reason = ''SCOPE_DENIED'', rp_decided_at = 100,
     rp_credential_id = None, rp_scope = Some ''inventory.read'', rp_challenge_token_hash = None, rp_manifest_digest = None,
     rp_call_method = None, rp_call_audience = None, rp_arguments_digest = None, rp_record_id = None, rp_invocation_id = None,
     rp_handler_count_snapshot = 0, rp_handler_invoked = False, rp_business_result = ''not_applicable'',
     rp_artifact_hashes = fmempty\<rparr>"

definition demo_receipt_jws :: jws_lib where
  "demo_receipt_jws =
     \<lparr>serialize_compact = (\<lambda>h p k algs. if h = protected_header ''broker'' \<and> p = [1] then Inr ''jws'' else Inl (ValueError ''key'')),
      deserialize_compact = (\<lambda>c k algs. if c = ''jws'' then Inr (protected_header ''broker'', [1]) else Inl (ValueError ''jws'')),
      okp_as_dict = (\<lambda>k private. JNull), okp_import = (\<lambda>v. Inr [])\<rparr>"

definition demo_claims_raw :: raw_json where
  "demo_claims_raw = RObj
    [(''schema_version'', RStr ''atcap-decision-receipt/v1''), (''receipt_id'', RStr (replicate 32 (CHR ''0''))),
     (''deciding_service'', RStr ''broker''), (''decision'', RStr ''deny''), (''reason'', RStr ''SCOPE_DENIED''),
     (''decided_at'', RInt 100), (''credential_id'', RNull), (''qualified_scope'', RStr ''inventory.read''),
     (''challenge_token_hash'', RNull), (''manifest_digest'', RNull), (''method'', RNull), (''audience'', RNull),
     (''arguments_digest'', RNull), (''record_id'', RNull), (''invocation_id'', RNull),
     (''handler_count_snapshot'', RInt 0), (''handler_invoked'', RBool False), (''business_result'', RStr ''not_applicable''),
     (''artifact_hashes'', RObj [])]"

lemma demo_claims_legal: "legal_receipt demo_claims"
  unfolding legal_receipt_def
  by (auto simp: demo_claims_def shape_defs intro!: exI [of _ "BrokerDeny SCOPE_DENIED"])

lemma demo_claims_parse: "plain_json demo_claims_raw = payload_dump demo_claims"
proof -
  let ?items = "rev (map (\<lambda>p. (fst p, plain_json (snd p))) (case demo_claims_raw of RObj ps \<Rightarrow> ps | _ \<Rightarrow> []))"
  have "fmap_of_list [] = (fmempty :: (string, json) fmap)" by (rule fmap_ext) simp
  then have items: "?items = rev (payload_items demo_claims)"
    by (simp add: demo_claims_raw_def payload_items_def demo_claims_def jdict_def)
  have raw: "plain_json demo_claims_raw = JObj (fmap_of_list ?items)"
    unfolding demo_claims_raw_def by simp
  have "distinct (map fst (payload_items demo_claims))"
    unfolding payload_names_items by (simp add: payload_names_def)
  then have "map_of (rev (payload_items demo_claims)) = map_of (payload_items demo_claims)"
    by (subst map_of_inject_set) (simp_all add: rev_map [symmetric])
  then have "fmap_of_list (rev (payload_items demo_claims)) = fmap_of_list (payload_items demo_claims)"
    by (intro fmap_ext) simp
  then show ?thesis unfolding raw items payload_dump_def obj_def by simp
qed

theorem sign_then_verify_witness:
  "receipt_verify demo_receipt_jws (\<lambda>v. Inr [1]) (\<lambda>b. Inr demo_claims_raw) \<lparr>verifier_key = [2], verifier_key_id = ''broker''\<rparr>
     \<lparr>compact_jws = ''jws''\<rparr> = Inr demo_claims"
proof (rule sign_then_verify [where sg = "\<lparr>signer_key = [3], signer_key_id = ''broker''\<rparr>", OF _ demo_claims_legal])
  show "receipt_sign demo_receipt_jws (\<lambda>v. Inr [1]) \<lparr>signer_key = [3], signer_key_id = ''broker''\<rparr> demo_claims
      = Inr \<lparr>compact_jws = ''jws''\<rparr>"
    by (simp add: receipt_sign_def canonical_json_def demo_receipt_jws_def)
  show "jws_ok demo_receipt_jws (signer_key \<lparr>signer_key = [3], signer_key_id = ''broker''\<rparr>)
      (verifier_key \<lparr>verifier_key = [2], verifier_key_id = ''broker''\<rparr>) [JWS_ALGORITHM]"
    by (simp add: jws_ok_def demo_receipt_jws_def split: if_splits)
  show "json_reads_back (\<lambda>v. Inr [1]) (\<lambda>b. Inr demo_claims_raw) (payload_dump demo_claims)"
    by (simp add: json_reads_back_def demo_claims_parse)
qed simp

text \<open>Signing works for every legal receipt whose numbers the serializer accepts: RFC 8785 text
  carries integers below \<open>2 ^ 53\<close>.\<close>

definition receipts_signable :: "libs \<Rightarrow> receipt_signer \<Rightarrow> bool" where
  "receipts_signable lib sg \<longleftrightarrow>
     (\<forall>p. legal_receipt p \<longrightarrow> rp_decided_at p < 2 ^ 53 \<longrightarrow> rp_handler_count_snapshot p < 2 ^ 53 \<longrightarrow>
        (\<exists>r. receipt_sign (lib_jws lib) (lib_dumps lib) sg p = Inr r))"

end
