(* ===== verification/Tpm.thy ===== *)
theory Tpm
  imports External
begin

text \<open>
  \<^verbatim>\<open>src/atcap/tpm.py\<close>: the qualifying data that binds a quote to a request, the certificate
  profile for attestation keys, the reader of the signed PCR selection and the two appraisers.
  The profile and the reader are proved equal to declarative descriptions.
\<close>

unbundle bit_operations_syntax

section \<open>Qualifying data\<close>

definition issuance_tag :: bytes where
  "issuance_tag = utf8 ''atcap-issuance-v1'' @ [0]"

definition issuance_qualifying_data :: "json_dumps \<Rightarrow> issuance_request \<Rightarrow> exn + bytes" where
  "issuance_qualifying_data dumps request =
     bindE (canonical_json dumps (request_to_dict request)) (\<lambda>body.
     Inr (sha256 (issuance_tag @ body)))"

section \<open>The certificate profile\<close>

definition load_certificates :: "load_pem \<Rightarrow> bytes \<Rightarrow> string \<Rightarrow> exn + certificate list" where
  "load_certificates load pem label =
     bindE (require (pem \<noteq> []) (AkCertificatePolicyError (label @ '' is missing''))) (\<lambda>_.
     bindE (catching (\<lambda>e. is_type_error e \<or> is_value_error e)
              (AkCertificatePolicyError (label @ '' is malformed'')) (load pem)) (\<lambda>certificates.
     bindE (require (certificates \<noteq> [])
              (AkCertificatePolicyError (label @ '' contains no certificates''))) (\<lambda>_.
     Inr certificates)))"

definition is_extension_error :: "exn \<Rightarrow> bool" where
  "is_extension_error e \<longleftrightarrow>
     e = OtherError ''DuplicateExtension'' \<or> e = OtherError ''ExtensionNotFound'' \<or> is_value_error e"

definition required_basic_constraints :: "certificate \<Rightarrow> string \<Rightarrow> exn + basic_constraints" where
  "required_basic_constraints c role =
     catching is_extension_error
       (AkCertificatePolicyError (role @ '' certificate lacks valid BasicConstraints''))
       (ext_basic_constraints c)"

definition required_key_usage :: "certificate \<Rightarrow> string \<Rightarrow> exn + key_usage" where
  "required_key_usage c role =
     catching is_extension_error
       (AkCertificatePolicyError (role @ '' certificate lacks valid KeyUsage''))
       (ext_key_usage c)"

definition require_current :: "certificate \<Rightarrow> string \<Rightarrow> int \<Rightarrow> exn + unit" where
  "require_current c role evaluation_time =
     require (\<not> (evaluation_time < not_valid_before_utc c \<or> evaluation_time \<ge> not_valid_after_utc c))
       (AkCertificatePolicyError (role @ '' certificate is outside its validity window''))"

definition check_leaf :: "int \<Rightarrow> certificate \<Rightarrow> exn + unit" where
  "check_leaf now leaf =
     bindE (require_current leaf ''AK leaf'' now) (\<lambda>_.
     bindE (required_basic_constraints leaf ''AK leaf'') (\<lambda>constraints.
     bindE (require (\<not> bc_ca constraints)
              (AkCertificatePolicyError ''AK leaf certificate must not be a CA'')) (\<lambda>_.
     bindE (required_key_usage leaf ''AK leaf'') (\<lambda>usage.
     require (\<not> (\<not> ku_digital_signature usage \<or> ku_key_cert_sign usage))
       (AkCertificatePolicyError
         ''AK leaf KeyUsage must allow digitalSignature and forbid keyCertSign'')))))"

text \<open>The body of the loop over \<^verbatim>\<open>chain[1:]\<close> for the issuer at one index.\<close>

definition check_issuer :: "int \<Rightarrow> nat \<Rightarrow> nat \<Rightarrow> certificate \<Rightarrow> exn + unit" where
  "check_issuer now chain_length index issuer =
     (let role = (if index = chain_length - 1 then ''AK chain root'' else ''AK issuer '' @ nat_str index)
      in bindE (if index < chain_length - 1 then require_current issuer role now else Inr ()) (\<lambda>_.
         bindE (required_basic_constraints issuer role) (\<lambda>constraints.
         bindE (require (bc_ca constraints)
                  (AkCertificatePolicyError (role @ '' certificate must be a CA''))) (\<lambda>_.
         bindE (required_key_usage issuer role) (\<lambda>usage.
         bindE (require (ku_key_cert_sign usage)
                  (AkCertificatePolicyError (role @ '' KeyUsage must allow keyCertSign''))) (\<lambda>_.
         require (case bc_path_length constraints of None \<Rightarrow> True | Some n \<Rightarrow> \<not> int (index - 1) > n)
           (AkCertificatePolicyError (role @ '' path-length constraint is exceeded''))))))))"

definition check_root :: "nat \<Rightarrow> certificate \<Rightarrow> exn + unit" where
  "check_root index root =
     (let role = ''configured TPM root '' @ nat_str index
      in bindE (required_basic_constraints root role) (\<lambda>constraints.
         bindE (require (bc_ca constraints)
                  (AkCertificatePolicyError (role @ '' certificate must be a CA''))) (\<lambda>_.
         bindE (required_key_usage root role) (\<lambda>usage.
         require (ku_key_cert_sign usage)
           (AkCertificatePolicyError (role @ '' KeyUsage must allow keyCertSign''))))))"

definition enforce_synthetic_ak_certificate_policy ::
  "load_pem \<Rightarrow> bytes \<Rightarrow> bytes \<Rightarrow> py_time \<Rightarrow> exn + unit" where
  "enforce_synthetic_ak_certificate_policy load ak_chain_pem trusted_roots_pem evaluation_time =
     bindE (case evaluation_time of
              NotDatetime \<Rightarrow> Inl (AkCertificatePolicyError ''certificate evaluation time is malformed'')
            | NaiveTime \<Rightarrow> Inl (AkCertificatePolicyError ''certificate evaluation time must be timezone-aware'')
            | AwareTime now \<Rightarrow> Inr now) (\<lambda>now.
     bindE (load_certificates load ak_chain_pem ''AK certificate chain'') (\<lambda>chain.
     bindE (load_certificates load trusted_roots_pem ''trusted TPM roots'') (\<lambda>roots.
     bindE (require (\<not> length chain < 2)
              (AkCertificatePolicyError ''AK certificate chain must contain a leaf and at least one issuer'')) (\<lambda>_.
     bindE (check_leaf now (hd chain)) (\<lambda>_.
     bindE (forE (\<lambda>(index, issuer). check_issuer now (length chain) index issuer)
              (zip [1..<length chain] (tl chain))) (\<lambda>_.
     forE (\<lambda>(index, root). check_root index root) (zip [0..<length roots] roots)))))))"

subsection \<open>The profile, declaratively\<close>

definition current_at :: "int \<Rightarrow> certificate \<Rightarrow> bool" where
  "current_at now c \<longleftrightarrow> not_valid_before_utc c \<le> now \<and> now < not_valid_after_utc c"

definition signing_leaf :: "certificate \<Rightarrow> bool" where
  "signing_leaf c \<longleftrightarrow> (\<exists>bc ku. ext_basic_constraints c = Inr bc \<and> ext_key_usage c = Inr ku \<and>
     \<not> bc_ca bc \<and> ku_digital_signature ku \<and> \<not> ku_key_cert_sign ku)"

definition issuing_ca :: "certificate \<Rightarrow> bool" where
  "issuing_ca c \<longleftrightarrow> (\<exists>bc ku. ext_basic_constraints c = Inr bc \<and> ext_key_usage c = Inr ku \<and>
     bc_ca bc \<and> ku_key_cert_sign ku)"

text \<open>At most \<open>n\<close> subordinate CAs are allowed below the certificate.\<close>

definition path_allows :: "certificate \<Rightarrow> nat \<Rightarrow> bool" where
  "path_allows c n \<longleftrightarrow> (\<forall>bc l. ext_basic_constraints c = Inr bc \<longrightarrow> bc_path_length bc = Some l \<longrightarrow> int n \<le> l)"

definition ak_profile :: "int \<Rightarrow> certificate list \<Rightarrow> certificate list \<Rightarrow> bool" where
  "ak_profile now chain roots \<longleftrightarrow>
     2 \<le> length chain \<and> roots \<noteq> [] \<and> signing_leaf (chain ! 0) \<and>
     (\<forall>i < length chain - 1. current_at now (chain ! i)) \<and>
     (\<forall>i. 0 < i \<longrightarrow> i < length chain \<longrightarrow> issuing_ca (chain ! i) \<and> path_allows (chain ! i) (i - 1)) \<and>
     (\<forall>r \<in> set roots. issuing_ca r)"

lemma load_certificates_Inr:
  "load_certificates load pem label = Inr cs \<longleftrightarrow> pem \<noteq> [] \<and> load pem = Inr cs \<and> cs \<noteq> []"
  by (auto simp: load_certificates_def res_simps)

lemma required_Inr [simp]:
  "required_basic_constraints c role = Inr bc \<longleftrightarrow> ext_basic_constraints c = Inr bc"
  "required_key_usage c role = Inr ku \<longleftrightarrow> ext_key_usage c = Inr ku"
  "require_current c role now = Inr u \<longleftrightarrow> current_at now c"
  by (auto simp: required_basic_constraints_def required_key_usage_def require_current_def current_at_def)

lemma check_leaf_Inr: "check_leaf now c = Inr () \<longleftrightarrow> current_at now c \<and> signing_leaf c"
  by (auto simp: check_leaf_def res_simps signing_leaf_def)

lemma check_root_Inr: "check_root i c = Inr () \<longleftrightarrow> issuing_ca c"
  by (auto simp: check_root_def res_simps issuing_ca_def Let_def)

lemma check_issuer_Inr:
  "check_issuer now n i c = Inr () \<longleftrightarrow>
   (i < n - 1 \<longrightarrow> current_at now c) \<and> issuing_ca c \<and> path_allows c (i - 1)"
  by (auto simp: check_issuer_def res_simps issuing_ca_def path_allows_def Let_def not_less
      split: option.splits)

lemma set_zip_upt: "length xs = m - n \<Longrightarrow> set (zip [n..<m] xs) = {(i, xs ! (i - n)) |i. n \<le> i \<and> i < m}"
proof -
  assume l: "length xs = m - n"
  have "set (zip [n..<m] xs) = {([n..<m] ! j, xs ! j) |j. j < m - n}"
    by (auto simp: set_zip l)
  also have "\<dots> = {(i, xs ! (i - n)) |i. n \<le> i \<and> i < m}"
  proof (intro set_eqI iffI)
    fix x assume "x \<in> {(i, xs ! (i - n)) |i. n \<le> i \<and> i < m}"
    then obtain i where "x = (i, xs ! (i - n))" "n \<le> i" "i < m" by blast
    then show "x \<in> {([n..<m] ! j, xs ! j) |j. j < m - n}" by (auto intro!: exI [of _ "i - n"])
  qed auto
  finally show ?thesis .
qed

lemma enforce_profile_iff:
  "enforce_synthetic_ak_certificate_policy load chain_pem roots_pem t = Inr () \<longleftrightarrow>
   (\<exists>now chain roots. t = AwareTime now \<and> chain_pem \<noteq> [] \<and> load chain_pem = Inr chain \<and>
      roots_pem \<noteq> [] \<and> load roots_pem = Inr roots \<and> ak_profile now chain roots)"
proof -
  have time: "(case t of NotDatetime \<Rightarrow> Inl e | NaiveTime \<Rightarrow> Inl e' | AwareTime now \<Rightarrow> Inr now) = Inr n
      \<longleftrightarrow> t = AwareTime n" for e e' :: exn and n
    by (cases t) auto
  have roots: "forE (\<lambda>(index, root). check_root index root) (zip [0..<length roots] roots) = Inr ()
      \<longleftrightarrow> (\<forall>r \<in> set roots. issuing_ca r)" for roots
    by (auto simp: forE_Inr_iff set_zip_upt check_root_Inr all_set_conv_all_nth)
  have issuers: "forE (\<lambda>(index, issuer). check_issuer now (length chain) index issuer)
        (zip [1..<length chain] (tl chain)) = Inr () \<longleftrightarrow>
      (\<forall>i. 0 < i \<longrightarrow> i < length chain \<longrightarrow> (i < length chain - 1 \<longrightarrow> current_at now (chain ! i)) \<and>
        issuing_ca (chain ! i) \<and> path_allows (chain ! i) (i - 1))" for now chain
  proof -
    have "set (zip [1..<length chain] (tl chain)) = {(i, chain ! i) |i. 0 < i \<and> i < length chain}"
      by (auto simp: set_zip_upt nth_tl)
    then show ?thesis unfolding forE_Inr_iff by (auto simp: check_issuer_Inr)
  qed
  have profile: "ak_profile now chain roots \<longleftrightarrow>
      2 \<le> length chain \<and> roots \<noteq> [] \<and> current_at now (hd chain) \<and> signing_leaf (hd chain) \<and>
      (\<forall>i. 0 < i \<longrightarrow> i < length chain \<longrightarrow> (i < length chain - 1 \<longrightarrow> current_at now (chain ! i)) \<and>
        issuing_ca (chain ! i) \<and> path_allows (chain ! i) (i - 1)) \<and> (\<forall>r \<in> set roots. issuing_ca r)" for now chain roots
  proof (cases "2 \<le> length chain")
    case True
    then have hd: "hd chain = chain ! 0" by (cases chain) auto
    have "(\<forall>i < length chain - 1. current_at now (chain ! i)) \<longleftrightarrow>
        current_at now (chain ! 0) \<and> (\<forall>i. 0 < i \<longrightarrow> i < length chain - 1 \<longrightarrow> current_at now (chain ! i))"
      using True by (metis One_nat_def Suc_1 Suc_le_lessD gr_zeroI zero_less_diff)
    with True show ?thesis unfolding ak_profile_def hd by auto
  qed (simp add: ak_profile_def)
  show ?thesis
    unfolding enforce_synthetic_ak_certificate_policy_def profile
    by (auto simp: bindE_Inr_iff time load_certificates_Inr check_leaf_Inr issuers roots simp del: One_nat_def)
qed

section \<open>The signed PCR selection\<close>

definition byte_indices :: "nat \<Rightarrow> byte \<Rightarrow> int list" where
  "byte_indices byte_index selected =
     map (\<lambda>bit_index. int (byte_index * 8 + bit_index))
       (filter (\<lambda>bit_index. selected AND push_bit bit_index 1 \<noteq> 0) [0..<8])"

definition selection_indices :: "pcr_select \<Rightarrow> exn + int list" where
  "selection_indices sel =
     bindE (mapM_E (\<lambda>byte_index.
              if byte_index < length (ps_pcr_select sel)
              then Inr (byte_indices byte_index (ps_pcr_select sel ! byte_index))
              else Inl (OtherError ''IndexError'')) [0..<ps_sizeof_select sel]) (\<lambda>parts.
     Inr (concat parts))"

definition tpm2_pytss_selection_reader :: "tpm_lib \<Rightarrow> bytes \<Rightarrow> exn + pcr_selection" where
  "tpm2_pytss_selection_reader tpm attest =
     bindE (parse_tpm_attest tpm attest) (\<lambda>raw.
     bindE (attest_unmarshal tpm raw) (\<lambda>(selections, consumed).
     bindE (require (consumed = length raw)
              (ValueError ''TPMS_ATTEST parser did not consume the complete structure'')) (\<lambda>_.
     mapM_E (\<lambda>sel. bindE (selection_indices sel) (\<lambda>indices. Inr (ps_hash sel, indices))) selections)))"

text \<open>The indices are the positions of the set bits, least significant bit of the first byte
  first, in increasing order.\<close>

definition set_bits :: "bytes \<Rightarrow> nat list" where
  "set_bits bs = filter (\<lambda>i. bit (bs ! (i div 8)) (i mod 8)) [0..<8 * length bs]"

lemma and_push_bit: "(w :: byte) AND push_bit n 1 \<noteq> 0 \<longleftrightarrow> bit w n"
  by (rule bit_iff_and_push_bit_not_eq_0 [symmetric])

lemma filter_shift: "filter P [n..<n + m] = map ((+) n) (filter (\<lambda>b. P (n + b)) [0..<m])"
proof -
  have "[n..<n + m] = map ((+) n) [0..<m]" using map_add_upt [of n m] by (simp add: add.commute [of n] cong: map_cong)
  then show ?thesis by (simp add: filter_map o_def)
qed

lemma byte_indices_bits:
  "byte_indices j w = map int (filter (\<lambda>i. bit w (i - 8 * j)) [8 * j..<8 * j + 8])"
  unfolding byte_indices_def and_push_bit
  by (simp add: filter_shift o_def mult.commute del: upt_Suc upt_rec_numeral)

lemma concat_byte_indices:
  "n \<le> length bs \<Longrightarrow>
   concat (map (\<lambda>j. byte_indices j (bs ! j)) [0..<n])
   = map int (filter (\<lambda>i. bit (bs ! (i div 8)) (i mod 8)) [0..<8 * n])"
proof (induction n)
  case (Suc n)
  have "filter (\<lambda>i. bit (bs ! n) (i - 8 * n)) [8 * n..<8 * n + 8]
      = filter (\<lambda>i. bit (bs ! (i div 8)) (i mod 8)) [8 * n..<8 * n + 8]"
  proof (rule filter_cong [OF refl])
    fix i assume "i \<in> set [8 * n..<8 * n + 8]"
    then have d: "i div 8 = n" by auto
    have "i mod 8 = i - 8 * n" unfolding d [symmetric] by (simp add: minus_mult_div_eq_mod)
    with d show "bit (bs ! n) (i - 8 * n) = bit (bs ! (i div 8)) (i mod 8)" by simp
  qed
  moreover have "[0..<8 * Suc n] = [0..<8 * n] @ [8 * n..<8 * n + 8]"
    using upt_add_eq_append [of 0 "8 * n" 8] by (simp add: add.commute)
  ultimately show ?case using Suc by (simp add: byte_indices_bits del: upt_rec_numeral)
qed simp

lemma selection_indices_Inr:
  "selection_indices sel = Inr is \<longleftrightarrow>
   ps_sizeof_select sel \<le> length (ps_pcr_select sel) \<and>
   is = map int (set_bits (take (ps_sizeof_select sel) (ps_pcr_select sel)))"
proof -
  let ?n = "ps_sizeof_select sel" and ?bs = "ps_pcr_select sel"
  let ?f = "\<lambda>j. if j < length ?bs then Inr (byte_indices j (?bs ! j)) else Inl (OtherError ''IndexError'')"
  have "mapM_E ?f [0..<?n] = Inr parts \<longleftrightarrow> ?n \<le> length ?bs \<and> parts = map (\<lambda>j. byte_indices j (?bs ! j)) [0..<?n]" for parts
  proof
    assume "mapM_E ?f [0..<?n] = Inr parts"
    then have a: "list_all2 (\<lambda>j y. ?f j = Inr y) [0..<?n] parts" by (simp add: mapM_E_Inr)
    then have l: "length parts = ?n" by (auto dest: list_all2_lengthD)
    have e: "?f j = Inr (parts ! j)" if "j < ?n" for j
      using list_all2_nthD [OF a, of j] that by (simp del: upt_Suc split: if_splits)
    have "?n \<le> length ?bs"
    proof (rule ccontr)
      assume "\<not> ?n \<le> length ?bs"
      with e [of "length ?bs"] show False by simp
    qed
    moreover have "parts ! j = byte_indices j (?bs ! j)" if "j < ?n" for j
      using e [OF that] by (simp split: if_splits)
    ultimately show "?n \<le> length ?bs \<and> parts = map (\<lambda>j. byte_indices j (?bs ! j)) [0..<?n]"
      using l by (auto intro: nth_equalityI)
  qed (auto simp: mapM_E_Inr list_all2_conv_all_nth)
  moreover have "concat (map (\<lambda>j. byte_indices j (?bs ! j)) [0..<?n]) = map int (set_bits (take ?n ?bs))" if "?n \<le> length ?bs"
  proof -
    have "set_bits (take ?n ?bs) = filter (\<lambda>i. bit (?bs ! (i div 8)) (i mod 8)) [0..<8 * ?n]"
      unfolding set_bits_def using that by (auto intro!: filter_cong)
    then show ?thesis using concat_byte_indices [OF that] by simp
  qed
  ultimately show ?thesis by (auto simp: selection_indices_def res_simps)
qed

section \<open>Appraisers\<close>

fun is_tpm_error :: "exn \<Rightarrow> bool" where
  "is_tpm_error (TpmVerificationError _) = True"
| "is_tpm_error _ = False"

fun tpm_quote_error :: "exn \<Rightarrow> exn" where
  "tpm_quote_error (TpmVerificationError message) =
     DecisionError
       (if str_contains ''chain'' (str_lower message) \<or> str_contains ''root'' (str_lower message)
        then TPM_UNTRUSTED else TPM_INVALID)
       ''TPM quote or AK trust path was rejected''"
| "tpm_quote_error e = e"

type_synonym appraiser = "tpm_evidence \<Rightarrow> bytes \<Rightarrow> tpm_policy \<Rightarrow> exn + unit"

definition released_appraise ::
  "tpm_lib \<Rightarrow> load_pem \<Rightarrow> (bytes \<Rightarrow> exn + pcr_selection) \<Rightarrow> exn + py_time \<Rightarrow> appraiser" where
  "released_appraise tpm load selection_reader evaluation_time evidence expected_qualifying_data policy =
     bindE (catching (\<lambda>_. True) (DecisionError TPM_INVALID ''TPM PCR selection could not be parsed'')
              (selection_reader (te_attest evidence))) (\<lambda>selection.
     bindE (require (selection = tp_selection policy)
              (DecisionError PCR_POLICY ''signed TPM PCR selection is not approved'')) (\<lambda>_.
     bindE (catching (\<lambda>_. True)
              (DecisionError TPM_UNTRUSTED
                ''AK certificate chain does not satisfy the configured synthetic profile'')
              (bindE evaluation_time (\<lambda>time.
               bindE (enforce_synthetic_ak_certificate_policy load (te_ak_chain_pem evidence)
                        (tp_trusted_roots_pem policy) time) (\<lambda>_.
               case time of AwareTime now \<Rightarrow> Inr now | _ \<Rightarrow> Inl (OtherError ''AttributeError''))))) (\<lambda>now.
     bindE (mapE tpm_quote_error
              (verify_tpm_quote tpm (te_attest evidence) (te_signature evidence)
                 (te_ak_chain_pem evidence) (tp_trusted_roots_pem policy) expected_qualifying_data
                 (tp_expected_pcr_digest policy) now)) (\<lambda>verified.
     require verified
       (DecisionError TPM_INVALID ''TPM quote verification did not return True'')))))"

definition test_appraise :: "tpm_evidence \<Rightarrow> appraiser" where
  "test_appraise accepted evidence expected_qualifying_data policy =
     require (evidence = accepted) (DecisionError TPM_UNTRUSTED ''test evidence is not trusted'')"

lemma released_appraise_Inr:
  "released_appraise tpm load reader t ev qd p = Inr () \<longleftrightarrow>
   reader (te_attest ev) = Inr (tp_selection p) \<and>
   (\<exists>now chain roots. t = Inr (AwareTime now) \<and>
      te_ak_chain_pem ev \<noteq> [] \<and> load (te_ak_chain_pem ev) = Inr chain \<and>
      tp_trusted_roots_pem p \<noteq> [] \<and> load (tp_trusted_roots_pem p) = Inr roots \<and>
      ak_profile now chain roots \<and>
      verify_tpm_quote tpm (te_attest ev) (te_signature ev) (te_ak_chain_pem ev)
        (tp_trusted_roots_pem p) qd (tp_expected_pcr_digest p) now = Inr True)"
proof -
  have time: "(case time of AwareTime now \<Rightarrow> Inr now | _ \<Rightarrow> Inl e) = Inr n \<longleftrightarrow> time = AwareTime n"
    for time and e :: exn and n
    by (cases time) auto
  show ?thesis
    unfolding released_appraise_def bindE_Inr_iff
    by (auto simp: time enforce_profile_iff bindE_Inr_iff)
qed

text \<open>C21: the released appraiser accepts exactly when the signed PCR selection is the policy's, the
  evaluation time is an aware instant, chain and roots parse to certificates that satisfy the synthetic
  profile at that instant (a non-CA signing leaf first, issuing CAs above it that are current below the
  last one and whose path lengths allow the CAs beneath them, issuing CAs as configured roots), and the
  packaged quote verifier returned true for this evidence, these roots, this qualifying data, the
  policy's PCR digest and that same instant.\<close>

theorem released_appraise_iff:
  "released_appraise tpm load reader t ev qd p = Inr () \<longleftrightarrow>
   reader (te_attest ev) = Inr (tp_selection p) \<and>
   (\<exists>now chain roots. t = Inr (AwareTime now) \<and>
      te_ak_chain_pem ev \<noteq> [] \<and> load (te_ak_chain_pem ev) = Inr chain \<and>
      tp_trusted_roots_pem p \<noteq> [] \<and> load (tp_trusted_roots_pem p) = Inr roots \<and>
      ak_profile now chain roots \<and>
      verify_tpm_quote tpm (te_attest ev) (te_signature ev) (te_ak_chain_pem ev)
        (tp_trusted_roots_pem p) qd (tp_expected_pcr_digest p) now = Inr True)"
  by (rule released_appraise_Inr)

text \<open>C22: the selection reader returns, bank by bank, exactly the positions of the set bits of the
  selection bytes in increasing order, and it fails when the parser left bytes over or a bank claims
  more bytes than it has.\<close>

theorem selection_reader_set_bits:
  "tpm2_pytss_selection_reader tpm attest = Inr sel \<longleftrightarrow>
   (\<exists>raw sels. parse_tpm_attest tpm attest = Inr raw \<and> attest_unmarshal tpm raw = Inr (sels, length raw) \<and>
      list_all (\<lambda>x. ps_sizeof_select x \<le> length (ps_pcr_select x)) sels \<and>
      sel = map (\<lambda>x. (ps_hash x, map int (set_bits (take (ps_sizeof_select x) (ps_pcr_select x))))) sels)"
proof -
  have "mapM_E (\<lambda>sel. bindE (selection_indices sel) (\<lambda>indices. Inr (ps_hash sel, indices))) sels = Inr sel \<longleftrightarrow>
      list_all (\<lambda>x. ps_sizeof_select x \<le> length (ps_pcr_select x)) sels \<and>
      sel = map (\<lambda>x. (ps_hash x, map int (set_bits (take (ps_sizeof_select x) (ps_pcr_select x))))) sels" for sels sel
    by (induction sels arbitrary: sel) (auto simp: bindE_Inr_iff selection_indices_Inr)
  then show ?thesis
    by (auto simp: tpm2_pytss_selection_reader_def bindE_Inr_iff split_beta)
qed

end
