(* ===== verification/Storage.thy ===== *)
theory Storage
  imports Runtime
begin

text \<open>
  \<^verbatim>\<open>src/atcap/storage.py\<close>: the SQLite store. The three tables are lists of rows and the
  statements the program runs (\<^verbatim>\<open>SELECT\<close> by key, \<^verbatim>\<open>INSERT\<close>,
  \<^verbatim>\<open>INSERT OR IGNORE\<close>, \<^verbatim>\<open>UPDATE ... WHERE\<close>, \<^verbatim>\<open>COUNT\<close>) are functions on
  them, with the row counts the program tests. The theory proves that the keys stay unique,
  that the tables refine an abstract ledger of issued, burned and spent identifiers, and
  states the contract of such a ledger as the locale \<open>one_shot\<close>.
\<close>

section \<open>SQL statements on one table\<close>

text \<open>\<^verbatim>\<open>SELECT ... WHERE <primary key> = ?\<close> and \<^verbatim>\<open>fetchone()\<close>\<close>

definition sql_select :: "('r \<Rightarrow> 'k) \<Rightarrow> 'k \<Rightarrow> 'r list \<Rightarrow> 'r option" where
  "sql_select key k rows = List.find (\<lambda>r. key r = k) rows"

text \<open>\<^verbatim>\<open>INSERT\<close> into a table with a primary key.\<close>

definition sql_insert :: "('r \<Rightarrow> 'k) \<Rightarrow> 'r \<Rightarrow> 'r list \<Rightarrow> exn + 'r list" where
  "sql_insert key r rows =
     (if list_ex (\<lambda>x. key x = key r) rows then Inl (IntegrityError ''UNIQUE constraint failed'')
      else Inr (rows @ [r]))"

text \<open>\<^verbatim>\<open>INSERT OR IGNORE\<close>, with its \<^verbatim>\<open>rowcount\<close>.\<close>

definition sql_insert_or_ignore :: "('r \<Rightarrow> 'k) \<Rightarrow> 'r \<Rightarrow> 'r list \<Rightarrow> nat \<times> 'r list" where
  "sql_insert_or_ignore key r rows =
     (if list_ex (\<lambda>x. key x = key r) rows then (0, rows) else (1, rows @ [r]))"

text \<open>\<^verbatim>\<open>UPDATE ... SET ... WHERE P\<close>, with its \<^verbatim>\<open>rowcount\<close>.\<close>

definition sql_update :: "('r \<Rightarrow> bool) \<Rightarrow> ('r \<Rightarrow> 'r) \<Rightarrow> 'r list \<Rightarrow> nat \<times> 'r list" where
  "sql_update P f rows = (length (filter P rows), map (\<lambda>r. if P r then f r else r) rows)"

text \<open>\<^verbatim>\<open>SELECT COUNT(*) ... WHERE <column> = ?\<close>\<close>

definition sql_count :: "('r \<Rightarrow> bool) \<Rightarrow> 'r list \<Rightarrow> nat" where
  "sql_count P rows = length (filter P rows)"

text \<open>A Python int bound to a parameter must fit a signed 64-bit integer, or the driver
  raises \<^verbatim>\<open>OverflowError\<close>.\<close>

definition sql_int :: "int \<Rightarrow> bool" where
  "sql_int i \<longleftrightarrow> - (2 ^ 63) \<le> i \<and> i < 2 ^ 63"

definition sql_ints :: "int list \<Rightarrow> exn + unit" where
  "sql_ints is = require (list_all sql_int is) (OtherError ''OverflowError'')"

lemma sql_select_Some:
  "sql_select key k rows = Some r \<Longrightarrow> r \<in> set rows \<and> key r = k"
  by (auto simp: sql_select_def find_Some_iff)

lemma sql_select_None: "sql_select key k rows = None \<longleftrightarrow> k \<notin> key ` set rows"
  by (auto simp: sql_select_def find_None_iff)

lemma sql_select_unique:
  "distinct (map key rows) \<Longrightarrow> r \<in> set rows \<Longrightarrow> sql_select key (key r) rows = Some r"
  by (induction rows) (auto simp: sql_select_def)

lemma sql_select_iff:
  "distinct (map key rows) \<Longrightarrow> sql_select key k rows = Some r \<longleftrightarrow> r \<in> set rows \<and> key r = k"
  using sql_select_Some sql_select_unique by fastforce

lemma sql_select_append:
  "sql_select key k (rows @ [r]) =
   (case sql_select key k rows of Some x \<Rightarrow> Some x | None \<Rightarrow> if key r = k then Some r else None)"
  by (induction rows) (auto simp: sql_select_def)

lemma list_ex_key: "list_ex (\<lambda>x. key x = k) rows \<longleftrightarrow> k \<in> key ` set rows"
  by (auto simp: list_ex_iff)

lemma sql_insert_Inr:
  "sql_insert key r rows = Inr rows' \<longleftrightarrow> key r \<notin> key ` set rows \<and> rows' = rows @ [r]"
  by (auto simp: sql_insert_def list_ex_key)

lemma filter_key_unique:
  "distinct (map key rows) \<Longrightarrow> r \<in> set rows \<Longrightarrow> filter (\<lambda>x. key x = key r \<and> P x) rows = (if P r then [r] else [])"
proof (induction rows)
  case (Cons x xs)
  then show ?case
    by (cases "x = r") (auto simp: filter_empty_conv image_iff)
qed simp

lemma sql_select_update:
  assumes "\<And>r. key (f r) = key r"
  shows "sql_select key k (map (\<lambda>r. if P r then f r else r) rows) =
    map_option (\<lambda>r. if P r then f r else r) (sql_select key k rows)"
proof (induction rows)
  case (Cons x xs)
  then show ?case using assms by (auto simp: sql_select_def)
qed (simp add: sql_select_def)

section \<open>The store\<close>

record broker_row =
  br_token_hash :: string
  br_issued_at :: int
  br_expires_at :: int
  br_consumed_at :: "int option"

record resource_row =
  rr_token_hash :: string
  rr_credential_id :: string
  rr_method :: string
  rr_arguments_digest :: string
  rr_record_id :: string
  rr_audience :: string
  rr_issued_at :: int
  rr_expires_at :: int
  rr_consumed_at :: "int option"

record redemption_row =
  rd_credential_id :: string
  rd_token_hash :: string
  rd_record_id :: string
  rd_redeemed_at :: int

record sqlite_store =
  broker_challenges :: "broker_row list"
  resource_challenges :: "resource_row list"
  credential_redemptions :: "redemption_row list"

record stored_env = env +
  db :: sqlite_store

text \<open>\<^verbatim>\<open>SQLiteStore.__init__\<close> and \<^verbatim>\<open>_initialize\<close>: \<^verbatim>\<open>CREATE TABLE IF NOT EXISTS\<close>
  leaves the tables of an existing file alone and gives a new file empty ones.\<close>

definition initialize :: "sqlite_store option \<Rightarrow> sqlite_store" where
  "initialize file = (case file of
     Some st \<Rightarrow> st
   | None \<Rightarrow> \<lparr>broker_challenges = [], resource_challenges = [], credential_redemptions = []\<rparr>)"

record resource_challenge_record =
  rcr_token_hash :: string
  rcr_credential_id :: string
  rcr_method :: string
  rcr_arguments_digest :: string
  rcr_record_id :: string
  rcr_audience :: string
  rcr_expires_at :: int
  rcr_consumed_at :: "int option"

record credential_spend_result =
  first_spend :: bool
  committed_at :: int
  challenge_expires_at :: int

subsection \<open>Transactions\<close>

text \<open>
  \<^verbatim>\<open>BEGIN IMMEDIATE\<close>, then the clock, then the body on the locked store, then
  \<^verbatim>\<open>commit()\<close>. Any exception is followed by \<^verbatim>\<open>rollback()\<close> and re-raised, so the
  store changes only when the commit succeeds.
\<close>

definition transaction ::
  "(int \<Rightarrow> sqlite_store \<Rightarrow> exn + ('a \<times> sqlite_store)) \<Rightarrow> ('b stored_env_scheme, 'a) prog" where
  "transaction body =
     bindM db_connect (\<lambda>_.
     bindM read_clock (\<lambda>locked_now.
     bindM (getM db) (\<lambda>st.
     bindM (liftE (body locked_now st)) (\<lambda>(x, st').
     bindM db_commit (\<lambda>_.
     bindM (modifyM (\<lambda>s. s\<lparr>db := st'\<rparr>)) (\<lambda>_.
     returnM x))))))"

subsection \<open>Broker challenges\<close>

definition insert_broker_challenge :: "string \<Rightarrow> int \<Rightarrow> int \<Rightarrow> sqlite_store \<Rightarrow> exn + sqlite_store" where
  "insert_broker_challenge token_hash issued_at expires_at st =
     bindE (sql_ints [issued_at, expires_at]) (\<lambda>_.
     bindE (sql_insert br_token_hash
              \<lparr>br_token_hash = token_hash, br_issued_at = issued_at, br_expires_at = expires_at,
               br_consumed_at = None\<rparr> (broker_challenges st)) (\<lambda>rows.
     Inr (st\<lparr>broker_challenges := rows\<rparr>)))"

definition store_broker_challenge ::
  "string \<Rightarrow> int \<Rightarrow> int \<Rightarrow> ('b stored_env_scheme, unit) prog" where
  "store_broker_challenge token_hash issued_at expires_at =
     bindM db_connect (\<lambda>_.
     bindM (getM db) (\<lambda>st.
     bindM (liftE (insert_broker_challenge token_hash issued_at expires_at st)) (\<lambda>st'.
     modifyM (\<lambda>s. s\<lparr>db := st'\<rparr>))))"

text \<open>The body of the transaction of \<^verbatim>\<open>consume_broker_challenge\<close>.\<close>

definition consume_broker_tx :: "string \<Rightarrow> int \<Rightarrow> sqlite_store \<Rightarrow> exn + (unit \<times> sqlite_store)" where
  "consume_broker_tx token_hash locked_now st =
     bindE (of_option (DecisionError CHALLENGE_INVALID ''broker challenge was not issued'')
              (sql_select br_token_hash token_hash (broker_challenges st))) (\<lambda>row.
     bindE (require (br_consumed_at row = None)
              (DecisionError CHALLENGE_CONSUMED ''broker challenge was consumed'')) (\<lambda>_.
     bindE (require (\<not> locked_now \<ge> br_expires_at row)
              (DecisionError CHALLENGE_STALE ''broker challenge expired'')) (\<lambda>_.
     bindE (sql_ints [locked_now]) (\<lambda>_.
     let (rowcount, rows) =
           sql_update (\<lambda>r. br_token_hash r = token_hash \<and> br_consumed_at r = None)
             (\<lambda>r. r\<lparr>br_consumed_at := Some locked_now\<rparr>) (broker_challenges st)
     in bindE (require (rowcount = 1)
                 (DecisionError CHALLENGE_CONSUMED ''broker challenge lost a race'')) (\<lambda>_.
        Inr ((), st\<lparr>broker_challenges := rows\<rparr>))))))"

definition consume_broker_challenge :: "string \<Rightarrow> ('b stored_env_scheme, unit) prog" where
  "consume_broker_challenge token_hash = transaction (consume_broker_tx token_hash)"

subsection \<open>Resource challenges and redemptions\<close>

definition insert_resource_challenge :: "resource_row \<Rightarrow> sqlite_store \<Rightarrow> exn + sqlite_store" where
  "insert_resource_challenge row st =
     bindE (sql_ints [rr_issued_at row, rr_expires_at row]) (\<lambda>_.
     bindE (sql_insert rr_token_hash row (resource_challenges st)) (\<lambda>rows.
     Inr (st\<lparr>resource_challenges := rows\<rparr>)))"

definition store_resource_challenge ::
  "string \<Rightarrow> string \<Rightarrow> string \<Rightarrow> string \<Rightarrow> string \<Rightarrow> string \<Rightarrow> int \<Rightarrow> int
   \<Rightarrow> ('b stored_env_scheme, unit) prog" where
  "store_resource_challenge token_hash credential_id method arguments_digest record_id audience
       issued_at expires_at =
     bindM db_connect (\<lambda>_.
     bindM (getM db) (\<lambda>st.
     bindM (liftE (insert_resource_challenge
              \<lparr>rr_token_hash = token_hash, rr_credential_id = credential_id, rr_method = method,
               rr_arguments_digest = arguments_digest, rr_record_id = record_id,
               rr_audience = audience, rr_issued_at = issued_at, rr_expires_at = expires_at,
               rr_consumed_at = None\<rparr> st)) (\<lambda>st'.
     modifyM (\<lambda>s. s\<lparr>db := st'\<rparr>))))"

definition record_of_row :: "resource_row \<Rightarrow> resource_challenge_record" where
  "record_of_row row =
     \<lparr>rcr_token_hash = rr_token_hash row, rcr_credential_id = rr_credential_id row,
      rcr_method = rr_method row, rcr_arguments_digest = rr_arguments_digest row,
      rcr_record_id = rr_record_id row, rcr_audience = rr_audience row,
      rcr_expires_at = rr_expires_at row, rcr_consumed_at = rr_consumed_at row\<rparr>"

definition get_resource_challenge ::
  "string \<Rightarrow> ('b stored_env_scheme, resource_challenge_record option) prog" where
  "get_resource_challenge token_hash =
     bindM db_connect (\<lambda>_.
     getM (\<lambda>s. map_option record_of_row
       (sql_select rr_token_hash token_hash (resource_challenges (db s)))))"

text \<open>The call a challenge is bound to: credential, method, argument digest, record, audience.\<close>

type_synonym call_context = "string \<times> string \<times> string \<times> string \<times> string"

definition row_context :: "resource_row \<Rightarrow> call_context" where
  "row_context row =
     (rr_credential_id row, rr_method row, rr_arguments_digest row, rr_record_id row,
      rr_audience row)"

text \<open>The body of the transaction of \<^verbatim>\<open>consume_challenge_and_spend_credential\<close>.\<close>

definition spend_tx ::
  "string \<Rightarrow> call_context \<Rightarrow> int \<Rightarrow> int \<Rightarrow> int \<Rightarrow> sqlite_store
   \<Rightarrow> exn + (credential_spend_result \<times> sqlite_store)" where
  "spend_tx token_hash expected not_before not_after locked_now st =
     bindE (of_option (DecisionError CHALLENGE_INVALID ''resource challenge was not issued'')
              (sql_select rr_token_hash token_hash (resource_challenges st))) (\<lambda>row.
     bindE (require (rr_consumed_at row = None)
              (DecisionError CHALLENGE_CONSUMED ''resource challenge was consumed'')) (\<lambda>_.
     bindE (require (\<not> locked_now \<ge> rr_expires_at row)
              (DecisionError CHALLENGE_STALE ''resource challenge expired'')) (\<lambda>_.
     bindE (require (\<not> (locked_now < not_before \<or> locked_now > not_after))
              (DecisionError CREDENTIAL_EXPIRED
                ''credential expired while waiting for the SQLite write lock'')) (\<lambda>_.
     bindE (require (row_context row = expected)
              (DecisionError HOLDER_PROOF_INVALID
                ''resource challenge context does not match'')) (\<lambda>_.
     bindE (sql_ints [locked_now]) (\<lambda>_.
     let (credential_id, _, _, record_id, _) = expected;
         (inserted, redemptions) =
           sql_insert_or_ignore rd_credential_id
             \<lparr>rd_credential_id = credential_id, rd_token_hash = token_hash,
              rd_record_id = record_id, rd_redeemed_at = locked_now\<rparr> (credential_redemptions st);
         (updated, rows) =
           sql_update (\<lambda>r. rr_token_hash r = token_hash \<and> rr_consumed_at r = None)
             (\<lambda>r. r\<lparr>rr_consumed_at := Some locked_now\<rparr>) (resource_challenges st)
     in bindE (require (updated = 1)
                 (DecisionError CHALLENGE_CONSUMED ''resource challenge lost a race'')) (\<lambda>_.
        Inr (\<lparr>first_spend = (inserted = 1), committed_at = locked_now,
              challenge_expires_at = rr_expires_at row\<rparr>,
             st\<lparr>resource_challenges := rows, credential_redemptions := redemptions\<rparr>))))))))"

definition consume_challenge_and_spend_credential ::
  "string \<Rightarrow> call_context \<Rightarrow> int \<Rightarrow> int
   \<Rightarrow> ('b stored_env_scheme, credential_spend_result) prog" where
  "consume_challenge_and_spend_credential token_hash expected not_before not_after =
     transaction (spend_tx token_hash expected not_before not_after)"

definition redemption_count :: "string \<Rightarrow> ('b stored_env_scheme, nat) prog" where
  "redemption_count credential_id =
     bindM db_connect (\<lambda>_.
     getM (\<lambda>s. sql_count (\<lambda>r. rd_credential_id r = credential_id) (credential_redemptions (db s))))"

section \<open>Postconditions of the store's operations\<close>

text \<open>A transaction that raises leaves the store as it was; one that returns has run its body
  at the clock reading taken under the lock.\<close>

lemma post_transaction [wp_simps]:
  "post (transaction body) s Q E =
   (let now = clock_at s (ticks s); n = db_calls s; s' = s\<lparr>db_calls := Suc n, ticks := Suc (ticks s)\<rparr>
    in if db_busy s n then E (OperationalError ''database is locked'') (s\<lparr>db_calls := Suc n\<rparr>)
       else (\<forall>e. body now (db s) = Inl e \<longrightarrow> E e s') \<and>
            (\<forall>x st. body now (db s) = Inr (x, st) \<longrightarrow>
               (if db_busy s (Suc n)
                then E (OperationalError ''database is locked'') (s'\<lparr>db_calls := Suc (Suc n)\<rparr>)
                else Q x (s'\<lparr>db_calls := Suc (Suc n), db := st\<rparr>))))"
  by (auto simp: transaction_def wp_simps split_beta Let_def)

lemma transaction_rollback:
  "transaction body s = (Inl e, s') \<Longrightarrow> db s' = db s"
  by (rule post_raiseD [where m = "transaction body" and Q = "\<lambda>_ _. True"])
     (auto simp: wp_simps Let_def)

lemma transaction_commit:
  assumes "transaction body s = (Inr x, s')"
  shows "body (clock_at s (ticks s)) (db s) = Inr (x, db s')"
proof -
  have "post (transaction body) s
      (\<lambda>x s'. body (clock_at s (ticks s)) (db s) = Inr (x, db s')) (\<lambda>_ _. True)"
    by (simp add: wp_simps Let_def)
  from post_returnD [OF this assms] show ?thesis .
qed

lemma post_get_resource_challenge [wp_simps]:
  "post (get_resource_challenge h) s Q E =
   (let s' = s\<lparr>db_calls := Suc (db_calls s)\<rparr>
    in if db_busy s (db_calls s) then E (OperationalError ''database is locked'') s'
       else Q (map_option record_of_row (sql_select rr_token_hash h (resource_challenges (db s)))) s')"
  by (simp add: get_resource_challenge_def wp_simps Let_def)

section \<open>Well-formed stores\<close>

text \<open>
  The primary keys are unique, a challenge was consumed before it expired, and every redemption
  names the challenge that was consumed with it, for the same credential and record and at the
  same instant.
\<close>

definition store_inv :: "sqlite_store \<Rightarrow> bool" where
  "store_inv st \<longleftrightarrow>
     distinct (map br_token_hash (broker_challenges st)) \<and>
     distinct (map rr_token_hash (resource_challenges st)) \<and>
     distinct (map rd_credential_id (credential_redemptions st)) \<and>
     (\<forall>r \<in> set (broker_challenges st). \<forall>t. br_consumed_at r = Some t \<longrightarrow> t < br_expires_at r) \<and>
     (\<forall>r \<in> set (resource_challenges st). \<forall>t. rr_consumed_at r = Some t \<longrightarrow> t < rr_expires_at r) \<and>
     (\<forall>d \<in> set (credential_redemptions st). \<exists>r \<in> set (resource_challenges st).
        rr_token_hash r = rd_token_hash d \<and> rr_credential_id r = rd_credential_id d \<and>
        rr_record_id r = rd_record_id d \<and> rr_consumed_at r = Some (rd_redeemed_at d))"

lemma store_inv_keys:
  "store_inv st \<Longrightarrow> distinct (map br_token_hash (broker_challenges st))"
  "store_inv st \<Longrightarrow> distinct (map rr_token_hash (resource_challenges st))"
  "store_inv st \<Longrightarrow> distinct (map rd_credential_id (credential_redemptions st))"
  by (simp_all add: store_inv_def)

lemma store_inv_initialize_new: "store_inv (initialize None)"
  by (simp add: store_inv_def initialize_def)

lemma sql_ints_Inr [simp]: "sql_ints is = Inr u \<longleftrightarrow> list_all sql_int is"
  by (simp add: sql_ints_def)

lemma insert_broker_challenge_Inr:
  "insert_broker_challenge h i e st = Inr st' \<longleftrightarrow>
   sql_int i \<and> sql_int e \<and> h \<notin> br_token_hash ` set (broker_challenges st) \<and>
   st' = st\<lparr>broker_challenges := broker_challenges st @
     [\<lparr>br_token_hash = h, br_issued_at = i, br_expires_at = e, br_consumed_at = None\<rparr>]\<rparr>"
  by (auto simp: insert_broker_challenge_def res_simps sql_insert_Inr)

lemma insert_resource_challenge_Inr:
  "insert_resource_challenge row st = Inr st' \<longleftrightarrow>
   sql_int (rr_issued_at row) \<and> sql_int (rr_expires_at row) \<and>
   rr_token_hash row \<notin> rr_token_hash ` set (resource_challenges st) \<and>
   st' = st\<lparr>resource_challenges := resource_challenges st @ [row]\<rparr>"
  by (auto simp: insert_resource_challenge_def res_simps sql_insert_Inr)

text \<open>When consumption succeeds, and the store it leaves. The lost-race branch never occurs.\<close>

lemma update_rowcount:
  assumes "distinct (map key rows)" "r \<in> set rows" "key r = k"
  shows "fst (sql_update (\<lambda>x. key x = k \<and> P x) f rows) = (if P r then 1 else 0)"
  using filter_key_unique [OF assms(1,2), of P] assms(3) by (simp add: sql_update_def)

lemma consume_broker_tx_Inr:
  assumes "store_inv st"
  shows "consume_broker_tx h now st = Inr (u, st') \<longleftrightarrow>
    (\<exists>row. sql_select br_token_hash h (broker_challenges st) = Some row \<and>
       br_consumed_at row = None \<and> now < br_expires_at row \<and> sql_int now \<and>
       st' = st\<lparr>broker_challenges := map (\<lambda>r. if br_token_hash r = h \<and> br_consumed_at r = None
              then r\<lparr>br_consumed_at := Some now\<rparr> else r) (broker_challenges st)\<rparr>)"
proof -
  have "sql_select br_token_hash h (broker_challenges st) = Some row \<Longrightarrow> br_consumed_at row = None
    \<Longrightarrow> length (filter (\<lambda>r. br_token_hash r = h \<and> br_consumed_at r = None) (broker_challenges st)) = 1"
    for row
    using update_rowcount [OF store_inv_keys(1) [OF assms], of row h "\<lambda>r. br_consumed_at r = None" id]
    by (auto simp: sql_update_def dest: sql_select_Some)
  then show ?thesis
    by (auto simp: consume_broker_tx_def res_simps sql_update_def)
qed

lemma spend_tx_Inr:
  assumes "store_inv st"
  shows "spend_tx h ctx nb na now st = Inr (res, st') \<longleftrightarrow>
    (\<exists>row. sql_select rr_token_hash h (resource_challenges st) = Some row \<and>
       rr_consumed_at row = None \<and> now < rr_expires_at row \<and> nb \<le> now \<and> now \<le> na \<and>
       row_context row = ctx \<and> sql_int now \<and>
       res = \<lparr>first_spend = (rr_credential_id row \<notin> rd_credential_id ` set (credential_redemptions st)),
              committed_at = now, challenge_expires_at = rr_expires_at row\<rparr> \<and>
       st' = st\<lparr>resource_challenges := map (\<lambda>r. if rr_token_hash r = h \<and> rr_consumed_at r = None
                  then r\<lparr>rr_consumed_at := Some now\<rparr> else r) (resource_challenges st),
               credential_redemptions :=
                 (if rr_credential_id row \<in> rd_credential_id ` set (credential_redemptions st)
                  then credential_redemptions st
                  else credential_redemptions st @
                    [\<lparr>rd_credential_id = rr_credential_id row, rd_token_hash = h,
                      rd_record_id = rr_record_id row, rd_redeemed_at = now\<rparr>])\<rparr>)"
proof -
  have "sql_select rr_token_hash h (resource_challenges st) = Some row \<Longrightarrow> rr_consumed_at row = None
    \<Longrightarrow> length (filter (\<lambda>r. rr_token_hash r = h \<and> rr_consumed_at r = None) (resource_challenges st)) = 1"
    for row
    using update_rowcount [OF store_inv_keys(2) [OF assms], of row h "\<lambda>r. rr_consumed_at r = None" id]
    by (auto simp: sql_update_def dest: sql_select_Some)
  then show ?thesis
    by (auto simp: spend_tx_def res_simps sql_update_def sql_insert_or_ignore_def list_ex_key
        row_context_def Let_def not_less not_le split: if_splits)
qed

subsection \<open>Every operation keeps a store well-formed\<close>

lemma store_inv_insert_broker:
  "store_inv st \<Longrightarrow> insert_broker_challenge h i e st = Inr st' \<Longrightarrow> store_inv st'"
  by (auto simp: insert_broker_challenge_Inr store_inv_def)

lemma store_inv_insert_resource:
  "store_inv st \<Longrightarrow> insert_resource_challenge row st = Inr st' \<Longrightarrow> rr_consumed_at row = None \<Longrightarrow>
   store_inv st'"
  unfolding insert_resource_challenge_Inr
  by (simp add: store_inv_def)

lemma store_inv_consume_broker:
  assumes inv: "store_inv st" and ok: "consume_broker_tx h now st = Inr (u, st')"
  shows "store_inv st'"
proof -
  let ?upd = "\<lambda>r. if br_token_hash r = h \<and> br_consumed_at r = None
                then r\<lparr>br_consumed_at := Some now\<rparr> else r"
  from ok obtain row where row: "sql_select br_token_hash h (broker_challenges st) = Some row"
      "now < br_expires_at row"
    and st': "st' = st\<lparr>broker_challenges := map ?upd (broker_challenges st)\<rparr>"
    unfolding consume_broker_tx_Inr [OF inv] by blast
  from row have "r \<in> set (broker_challenges st) \<Longrightarrow> br_token_hash r = h \<Longrightarrow> now < br_expires_at r" for r
    using sql_select_unique [OF store_inv_keys(1) [OF inv], of r] by auto
  then have expiry: "\<forall>r \<in> set (map ?upd (broker_challenges st)). \<forall>t. br_consumed_at r = Some t \<longrightarrow> t < br_expires_at r"
    using inv unfolding store_inv_def by auto
  have keys: "map br_token_hash (map ?upd (broker_challenges st)) = map br_token_hash (broker_challenges st)"
    by simp
  show ?thesis
    using inv keys expiry unfolding st' store_inv_def by (simp del: map_map)
qed

lemma store_inv_spend:
  assumes inv: "store_inv st" and ok: "spend_tx h ctx nb na now st = Inr (res, st')"
  shows "store_inv st'"
proof -
  let ?upd = "\<lambda>r. if rr_token_hash r = h \<and> rr_consumed_at r = None
                then r\<lparr>rr_consumed_at := Some now\<rparr> else r"
  from ok obtain row where row: "sql_select rr_token_hash h (resource_challenges st) = Some row"
      "rr_consumed_at row = None" "now < rr_expires_at row"
    and st': "st' = st\<lparr>resource_challenges := map ?upd (resource_challenges st),
               credential_redemptions :=
                 (if rr_credential_id row \<in> rd_credential_id ` set (credential_redemptions st)
                  then credential_redemptions st
                  else credential_redemptions st @
                    [\<lparr>rd_credential_id = rr_credential_id row, rd_token_hash = h,
                      rd_record_id = rr_record_id row, rd_redeemed_at = now\<rparr>])\<rparr>"
    unfolding spend_tx_Inr [OF inv] by blast
  note mem = sql_select_Some [OF row(1)]
  have keys: "map rr_token_hash (map ?upd (resource_challenges st)) = map rr_token_hash (resource_challenges st)"
    by simp
  have live: "r \<in> set (resource_challenges st) \<Longrightarrow> rr_token_hash r = h \<Longrightarrow> r = row" for r
    using sql_select_unique [OF store_inv_keys(2) [OF inv], of r] row(1) by auto
  have old: "\<exists>r \<in> set (map ?upd (resource_challenges st)). rr_token_hash r = rd_token_hash d \<and>
      rr_credential_id r = rd_credential_id d \<and> rr_record_id r = rd_record_id d \<and>
      rr_consumed_at r = Some (rd_redeemed_at d)" if "d \<in> set (credential_redemptions st)" for d
  proof -
    from inv that obtain r where r: "r \<in> set (resource_challenges st)" "rr_token_hash r = rd_token_hash d"
        "rr_credential_id r = rd_credential_id d" "rr_record_id r = rd_record_id d"
        "rr_consumed_at r = Some (rd_redeemed_at d)"
      unfolding store_inv_def by blast
    then have "?upd r = r" by simp
    with r show ?thesis by (auto intro!: image_eqI [of _ ?upd r])
  qed
  have new: "\<exists>r \<in> set (map ?upd (resource_challenges st)). rr_token_hash r = h \<and>
      rr_credential_id r = rr_credential_id row \<and> rr_record_id r = rr_record_id row \<and>
      rr_consumed_at r = Some now"
    using mem row(2) by (intro bexI [of _ "?upd row"]) auto
  have expiry: "\<forall>r \<in> set (map ?upd (resource_challenges st)). \<forall>t. rr_consumed_at r = Some t \<longrightarrow> t < rr_expires_at r"
    using inv row(3) live unfolding store_inv_def by auto
  show ?thesis
    using inv keys old new expiry unfolding st' store_inv_def by (simp del: map_map)
qed

text \<open>A new row for a call context.\<close>

definition resource_row_of :: "string \<Rightarrow> call_context \<Rightarrow> int \<Rightarrow> int \<Rightarrow> resource_row" where
  "resource_row_of h ctx issued_at expires_at =
     (case ctx of (credential_id, method, arguments_digest, record_id, audience) \<Rightarrow>
       \<lparr>rr_token_hash = h, rr_credential_id = credential_id, rr_method = method,
        rr_arguments_digest = arguments_digest, rr_record_id = record_id, rr_audience = audience,
        rr_issued_at = issued_at, rr_expires_at = expires_at, rr_consumed_at = None\<rparr>)"

lemma resource_row_of_simps [simp]:
  "rr_token_hash (resource_row_of h ctx i e) = h"
  "rr_consumed_at (resource_row_of h ctx i e) = None"
  "row_context (resource_row_of h ctx i e) = ctx"
  "rr_expires_at (resource_row_of h ctx i e) = e"
  by (simp_all add: resource_row_of_def row_context_def split_beta)

section \<open>Refinement: the ledger the tables implement\<close>

record ledger =
  b_issued :: "string \<rightharpoonup> int"
  b_burned :: "string set"
  r_issued :: "string \<rightharpoonup> call_context \<times> int"
  r_burned :: "string set"
  spent :: "string set"

definition consumed_keys :: "('r \<Rightarrow> 'k) \<Rightarrow> ('r \<Rightarrow> 't option) \<Rightarrow> 'r list \<Rightarrow> 'k set" where
  "consumed_keys key used rows =
     {k. case sql_select key k rows of None \<Rightarrow> False | Some r \<Rightarrow> used r \<noteq> None}"

lemma consumed_keys_mark:
  assumes "\<And>r. key (f r) = key r" "\<And>r. used (f r) \<noteq> None" "sql_select key h rows = Some row"
  shows "consumed_keys key used (map (\<lambda>r. if key r = h \<and> used r = None then f r else r) rows)
       = insert h (consumed_keys key used rows)"
proof -
  have "k \<in> consumed_keys key used (map (\<lambda>r. if key r = h \<and> used r = None then f r else r) rows)
      \<longleftrightarrow> k = h \<or> k \<in> consumed_keys key used rows" for k
  proof (cases "sql_select key k rows")
    case None
    with assms(3) show ?thesis by (auto simp: consumed_keys_def sql_select_update assms(1))
  next
    case (Some r)
    then have k: "key r = k" by (auto dest: sql_select_Some)
    have u: "used (f r) \<noteq> None" by (rule assms(2))
    have "sql_select key k (map (\<lambda>r. if key r = h \<and> used r = None then f r else r) rows)
        = Some (if k = h \<and> used r = None then f r else r)"
      by (simp add: sql_select_update assms(1) Some k)
    with u show ?thesis by (auto simp: consumed_keys_def Some)
  qed
  then show ?thesis by auto
qed

lemma lookup_mark:
  assumes "\<And>r. key (f r) = key r" "\<And>r. v (f r) = v r"
  shows "map_option v (sql_select key k (map (\<lambda>r. if P r then f r else r) rows))
       = map_option v (sql_select key k rows)"
  by (cases "sql_select key k rows") (simp_all add: sql_select_update assms)

definition abs_store :: "sqlite_store \<Rightarrow> ledger" where
  "abs_store st =
     \<lparr>b_issued = (\<lambda>h. map_option br_expires_at (sql_select br_token_hash h (broker_challenges st))),
      b_burned = consumed_keys br_token_hash br_consumed_at (broker_challenges st),
      r_issued = (\<lambda>h. map_option (\<lambda>r. (row_context r, rr_expires_at r))
                    (sql_select rr_token_hash h (resource_challenges st))),
      r_burned = consumed_keys rr_token_hash rr_consumed_at (resource_challenges st),
      spent = rd_credential_id ` set (credential_redemptions st)\<rparr>"

definition spec_consume :: "string \<Rightarrow> int \<Rightarrow> ledger \<Rightarrow> reason + ledger" where
  "spec_consume h now L = (case b_issued L h of
     None \<Rightarrow> Inl CHALLENGE_INVALID
   | Some expiry \<Rightarrow>
       if h \<in> b_burned L then Inl CHALLENGE_CONSUMED
       else if expiry \<le> now then Inl CHALLENGE_STALE
       else Inr (L\<lparr>b_burned := insert h (b_burned L)\<rparr>))"

definition spec_spend :: "string \<Rightarrow> call_context \<Rightarrow> int \<Rightarrow> int \<Rightarrow> int \<Rightarrow> ledger \<Rightarrow> reason + (bool \<times> ledger)" where
  "spec_spend h ctx nb na now L = (case r_issued L h of
     None \<Rightarrow> Inl CHALLENGE_INVALID
   | Some (bound, expiry) \<Rightarrow>
       if h \<in> r_burned L then Inl CHALLENGE_CONSUMED
       else if expiry \<le> now then Inl CHALLENGE_STALE
       else if now < nb \<or> na < now then Inl CREDENTIAL_EXPIRED
       else if bound \<noteq> ctx then Inl HOLDER_PROOF_INVALID
       else Inr (fst ctx \<notin> spent L,
                 L\<lparr>r_burned := insert h (r_burned L), spent := insert (fst ctx) (spent L)\<rparr>))"

text \<open>The reason a decision error carries; every other exception is an internal error.\<close>

fun exn_reason :: "exn \<Rightarrow> reason" where
  "exn_reason (DecisionError r _) = r"
| "exn_reason _ = INTERNAL_ERROR"

text \<open>Consuming a broker challenge refines the ledger. On a well-formed store the transaction body
  answers with the reason the ledger gives (never issued, already consumed, expired), and otherwise
  leaves a store whose ledger has exactly this challenge burned in addition.\<close>

theorem consume_broker_refines:
  assumes inv: "store_inv st" and now: "sql_int now"
  shows "map_sum exn_reason (\<lambda>(_, st'). abs_store st') (consume_broker_tx h now st)
       = spec_consume h now (abs_store st)"
proof (cases "sql_select br_token_hash h (broker_challenges st)")
  case None
  then show ?thesis by (simp add: consume_broker_tx_def spec_consume_def abs_store_def)
next
  case (Some row)
  show ?thesis
  proof (cases "br_consumed_at row = None \<and> now < br_expires_at row")
    case False
    with Some show ?thesis
      by (cases "br_consumed_at row") (auto simp: consume_broker_tx_def spec_consume_def abs_store_def consumed_keys_def)
  next
    case True
    let ?st' = "st\<lparr>broker_challenges := map (\<lambda>r. if br_token_hash r = h \<and> br_consumed_at r = None
              then r\<lparr>br_consumed_at := Some now\<rparr> else r) (broker_challenges st)\<rparr>"
    have ok: "consume_broker_tx h now st = Inr ((), ?st')"
      using True Some now by (simp add: consume_broker_tx_Inr [OF inv])
    have "abs_store ?st' = (abs_store st)\<lparr>b_burned := insert h (b_burned (abs_store st))\<rparr>"
      using consumed_keys_mark [of br_token_hash "\<lambda>r. r\<lparr>br_consumed_at := Some now\<rparr>" br_consumed_at, OF _ _ Some]
      by (simp add: abs_store_def lookup_mark)
    with True Some show ?thesis unfolding ok by (simp add: spec_consume_def abs_store_def consumed_keys_def)
  qed
qed

text \<open>A store with one pending broker challenge and one pending resource challenge.\<close>

definition demo_pending :: sqlite_store where
  "demo_pending = \<lparr>broker_challenges = [\<lparr>br_token_hash = ''h'', br_issued_at = 1, br_expires_at = 9, br_consumed_at = None\<rparr>],
     resource_challenges = [resource_row_of ''h'' (''c'', ''m'', ''a'', ''r'', ''u'') 1 9], credential_redemptions = []\<rparr>"

lemma demo_pending_inv: "store_inv demo_pending"
  by (simp add: store_inv_def demo_pending_def resource_row_of_def)

theorem consume_broker_refines_witness:
  "map_sum exn_reason (\<lambda>(_, st'). abs_store st') (consume_broker_tx ''h'' 5 demo_pending) = spec_consume ''h'' 5 (abs_store demo_pending) \<and>
   spec_consume ''h'' 5 (abs_store demo_pending) = Inr ((abs_store demo_pending)\<lparr>b_burned := {''h''}\<rparr>)"
proof -
  have "sql_int 5" by (simp add: sql_int_def)
  moreover have "spec_consume ''h'' 5 (abs_store demo_pending) = Inr ((abs_store demo_pending)\<lparr>b_burned := {''h''}\<rparr>)"
    by (auto simp: spec_consume_def abs_store_def demo_pending_def sql_select_def consumed_keys_def split: if_splits)
  ultimately show ?thesis using consume_broker_refines [OF demo_pending_inv] by blast
qed

text \<open>C14: spending refines the ledger. On a well-formed store the one transaction that consumes a
  resource challenge and spends a credential answers with the ledger's reason (not issued, consumed,
  expired, credential outside its window, bound to another call), and otherwise burns exactly this
  challenge, records exactly this credential, and says truthfully whether it was its first spend.\<close>

theorem spend_refines:
  assumes inv: "store_inv st" and now: "sql_int now"
  shows "map_sum exn_reason (\<lambda>(res, st'). (first_spend res, abs_store st')) (spend_tx h ctx nb na now st)
       = spec_spend h ctx nb na now (abs_store st)"
proof (cases "sql_select rr_token_hash h (resource_challenges st)")
  case None
  then show ?thesis by (simp add: spend_tx_def spec_spend_def abs_store_def)
next
  case (Some row)
  let ?ok = "rr_consumed_at row = None \<and> now < rr_expires_at row \<and> nb \<le> now \<and> now \<le> na \<and> row_context row = ctx"
  show ?thesis
  proof (cases ?ok)
    case False
    with Some show ?thesis
      by (cases "rr_consumed_at row")
         (auto simp: spend_tx_def spec_spend_def abs_store_def consumed_keys_def bindE_def require_def)
  next
    case True
    then have cred: "fst ctx = rr_credential_id row" by (auto simp: row_context_def)
    from True Some now obtain res st' where ok: "spend_tx h ctx nb na now st = Inr (res, st')"
      and res: "first_spend res = (rr_credential_id row \<notin> rd_credential_id ` set (credential_redemptions st))"
      and st': "st' = st\<lparr>resource_challenges := map (\<lambda>r. if rr_token_hash r = h \<and> rr_consumed_at r = None
                  then r\<lparr>rr_consumed_at := Some now\<rparr> else r) (resource_challenges st),
               credential_redemptions :=
                 (if rr_credential_id row \<in> rd_credential_id ` set (credential_redemptions st)
                  then credential_redemptions st
                  else credential_redemptions st @
                    [\<lparr>rd_credential_id = rr_credential_id row, rd_token_hash = h,
                      rd_record_id = rr_record_id row, rd_redeemed_at = now\<rparr>])\<rparr>"
      by (simp add: spend_tx_Inr [OF inv])
    have "abs_store st' = (abs_store st)\<lparr>r_burned := insert h (r_burned (abs_store st)),
        spent := insert (rr_credential_id row) (spent (abs_store st))\<rparr>"
      using consumed_keys_mark [of rr_token_hash "\<lambda>r. r\<lparr>rr_consumed_at := Some now\<rparr>" rr_consumed_at, OF _ _ Some]
      by (auto simp: st' abs_store_def lookup_mark row_context_def)
    with True Some res cred show ?thesis
      unfolding ok by (simp add: spec_spend_def abs_store_def consumed_keys_def not_less)
  qed
qed

theorem spend_refines_witness:
  "map_sum exn_reason (\<lambda>(res, st'). (first_spend res, abs_store st')) (spend_tx ''h'' (''c'', ''m'', ''a'', ''r'', ''u'') 0 8 5 demo_pending)
   = spec_spend ''h'' (''c'', ''m'', ''a'', ''r'', ''u'') 0 8 5 (abs_store demo_pending)"
proof -
  have "sql_int 5" by (simp add: sql_int_def)
  then show ?thesis using spend_refines [OF demo_pending_inv] by blast
qed


section \<open>Ledgers whose identifiers are claimed once\<close>

text \<open>
  The contract a client of the store relies on: \<open>step x s\<close> is the effect of one operation,
  \<open>won x s\<close> the identifier it claims when it succeeds, \<open>claimed s\<close> the identifiers claimed so
  far. Whatever the sequence of operations, no identifier is won twice.
\<close>

locale one_shot =
  fixes step :: "'op \<Rightarrow> 's \<Rightarrow> 's"
    and won :: "'op \<Rightarrow> 's \<Rightarrow> 'k option"
    and claimed :: "'s \<Rightarrow> 'k set"
    and inv :: "'s \<Rightarrow> bool"
  assumes inv_step: "inv s \<Longrightarrow> inv (step x s)"
    and won_fresh: "inv s \<Longrightarrow> won x s = Some k \<Longrightarrow> k \<notin> claimed s"
    and won_claimed: "inv s \<Longrightarrow> won x s = Some k \<Longrightarrow> k \<in> claimed (step x s)"
    and claimed_mono: "inv s \<Longrightarrow> claimed s \<subseteq> claimed (step x s)"
begin

primrec run :: "'op list \<Rightarrow> 's \<Rightarrow> 's" where
  "run [] s = s"
| "run (x # xs) s = run xs (step x s)"

primrec wins :: "'op list \<Rightarrow> 's \<Rightarrow> 'k list" where
  "wins [] s = []"
| "wins (x # xs) s = (case won x s of None \<Rightarrow> [] | Some k \<Rightarrow> [k]) @ wins xs (step x s)"

lemma run_inv: "inv s \<Longrightarrow> inv (run xs s)"
  by (induction xs arbitrary: s) (auto intro: inv_step)

lemma run_claimed: "inv s \<Longrightarrow> claimed s \<subseteq> claimed (run xs s)"
proof (induction xs arbitrary: s)
  case (Cons x xs)
  then have "claimed (step x s) \<subseteq> claimed (run xs (step x s))" by (blast intro: inv_step)
  with Cons.prems claimed_mono show ?case by fastforce
qed simp

lemma wins_new: "inv s \<Longrightarrow> k \<in> set (wins xs s) \<Longrightarrow> k \<notin> claimed s"
proof (induction xs arbitrary: s)
  case (Cons x xs)
  then show ?case
    using won_fresh claimed_mono inv_step by (fastforce split: option.splits)
qed simp

lemma wins_distinct: "inv s \<Longrightarrow> distinct (wins xs s)"
proof (induction xs arbitrary: s)
  case (Cons x xs)
  then have "distinct (wins xs (step x s))" by (blast intro: inv_step)
  moreover have "k \<notin> set (wins xs (step x s))" if "won x s = Some k" for k
    using wins_new [OF inv_step [OF Cons.prems]] won_claimed [OF Cons.prems that] by blast
  ultimately show ?case by (auto split: option.splits)
qed simp

lemma wins_claimed: "inv s \<Longrightarrow> set (wins xs s) \<subseteq> claimed (run xs s)"
proof (induction xs arbitrary: s)
  case (Cons x xs)
  have "k \<in> claimed (run xs (step x s))" if "won x s = Some k" for k
    using won_claimed [OF Cons.prems that] run_claimed [OF inv_step [OF Cons.prems]] by blast
  moreover have "set (wins xs (step x s)) \<subseteq> claimed (run xs (step x s))"
    by (rule Cons.IH [OF inv_step [OF Cons.prems]])
  ultimately show ?case by (auto split: option.splits)
qed simp

end

text \<open>The store's mutating operations, as one type of events; a failed operation changes nothing.\<close>

datatype store_op =
  StoreBroker string int int
| ConsumeBroker string int
| StoreResource string call_context int int
| Spend string call_context int int int

fun apply_op :: "store_op \<Rightarrow> sqlite_store \<Rightarrow> sqlite_store" where
  "apply_op (StoreBroker h i e) st = (case insert_broker_challenge h i e st of Inl _ \<Rightarrow> st | Inr st' \<Rightarrow> st')"
| "apply_op (ConsumeBroker h now) st = (case consume_broker_tx h now st of Inl _ \<Rightarrow> st | Inr (_, st') \<Rightarrow> st')"
| "apply_op (StoreResource h ctx i e) st =
     (case insert_resource_challenge (resource_row_of h ctx i e) st of Inl _ \<Rightarrow> st | Inr st' \<Rightarrow> st')"
| "apply_op (Spend h ctx nb na now) st = (case spend_tx h ctx nb na now st of Inl _ \<Rightarrow> st | Inr (_, st') \<Rightarrow> st')"

fun broker_won :: "store_op \<Rightarrow> sqlite_store \<Rightarrow> string option" where
  "broker_won (ConsumeBroker h now) st = (case consume_broker_tx h now st of Inl _ \<Rightarrow> None | Inr _ \<Rightarrow> Some h)"
| "broker_won _ st = None"

fun resource_won :: "store_op \<Rightarrow> sqlite_store \<Rightarrow> string option" where
  "resource_won (Spend h ctx nb na now) st = (case spend_tx h ctx nb na now st of Inl _ \<Rightarrow> None | Inr _ \<Rightarrow> Some h)"
| "resource_won _ st = None"

fun credential_won :: "store_op \<Rightarrow> sqlite_store \<Rightarrow> string option" where
  "credential_won (Spend h ctx nb na now) st =
     (case spend_tx h ctx nb na now st of
        Inl _ \<Rightarrow> None
      | Inr (res, _) \<Rightarrow> if first_spend res then Some (fst ctx) else None)"
| "credential_won _ st = None"

lemma apply_op_inv: "store_inv st \<Longrightarrow> store_inv (apply_op x st)"
  by (cases x)
     (auto split: sum.splits prod.splits dest: store_inv_insert_broker store_inv_consume_broker
        store_inv_spend store_inv_insert_resource)

text \<open>C15: every operation that changes the store keeps it well-formed, whether it succeeds or fails:
  keys stay unique, consumption precedes expiry, and each redemption names the challenge consumed with
  it, for the same credential and record and at the same instant. So do all sequences of operations
  from a new database.\<close>

theorem store_operations_keep_inv:
  "store_inv (foldl (\<lambda>st x. apply_op x st) (initialize None) ops)"
proof -
  have "store_inv st \<Longrightarrow> store_inv (foldl (\<lambda>st x. apply_op x st) st ops)" for st
    by (induction ops arbitrary: st) (auto intro: apply_op_inv)
  then show ?thesis using store_inv_initialize_new by blast
qed

lemma fst_row_context [simp]: "fst (row_context row) = rr_credential_id row"
  by (simp add: row_context_def)

lemma b_burned_apply:
  assumes "store_inv st"
  shows "b_burned (abs_store (apply_op x st)) =
    (case broker_won x st of None \<Rightarrow> {} | Some h \<Rightarrow> {h}) \<union> b_burned (abs_store st)"
proof (cases x)
  case (StoreBroker h i e)
  then show ?thesis
    by (auto simp: insert_broker_challenge_Inr abs_store_def consumed_keys_def sql_select_append
        split: sum.splits option.splits if_splits)
next
  case (ConsumeBroker h now)
  show ?thesis
  proof (cases "consume_broker_tx h now st")
    case (Inr res)
    then obtain row where "sql_select br_token_hash h (broker_challenges st) = Some row"
      and "snd res = st\<lparr>broker_challenges := map (\<lambda>r. if br_token_hash r = h \<and> br_consumed_at r = None
              then r\<lparr>br_consumed_at := Some now\<rparr> else r) (broker_challenges st)\<rparr>"
      by (cases res) (auto simp: consume_broker_tx_Inr [OF assms])
    with Inr ConsumeBroker show ?thesis
      using consumed_keys_mark [of br_token_hash "\<lambda>r. r\<lparr>br_consumed_at := Some now\<rparr>" br_consumed_at h]
      by (simp add: abs_store_def split_beta)
  qed (simp add: ConsumeBroker)
next
  case (Spend h ctx nb na now)
  then show ?thesis
    by (auto simp: spend_tx_Inr [OF assms] abs_store_def split: sum.splits)
qed (auto simp: insert_resource_challenge_Inr abs_store_def split: sum.splits)

lemma r_burned_apply:
  assumes "store_inv st"
  shows "r_burned (abs_store (apply_op x st)) =
    (case resource_won x st of None \<Rightarrow> {} | Some h \<Rightarrow> {h}) \<union> r_burned (abs_store st)"
proof (cases x)
  case (StoreResource h ctx i e)
  then show ?thesis
    by (auto simp: insert_resource_challenge_Inr abs_store_def consumed_keys_def sql_select_append
        split: sum.splits option.splits if_splits)
next
  case (ConsumeBroker h now)
  then show ?thesis
    by (auto simp: consume_broker_tx_Inr [OF assms] abs_store_def split: sum.splits)
next
  case (Spend h ctx nb na now)
  show ?thesis
  proof (cases "spend_tx h ctx nb na now st")
    case (Inr res)
    then obtain row where "sql_select rr_token_hash h (resource_challenges st) = Some row"
      and "resource_challenges (snd res) = map (\<lambda>r. if rr_token_hash r = h \<and> rr_consumed_at r = None
              then r\<lparr>rr_consumed_at := Some now\<rparr> else r) (resource_challenges st)"
      by (cases res) (auto simp: spend_tx_Inr [OF assms])
    with Inr Spend show ?thesis
      using consumed_keys_mark [of rr_token_hash "\<lambda>r. r\<lparr>rr_consumed_at := Some now\<rparr>" rr_consumed_at h]
      by (simp add: abs_store_def split_beta)
  qed (simp add: Spend)
qed (auto simp: insert_broker_challenge_Inr abs_store_def split: sum.splits)

lemma spent_apply:
  assumes "store_inv st"
  shows "spent (abs_store (apply_op x st)) =
    (case credential_won x st of None \<Rightarrow> {} | Some c \<Rightarrow> {c}) \<union> spent (abs_store st)"
proof (cases x)
  case (Spend h ctx nb na now)
  then show ?thesis
    by (auto simp: spend_tx_Inr [OF assms] abs_store_def split: sum.splits)
qed (auto simp: insert_broker_challenge_Inr insert_resource_challenge_Inr consume_broker_tx_Inr [OF assms]
       abs_store_def split: sum.splits)

lemma broker_won_fresh:
  "store_inv st \<Longrightarrow> broker_won x st = Some h \<Longrightarrow> h \<notin> b_burned (abs_store st)"
  by (cases x) (auto simp: consume_broker_tx_Inr abs_store_def consumed_keys_def split: sum.splits)

lemma resource_won_fresh:
  "store_inv st \<Longrightarrow> resource_won x st = Some h \<Longrightarrow> h \<notin> r_burned (abs_store st)"
  by (cases x) (auto simp: spend_tx_Inr abs_store_def consumed_keys_def split: sum.splits)

lemma credential_won_fresh:
  "store_inv st \<Longrightarrow> credential_won x st = Some c \<Longrightarrow> c \<notin> spent (abs_store st)"
  by (cases x) (auto simp: spend_tx_Inr abs_store_def row_context_def split: sum.splits if_splits)

interpretation broker_burn: one_shot apply_op broker_won "\<lambda>st. b_burned (abs_store st)" store_inv
  by unfold_locales (auto simp: apply_op_inv broker_won_fresh b_burned_apply)

interpretation resource_burn: one_shot apply_op resource_won "\<lambda>st. r_burned (abs_store st)" store_inv
  by unfold_locales (auto simp: apply_op_inv resource_won_fresh r_burned_apply)

interpretation credential_spend: one_shot apply_op credential_won "\<lambda>st. spent (abs_store st)" store_inv
  by unfold_locales (auto simp: apply_op_inv credential_won_fresh spent_apply)

end
