(* ===== verification/Broker.thy ===== *)
theory Broker
  imports Challenge Identity Manifest_Verifier Receipt Tpm Storage
begin

text \<open>
  \<^verbatim>\<open>src/atcap/broker.py\<close>: the issuance decision. The arguments of \<^verbatim>\<open>issue\<close> arrive as
  in-memory objects of any class, so they are modelled as a class name with attributes. The locals
  \<^verbatim>\<open>token_hash\<close>, \<^verbatim>\<open>manifest_digest\<close> and \<^verbatim>\<open>artifact_hashes\<close>, which the exception
  handlers read, are fields of the state.
\<close>

section \<open>Runtime validation\<close>

datatype pyval = PyStr string | PyBytes bytes | PyOther

record pyobj =
  py_class :: string
  py_attrs :: "(string, pyval) fmap"

definition str_field :: "pyobj \<Rightarrow> string \<Rightarrow> exn + string" where
  "str_field ob name = (case fmlookup (py_attrs ob) name of
     Some (PyStr s) \<Rightarrow> Inr s
   | _ \<Rightarrow> Inl (DecisionError REQUEST_BINDING (''issuance request field '' @ name @ '' must be a string'')))"

definition bytes_field :: "pyobj \<Rightarrow> string \<Rightarrow> exn + bytes" where
  "bytes_field ob name = (case fmlookup (py_attrs ob) name of
     Some (PyBytes b) \<Rightarrow> Inr b
   | _ \<Rightarrow> Inl (DecisionError TPM_INVALID (''TPM evidence field '' @ name @ '' must be bytes'')))"

definition validate_issuance_request_runtime :: "pyobj \<Rightarrow> exn + issuance_request" where
  "validate_issuance_request_runtime ob =
     bindE (require (py_class ob = ''IssuanceRequest'')
              (DecisionError REQUEST_BINDING ''issuance request has an invalid runtime type'')) (\<lambda>_.
     bindE (str_field ob ''version'') (\<lambda>version.
     bindE (str_field ob ''broker_id'') (\<lambda>broker_id.
     bindE (str_field ob ''challenge'') (\<lambda>challenge.
     bindE (str_field ob ''manifest_digest'') (\<lambda>manifest_digest.
     bindE (str_field ob ''identity_key'') (\<lambda>identity_key.
     bindE (str_field ob ''holder_key'') (\<lambda>holder_key.
     bindE (str_field ob ''resource_issuer_kid'') (\<lambda>resource_issuer_kid.
     bindE (str_field ob ''resource_issuer_key'') (\<lambda>resource_issuer_key.
     bindE (str_field ob ''requested_scope'') (\<lambda>requested_scope.
     bindE (str_field ob ''identity_signature'') (\<lambda>identity_signature.
     Inr \<lparr>ir_version = version, ir_broker_id = broker_id, ir_challenge = challenge,
          ir_manifest_digest = manifest_digest, ir_identity_key = identity_key,
          ir_holder_key = holder_key, ir_resource_issuer_kid = resource_issuer_kid,
          ir_resource_issuer_key = resource_issuer_key, ir_requested_scope = requested_scope,
          ir_identity_signature = identity_signature\<rparr>)))))))))))"

definition validate_tpm_evidence_runtime :: "pyobj \<Rightarrow> exn + tpm_evidence" where
  "validate_tpm_evidence_runtime ob =
     bindE (require (py_class ob = ''TpmEvidence'')
              (DecisionError TPM_INVALID ''TPM evidence has an invalid runtime type'')) (\<lambda>_.
     bindE (bytes_field ob ''attest'') (\<lambda>attest.
     bindE (bytes_field ob ''signature'') (\<lambda>signature.
     bindE (bytes_field ob ''ak_chain_pem'') (\<lambda>ak_chain_pem.
     Inr \<lparr>te_attest = attest, te_signature = signature, te_ak_chain_pem = ak_chain_pem\<rparr>))))"

text \<open>The in-memory objects that hold a request and evidence.\<close>

definition request_obj :: "issuance_request \<Rightarrow> pyobj" where
  "request_obj r = \<lparr>py_class = ''IssuanceRequest'', py_attrs = fmap_of_list
     [(''version'', PyStr (ir_version r)), (''broker_id'', PyStr (ir_broker_id r)),
      (''challenge'', PyStr (ir_challenge r)), (''manifest_digest'', PyStr (ir_manifest_digest r)),
      (''identity_key'', PyStr (ir_identity_key r)), (''holder_key'', PyStr (ir_holder_key r)),
      (''resource_issuer_kid'', PyStr (ir_resource_issuer_kid r)),
      (''resource_issuer_key'', PyStr (ir_resource_issuer_key r)),
      (''requested_scope'', PyStr (ir_requested_scope r)),
      (''identity_signature'', PyStr (ir_identity_signature r))]\<rparr>"

definition evidence_obj :: "tpm_evidence \<Rightarrow> pyobj" where
  "evidence_obj e = \<lparr>py_class = ''TpmEvidence'', py_attrs = fmap_of_list
     [(''attest'', PyBytes (te_attest e)), (''signature'', PyBytes (te_signature e)),
      (''ak_chain_pem'', PyBytes (te_ak_chain_pem e))]\<rparr>"

section \<open>The broker\<close>

definition credential_to_dict :: "ca2a_lib \<Rightarrow> delegation_credential \<Rightarrow> (string, json) fmap" where
  "credential_to_dict ca c = fmupd ''signature'' (JStr (dc_signature c)) (credential_body ca c)"

record capability_broker =
  cb_policy :: broker_policy
  cb_challenge_secret :: bytes
  cb_issuer_private_key :: bytes
  cb_issuer_public :: string
  cb_receipt_signer :: receipt_signer
  cb_appraise :: appraiser

definition new_capability_broker ::
  "libs \<Rightarrow> broker_policy \<Rightarrow> bytes \<Rightarrow> bytes \<Rightarrow> receipt_signer \<Rightarrow> appraiser \<Rightarrow> exn + capability_broker" where
  "new_capability_broker lib policy challenge_secret issuer_private_key signer appraise =
     bindE (require (\<not> length challenge_secret < 32)
              (ValueError ''broker challenge secret must be at least 32 bytes'')) (\<lambda>_.
     let issuer_public = bytes_hex (ed_public (lib_ed lib) issuer_private_key) in
     bindE (require (issuer_public = bp_resource_issuer_public_hex policy)
              (ValueError ''resource issuer private key does not match broker policy'')) (\<lambda>_.
     bindE (require (\<not> bp_challenge_ttl_seconds policy \<le> 0)
              (ValueError ''broker challenge TTL must be positive'')) (\<lambda>_.
     bindE (require (\<not> bp_credential_ttl_seconds policy \<le> 0)
              (ValueError ''credential TTL must be positive'')) (\<lambda>_.
     Inr \<lparr>cb_policy = policy, cb_challenge_secret = challenge_secret,
          cb_issuer_private_key = issuer_private_key, cb_issuer_public = issuer_public,
          cb_receipt_signer = signer, cb_appraise = appraise\<rparr>))))"

definition new_challenge :: "libs \<Rightarrow> capability_broker \<Rightarrow> ('a stored_env_scheme, string) prog" where
  "new_challenge lib br =
     bindM read_clock (\<lambda>issued_at.
     bindM (issue_ca2a_challenge_at (lib_ca2a lib) (cb_challenge_secret br) issued_at
              (bp_challenge_ttl_seconds (cb_policy br))) (\<lambda>(token, expiry).
     bindM (store_broker_challenge (challenge_token_hash token) issued_at expiry) (\<lambda>_.
     returnM token)))"

record issue_state = stored_env +
  il_token_hash :: "string option"
  il_manifest_digest :: "string option"
  il_artifact_hashes :: dict

subsection \<open>Receipts\<close>

definition broker_payload ::
  "capability_broker \<Rightarrow> string \<Rightarrow> int \<Rightarrow> string \<Rightarrow> reason \<Rightarrow> string option \<Rightarrow> string option
   \<Rightarrow> string option \<Rightarrow> dict \<Rightarrow> decision_receipt_payload" where
  "broker_payload br receipt_id decided_at decision reason credential_id challenge_hash manifest_digest
       artifact_hashes =
     \<lparr>rp_schema_version = ''atcap-decision-receipt/v1'', rp_receipt_id = receipt_id,
      rp_deciding_service = ''broker'', rp_decision = decision, rp_reason = reason_str reason,
      rp_decided_at = decided_at, rp_credential_id = credential_id,
      rp_scope = Some (bp_qualified_scope (cb_policy br)), rp_challenge_token_hash = challenge_hash,
      rp_manifest_digest = manifest_digest, rp_call_method = None, rp_call_audience = None,
      rp_arguments_digest = None, rp_record_id = None, rp_invocation_id = None,
      rp_handler_count_snapshot = 0, rp_handler_invoked = False,
      rp_business_result = ''not_applicable'', rp_artifact_hashes = artifact_hashes\<rparr>"

definition broker_receipt ::
  "libs \<Rightarrow> capability_broker \<Rightarrow> string \<Rightarrow> reason \<Rightarrow> string option
   \<Rightarrow> ('a issue_state_scheme, signed_decision_receipt) prog" where
  "broker_receipt lib br decision reason credential_id =
     bindM (token_hex 16) (\<lambda>receipt_id.
     bindM read_clock (\<lambda>decided_at.
     bindM (getM (\<lambda>s. broker_payload br receipt_id decided_at decision reason credential_id
              (il_token_hash s) (il_manifest_digest s) (il_artifact_hashes s))) (\<lambda>claims.
     bindM (liftE (new_payload claims)) (\<lambda>payload.
     liftE (receipt_sign (lib_jws lib) (lib_dumps lib) (cb_receipt_signer br) payload)))))"

subsection \<open>Issuance\<close>

definition put_artifact :: "string \<Rightarrow> string \<Rightarrow> ('a issue_state_scheme, unit) prog" where
  "put_artifact name digest =
     modifyM (\<lambda>s. s\<lparr>il_artifact_hashes := fmupd name digest (il_artifact_hashes s)\<rparr>)"

text \<open>The first lines of the try block: policy digest, runtime validation, artifact hashes.\<close>

definition issue_prepare ::
  "libs \<Rightarrow> capability_broker \<Rightarrow> pyobj \<Rightarrow> pyobj \<Rightarrow> ('a issue_state_scheme, issuance_request \<times> tpm_evidence) prog" where
  "issue_prepare lib br request evidence =
     bindM (liftE (bindE (broker_public_dict (cb_policy br)) (canonical_digest (lib_dumps lib)))) (\<lambda>policy_digest.
     bindM (put_artifact ''broker_policy_sha256'' policy_digest) (\<lambda>_.
     bindM (liftE (validate_issuance_request_runtime request)) (\<lambda>r.
     bindM (modifyM (\<lambda>s. s\<lparr>il_manifest_digest := Some (ir_manifest_digest r)\<rparr>)) (\<lambda>_.
     bindM (modifyM (\<lambda>s. s\<lparr>il_token_hash := Some (challenge_token_hash (ir_challenge r))\<rparr>)) (\<lambda>_.
     bindM (liftE (validate_tpm_evidence_runtime evidence)) (\<lambda>ev.
     bindM (modifyM (\<lambda>s. s\<lparr>il_artifact_hashes := il_artifact_hashes s ++\<^sub>f digestable ev\<rparr>)) (\<lambda>_.
     bindM (liftE (canonical_digest (lib_dumps lib) (request_to_dict r))) (\<lambda>request_digest.
     bindM (put_artifact ''issuance_request_sha256'' request_digest) (\<lambda>_.
     returnM (r, ev))))))))))"

fun challenge_error :: "exn \<Rightarrow> exn" where
  "challenge_error (AttestationFailed message) =
     DecisionError (if str_contains ''expired'' (str_lower message) then CHALLENGE_STALE else CHALLENGE_INVALID)
       ''broker challenge is not usable''"
| "challenge_error e = e"

text \<open>The non-mutating checks, at the clock reading passed to the challenge verifier.\<close>

definition appraise_request ::
  "libs \<Rightarrow> capability_broker \<Rightarrow> issuance_request \<Rightarrow> json \<Rightarrow> tpm_evidence \<Rightarrow> int \<Rightarrow> exn + unit" where
  "appraise_request lib br r manifest ev now =
     bindE (mapE challenge_error
              (verify_challenge (lib_ca2a lib) (cb_challenge_secret br) (ir_challenge r) now)) (\<lambda>_.
     bindE (verify_signed_manifest (lib_manifest lib) manifest (bp_manifest (cb_policy br))) (\<lambda>_.
     bindE (verify_identity_endorsement (lib_ed lib) (lib_dumps lib) r (cb_policy br)) (\<lambda>_.
     bindE (issuance_qualifying_data (lib_dumps lib) r) (\<lambda>qualifying_data.
     cb_appraise br ev qualifying_data (bp_tpm (cb_policy br))))))"

definition issue_mint ::
  "libs \<Rightarrow> capability_broker \<Rightarrow> issuance_request \<Rightarrow> ('a issue_state_scheme, decision) prog" where
  "issue_mint lib br r =
     bindM read_clock (\<lambda>now.
     bindM (token_hex 32) (\<lambda>credential_id.
     bindM (liftE (bindE (new_credential (lib_ca2a lib) credential_id (cb_issuer_public br)
                            (ir_holder_key r) {|bp_qualified_scope (cb_policy br)|} 0 None (Some now)
                            (Some (now + bp_credential_ttl_seconds (cb_policy br)))) (\<lambda>unsigned.
                   sign_credential (lib_ca2a lib) unsigned (cb_issuer_private_key br)))) (\<lambda>credential.
     bindM (broker_receipt lib br ''allow'' ALLOW (Some (dc_credential_id credential))) (\<lambda>receipt.
     returnM
       \<lparr>d_allowed = True, d_reason = ALLOW, d_receipt = receipt,
        d_result = Some (obj [(''credential'', JObj (credential_to_dict (lib_ca2a lib) credential))])\<rparr>))))"

definition issue_body ::
  "libs \<Rightarrow> capability_broker \<Rightarrow> pyobj \<Rightarrow> json \<Rightarrow> pyobj \<Rightarrow> ('a issue_state_scheme, decision) prog" where
  "issue_body lib br request manifest evidence =
     bindM (issue_prepare lib br request evidence) (\<lambda>(r, ev).
     bindM read_clock (\<lambda>now.
     bindM (liftE (appraise_request lib br r manifest ev now)) (\<lambda>_.
     bindM (consume_broker_challenge (challenge_token_hash (ir_challenge r))) (\<lambda>_.
     issue_mint lib br r))))"

definition issue_denial ::
  "libs \<Rightarrow> capability_broker \<Rightarrow> reason \<Rightarrow> ('a issue_state_scheme, decision) prog" where
  "issue_denial lib br reason =
     bindM (broker_receipt lib br ''deny'' reason None) (\<lambda>receipt.
     returnM \<lparr>d_allowed = False, d_reason = reason, d_receipt = receipt, d_result = None\<rparr>)"

definition issue ::
  "libs \<Rightarrow> capability_broker \<Rightarrow> pyobj \<Rightarrow> json \<Rightarrow> pyobj \<Rightarrow> ('a issue_state_scheme, decision) prog" where
  "issue lib br request manifest evidence =
     bindM (modifyM (\<lambda>s. s\<lparr>il_token_hash := None, il_manifest_digest := None, il_artifact_hashes := fmempty\<rparr>)) (\<lambda>_.
     tryM (issue_body lib br request manifest evidence)
       (\<lambda>e. case e of
          DecisionError reason _ \<Rightarrow> issue_denial lib br reason
        | _ \<Rightarrow> issue_denial lib br INTERNAL_ERROR))"

lemma issue_handler:
  "(case e of DecisionError reason _ \<Rightarrow> issue_denial lib br reason | _ \<Rightarrow> issue_denial lib br INTERNAL_ERROR)
   = issue_denial lib br (exn_reason e)"
  by (cases e) simp_all

section \<open>Receipts of the broker\<close>

lemma post_broker_receipt [wp_simps]:
  "post (broker_receipt lib br dec reason cid) s Q E =
   (let claims = broker_payload br (bytes_hex (map (entropy s) [drawn s..<drawn s + 16])) (clock_at s (ticks s))
          dec reason cid (il_token_hash s) (il_manifest_digest s) (il_artifact_hashes s);
        s' = s\<lparr>drawn := drawn s + 16, ticks := Suc (ticks s)\<rparr>
    in (\<forall>r. legal_receipt claims \<and> receipt_sign (lib_jws lib) (lib_dumps lib) (cb_receipt_signer br) claims = Inr r
            \<longrightarrow> Q r s') \<and>
       (\<forall>e. bindE (new_payload claims) (receipt_sign (lib_jws lib) (lib_dumps lib) (cb_receipt_signer br)) = Inl e
            \<longrightarrow> E e s'))"
proof -
  have "(\<forall>p. new_payload c = Inr p \<longrightarrow> (\<forall>x. f p = Inr x \<longrightarrow> A x) \<and> (\<forall>e. f p = Inl e \<longrightarrow> B e)) \<and>
      (\<forall>e. new_payload c = Inl e \<longrightarrow> B e) \<longleftrightarrow>
      (\<forall>x. legal_receipt c \<and> f c = Inr x \<longrightarrow> A x) \<and> (\<forall>e. bindE (new_payload c) f = Inl e \<longrightarrow> B e)"
    for c f and A :: "signed_decision_receipt \<Rightarrow> bool" and B
  proof (cases "new_payload c")
    case (Inr p)
    then show ?thesis using new_payload_Inr [of c p] by auto
  next
    case (Inl e)
    then have "\<not> legal_receipt c" using new_payload_Inr [of c c] by simp
    with Inl show ?thesis by auto
  qed
  then show ?thesis
    by (simp add: broker_receipt_def wp_simps Let_def del: upt_Suc)
qed

text \<open>With a scope in the policy and a clock that is not negative, the claims of both receipts
  pass validation.\<close>

lemma broker_allow_legal:
  assumes "length rid = 32" "0 \<le> t" "bp_qualified_scope (cb_policy br) \<noteq> []" "md \<noteq> []" "h \<noteq> []"
    "truthy (fmlookup ah ''broker_policy_sha256'')"
  shows "legal_receipt (broker_payload br rid t ''allow'' ALLOW (Some cid) (Some h) (Some md) ah)"
proof -
  have "has_shape BrokerAllow (broker_payload br rid t ''allow'' ALLOW (Some cid) (Some h) (Some md) ah)"
    using assms by (simp add: broker_payload_def shape_defs)
  with assms show ?thesis
    unfolding legal_receipt_def by (auto simp: broker_payload_def intro!: exI [of _ BrokerAllow])
qed

lemma broker_deny_legal:
  assumes "length rid = 32" "0 \<le> t" "r \<noteq> ALLOW" "r \<noteq> HANDLER_FAILED"
  shows "legal_receipt (broker_payload br rid t ''deny'' r None h md ah)"
proof -
  have "has_shape (BrokerDeny r) (broker_payload br rid t ''deny'' r None h md ah)"
    using assms by (simp add: broker_payload_def shape_defs)
  with assms show ?thesis
    unfolding legal_receipt_def by (auto simp: broker_payload_def intro!: exI [of _ "BrokerDeny r"])
qed

section \<open>What issuance does to the store\<close>

text \<open>The environment without the locals.\<close>

abbreviation base :: "'a stored_env_scheme \<Rightarrow> stored_env" where
  "base s \<equiv> stored_env.truncate s"

lemma base_eq:
  "base s = base s' \<longleftrightarrow> clock_at s = clock_at s' \<and> ticks s = ticks s' \<and> entropy s = entropy s' \<and>
     drawn s = drawn s' \<and> db_busy s = db_busy s' \<and> db_calls s = db_calls s' \<and> db s = db s'"
  by (auto simp: stored_env.truncate_def)

lemma issue_prepare_post:
  "post (issue_prepare lib br request evidence) s
     (\<lambda>(r, ev) s'. base s' = base s \<and> validate_issuance_request_runtime request = Inr r \<and>
        validate_tpm_evidence_runtime evidence = Inr ev)
     (\<lambda>e s'. base s' = base s)"
  by (simp add: issue_prepare_def put_artifact_def wp_simps base_eq)

text \<open>All checks passed at the first clock reading, and the challenge was live at the second,
  taken under the write lock.\<close>

definition issue_granted ::
  "libs \<Rightarrow> capability_broker \<Rightarrow> pyobj \<Rightarrow> json \<Rightarrow> pyobj \<Rightarrow> 'a stored_env_scheme \<Rightarrow> issuance_request \<Rightarrow> sqlite_store \<Rightarrow> bool" where
  "issue_granted lib br request manifest evidence s r st \<longleftrightarrow>
     validate_issuance_request_runtime request = Inr r \<and>
     (\<exists>ev. validate_tpm_evidence_runtime evidence = Inr ev \<and>
        appraise_request lib br r manifest ev (clock_at s (ticks s)) = Inr ()) \<and>
     consume_broker_tx (challenge_token_hash (ir_challenge r)) (clock_at s (Suc (ticks s))) (db s) = Inr ((), st)"

lemma issue_granted_base:
  "base s = base s' \<Longrightarrow> issue_granted lib br request manifest evidence s r st
   = issue_granted lib br request manifest evidence s' r st"
  by (simp add: issue_granted_def base_eq)

lemma issue_grantedI:
  "validate_issuance_request_runtime request = Inr r \<Longrightarrow> validate_tpm_evidence_runtime evidence = Inr ev \<Longrightarrow>
   appraise_request lib br r manifest ev (clock_at s (ticks s)) = Inr () \<Longrightarrow>
   consume_broker_tx (challenge_token_hash (ir_challenge r)) (clock_at s (Suc (ticks s))) (db s) = Inr ((), st) \<Longrightarrow>
   issue_granted lib br request manifest evidence s r st"
  by (auto simp: issue_granted_def)

definition issue_effect ::
  "libs \<Rightarrow> capability_broker \<Rightarrow> pyobj \<Rightarrow> json \<Rightarrow> pyobj \<Rightarrow> 'a stored_env_scheme \<Rightarrow> sqlite_store \<Rightarrow> bool" where
  "issue_effect lib br request manifest evidence s st \<longleftrightarrow>
     st = db s \<or> (\<exists>r. issue_granted lib br request manifest evidence s r st)"

lemma issue_effect_same: "st = db s \<Longrightarrow> issue_effect lib br request manifest evidence s st"
  by (simp add: issue_effect_def)

text \<open>The credential the broker mints: its fields before signing, from the state at minting.\<close>

definition minted ::
  "libs \<Rightarrow> capability_broker \<Rightarrow> issuance_request \<Rightarrow> int \<Rightarrow> bytes \<Rightarrow> delegation_credential \<Rightarrow> bool" where
  "minted lib br r now random c \<longleftrightarrow>
     (\<exists>unsigned. new_credential (lib_ca2a lib) (bytes_hex random) (cb_issuer_public br) (ir_holder_key r)
        {|bp_qualified_scope (cb_policy br)|} 0 None (Some now)
        (Some (now + bp_credential_ttl_seconds (cb_policy br))) = Inr unsigned \<and>
      sign_credential (lib_ca2a lib) unsigned (cb_issuer_private_key br) = Inr c)"

definition issued_decision ::
  "libs \<Rightarrow> capability_broker \<Rightarrow> issuance_request \<Rightarrow> 'a stored_env_scheme \<Rightarrow> decision \<Rightarrow> bool" where
  "issued_decision lib br r s d \<longleftrightarrow> d_reason d = ALLOW \<and>
     (\<exists>c. minted lib br r (clock_at s (Suc (Suc (ticks s)))) (map (entropy s) [drawn s..<drawn s + 32]) c \<and>
        d_result d = Some (obj [(''credential'', JObj (credential_to_dict (lib_ca2a lib) c))]))"

lemma issue_mint_post:
  "post (issue_mint lib br r) s
     (\<lambda>d s'. d_allowed d \<and> db s' = db s \<and> d_reason d = ALLOW \<and>
        (\<exists>c. minted lib br r (clock_at s (ticks s)) (map (entropy s) [drawn s..<drawn s + 32]) c \<and>
           d_result d = Some (obj [(''credential'', JObj (credential_to_dict (lib_ca2a lib) c))])))
     (\<lambda>e s'. db s' = db s)"
  by (auto simp: issue_mint_def wp_simps Let_def minted_def bindE_Inr_iff simp del: upt_Suc)

lemma issue_body_post:
  "post (issue_body lib br request manifest evidence) s
     (\<lambda>d s'. d_allowed d \<and> (\<exists>r. issue_granted lib br request manifest evidence s r (db s') \<and>
        issued_decision lib br r s d))
     (\<lambda>e s'. issue_effect lib br request manifest evidence s (db s'))"
proof -
  have mint: "post (issue_mint lib br r) s''
      (\<lambda>d s'. d_allowed d \<and> (\<exists>r. issue_granted lib br request manifest evidence s r (db s') \<and>
        issued_decision lib br r s d))
      (\<lambda>e s'. issue_effect lib br request manifest evidence s (db s'))"
    if "issue_granted lib br request manifest evidence s r (db s'')"
      "clock_at s'' = clock_at s" "ticks s'' = Suc (Suc (ticks s))" "entropy s'' = entropy s" "drawn s'' = drawn s" for r s''
    using issue_mint_post
    by (rule post_mono) (use that in \<open>auto simp: issued_decision_def issue_effect_def\<close>)
  have rest: "post (bindM read_clock (\<lambda>now.
       bindM (liftE (appraise_request lib br r manifest ev now)) (\<lambda>_.
       bindM (consume_broker_challenge (challenge_token_hash (ir_challenge r))) (\<lambda>_.
       issue_mint lib br r)))) s'
      (\<lambda>d s'. d_allowed d \<and> (\<exists>r. issue_granted lib br request manifest evidence s r (db s') \<and>
        issued_decision lib br r s d))
      (\<lambda>e s'. issue_effect lib br request manifest evidence s (db s'))"
    if "base s' = base s" "validate_issuance_request_runtime request = Inr r"
      "validate_tpm_evidence_runtime evidence = Inr ev" for r ev s'
    using that
    by (auto simp: wp_simps consume_broker_challenge_def Let_def base_eq
        intro!: mint issue_effect_same issue_grantedI)
  show ?thesis
    unfolding issue_body_def post_bindM
    by (rule post_mono [OF issue_prepare_post]) (auto simp: base_eq intro!: issue_effect_same rest)
qed

lemma issue_denial_post:
  "post (issue_denial lib br reason) s
     (\<lambda>d s'. \<not> d_allowed d \<and> d_reason d = reason \<and> d_result d = None \<and> db s' = db s) (\<lambda>e s'. db s' = db s)"
  by (simp add: issue_denial_def wp_simps Let_def)

lemma issue_post:
  "post (issue lib br request manifest evidence) s
     (\<lambda>d s'. (d_allowed d \<longrightarrow> (\<exists>r. issue_granted lib br request manifest evidence s r (db s') \<and>
          issued_decision lib br r s d)) \<and>
        (\<not> d_allowed d \<longrightarrow> issue_effect lib br request manifest evidence s (db s')))
     (\<lambda>e s'. issue_effect lib br request manifest evidence s (db s'))"
proof -
  let ?s = "s\<lparr>il_token_hash := None, il_manifest_digest := None, il_artifact_hashes := fmempty\<rparr>"
  have b: "base ?s = base s" by (simp add: base_eq)
  have eff: "issue_effect lib br request manifest evidence ?s = issue_effect lib br request manifest evidence s"
    using issue_granted_base [OF b] by (simp add: fun_eq_iff issue_effect_def)
  have dec: "issued_decision lib br r ?s = issued_decision lib br r s" for r
    by (simp add: fun_eq_iff issued_decision_def)
  show ?thesis
    unfolding issue_def issue_handler post_bindM post_modifyM post_tryM
    by (rule post_mono [OF issue_body_post])
       (auto simp: eff dec issue_granted_base [OF b] intro!: post_mono [OF issue_denial_post])
qed

section \<open>The receipt of a decision\<close>

text \<open>The claims describe the decision they come with.\<close>

definition broker_claims :: "libs \<Rightarrow> capability_broker \<Rightarrow> pyobj \<Rightarrow> decision \<Rightarrow> decision_receipt_payload \<Rightarrow> bool" where
  "broker_claims lib br request d p \<longleftrightarrow>
     rp_deciding_service p = ''broker'' \<and>
     rp_decision p = (if d_allowed d then ''allow'' else ''deny'') \<and>
     rp_reason p = reason_str (d_reason d) \<and>
     (d_allowed d \<longrightarrow>
        (\<exists>r c. validate_issuance_request_runtime request = Inr r \<and>
           rp_challenge_token_hash p = Some (challenge_token_hash (ir_challenge r)) \<and>
           rp_manifest_digest p = Some (ir_manifest_digest r) \<and>
           rp_scope p = Some (bp_qualified_scope (cb_policy br)) \<and>
           rp_credential_id p = Some (dc_credential_id c) \<and>
           d_result d = Some (obj [(''credential'', JObj (credential_to_dict (lib_ca2a lib) c))])))"

abbreviation broker_signs where
  "broker_signs lib br p r \<equiv> receipt_sign (lib_jws lib) (lib_dumps lib) (cb_receipt_signer br) p = Inr r"

lemma issue_prepare_locals:
  "post (issue_prepare lib br request evidence) s
     (\<lambda>(r, ev) s'. validate_issuance_request_runtime request = Inr r \<and>
        il_token_hash s' = Some (challenge_token_hash (ir_challenge r)) \<and>
        il_manifest_digest s' = Some (ir_manifest_digest r))
     (\<lambda>_ _. True)"
  by (simp add: issue_prepare_def put_artifact_def wp_simps)

lemma issue_mint_receipt:
  assumes "validate_issuance_request_runtime request = Inr r"
    "il_token_hash s = Some (challenge_token_hash (ir_challenge r))" "il_manifest_digest s = Some (ir_manifest_digest r)"
  shows "post (issue_mint lib br r) s
     (\<lambda>d s'. \<exists>p. legal_receipt p \<and> broker_signs lib br p (d_receipt d) \<and> broker_claims lib br request d p)
     (\<lambda>_ _. True)"
  using assms
  by (auto simp: issue_mint_def wp_simps Let_def broker_claims_def simp del: upt_Suc intro!: exI)
     (auto simp: broker_payload_def simp del: upt_Suc)

lemma issue_denial_receipt:
  "post (issue_denial lib br reason) s
     (\<lambda>d s'. \<exists>p. legal_receipt p \<and> broker_signs lib br p (d_receipt d) \<and> broker_claims lib br request d p)
     (\<lambda>_ _. True)"
  by (auto simp: issue_denial_def wp_simps Let_def broker_claims_def simp del: upt_Suc intro!: exI)
     (auto simp: broker_payload_def simp del: upt_Suc)

lemma issue_receipt_post:
  "post (issue lib br request manifest evidence) s
     (\<lambda>d s'. \<exists>p. legal_receipt p \<and> broker_signs lib br p (d_receipt d) \<and> broker_claims lib br request d p)
     (\<lambda>_ _. True)"
proof -
  have "post (issue_body lib br request manifest evidence) s'
     (\<lambda>d s'. \<exists>p. legal_receipt p \<and> broker_signs lib br p (d_receipt d) \<and> broker_claims lib br request d p)
     (\<lambda>_ _. True)" for s' :: "'a issue_state_scheme"
    unfolding issue_body_def post_bindM
    by (rule post_mono [OF issue_prepare_locals])
       (auto simp: wp_simps consume_broker_challenge_def Let_def intro!: issue_mint_receipt)
  then show ?thesis
    unfolding issue_def issue_handler post_bindM post_modifyM post_tryM
    by (rule post_mono) (simp_all add: issue_denial_receipt)
qed

section \<open>One credential per challenge\<close>

text \<open>A call of \<^verbatim>\<open>issue\<close>, by any broker process on the shared store: its arguments and the
  environment it will meet.\<close>

type_synonym issue_call = "libs \<times> capability_broker \<times> pyobj \<times> json \<times> pyobj \<times> issue_state"

fun issue_step :: "issue_call \<Rightarrow> sqlite_store \<Rightarrow> sqlite_store" where
  "issue_step (lib, br, request, manifest, evidence, s) st =
     db (snd (issue lib br request manifest evidence (s\<lparr>db := st\<rparr>)))"

fun issue_won :: "issue_call \<Rightarrow> sqlite_store \<Rightarrow> string option" where
  "issue_won (lib, br, request, manifest, evidence, s) st =
     (case fst (issue lib br request manifest evidence (s\<lparr>db := st\<rparr>)) of
        Inl _ \<Rightarrow> None
      | Inr d \<Rightarrow>
          if d_allowed d
          then (case validate_issuance_request_runtime request of
                  Inl _ \<Rightarrow> None | Inr r \<Rightarrow> Some (challenge_token_hash (ir_challenge r)))
          else None)"

lemma issue_step_effect:
  "issue_step (lib, br, request, manifest, evidence, s) st = st \<or>
   (\<exists>h now. consume_broker_tx h now st = Inr ((), issue_step (lib, br, request, manifest, evidence, s) st))"
proof (cases "issue lib br request manifest evidence (s\<lparr>db := st\<rparr>)")
  case (Pair res s')
  have "issue_effect lib br request manifest evidence (s\<lparr>db := st\<rparr>) (db s')"
    using post_resultD [OF issue_post Pair] by (auto simp: issue_effect_def split: sum.splits)
  then show ?thesis using Pair by (auto simp: issue_effect_def issue_granted_def)
qed

lemma issue_won_effect:
  assumes "issue_won (lib, br, request, manifest, evidence, s) st = Some h"
  shows "\<exists>now. consume_broker_tx h now st = Inr ((), issue_step (lib, br, request, manifest, evidence, s) st)"
proof (cases "issue lib br request manifest evidence (s\<lparr>db := st\<rparr>)")
  case (Pair res s')
  with assms obtain d r where d: "res = Inr d" "d_allowed d"
      "validate_issuance_request_runtime request = Inr r" "h = challenge_token_hash (ir_challenge r)"
    by (auto split: sum.splits if_splits)
  then show ?thesis
    using post_resultD [OF issue_post Pair] Pair by (auto simp: issue_granted_def)
qed

text \<open>One call acts on the ledger as the burning of its challenge, or not at all.\<close>

lemma issue_step_op: "issue_step x st = st \<or> (\<exists>h now. issue_step x st = apply_op (ConsumeBroker h now) st)"
proof -
  have "issue_step x st = st \<or> (\<exists>h now. consume_broker_tx h now st = Inr ((), issue_step x st))"
    using issue_step_effect by (cases x rule: prod_cases6) blast
  moreover have "apply_op (ConsumeBroker h now) st = st'" if "consume_broker_tx h now st = Inr ((), st')" for h now st'
    using that by simp
  ultimately show ?thesis by metis
qed

lemma issue_won_op:
  assumes "issue_won x st = Some h"
  shows "\<exists>now. issue_step x st = apply_op (ConsumeBroker h now) st \<and> broker_won (ConsumeBroker h now) st = Some h"
proof -
  have "\<exists>now. consume_broker_tx h now st = Inr ((), issue_step x st)"
    using issue_won_effect assms by (cases x rule: prod_cases6) blast
  then obtain now where "consume_broker_tx h now st = Inr ((), issue_step x st)" ..
  then show ?thesis by (intro exI [of _ now]) simp
qed

interpretation issuance: one_shot issue_step issue_won "\<lambda>st. b_burned (abs_store st)" store_inv
proof
  fix st x h
  assume inv: "store_inv st"
  show "store_inv (issue_step x st)"
    using issue_step_op [of x st] apply_op_inv [OF inv] inv by metis
  show "b_burned (abs_store st) \<subseteq> b_burned (abs_store (issue_step x st))"
    using issue_step_op [of x st] broker_burn.claimed_mono [OF inv] by (metis order_refl)
  assume "issue_won x st = Some h"
  from issue_won_op [OF this] show "h \<notin> b_burned (abs_store st)"
    and "h \<in> b_burned (abs_store (issue_step x st))"
    using broker_burn.won_fresh [OF inv] broker_burn.won_claimed [OF inv] by metis+
qed

text \<open>The challenges that a sequence of calls turned into credentials.\<close>

primrec issued_challenges :: "issue_call list \<Rightarrow> sqlite_store \<Rightarrow> string list" where
  "issued_challenges [] st = []"
| "issued_challenges (x # xs) st =
     (case issue_won x st of None \<Rightarrow> [] | Some h \<Rightarrow> [h]) @ issued_challenges xs (issue_step x st)"

lemma issued_challenges_wins: "issued_challenges xs st = issuance.wins xs st"
  by (induction xs arbitrary: st) simp_all

section \<open>A qualified request is granted\<close>

lemma validate_request_obj [simp]: "validate_issuance_request_runtime (request_obj r) = Inr r"
  by (simp add: validate_issuance_request_runtime_def request_obj_def str_field_def)

lemma validate_evidence_obj [simp]: "validate_tpm_evidence_runtime (evidence_obj e) = Inr e"
  by (simp add: validate_tpm_evidence_runtime_def evidence_obj_def bytes_field_def)

text \<open>What the broker needs beyond the checks: the policy and the request serialize, the store is
  available, and the later clock readings and the policy's texts fit a receipt.\<close>

definition broker_ready :: "libs \<Rightarrow> capability_broker \<Rightarrow> issuance_request \<Rightarrow> 'a stored_env_scheme \<Rightarrow> bool" where
  "broker_ready lib br r s \<longleftrightarrow>
     (\<exists>pd b. broker_public_dict (cb_policy br) = Inr pd \<and> lib_dumps lib pd = Inr b) \<and>
     (\<exists>b. lib_dumps lib (request_to_dict r) = Inr b) \<and>
     \<not> db_busy s (db_calls s) \<and> \<not> db_busy s (Suc (db_calls s)) \<and>
     receipts_signable lib (cb_receipt_signer br) \<and>
     0 \<le> clock_at s (ticks s + 3) \<and> clock_at s (ticks s + 3) < 2 ^ 53 \<and>
     bp_qualified_scope (cb_policy br) \<noteq> [] \<and> ir_manifest_digest r \<noteq> []"

lemma issue_prepare_ready:
  assumes "broker_ready lib br r s"
  shows "post (issue_prepare lib br (request_obj r) (evidence_obj ev)) s
    (\<lambda>x s'. x = (r, ev) \<and> base s' = base s \<and> il_token_hash s' = Some (challenge_token_hash (ir_challenge r)) \<and>
       il_manifest_digest s' = Some (ir_manifest_digest r) \<and>
       truthy (fmlookup (il_artifact_hashes s') ''broker_policy_sha256'')) (\<lambda>_ _. False)"
proof -
  from assms obtain pd b b' where d: "broker_public_dict (cb_policy br) = Inr pd" "lib_dumps lib pd = Inr b"
      "lib_dumps lib (request_to_dict r) = Inr b'"
    by (auto simp: broker_ready_def)
  show ?thesis
    by (simp add: issue_prepare_def put_artifact_def wp_simps base_eq canonical_digest_def canonical_json_def d digestable_def)
qed

lemma issue_mint_ready:
  assumes ready: "receipts_signable lib (cb_receipt_signer br)" "0 \<le> clock_at s (Suc (ticks s))"
      "clock_at s (Suc (ticks s)) < 2 ^ 53" "bp_qualified_scope (cb_policy br) \<noteq> []" "ir_manifest_digest r \<noteq> []"
    and locals: "il_token_hash s = Some (challenge_token_hash (ir_challenge r))"
      "il_manifest_digest s = Some (ir_manifest_digest r)"
      "truthy (fmlookup (il_artifact_hashes s) ''broker_policy_sha256'')"
    and minted: "minted lib br r (clock_at s (ticks s)) (map (entropy s) [drawn s..<drawn s + 32]) c"
  shows "post (issue_mint lib br r) s (\<lambda>d s'. d_allowed d \<and> db s' = db s) (\<lambda>_ _. False)"
proof -
  let ?claims = "\<lambda>rid. broker_payload br rid (clock_at s (Suc (ticks s))) ''allow'' ALLOW
      (Some (dc_credential_id c)) (il_token_hash s) (il_manifest_digest s) (il_artifact_hashes s)"
  have legal: "legal_receipt (?claims rid)" if "length rid = 32" for rid
    unfolding locals by (rule broker_allow_legal) (use that ready locals(3) in auto)
  have "\<exists>x. receipt_sign (lib_jws lib) (lib_dumps lib) (cb_receipt_signer br) (?claims rid) = Inr x"
    if "length rid = 32" for rid
    using ready(1-3) legal [OF that] by (auto simp: receipts_signable_def broker_payload_def)
  then have sign: "bindE (new_payload (?claims rid)) (receipt_sign (lib_jws lib) (lib_dumps lib) (cb_receipt_signer br)) \<noteq> Inl e"
    if "length rid = 32" for rid e
    using new_payload_Inr [of "?claims rid" "?claims rid"] legal [OF that] that by fastforce
  from minted show ?thesis
    by (auto simp: issue_mint_def wp_simps Let_def minted_def sign simp del: upt_Suc)
qed

lemma issue_completes:
  assumes ready: "broker_ready lib br r s"
    and checks: "appraise_request lib br r manifest ev (clock_at s (ticks s)) = Inr ()"
    and live: "consume_broker_tx (challenge_token_hash (ir_challenge r)) (clock_at s (Suc (ticks s))) (db s) = Inr ((), st)"
    and minted: "minted lib br r (clock_at s (ticks s + 2)) (map (entropy s) [drawn s..<drawn s + 32]) c"
  shows "\<exists>d s'. issue lib br (request_obj r) manifest (evidence_obj ev) s = (Inr d, s') \<and> d_allowed d \<and> db s' = st"
proof -
  have body: "post (issue_body lib br (request_obj r) manifest (evidence_obj ev)) s0
      (\<lambda>d s'. d_allowed d \<and> db s' = st) (\<lambda>_ _. False)" if s0: "base s0 = base s" for s0 :: "'a issue_state_scheme"
  proof -
    have r0: "broker_ready lib br r s0"
      using ready s0 by (auto simp: broker_ready_def base_eq)
    show ?thesis
      unfolding issue_body_def post_bindM
      by (rule post_mono [OF issue_prepare_ready [OF r0]])
         (use ready checks live minted s0 in \<open>auto simp: wp_simps base_eq consume_broker_challenge_def Let_def
            broker_ready_def eval_nat_numeral simp del: upt_Suc intro!: post_mono [OF issue_mint_ready]\<close>)
  qed
  have "post (issue lib br (request_obj r) manifest (evidence_obj ev)) s (\<lambda>d s'. d_allowed d \<and> db s' = st) (\<lambda>_ _. False)"
    unfolding issue_def issue_handler post_bindM post_modifyM post_tryM
    by (rule post_mono [OF body]) (simp_all add: base_eq)
  from post_total [OF this] show ?thesis .
qed

section \<open>Which denials burn a challenge\<close>

lemma new_payload_error: "new_payload p = Inl e \<Longrightarrow> exn_reason e = INTERNAL_ERROR"
  by (auto simp: new_payload_def consistent_decision_state_def broker_state_def inventory_decision_state_def inconsistent_def
      invalid_def bindE_def require_def of_option_def split: if_splits sum.splits option.splits)

lemma foreign_reason: "foreign x \<Longrightarrow> x = Inl e \<Longrightarrow> exn_reason e = INTERNAL_ERROR"
  by (cases e) (auto simp: foreign_def)

lemma receipt_sign_error:
  "packages_foreign lib \<Longrightarrow> receipt_sign (lib_jws lib) (lib_dumps lib) sg p = Inl e \<Longrightarrow> exn_reason e = INTERNAL_ERROR"
  unfolding packages_foreign_def
  by (auto simp: receipt_sign_def canonical_json_def bindE_def split: sum.splits dest: foreign_reason [rotated])

lemma issue_mint_internal:
  assumes "packages_foreign lib"
  shows "post (issue_mint lib br r) s (\<lambda>_ _. True) (\<lambda>e _. exn_reason e = INTERNAL_ERROR)"
proof -
  have "exn_reason e = INTERNAL_ERROR"
    if "bindE (new_payload p) (receipt_sign (lib_jws lib) (lib_dumps lib) sg) = Inl e" for p sg e
    using that receipt_sign_error [OF assms] new_payload_error by (cases "new_payload p") auto
  moreover have "exn_reason e = INTERNAL_ERROR"
    if "bindE (new_credential (lib_ca2a lib) i iss sub sc d p nb na) (\<lambda>u. sign_credential (lib_ca2a lib) u k) = Inl e"
    for i iss sub sc d p nb na k e
    using that assms unfolding packages_foreign_def
    by (cases "new_credential (lib_ca2a lib) i iss sub sc d p nb na") (auto dest: foreign_reason [rotated])
  ultimately show ?thesis
    by (auto simp: issue_mint_def wp_simps Let_def simp del: upt_Suc)
qed

lemma issue_denial_burns:
  assumes "packages_foreign lib"
  shows "post (issue lib br request manifest evidence) s
     (\<lambda>d s'. \<not> d_allowed d \<longrightarrow> d_reason d \<noteq> INTERNAL_ERROR \<longrightarrow> db s' = db s) (\<lambda>_ _. True)"
proof -
  have body: "post (issue_body lib br request manifest evidence) s0
      (\<lambda>d s'. d_allowed d) (\<lambda>e s'. db s' = db s0 \<or> exn_reason e = INTERNAL_ERROR)" for s0 :: "'a issue_state_scheme"
    unfolding issue_body_def post_bindM
    by (rule post_mono [OF issue_prepare_post])
       (auto simp: base_eq wp_simps consume_broker_challenge_def Let_def
         intro!: post_mono [OF post_conj [OF issue_mint_internal [OF assms] issue_mint_post]])
  show ?thesis
    unfolding issue_def issue_handler post_bindM post_modifyM post_tryM
    by (rule post_mono [OF body]) (auto intro!: post_mono [OF issue_denial_post])
qed

section \<open>Fresh challenges\<close>

lemma new_challenge_post:
  "post (new_challenge lib br) s
     (\<lambda>token s'. let now = clock_at s (ticks s); ttl = bp_challenge_ttl_seconds (cb_policy br) in
        0 < ttl \<and> 0 \<le> now \<and>
        (\<exists>random. length random = 16 \<and> token = challenge_token (cb_challenge_secret br) (now + ttl) random) \<and>
        verify_challenge (lib_ca2a lib) (cb_challenge_secret br) token now = Inr () \<and>
        insert_broker_challenge (challenge_token_hash token) now (now + ttl) (db s) = Inr (db s'))
     (\<lambda>e s'. db s' = db s)"
  by (auto simp: new_challenge_def store_broker_challenge_def wp_simps Let_def simp del: upt_Suc
      intro!: exI [of _ "map (entropy s) [drawn s..<drawn s + 16]"])

end
