(* ===== verification/Inventory.thy ===== *)
theory Inventory
  imports Challenge Receipt Storage
begin

text \<open>
  \<^verbatim>\<open>src/atcap/inventory.py\<close>: the resource. It issues challenges bound to one call, redeems a
  credential with a holder proof at most once, invokes the private lookup and reports the outcome
  in a signed receipt; the MCP entry point maps tool calls onto these operations. The locals
  \<^verbatim>\<open>credential_id\<close> and \<^verbatim>\<open>token_hash\<close> of \<^verbatim>\<open>redeem\<close>, which its exception handlers read,
  are fields of the state, next to the invocation counter.
\<close>

section \<open>Input and output models\<close>

record inventory_arguments =
  ia_sku :: string

definition new_inventory_arguments :: "string \<Rightarrow> exn + inventory_arguments" where
  "new_inventory_arguments sku =
     bindE (require (1 \<le> length sku \<and> length sku \<le> 128) invalid) (\<lambda>_. Inr \<lparr>ia_sku = sku\<rparr>)"

definition arguments_dump :: "inventory_arguments \<Rightarrow> json" where
  "arguments_dump a = obj [(''sku'', JStr (ia_sku a))]"

record challenge_input = inventory_arguments +
  ci_credential_id :: string
  ci_record_id :: string

record lookup_input = inventory_arguments +
  li_credential :: "(string, json) fmap"
  li_holder_proof :: "(string, json) fmap"
  li_record_id :: string

definition get_sku :: "(string, json) fmap \<Rightarrow> exn + string" where
  "get_sku m = bindE (get_str m ''sku'') (\<lambda>s. bindE (require (1 \<le> length s \<and> length s \<le> 128) invalid) (\<lambda>_. Inr s))"

definition get_record_id :: "(string, json) fmap \<Rightarrow> exn + string" where
  "get_record_id m =
     bindE (get_str m ''record_id'') (\<lambda>s. bindE (require (1 \<le> length s \<and> length s \<le> 256) invalid) (\<lambda>_. Inr s))"

definition challenge_input_validate :: "(string, json) fmap \<Rightarrow> exn + challenge_input" where
  "challenge_input_validate m =
     bindE (closed_keys [''sku'', ''credential_id'', ''record_id''] m) (\<lambda>_.
     bindE (get_sku m) (\<lambda>sku.
     bindE (get_str m ''credential_id'') (\<lambda>credential_id.
     bindE (get_record_id m) (\<lambda>record_id.
     Inr \<lparr>ia_sku = sku, ci_credential_id = credential_id, ci_record_id = record_id\<rparr>))))"

definition lookup_input_validate :: "(string, json) fmap \<Rightarrow> exn + lookup_input" where
  "lookup_input_validate m =
     bindE (closed_keys [''sku'', ''credential'', ''holder_proof'', ''record_id''] m) (\<lambda>_.
     bindE (get_sku m) (\<lambda>sku.
     bindE (get_obj m ''credential'') (\<lambda>credential.
     bindE (get_obj m ''holder_proof'') (\<lambda>holder_proof.
     bindE (get_record_id m) (\<lambda>record_id.
     Inr \<lparr>ia_sku = sku, li_credential = credential, li_holder_proof = holder_proof,
          li_record_id = record_id\<rparr>)))))"

text \<open>\<^verbatim>\<open>InventoryLookupResult\<close>: validated, then dumped.\<close>

definition lookup_result :: "string \<Rightarrow> int \<Rightarrow> int \<Rightarrow> exn + json" where
  "lookup_result sku quantity invocation_number =
     bindE (require (1 \<le> length sku \<and> length sku \<le> 128 \<and> 0 \<le> quantity \<and> 1 \<le> invocation_number) invalid) (\<lambda>_.
     Inr (obj [(''sku'', JStr sku), (''quantity'', JInt quantity),
               (''invocation_number'', JInt invocation_number)]))"

definition unsigned_post_invocation_state :: "bool \<Rightarrow> int \<Rightarrow> exn + json" where
  "unsigned_post_invocation_state handler_completed invocation_id =
     bindE (require (1 \<le> invocation_id) invalid) (\<lambda>_.
     Inr (obj
       [(''schema_version'', JStr ''atcap-unsigned-post-invocation/v1''),
        (''error_code'', JStr ''POST_INVOCATION_RECEIPT_UNAVAILABLE''),
        (''receipt_status'', JStr ''UNSIGNED''), (''credential_spent'', JBool True),
        (''handler_invoked'', JBool True), (''handler_completed'', JBool handler_completed),
        (''invocation_id'', JInt invocation_id)]))"

section \<open>The application\<close>

record inventory_application =
  app_policy :: resource_policy
  app_challenge_secret :: bytes
  app_receipt_signer :: receipt_signer
  app_catalog :: "(string, int) fmap"

definition new_inventory_application ::
  "resource_policy \<Rightarrow> bytes \<Rightarrow> receipt_signer \<Rightarrow> (string, int) fmap option \<Rightarrow> exn + inventory_application" where
  "new_inventory_application policy challenge_secret signer catalog =
     bindE (require (\<not> length challenge_secret < 32)
              (ValueError ''resource challenge secret must be at least 32 bytes'')) (\<lambda>_.
     bindE (require (\<not> rp_challenge_ttl_seconds policy \<le> 0)
              (ValueError ''resource challenge TTL must be positive'')) (\<lambda>_.
     bindE (require (\<not> rp_max_credential_lifetime_seconds policy \<le> 0)
              (ValueError ''maximum credential lifetime must be positive'')) (\<lambda>_.
     Inr \<lparr>app_policy = policy, app_challenge_secret = challenge_secret, app_receipt_signer = signer,
          app_catalog =
            (case catalog of
               Some c \<Rightarrow> if c = fmempty then fmap_of_list [(''widget-42'', 7)] else c
             | None \<Rightarrow> fmap_of_list [(''widget-42'', 7)])\<rparr>)))"

record inventory_state = stored_env +
  invocation_count :: int
  rl_credential_id :: "string option"
  rl_token_hash :: "string option"

definition bad_credential_id :: exn where
  "bad_credential_id = DecisionError CREDENTIAL_INVALID
     ''credential_id must be a 256-bit lowercase hexadecimal identifier''"

definition issue_resource_challenge ::
  "libs \<Rightarrow> inventory_application \<Rightarrow> string \<Rightarrow> inventory_arguments \<Rightarrow> string
   \<Rightarrow> ('a stored_env_scheme, resource_challenge) prog" where
  "issue_resource_challenge lib app credential_id arguments record_id =
     bindM (liftE (require (lower_hex 64 credential_id) bad_credential_id)) (\<lambda>_.
     bindM read_clock (\<lambda>issued_at.
     bindM (issue_ca2a_challenge_at (lib_ca2a lib) (app_challenge_secret app) issued_at
              (rp_challenge_ttl_seconds (app_policy app))) (\<lambda>(token, expires_at).
     bindM (liftE (canonical_digest (lib_dumps lib) (arguments_dump arguments))) (\<lambda>arguments_digest.
     bindM (store_resource_challenge (challenge_token_hash token) credential_id
              (rp_method (app_policy app)) arguments_digest record_id (rp_audience (app_policy app))
              issued_at expires_at) (\<lambda>_.
     returnM \<lparr>rc_token = token, rc_credential_id = credential_id, rc_method = rp_method (app_policy app),
              rc_arguments_digest = arguments_digest, rc_record_id = record_id,
              rc_audience = rp_audience (app_policy app), rc_expires_at = expires_at\<rparr>)))))"

subsection \<open>Receipts\<close>

definition inventory_payload ::
  "inventory_application \<Rightarrow> string \<Rightarrow> int \<Rightarrow> int \<Rightarrow> string \<Rightarrow> string \<Rightarrow> reason \<Rightarrow> string option
   \<Rightarrow> string option \<Rightarrow> string \<Rightarrow> string option \<Rightarrow> int option \<Rightarrow> bool \<Rightarrow> string \<Rightarrow> decision_receipt_payload" where
  "inventory_payload app receipt_id decided_at snapshot policy_digest decision reason credential_id token_hash
       arguments_digest record_id invocation_id handler_invoked business_result =
     \<lparr>rp_schema_version = ''atcap-decision-receipt/v1'', rp_receipt_id = receipt_id,
      rp_deciding_service = ''inventoryd'', rp_decision = decision, rp_reason = reason_str reason,
      rp_decided_at = decided_at, rp_credential_id = credential_id,
      rp_scope = Some (rp_qualified_scope (app_policy app)), rp_challenge_token_hash = token_hash,
      rp_manifest_digest = None, rp_call_method = Some (rp_method (app_policy app)),
      rp_call_audience = Some (rp_audience (app_policy app)),
      rp_arguments_digest = Some arguments_digest, rp_record_id = record_id,
      rp_invocation_id = invocation_id, rp_handler_count_snapshot = snapshot,
      rp_handler_invoked = handler_invoked, rp_business_result = business_result,
      rp_artifact_hashes = fmap_of_list [(''resource_policy_sha256'', policy_digest)]\<rparr>"

definition inventory_receipt ::
  "libs \<Rightarrow> inventory_application \<Rightarrow> string \<Rightarrow> reason \<Rightarrow> string option \<Rightarrow> string option \<Rightarrow> string
   \<Rightarrow> string option \<Rightarrow> int option \<Rightarrow> bool \<Rightarrow> string \<Rightarrow> ('a inventory_state_scheme, signed_decision_receipt) prog" where
  "inventory_receipt lib app decision reason credential_id token_hash arguments_digest record_id
       invocation_id handler_invoked business_result =
     bindM (token_hex 16) (\<lambda>receipt_id.
     bindM read_clock (\<lambda>decided_at.
     bindM (getM invocation_count) (\<lambda>snapshot.
     bindM (liftE (canonical_digest (lib_dumps lib) (resource_public_dict (app_policy app)))) (\<lambda>policy_digest.
     bindM (liftE (new_payload
              (inventory_payload app receipt_id decided_at snapshot policy_digest decision reason
                 credential_id token_hash arguments_digest record_id invocation_id handler_invoked
                 business_result))) (\<lambda>payload.
     liftE (receipt_sign (lib_jws lib) (lib_dumps lib) (app_receipt_signer app) payload))))))"

definition direct_lookup_attempt ::
  "libs \<Rightarrow> inventory_application \<Rightarrow> (string, json) fmap \<Rightarrow> ('a inventory_state_scheme, decision) prog" where
  "direct_lookup_attempt lib app arguments =
     bindM (liftE (canonical_digest (lib_dumps lib) (JObj arguments))) (\<lambda>arguments_digest.
     bindM (inventory_receipt lib app ''deny'' UNAUTHENTICATED None None arguments_digest None None False
              ''not_invoked'') (\<lambda>receipt.
     returnM \<lparr>d_allowed = False, d_reason = UNAUTHENTICATED, d_receipt = receipt, d_result = None\<rparr>))"

definition record_invocation :: "('a inventory_state_scheme, int) prog" where
  "record_invocation =
     bindM (modifyM (\<lambda>s. s\<lparr>invocation_count := invocation_count s + 1\<rparr>)) (\<lambda>_. getM invocation_count)"

definition inventory_lookup :: "inventory_application \<Rightarrow> inventory_arguments \<Rightarrow> string \<times> int" where
  "inventory_lookup app arguments =
     (ia_sku arguments, case fmlookup (app_catalog app) (ia_sku arguments) of None \<Rightarrow> 0 | Some q \<Rightarrow> q)"

subsection \<open>Redemption\<close>

fun is_invalid_credential :: "exn \<Rightarrow> bool" where
  "is_invalid_credential (InvalidCredential _) = True"
| "is_invalid_credential _ = False"

fun is_holder_proof_invalid :: "exn \<Rightarrow> bool" where
  "is_holder_proof_invalid (HolderProofInvalid _) = True"
| "is_holder_proof_invalid _ = False"

definition parse_credential :: "libs \<Rightarrow> (string, json) fmap \<Rightarrow> exn + delegation_credential" where
  "parse_credential lib m =
     catching (\<lambda>e. is_invalid_credential e \<or> is_type_error e \<or> is_value_error e)
       (DecisionError CREDENTIAL_INVALID ''credential is malformed'')
       (credential_from_dict (lib_ca2a lib) m)"

text \<open>The checks on the parsed credential that need no clock; they return its validity bounds.\<close>

definition credential_bounds :: "inventory_application \<Rightarrow> delegation_credential \<Rightarrow> exn + (int \<times> int)" where
  "credential_bounds app c =
     bindE (require (lower_hex 64 (dc_credential_id c))
              (DecisionError CREDENTIAL_INVALID ''credential_id is not a broker-generated 256-bit identifier'')) (\<lambda>_.
     bindE (case (dc_not_before c, dc_not_after c) of
              (Some not_before, Some not_after) \<Rightarrow> Inr (not_before, not_after)
            | _ \<Rightarrow> Inl (DecisionError CREDENTIAL_INVALID ''credential must carry both signed validity bounds'')) (\<lambda>(not_before, not_after).
     bindE (require (\<not> not_after - not_before > rp_max_credential_lifetime_seconds (app_policy app))
              (DecisionError CREDENTIAL_INVALID ''credential lifetime exceeds resource policy'')) (\<lambda>_.
     Inr (not_before, not_after))))"

fun chain_error :: "exn \<Rightarrow> exn" where
  "chain_error (CredentialExpired _) = DecisionError CREDENTIAL_EXPIRED ''credential expired''"
| "chain_error (UntrustedDelegationRoot _) = DecisionError CREDENTIAL_INVALID ''credential root is untrusted''"
| "chain_error e = (if is_ca2a_error e then DecisionError CREDENTIAL_INVALID ''credential did not verify'' else e)"

definition check_chain :: "libs \<Rightarrow> inventory_application \<Rightarrow> delegation_credential \<Rightarrow> int \<Rightarrow> exn + unit" where
  "check_chain lib app c now =
     bindE (mapE chain_error
              (verify_chain (lib_ca2a lib) [c] 0 {|rp_trusted_broker_public_hex (app_policy app)|} now)) (\<lambda>_.
     require (dc_scope c = {|rp_qualified_scope (app_policy app)|})
       (DecisionError SCOPE_DENIED ''credential scope is not exact''))"

definition parse_proof :: "libs \<Rightarrow> (string, json) fmap \<Rightarrow> exn + holder_proof" where
  "parse_proof lib m =
     catching (\<lambda>e. is_holder_proof_invalid e \<or> is_type_error e \<or> is_value_error e)
       (DecisionError HOLDER_PROOF_INVALID ''holder proof is malformed'')
       (proof_from_dict (lib_ca2a lib) m)"

definition expected_context :: "inventory_application \<Rightarrow> string \<Rightarrow> string \<Rightarrow> string \<Rightarrow> call_context" where
  "expected_context app credential_id arguments_digest record_id =
     (credential_id, rp_method (app_policy app), arguments_digest, record_id, rp_audience (app_policy app))"

definition record_context :: "resource_challenge_record \<Rightarrow> call_context" where
  "record_context stored =
     (rcr_credential_id stored, rcr_method stored, rcr_arguments_digest stored, rcr_record_id stored,
      rcr_audience stored)"

definition check_stored ::
  "call_context \<Rightarrow> resource_challenge_record option \<Rightarrow> exn + resource_challenge_record" where
  "check_stored expected found =
     bindE (of_option (DecisionError CHALLENGE_INVALID ''resource challenge was not issued here'') found) (\<lambda>stored.
     bindE (require (record_context stored = expected)
              (DecisionError HOLDER_PROOF_INVALID ''stored resource challenge is bound to another request'')) (\<lambda>_.
     bindE (require (rcr_consumed_at stored = None)
              (DecisionError CHALLENGE_CONSUMED ''resource challenge was consumed'')) (\<lambda>_.
     Inr stored)))"

definition check_holder_proof ::
  "libs \<Rightarrow> inventory_application \<Rightarrow> inventory_arguments \<Rightarrow> string \<Rightarrow> delegation_credential \<Rightarrow> holder_proof \<Rightarrow> exn + unit" where
  "check_holder_proof lib app arguments record_id c pf =
     catching is_holder_proof_invalid (DecisionError HOLDER_PROOF_INVALID ''holder proof did not verify'')
       (bindE (canonical_json (lib_dumps lib) (arguments_dump arguments)) (\<lambda>sealed_payload.
        verify_holder_proof (lib_ca2a lib) pf c (rp_audience (app_policy app)) (app_challenge_secret app)
          (rp_qualified_scope (app_policy app)) record_id sealed_payload))"

text \<open>From the credential to its scope.\<close>

definition redeem_credential ::
  "libs \<Rightarrow> inventory_application \<Rightarrow> (string, json) fmap
   \<Rightarrow> ('a inventory_state_scheme, delegation_credential \<times> int \<times> int) prog" where
  "redeem_credential lib app m =
     bindM (liftE (parse_credential lib m)) (\<lambda>c.
     bindM (modifyM (\<lambda>s. s\<lparr>rl_credential_id := Some (dc_credential_id c)\<rparr>)) (\<lambda>_.
     bindM (liftE (credential_bounds app c)) (\<lambda>(not_before, not_after).
     bindM read_clock (\<lambda>now.
     bindM (liftE (check_chain lib app c now)) (\<lambda>_.
     returnM (c, not_before, not_after))))))"

text \<open>From the holder proof to its verification.\<close>

definition redeem_proof ::
  "libs \<Rightarrow> inventory_application \<Rightarrow> inventory_arguments \<Rightarrow> string \<Rightarrow> 'b lookup_input_scheme \<Rightarrow> delegation_credential
   \<Rightarrow> ('a inventory_state_scheme, string) prog" where
  "redeem_proof lib app arguments arguments_digest request c =
     bindM (liftE (parse_proof lib (li_holder_proof request))) (\<lambda>pf.
     let token_hash = challenge_token_hash (hp_challenge pf) in
     bindM (modifyM (\<lambda>s. s\<lparr>rl_token_hash := Some token_hash\<rparr>)) (\<lambda>_.
     bindM (get_resource_challenge token_hash) (\<lambda>found.
     bindM (liftE (check_stored (expected_context app (dc_credential_id c) arguments_digest (li_record_id request))
              found)) (\<lambda>stored.
     bindM read_clock (\<lambda>now.
     bindM (liftE (require (\<not> now \<ge> rcr_expires_at stored)
              (DecisionError CHALLENGE_STALE ''resource challenge expired''))) (\<lambda>_.
     bindM (liftE (check_holder_proof lib app arguments (li_record_id request) c pf)) (\<lambda>_.
     returnM token_hash)))))))"

text \<open>From the spend to the last checks before the handler.\<close>

definition redeem_spend ::
  "inventory_application \<Rightarrow> string \<Rightarrow> string \<Rightarrow> 'b lookup_input_scheme \<Rightarrow> delegation_credential \<Rightarrow> int \<Rightarrow> int
   \<Rightarrow> ('a inventory_state_scheme, unit) prog" where
  "redeem_spend app arguments_digest token_hash request c not_before not_after =
     bindM (consume_challenge_and_spend_credential token_hash
              (expected_context app (dc_credential_id c) arguments_digest (li_record_id request))
              not_before not_after) (\<lambda>spend.
     bindM (liftE (require (first_spend spend)
              (DecisionError CREDENTIAL_SPENT ''credential was already redeemed''))) (\<lambda>_.
     bindM read_clock (\<lambda>pre_handler_now.
     bindM (liftE (require (\<not> pre_handler_now \<ge> challenge_expires_at spend)
              (DecisionError CHALLENGE_STALE ''resource challenge expired after the spend commit''))) (\<lambda>_.
     liftE (require (\<not> (pre_handler_now < not_before \<or> pre_handler_now > not_after))
       (DecisionError CREDENTIAL_EXPIRED ''credential expired after the spend commit''))))))"

definition redeem_authorize ::
  "libs \<Rightarrow> inventory_application \<Rightarrow> inventory_arguments \<Rightarrow> string \<Rightarrow> 'b lookup_input_scheme \<Rightarrow> ('a inventory_state_scheme, unit) prog" where
  "redeem_authorize lib app arguments arguments_digest request =
     bindM (redeem_credential lib app (li_credential request)) (\<lambda>(c, not_before, not_after).
     bindM (redeem_proof lib app arguments arguments_digest request c) (\<lambda>token_hash.
     redeem_spend app arguments_digest token_hash request c not_before not_after))"

definition redeem_receipt ::
  "libs \<Rightarrow> inventory_application \<Rightarrow> string \<Rightarrow> 'b lookup_input_scheme \<Rightarrow> string \<Rightarrow> reason \<Rightarrow> int option \<Rightarrow> bool \<Rightarrow> string
   \<Rightarrow> ('a inventory_state_scheme, signed_decision_receipt) prog" where
  "redeem_receipt lib app arguments_digest request decision reason invocation_id handler_invoked business_result =
     bindM (getM rl_credential_id) (\<lambda>credential_id.
     bindM (getM rl_token_hash) (\<lambda>token_hash.
     inventory_receipt lib app decision reason credential_id token_hash arguments_digest
       (Some (li_record_id request)) invocation_id handler_invoked business_result))"

definition redeem_denial ::
  "libs \<Rightarrow> inventory_application \<Rightarrow> string \<Rightarrow> 'b lookup_input_scheme \<Rightarrow> reason \<Rightarrow> ('a inventory_state_scheme, decision) prog" where
  "redeem_denial lib app arguments_digest request reason =
     bindM (redeem_receipt lib app arguments_digest request ''deny'' reason None False ''not_invoked'') (\<lambda>receipt.
     returnM \<lparr>d_allowed = False, d_reason = reason, d_receipt = receipt, d_result = None\<rparr>)"

text \<open>The handler and the receipt that reports it.\<close>

definition redeem_invoke ::
  "libs \<Rightarrow> inventory_application \<Rightarrow> inventory_arguments \<Rightarrow> string \<Rightarrow> 'b lookup_input_scheme \<Rightarrow> ('a inventory_state_scheme, decision) prog" where
  "redeem_invoke lib app arguments arguments_digest request =
     bindM record_invocation (\<lambda>invocation_number.
     case (let (sku, quantity) = inventory_lookup app arguments in lookup_result sku quantity invocation_number) of
       Inl _ \<Rightarrow>
         bindM (tryM (redeem_receipt lib app arguments_digest request ''allow'' HANDLER_FAILED
                        (Some invocation_number) True ''failed'')
                  (\<lambda>_. raiseM (PostInvocationError ''handler failed and no signed receipt could be produced''
                                invocation_number False))) (\<lambda>receipt.
         returnM
           \<lparr>d_allowed = True, d_reason = HANDLER_FAILED, d_receipt = receipt,
            d_result = Some (obj [(''invoked'', JBool True), (''completed'', JBool False),
                                  (''invocation_number'', JInt invocation_number)])\<rparr>)
     | Inr result \<Rightarrow>
         bindM (tryM (redeem_receipt lib app arguments_digest request ''allow'' ALLOW
                        (Some invocation_number) True ''completed'')
                  (\<lambda>_. raiseM (PostInvocationError ''handler completed but no signed receipt could be produced''
                                invocation_number True))) (\<lambda>receipt.
         returnM \<lparr>d_allowed = True, d_reason = ALLOW, d_receipt = receipt, d_result = Some result\<rparr>))"

text \<open>A decided denial leaves the function with its receipt; only a completed authorization reaches
  the handler.\<close>

definition redeem ::
  "libs \<Rightarrow> inventory_application \<Rightarrow> 'b lookup_input_scheme \<Rightarrow> ('a inventory_state_scheme, decision) prog" where
  "redeem lib app request =
     bindM (liftE (new_inventory_arguments (ia_sku request))) (\<lambda>arguments.
     bindM (liftE (canonical_digest (lib_dumps lib) (arguments_dump arguments))) (\<lambda>arguments_digest.
     bindM (modifyM (\<lambda>s. s\<lparr>rl_credential_id := None, rl_token_hash := None\<rparr>)) (\<lambda>_.
     bindM (tryM (bindM (redeem_authorize lib app arguments arguments_digest request) (\<lambda>_. returnM None))
              (\<lambda>e. bindM (redeem_denial lib app arguments_digest request
                            (case e of DecisionError reason _ \<Rightarrow> reason | _ \<Rightarrow> INTERNAL_ERROR))
                     (\<lambda>d. returnM (Some d)))) (\<lambda>denied.
     case denied of
       Some d \<Rightarrow> returnM d
     | None \<Rightarrow> redeem_invoke lib app arguments arguments_digest request))))"

section \<open>The MCP entry points\<close>

record tool =
  tool_name :: string
  tool_description :: string
  tool_input_schema :: json

definition list_tools :: "libs \<Rightarrow> inventory_application \<Rightarrow> tool list" where
  "list_tools lib app =
    [\<lparr>tool_name = ''inventory.challenge'',
      tool_description = ''Issue a challenge bound to one exact protected lookup.'',
      tool_input_schema = lib_json_schema lib ''ChallengeInput''\<rparr>,
     \<lparr>tool_name = rp_method (app_policy app),
      tool_description = ''Capability-protected inventory lookup.'',
      tool_input_schema = lib_json_schema lib ''LookupInput''\<rparr>]"

record call_tool_result =
  ct_text :: string
  ct_structured :: json
  ct_is_error :: bool

definition mcp_result :: "libs \<Rightarrow> json \<Rightarrow> bool \<Rightarrow> call_tool_result" where
  "mcp_result lib value is_error =
     \<lparr>ct_text = lib_json_text lib value, ct_structured = value, ct_is_error = is_error\<rparr>"

definition challenge_value :: "resource_challenge \<Rightarrow> json" where
  "challenge_value c = obj
    [(''token'', JStr (rc_token c)), (''credential_id'', JStr (rc_credential_id c)),
     (''method'', JStr (rc_method c)), (''arguments_digest'', JStr (rc_arguments_digest c)),
     (''record_id'', JStr (rc_record_id c)), (''audience'', JStr (rc_audience c)),
     (''expires_at'', JInt (rc_expires_at c))]"

definition reject_direct ::
  "libs \<Rightarrow> inventory_application \<Rightarrow> (string, json) fmap \<Rightarrow> ('a inventory_state_scheme, call_tool_result) prog" where
  "reject_direct lib app raw =
     bindM (direct_lookup_attempt lib app raw) (\<lambda>d. returnM (mcp_result lib (decision_to_dict d) True))"

definition call_challenge ::
  "libs \<Rightarrow> inventory_application \<Rightarrow> (string, json) fmap \<Rightarrow> ('a inventory_state_scheme, call_tool_result) prog" where
  "call_challenge lib app raw =
     tryM
       (bindM (liftE (challenge_input_validate raw)) (\<lambda>input.
        bindM (liftE (new_inventory_arguments (ia_sku input))) (\<lambda>arguments.
        bindM (issue_resource_challenge lib app (ci_credential_id input) arguments (ci_record_id input)) (\<lambda>challenge.
        returnM (mcp_result lib (challenge_value challenge) False)))))
       (\<lambda>e. case e of
          ValidationError _ \<Rightarrow> reject_direct lib app raw
        | DecisionError _ _ \<Rightarrow> reject_direct lib app raw
        | _ \<Rightarrow> raiseM e)"

definition call_lookup ::
  "libs \<Rightarrow> inventory_application \<Rightarrow> (string, json) fmap \<Rightarrow> ('a inventory_state_scheme, call_tool_result) prog" where
  "call_lookup lib app raw =
     (case lookup_input_validate raw of
        Inl (ValidationError _) \<Rightarrow> reject_direct lib app raw
      | Inl e \<Rightarrow> raiseM e
      | Inr request \<Rightarrow>
          tryM
            (bindM (redeem lib app request) (\<lambda>d.
             returnM (mcp_result lib (decision_to_dict d) (\<not> d_allowed d \<or> d_reason d = HANDLER_FAILED))))
            (\<lambda>e. case e of
               PostInvocationError _ invocation_id completed \<Rightarrow>
                 bindM (liftE (unsigned_post_invocation_state completed invocation_id)) (\<lambda>value.
                 returnM (mcp_result lib value True))
             | _ \<Rightarrow> raiseM e))"

definition call_tool ::
  "libs \<Rightarrow> inventory_application \<Rightarrow> string \<Rightarrow> (string, json) fmap option
   \<Rightarrow> ('a inventory_state_scheme, call_tool_result) prog" where
  "call_tool lib app name arguments =
     (let raw = (case arguments of None \<Rightarrow> fmempty | Some m \<Rightarrow> m)
      in if name = ''inventory.challenge'' then call_challenge lib app raw
         else if name = rp_method (app_policy app) then call_lookup lib app raw
         else reject_direct lib app raw)"

section \<open>Receipts of the inventory\<close>

lemma inventory_receipt_post:
  "post (inventory_receipt lib app dec reason cid h ad rid ino invoked result) s
     (\<lambda>r s'. db s' = db s \<and> invocation_count s' = invocation_count s \<and>
        (\<exists>rcid t dg p. p = inventory_payload app rcid t (invocation_count s) dg dec reason cid h ad rid ino invoked result \<and>
           legal_receipt p \<and> receipt_sign (lib_jws lib) (lib_dumps lib) (app_receipt_signer app) p = Inr r))
     (\<lambda>e s'. db s' = db s \<and> invocation_count s' = invocation_count s)"
  by (auto simp: inventory_receipt_def wp_simps new_payload_Inr simp del: upt_Suc)

lemma redeem_receipt_post:
  "post (redeem_receipt lib app ad request dec reason ino invoked result) s
     (\<lambda>r s'. db s' = db s \<and> invocation_count s' = invocation_count s \<and>
        (\<exists>rcid t dg p. p = inventory_payload app rcid t (invocation_count s) dg dec reason (rl_credential_id s)
             (rl_token_hash s) ad (Some (li_record_id request)) ino invoked result \<and>
           legal_receipt p \<and> receipt_sign (lib_jws lib) (lib_dumps lib) (app_receipt_signer app) p = Inr r))
     (\<lambda>e s'. db s' = db s \<and> invocation_count s' = invocation_count s)"
  unfolding redeem_receipt_def post_bindM post_getM by (rule inventory_receipt_post)

text \<open>What the resource needs to report a decision: its policy serializes and has no empty text,
  signing works, and the clock and the counter fit a receipt.\<close>

definition inventory_ready :: "libs \<Rightarrow> inventory_application \<Rightarrow> bool" where
  "inventory_ready lib app \<longleftrightarrow>
     (\<exists>b. lib_dumps lib (resource_public_dict (app_policy app)) = Inr b) \<and>
     receipts_signable lib (app_receipt_signer app) \<and>
     rp_qualified_scope (app_policy app) \<noteq> [] \<and> rp_method (app_policy app) \<noteq> [] \<and>
     rp_audience (app_policy app) \<noteq> []"

lemma truthy_Some [simp]: "truthy (Some s) \<longleftrightarrow> s \<noteq> []"
  by simp

lemma inventory_deny_legal:
  assumes "inventory_ready lib app" "length rcid = 32" "0 \<le> t" "0 \<le> n" "ad \<noteq> []" "r \<noteq> ALLOW" "r \<noteq> HANDLER_FAILED"
  shows "legal_receipt (inventory_payload app rcid t n dg ''deny'' r cid h ad rid None False ''not_invoked'')"
    (is "legal_receipt ?p")
proof -
  have "has_shape (InventoryDeny r) ?p"
    using assms by (simp add: inventory_payload_def shape_defs inventory_ready_def)
  with assms show ?thesis
    unfolding legal_receipt_def by (auto simp: inventory_payload_def intro!: exI [of _ "InventoryDeny r"])
qed

lemma inventory_allow_legal:
  assumes "inventory_ready lib app" "length rcid = 32" "0 \<le> t" "1 \<le> n" "ad \<noteq> []" "h \<noteq> []" "rid \<noteq> []" "dg \<noteq> []"
    "(r, result) \<in> {(ALLOW, ''completed''), (HANDLER_FAILED, ''failed'')}"
  shows "legal_receipt (inventory_payload app rcid t n dg ''allow'' r (Some cid) (Some h) ad (Some rid) (Some n) True result)"
    (is "legal_receipt ?p")
proof -
  let ?shape = "if r = ALLOW then InventoryCompleted else InventoryFailed"
  have "has_shape ?shape ?p" "rp_reason ?p = reason_str (shape_reason ?shape)"
    using assms by (auto simp: inventory_payload_def shape_defs inventory_ready_def)
  with assms show ?thesis
    unfolding legal_receipt_def by (auto simp: inventory_payload_def)
qed

lemma inventory_receipt_total:
  assumes ready: "inventory_ready lib app" and t: "0 \<le> clock_at s (ticks s)" "clock_at s (ticks s) < 2 ^ 53"
    and n: "invocation_count s < 2 ^ 53"
    and legal: "\<And>rcid dg. length rcid = 32 \<Longrightarrow> dg \<noteq> [] \<Longrightarrow>
      legal_receipt (inventory_payload app rcid (clock_at s (ticks s)) (invocation_count s) dg dec reason cid h ad rid ino invoked result)"
  shows "post (inventory_receipt lib app dec reason cid h ad rid ino invoked result) s (\<lambda>_ _. True) (\<lambda>_ _. False)"
proof -
  from ready obtain b where b: "lib_dumps lib (resource_public_dict (app_policy app)) = Inr b"
    by (auto simp: inventory_ready_def)
  let ?p = "\<lambda>rcid. inventory_payload app rcid (clock_at s (ticks s)) (invocation_count s) (sha256_hex b) dec reason cid h ad rid ino invoked result"
  have "\<exists>r. receipt_sign (lib_jws lib) (lib_dumps lib) (app_receipt_signer app) (?p rcid) = Inr r" if "length rcid = 32" for rcid
    using ready t n legal [OF that, of "sha256_hex b"]
    by (auto simp: inventory_ready_def receipts_signable_def inventory_payload_def)
  moreover have "new_payload (?p rcid) = Inr (?p rcid)" if "length rcid = 32" for rcid
    using legal [OF that, of "sha256_hex b"] by (simp add: new_payload_Inr)
  ultimately show ?thesis
    by (auto simp: inventory_receipt_def wp_simps canonical_digest_def canonical_json_def b simp del: upt_Suc)
       (metis Inl_Inr_False length_bytes_hex length_map length_upt diff_add_inverse mult_2 numeral_Bit0)
qed

section \<open>What redemption does\<close>

text \<open>Every check before the spend, at the first two clock readings.\<close>

definition redeem_checked ::
  "libs \<Rightarrow> inventory_application \<Rightarrow> 'b lookup_input_scheme \<Rightarrow> 'a stored_env_scheme \<Rightarrow> inventory_arguments
   \<Rightarrow> string \<Rightarrow> delegation_credential \<Rightarrow> int \<Rightarrow> int \<Rightarrow> holder_proof \<Rightarrow> bool" where
  "redeem_checked lib app request s arguments ad c nb na pf \<longleftrightarrow>
     parse_credential lib (li_credential request) = Inr c \<and> credential_bounds app c = Inr (nb, na) \<and>
     check_chain lib app c (clock_at s (ticks s)) = Inr () \<and>
     parse_proof lib (li_holder_proof request) = Inr pf \<and>
     (\<exists>stored. check_stored (expected_context app (dc_credential_id c) ad (li_record_id request))
          (map_option record_of_row (sql_select rr_token_hash (challenge_token_hash (hp_challenge pf))
             (resource_challenges (db s)))) = Inr stored \<and>
        clock_at s (Suc (ticks s)) < rcr_expires_at stored) \<and>
     check_holder_proof lib app arguments (li_record_id request) c pf = Inr ()"

text \<open>The spend, at the clock reading taken under the write lock.\<close>

definition redeem_spends ::
  "inventory_application \<Rightarrow> 'b lookup_input_scheme \<Rightarrow> 'a stored_env_scheme \<Rightarrow> string \<Rightarrow> delegation_credential
   \<Rightarrow> int \<Rightarrow> int \<Rightarrow> holder_proof \<Rightarrow> credential_spend_result \<Rightarrow> sqlite_store \<Rightarrow> bool" where
  "redeem_spends app request s ad c nb na pf spend st \<longleftrightarrow>
     spend_tx (challenge_token_hash (hp_challenge pf))
       (expected_context app (dc_credential_id c) ad (li_record_id request)) nb na
       (clock_at s (Suc (Suc (ticks s)))) (db s) = Inr (spend, st)"

text \<open>The last reading, before the handler.\<close>

definition redeem_in_time :: "'a stored_env_scheme \<Rightarrow> int \<Rightarrow> int \<Rightarrow> credential_spend_result \<Rightarrow> bool" where
  "redeem_in_time s nb na spend \<longleftrightarrow> (let now = clock_at s (ticks s + 3) in
     now < challenge_expires_at spend \<and> nb \<le> now \<and> now \<le> na)"

text \<open>Why a committed spend may still be refused.\<close>

definition refusal_reason :: "credential_spend_result \<Rightarrow> int \<Rightarrow> reason" where
  "refusal_reason spend now =
     (if \<not> first_spend spend then CREDENTIAL_SPENT
      else if now \<ge> challenge_expires_at spend then CHALLENGE_STALE
      else CREDENTIAL_EXPIRED)"

lemma redeem_credential_post:
  "post (redeem_credential lib app m) s
     (\<lambda>(c, nb, na) s'. parse_credential lib m = Inr c \<and> credential_bounds app c = Inr (nb, na) \<and>
        check_chain lib app c (clock_at s (ticks s)) = Inr () \<and>
        s' = s\<lparr>rl_credential_id := Some (dc_credential_id c), ticks := Suc (ticks s)\<rparr>)
     (\<lambda>e s'. db s' = db s \<and> invocation_count s' = invocation_count s)"
  by (simp add: redeem_credential_def wp_simps split_beta)

lemma redeem_proof_post:
  "post (redeem_proof lib app arguments ad request c) s
     (\<lambda>h s'. (\<exists>pf stored. parse_proof lib (li_holder_proof request) = Inr pf \<and> h = challenge_token_hash (hp_challenge pf) \<and>
          check_stored (expected_context app (dc_credential_id c) ad (li_record_id request))
            (map_option record_of_row (sql_select rr_token_hash h (resource_challenges (db s)))) = Inr stored \<and>
          clock_at s (ticks s) < rcr_expires_at stored \<and>
          check_holder_proof lib app arguments (li_record_id request) c pf = Inr ()) \<and>
        s' = s\<lparr>rl_token_hash := Some h, db_calls := Suc (db_calls s), ticks := Suc (ticks s)\<rparr>)
     (\<lambda>e s'. db s' = db s \<and> invocation_count s' = invocation_count s)"
  by (auto simp: redeem_proof_def wp_simps Let_def not_le)

lemma redeem_spend_post:
  "post (redeem_spend app ad h request c nb na) s
     (\<lambda>_ s'. \<exists>spend. spend_tx h (expected_context app (dc_credential_id c) ad (li_record_id request)) nb na
            (clock_at s (ticks s)) (db s) = Inr (spend, db s') \<and> first_spend spend \<and>
        clock_at s (Suc (ticks s)) < challenge_expires_at spend \<and> nb \<le> clock_at s (Suc (ticks s)) \<and>
        clock_at s (Suc (ticks s)) \<le> na \<and> invocation_count s' = invocation_count s \<and>
        rl_credential_id s' = rl_credential_id s \<and> rl_token_hash s' = rl_token_hash s \<and>
        clock_at s' = clock_at s \<and> ticks s' = ticks s + 2)
     (\<lambda>e s'. invocation_count s' = invocation_count s \<and>
        (db s' = db s \<or>
         (\<exists>spend. spend_tx h (expected_context app (dc_credential_id c) ad (li_record_id request)) nb na
            (clock_at s (ticks s)) (db s) = Inr (spend, db s') \<and>
           \<not> (first_spend spend \<and> clock_at s (Suc (ticks s)) < challenge_expires_at spend \<and>
              nb \<le> clock_at s (Suc (ticks s)) \<and> clock_at s (Suc (ticks s)) \<le> na) \<and>
           exn_reason e = refusal_reason spend (clock_at s (Suc (ticks s))))))"
  by (auto simp: refusal_reason_def redeem_spend_def consume_challenge_and_spend_credential_def wp_simps Let_def not_le not_less)

text \<open>What is known when the handler may run, and when it may not. The claims on the locals are what
  the receipts report.\<close>

definition redeem_permitted ::
  "libs \<Rightarrow> inventory_application \<Rightarrow> 'b lookup_input_scheme \<Rightarrow> 'a stored_env_scheme \<Rightarrow> inventory_arguments
   \<Rightarrow> string \<Rightarrow> delegation_credential \<Rightarrow> holder_proof \<Rightarrow> sqlite_store \<Rightarrow> bool" where
  "redeem_permitted lib app request s arguments ad c pf st \<longleftrightarrow>
     (\<exists>nb na spend. redeem_checked lib app request s arguments ad c nb na pf \<and>
        redeem_spends app request s ad c nb na pf spend st \<and> first_spend spend \<and>
        redeem_in_time s nb na spend)"

definition redeem_refused ::
  "libs \<Rightarrow> inventory_application \<Rightarrow> 'b lookup_input_scheme \<Rightarrow> 'a stored_env_scheme \<Rightarrow> inventory_arguments
   \<Rightarrow> string \<Rightarrow> reason \<Rightarrow> sqlite_store \<Rightarrow> bool" where
  "redeem_refused lib app request s arguments ad reason st \<longleftrightarrow>
     st = db s \<or>
     (\<exists>c nb na pf spend. redeem_checked lib app request s arguments ad c nb na pf \<and>
        redeem_spends app request s ad c nb na pf spend st \<and>
        \<not> (first_spend spend \<and> redeem_in_time s nb na spend) \<and>
        reason = refusal_reason spend (clock_at s (ticks s + 3)))"

lemma redeem_refused_same: "st = db s \<Longrightarrow> redeem_refused lib app request s arguments ad reason st"
  by (simp add: redeem_refused_def)

lemma redeem_refused_spent:
  "redeem_checked lib app request s arguments ad c nb na pf \<Longrightarrow>
   redeem_spends app request s ad c nb na pf spend st \<Longrightarrow>
   \<not> (first_spend spend \<and> redeem_in_time s nb na spend) \<Longrightarrow>
   reason = refusal_reason spend (clock_at s (ticks s + 3)) \<Longrightarrow>
   redeem_refused lib app request s arguments ad reason st"
  unfolding redeem_refused_def by blast

lemma redeem_permittedI:
  "redeem_checked lib app request s arguments ad c nb na pf \<Longrightarrow>
   redeem_spends app request s ad c nb na pf spend st \<Longrightarrow> first_spend spend \<Longrightarrow> redeem_in_time s nb na spend \<Longrightarrow>
   redeem_permitted lib app request s arguments ad c pf st"
  unfolding redeem_permitted_def by blast

lemma redeem_authorize_post:
  "post (redeem_authorize lib app arguments ad request) s
     (\<lambda>_ s'. \<exists>c pf. redeem_permitted lib app request s arguments ad c pf (db s') \<and>
        invocation_count s' = invocation_count s \<and> rl_credential_id s' = Some (dc_credential_id c) \<and>
        rl_token_hash s' = Some (challenge_token_hash (hp_challenge pf)) \<and>
        clock_at s' = clock_at s \<and> ticks s' = ticks s + 4)
     (\<lambda>e s'. invocation_count s' = invocation_count s \<and>
        redeem_refused lib app request s arguments ad (exn_reason e) (db s'))"
proof -
  let ?Q = "\<lambda>_ s'. \<exists>c pf. redeem_permitted lib app request s arguments ad c pf (db s') \<and>
        invocation_count s' = invocation_count s \<and> rl_credential_id s' = Some (dc_credential_id c) \<and>
        rl_token_hash s' = Some (challenge_token_hash (hp_challenge pf)) \<and>
        clock_at s' = clock_at s \<and> ticks s' = ticks s + 4"
  let ?E = "\<lambda>e s'. invocation_count s' = invocation_count s \<and>
        redeem_refused lib app request s arguments ad (exn_reason e) (db s')"
  have spend: "post (redeem_spend app ad h request c nb na) s1 ?Q ?E"
    if chk: "redeem_checked lib app request s arguments ad c nb na pf" and h: "h = challenge_token_hash (hp_challenge pf)"
      and s1: "s1 = s\<lparr>rl_credential_id := Some (dc_credential_id c), ticks := Suc (Suc (ticks s)), rl_token_hash := Some h,
        db_calls := Suc (db_calls s)\<rparr>"
    for c nb na pf h s1
  proof -
    have three: "Suc (Suc (Suc (ticks s))) = ticks s + 3" by simp
    show ?thesis
      using redeem_spend_post
    proof (rule post_mono, goal_cases)
      case (1 x s')
      then obtain spend where "redeem_spends app request s ad c nb na pf spend (db s')" "first_spend spend"
          "redeem_in_time s nb na spend"
        unfolding h s1 by (auto simp: redeem_spends_def redeem_in_time_def Let_def three)
      then have "redeem_permitted lib app request s arguments ad c pf (db s')" by (rule redeem_permittedI [OF chk])
      with 1 show ?case unfolding h s1 by (intro exI [of _ c] exI [of _ pf]) auto
    next
      case (2 e s')
      then consider "db s' = db s" |
        spend where "redeem_spends app request s ad c nb na pf spend (db s')"
          "\<not> (first_spend spend \<and> redeem_in_time s nb na spend)"
          "exn_reason e = refusal_reason spend (clock_at s (ticks s + 3))"
        unfolding h s1 by (auto simp: redeem_spends_def redeem_in_time_def Let_def three)
      then have "redeem_refused lib app request s arguments ad (exn_reason e) (db s')"
        by cases (auto intro: redeem_refused_same redeem_refused_spent [OF chk])
      with 2 show ?case unfolding s1 by simp
    qed
  qed
  show ?thesis
    unfolding redeem_authorize_def post_bindM
  proof (rule post_mono [OF redeem_credential_post], goal_cases)
    case (1 x s')
    obtain c nb na where x: "x = (c, nb, na)" by (cases x)
    note cred = 1(2) [unfolded x split_conv]
    show ?case
      unfolding x split_conv post_bindM
    proof (rule post_mono [OF redeem_proof_post], goal_cases)
      case (1 h s'')
      then show ?case
        using cred by (auto simp: redeem_checked_def intro!: spend)
    next
      case (2 e s'')
      then show ?case
        using cred by (auto intro: redeem_refused_same)
    qed
  qed (auto intro: redeem_refused_same)
qed

lemma redeem_denial_post:
  "post (redeem_denial lib app ad request reason) s
     (\<lambda>d s'. \<not> d_allowed d \<and> d_reason d = reason \<and> d_result d = None \<and> db s' = db s \<and>
        invocation_count s' = invocation_count s \<and>
        (\<exists>rcid t dg p. p = inventory_payload app rcid t (invocation_count s) dg ''deny'' reason (rl_credential_id s)
             (rl_token_hash s) ad (Some (li_record_id request)) None False ''not_invoked'' \<and>
           legal_receipt p \<and> receipt_sign (lib_jws lib) (lib_dumps lib) (app_receipt_signer app) p = Inr (d_receipt d)))
     (\<lambda>e s'. db s' = db s \<and> invocation_count s' = invocation_count s)"
  unfolding redeem_denial_def post_bindM
  by (rule post_mono [OF redeem_receipt_post]) (auto simp: wp_simps)

text \<open>The handler runs: the counter goes up by one, and the outcome is a decision that reports this
  number or, when no receipt could be signed, an exception that carries it.\<close>

definition invocation_outcome :: "inventory_application \<Rightarrow> inventory_arguments \<Rightarrow> int \<Rightarrow> (reason \<times> string \<times> json)" where
  "invocation_outcome app arguments n =
     (case lookup_result (ia_sku arguments) (snd (inventory_lookup app arguments)) n of
        Inl _ \<Rightarrow> (HANDLER_FAILED, ''failed'',
                  obj [(''invoked'', JBool True), (''completed'', JBool False), (''invocation_number'', JInt n)])
      | Inr result \<Rightarrow> (ALLOW, ''completed'', result))"

lemma redeem_invoke_post:
  "post (redeem_invoke lib app arguments ad request) s
     (\<lambda>d s'. d_allowed d \<and> db s' = db s \<and> invocation_count s' = invocation_count s + 1 \<and>
        (\<exists>result. invocation_outcome app arguments (invocation_count s + 1) = (d_reason d, result, the (d_result d)) \<and>
           d_result d \<noteq> None \<and>
           (\<exists>rcid t dg p. p = inventory_payload app rcid t (invocation_count s + 1) dg ''allow'' (d_reason d)
                (rl_credential_id s) (rl_token_hash s) ad (Some (li_record_id request))
                (Some (invocation_count s + 1)) True result \<and>
              legal_receipt p \<and> receipt_sign (lib_jws lib) (lib_dumps lib) (app_receipt_signer app) p = Inr (d_receipt d))))
     (\<lambda>e s'. db s' = db s \<and> invocation_count s' = invocation_count s + 1 \<and>
        (\<exists>msg completed. e = PostInvocationError msg (invocation_count s + 1) completed \<and>
           completed = (fst (invocation_outcome app arguments (invocation_count s + 1)) = ALLOW)))"
proof (cases "lookup_result (ia_sku arguments) (snd (inventory_lookup app arguments)) (invocation_count s + 1)")
  case (Inl e)
  then have lr: "(let (sku, quantity) = inventory_lookup app arguments in
      lookup_result sku quantity (invocation_count s + 1)) = Inl e"
    by (simp add: inventory_lookup_def)
  show ?thesis
    unfolding redeem_invoke_def record_invocation_def wp_simps
    by (simp add: lr wp_simps) (rule post_mono [OF redeem_receipt_post]; auto simp: wp_simps invocation_outcome_def Inl)
next
  case (Inr v)
  then have lr: "(let (sku, quantity) = inventory_lookup app arguments in
      lookup_result sku quantity (invocation_count s + 1)) = Inr v"
    by (simp add: inventory_lookup_def)
  show ?thesis
    unfolding redeem_invoke_def record_invocation_def wp_simps
    by (simp add: lr wp_simps) (rule post_mono [OF redeem_receipt_post]; auto simp: wp_simps invocation_outcome_def Inr)
qed

lemma redeem_handler: "(case e of DecisionError reason _ \<Rightarrow> reason | _ \<Rightarrow> INTERNAL_ERROR) = exn_reason e"
  by (cases e) simp_all

text \<open>The receipt of a redemption describes its decision.\<close>

definition redeem_claims :: "inventory_application \<Rightarrow> 'b lookup_input_scheme \<Rightarrow> string \<Rightarrow> int \<Rightarrow> decision \<Rightarrow> decision_receipt_payload \<Rightarrow> bool" where
  "redeem_claims app request ad count d p \<longleftrightarrow>
     rp_deciding_service p = ''inventoryd'' \<and> rp_decision p = (if d_allowed d then ''allow'' else ''deny'') \<and>
     rp_reason p = reason_str (d_reason d) \<and> rp_call_method p = Some (rp_method (app_policy app)) \<and>
     rp_call_audience p = Some (rp_audience (app_policy app)) \<and>
     rp_scope p = Some (rp_qualified_scope (app_policy app)) \<and> rp_arguments_digest p = Some ad \<and>
     rp_record_id p = Some (li_record_id request) \<and> rp_handler_count_snapshot p = count \<and>
     rp_handler_invoked p = d_allowed d \<and> rp_invocation_id p = (if d_allowed d then Some count else None)"

definition redeem_allowed ::
  "libs \<Rightarrow> inventory_application \<Rightarrow> 'b lookup_input_scheme \<Rightarrow> 'a inventory_state_scheme \<Rightarrow> inventory_arguments \<Rightarrow> string
   \<Rightarrow> decision \<Rightarrow> 'a inventory_state_scheme \<Rightarrow> bool" where
  "redeem_allowed lib app request s arguments ad d s' \<longleftrightarrow>
     (\<exists>c pf p result. redeem_permitted lib app request s arguments ad c pf (db s') \<and>
        invocation_count s' = invocation_count s + 1 \<and>
        invocation_outcome app arguments (invocation_count s') = (d_reason d, result, the (d_result d)) \<and>
        d_result d \<noteq> None \<and> legal_receipt p \<and>
        receipt_sign (lib_jws lib) (lib_dumps lib) (app_receipt_signer app) p = Inr (d_receipt d) \<and>
        redeem_claims app request ad (invocation_count s') d p \<and> rp_business_result p = result \<and>
        rp_credential_id p = Some (dc_credential_id c) \<and>
        rp_challenge_token_hash p = Some (challenge_token_hash (hp_challenge pf)))"

definition redeem_denied ::
  "libs \<Rightarrow> inventory_application \<Rightarrow> 'b lookup_input_scheme \<Rightarrow> 'a inventory_state_scheme \<Rightarrow> inventory_arguments \<Rightarrow> string
   \<Rightarrow> decision \<Rightarrow> 'a inventory_state_scheme \<Rightarrow> bool" where
  "redeem_denied lib app request s arguments ad d s' \<longleftrightarrow>
     invocation_count s' = invocation_count s \<and> d_result d = None \<and>
     redeem_refused lib app request s arguments ad (d_reason d) (db s') \<and>
     (\<exists>p. legal_receipt p \<and> receipt_sign (lib_jws lib) (lib_dumps lib) (app_receipt_signer app) p = Inr (d_receipt d) \<and>
        redeem_claims app request ad (invocation_count s) d p)"

definition redeem_decided ::
  "libs \<Rightarrow> inventory_application \<Rightarrow> 'b lookup_input_scheme \<Rightarrow> 'a inventory_state_scheme \<Rightarrow> inventory_arguments \<Rightarrow> string
   \<Rightarrow> decision \<Rightarrow> 'a inventory_state_scheme \<Rightarrow> bool" where
  "redeem_decided lib app request s arguments ad d s' \<longleftrightarrow>
     (if d_allowed d then redeem_allowed lib app request s arguments ad d s'
      else redeem_denied lib app request s arguments ad d s')"

text \<open>What an exception out of \<^verbatim>\<open>redeem\<close> leaves behind.\<close>

definition redeem_raised ::
  "libs \<Rightarrow> inventory_application \<Rightarrow> 'b lookup_input_scheme \<Rightarrow> 'a inventory_state_scheme \<Rightarrow> exn \<Rightarrow> 'a inventory_state_scheme \<Rightarrow> bool" where
  "redeem_raised lib app request s e s' \<longleftrightarrow>
     (invocation_count s' = invocation_count s \<and>
        (db s' = db s \<or> (\<exists>arguments ad reason. redeem_refused lib app request s arguments ad reason (db s')))) \<or>
     (invocation_count s' = invocation_count s + 1 \<and>
        (\<exists>msg completed. e = PostInvocationError msg (invocation_count s') completed) \<and>
        (\<exists>arguments ad c pf. redeem_permitted lib app request s arguments ad c pf (db s')))"

lemma redeem_permitted_cong:
  "clock_at s1 = clock_at s2 \<Longrightarrow> ticks s1 = ticks s2 \<Longrightarrow> db s1 = db s2 \<Longrightarrow>
   redeem_permitted lib app request s1 arguments ad c pf st = redeem_permitted lib app request s2 arguments ad c pf st"
  "clock_at s1 = clock_at s2 \<Longrightarrow> ticks s1 = ticks s2 \<Longrightarrow> db s1 = db s2 \<Longrightarrow>
   redeem_refused lib app request s1 arguments ad reason st = redeem_refused lib app request s2 arguments ad reason st"
  by (simp_all add: redeem_permitted_def redeem_refused_def redeem_checked_def redeem_spends_def redeem_in_time_def)

lemma redeem_post:
  "post (redeem lib app request) s
     (\<lambda>d s'. \<exists>arguments ad. new_inventory_arguments (ia_sku request) = Inr arguments \<and>
        canonical_digest (lib_dumps lib) (arguments_dump arguments) = Inr ad \<and>
        redeem_decided lib app request s arguments ad d s')
     (redeem_raised lib app request s)"
proof -
  let ?s = "s\<lparr>rl_credential_id := None, rl_token_hash := None\<rparr>"
  have perm: "redeem_permitted lib app request ?s arguments ad c pf st = redeem_permitted lib app request s arguments ad c pf st"
    and ref: "redeem_refused lib app request ?s arguments ad reason st = redeem_refused lib app request s arguments ad reason st"
    for arguments ad c pf st reason
    by (simp_all add: redeem_permitted_cong [of ?s s])
  let ?Q = "redeem_decided lib app request s"
  have invoke: "post (redeem_invoke lib app arguments ad request) s1 (?Q arguments ad) (redeem_raised lib app request s)"
    if "redeem_permitted lib app request s arguments ad c pf (db s1)" "invocation_count s1 = invocation_count s"
      "rl_credential_id s1 = Some (dc_credential_id c)" "rl_token_hash s1 = Some (challenge_token_hash (hp_challenge pf))"
    for arguments ad c pf and s1 :: "'a inventory_state_scheme"
    by (rule post_mono [OF redeem_invoke_post])
       (use that in \<open>fastforce simp: redeem_decided_def redeem_allowed_def redeem_raised_def redeem_claims_def inventory_payload_def\<close>)+
  have deny: "post (redeem_denial lib app ad request reason) s1
      (?Q arguments ad) (redeem_raised lib app request s)"
    if "redeem_refused lib app request s arguments ad reason (db s1)" "invocation_count s1 = invocation_count s"
    for arguments ad reason and s1 :: "'a inventory_state_scheme"
    by (rule post_mono [OF redeem_denial_post])
       (use that in \<open>fastforce simp: redeem_decided_def redeem_denied_def redeem_raised_def redeem_claims_def inventory_payload_def\<close>)+
  have attempt: "post (redeem_authorize lib app arguments ad request) ?s
     (\<lambda>_ s1. post (redeem_invoke lib app arguments ad request) s1 (?Q arguments ad) (redeem_raised lib app request s))
     (\<lambda>e s1. post (redeem_denial lib app ad request (exn_reason e)) s1 (?Q arguments ad) (redeem_raised lib app request s))"
    for arguments ad
    by (rule post_mono [OF redeem_authorize_post]) (auto simp: perm ref intro!: invoke deny)
  show ?thesis
    unfolding redeem_def redeem_handler
    by (auto simp: wp_simps redeem_raised_def intro!: post_mono [OF attempt])
qed

section \<open>An authorized redemption completes\<close>

text \<open>The store answers, and the reading after the handler and the counter fit a receipt.\<close>

definition redeem_ready :: "libs \<Rightarrow> inventory_application \<Rightarrow> 'b lookup_input_scheme \<Rightarrow> 'a inventory_state_scheme \<Rightarrow> bool" where
  "redeem_ready lib app request s \<longleftrightarrow>
     inventory_ready lib app \<and> li_record_id request \<noteq> [] \<and>
     \<not> db_busy s (db_calls s) \<and> \<not> db_busy s (db_calls s + 1) \<and> \<not> db_busy s (db_calls s + 2) \<and>
     0 \<le> clock_at s (ticks s + 4) \<and> clock_at s (ticks s + 4) < 2 ^ 53 \<and>
     0 \<le> invocation_count s \<and> invocation_count s + 1 < 2 ^ 53"

lemma redeem_authorize_runs:
  assumes ready: "redeem_ready lib app request s"
    and chk: "redeem_checked lib app request s arguments ad c nb na pf"
    and spend: "redeem_spends app request s ad c nb na pf spend st" "first_spend spend" "redeem_in_time s nb na spend"
  shows "post (redeem_authorize lib app arguments ad request) s
    (\<lambda>_ s'. db s' = st \<and> invocation_count s' = invocation_count s \<and> rl_credential_id s' = Some (dc_credential_id c) \<and>
       rl_token_hash s' = Some (challenge_token_hash (hp_challenge pf)) \<and> clock_at s' = clock_at s \<and> ticks s' = ticks s + 4)
    (\<lambda>_ _. False)"
proof -
  have three: "Suc (Suc (Suc (ticks s))) = ticks s + 3" by simp
  obtain stored where stored: "check_stored (expected_context app (dc_credential_id c) ad (li_record_id request))
          (map_option record_of_row (sql_select rr_token_hash (challenge_token_hash (hp_challenge pf))
             (resource_challenges (db s)))) = Inr stored" "clock_at s (Suc (ticks s)) < rcr_expires_at stored"
    using chk by (auto simp: redeem_checked_def)
  have busy: "\<not> db_busy s (db_calls s)" "\<not> db_busy s (Suc (db_calls s))" "\<not> db_busy s (Suc (Suc (db_calls s)))"
    using ready by (simp_all add: redeem_ready_def)
  have tx: "spend_tx (challenge_token_hash (hp_challenge pf))
       (expected_context app (dc_credential_id c) ad (li_record_id request)) nb na
       (clock_at s (Suc (Suc (ticks s)))) (db s) = Inr (spend, st)"
    using spend(1) by (simp add: redeem_spends_def)
  show ?thesis
    using chk stored busy tx spend(2,3)
    by (simp add: redeem_authorize_def redeem_credential_def redeem_proof_def redeem_spend_def
        consume_challenge_and_spend_credential_def wp_simps Let_def redeem_checked_def redeem_in_time_def three
        not_le not_less)
qed

lemma redeem_invoke_runs:
  assumes ready: "inventory_ready lib app" "li_record_id request \<noteq> []" "0 \<le> clock_at s (ticks s)"
      "clock_at s (ticks s) < 2 ^ 53" "0 \<le> invocation_count s" "invocation_count s + 1 < 2 ^ 53" "ad \<noteq> []"
    and locals: "rl_credential_id s = Some cid" "rl_token_hash s = Some h" "h \<noteq> []"
  shows "post (redeem_invoke lib app arguments ad request) s (\<lambda>_ _. True) (\<lambda>_ _. False)"
proof -
  let ?s = "s\<lparr>invocation_count := invocation_count s + 1\<rparr>"
  have receipt: "post (redeem_receipt lib app ad request ''allow'' r (Some (invocation_count s + 1)) True result) ?s
      (\<lambda>_ _. True) (\<lambda>_ _. False)" if "(r, result) \<in> {(ALLOW, ''completed''), (HANDLER_FAILED, ''failed'')}" for r result
    unfolding redeem_receipt_def post_bindM post_getM
    by (rule inventory_receipt_total [OF ready(1)])
       (use ready locals that in \<open>auto simp del: insert_iff intro!: inventory_allow_legal [OF ready(1)]\<close>)
  show ?thesis
  proof (cases "let (sku, quantity) = inventory_lookup app arguments in lookup_result sku quantity (invocation_count s + 1)")
    case (Inl e)
    then show ?thesis
      by (simp add: redeem_invoke_def record_invocation_def wp_simps)
         (rule post_mono [OF receipt]; simp)
  next
    case (Inr v)
    then show ?thesis
      by (simp add: redeem_invoke_def record_invocation_def wp_simps)
         (rule post_mono [OF receipt]; simp)
  qed
qed

lemma redeem_completes:
  assumes ready: "redeem_ready lib app request (s :: 'a inventory_state_scheme)"
    and args: "new_inventory_arguments (ia_sku request) = Inr arguments"
      "canonical_digest (lib_dumps lib) (arguments_dump arguments) = Inr ad"
    and perm: "redeem_permitted lib app request s arguments ad c pf st"
  shows "\<exists>d s'. redeem lib app request s = (Inr d, s') \<and> d_allowed d \<and> db s' = st"
proof -
  let ?s = "s\<lparr>rl_credential_id := None, rl_token_hash := None\<rparr>"
  have ready': "redeem_ready lib app request ?s" using ready by (simp add: redeem_ready_def)
  have "redeem_permitted lib app request ?s arguments ad c pf st"
    using perm by (simp add: redeem_permitted_cong(1) [of ?s s])
  then obtain nb na spend where sp: "redeem_checked lib app request ?s arguments ad c nb na pf"
      "redeem_spends app request ?s ad c nb na pf spend st" "first_spend spend" "redeem_in_time ?s nb na spend"
    by (auto simp: redeem_permitted_def)
  have ad: "ad \<noteq> []" using args(2) by (auto simp: canonical_digest_Inr)
  have invoke: "post (redeem_invoke lib app arguments ad request) s1 (\<lambda>d s'. d_allowed d \<and> db s' = st) (\<lambda>_ _. False)"
    if "db s1 = st" "invocation_count s1 = invocation_count s" "rl_credential_id s1 = Some (dc_credential_id c)"
      "rl_token_hash s1 = Some (challenge_token_hash (hp_challenge pf))" "clock_at s1 = clock_at s" "ticks s1 = ticks s + 4"
    for s1 :: "'a inventory_state_scheme"
  proof -
    have "post (redeem_invoke lib app arguments ad request) s1 (\<lambda>_ _. True) (\<lambda>_ _. False)"
      by (rule redeem_invoke_runs [where h = "challenge_token_hash (hp_challenge pf)"]) (use ready ad that in \<open>auto simp: redeem_ready_def\<close>)
    from post_conj [OF this redeem_invoke_post] show ?thesis
      by (rule post_mono) (use that in auto)
  qed
  have "post (redeem_authorize lib app arguments ad request) ?s
      (\<lambda>_ s1. post (redeem_invoke lib app arguments ad request) s1 (\<lambda>d s'. d_allowed d \<and> db s' = st) (\<lambda>_ _. False))
      (\<lambda>_ _. False)"
    by (rule post_mono [OF redeem_authorize_runs [OF ready' sp]]) ((rule invoke; simp), simp)
  then have "post (redeem lib app request) s (\<lambda>d s'. d_allowed d \<and> db s' = st) (\<lambda>_ _. False)"
    unfolding redeem_def by (auto simp: wp_simps args elim!: post_mono)
  from post_total [OF this] show ?thesis .
qed

section \<open>Resource challenges\<close>

lemma issue_resource_challenge_post:
  "post (issue_resource_challenge lib app cid arguments rid) s
     (\<lambda>ch s'. let now = clock_at s (ticks s); ttl = rp_challenge_ttl_seconds (app_policy app) in
        lower_hex 64 cid \<and> 0 < ttl \<and> 0 \<le> now \<and>
        (\<exists>random. length random = 16 \<and> rc_token ch = challenge_token (app_challenge_secret app) (now + ttl) random) \<and>
        canonical_digest (lib_dumps lib) (arguments_dump arguments) = Inr (rc_arguments_digest ch) \<and>
        rc_credential_id ch = cid \<and> rc_method ch = rp_method (app_policy app) \<and> rc_record_id ch = rid \<and>
        rc_audience ch = rp_audience (app_policy app) \<and> rc_expires_at ch = now + ttl \<and>
        insert_resource_challenge
          (resource_row_of (challenge_token_hash (rc_token ch))
             (expected_context app cid (rc_arguments_digest ch) rid) now (now + ttl)) (db s) = Inr (db s'))
     (\<lambda>e s'. db s' = db s)"
  by (auto simp: issue_resource_challenge_def store_resource_challenge_def wp_simps Let_def expected_context_def
      resource_row_of_def simp del: upt_Suc intro!: exI [of _ "map (entropy s) [drawn s..<drawn s + 16]"])

lemma issue_resource_challenge_count:
  "post (issue_resource_challenge lib app cid arguments rid) s
     (\<lambda>_ s'. invocation_count s' = invocation_count s) (\<lambda>_ s'. invocation_count s' = invocation_count s)"
  by (auto simp: issue_resource_challenge_def store_resource_challenge_def wp_simps Let_def simp del: upt_Suc)

section \<open>What a tool call can do\<close>

text \<open>A call either leaves the counter, or it was a permitted lookup.\<close>

definition tool_invoked ::
  "libs \<Rightarrow> inventory_application \<Rightarrow> string \<Rightarrow> (string, json) fmap \<Rightarrow> 'a inventory_state_scheme \<Rightarrow> 'a inventory_state_scheme \<Rightarrow> bool" where
  "tool_invoked lib app name raw s s' \<longleftrightarrow>
     invocation_count s' = invocation_count s + 1 \<and> name = rp_method (app_policy app) \<and> name \<noteq> ''inventory.challenge'' \<and>
     (\<exists>request arguments ad c pf. lookup_input_validate raw = Inr request \<and>
        redeem_permitted lib app request s arguments ad c pf (db s'))"

text \<open>A result without the error flag is a challenge or a completed lookup.\<close>

definition tool_success ::
  "inventory_application \<Rightarrow> call_tool_result \<Rightarrow> 'a inventory_state_scheme \<Rightarrow> 'a inventory_state_scheme \<Rightarrow> bool" where
  "tool_success app res s s' \<longleftrightarrow>
     invocation_count s' = invocation_count s \<and> (\<exists>ch. ct_structured res = challenge_value ch) \<or>
     invocation_count s' = invocation_count s + 1 \<and>
       (\<exists>d. ct_structured res = decision_to_dict d \<and> d_allowed d \<and> d_reason d = ALLOW)"

lemma tool_success_challenge:
  "invocation_count s' = invocation_count s \<Longrightarrow> ct_structured res = challenge_value c \<Longrightarrow> tool_success app res s s'"
  by (auto simp: tool_success_def)

lemma reject_direct_post:
  "post (reject_direct lib app raw) s
     (\<lambda>res s'. ct_is_error res \<and> invocation_count s' = invocation_count s \<and> db s' = db s)
     (\<lambda>e s'. invocation_count s' = invocation_count s \<and> db s' = db s)"
  unfolding reject_direct_def direct_lookup_attempt_def
  by (auto simp: wp_simps mcp_result_def intro!: post_mono [OF inventory_receipt_post])

lemma call_challenge_post:
  "post (call_challenge lib app raw) s
     (\<lambda>res s'. invocation_count s' = invocation_count s \<and> (\<not> ct_is_error res \<longrightarrow> tool_success app res s s'))
     (\<lambda>e s'. invocation_count s' = invocation_count s)"
proof -
  have reject: "post (reject_direct lib app raw) s1
     (\<lambda>res s'. invocation_count s' = invocation_count s \<and> (\<not> ct_is_error res \<longrightarrow> tool_success app res s s'))
     (\<lambda>e s'. invocation_count s' = invocation_count s)" if "invocation_count s1 = invocation_count s"
    for s1 :: "'a inventory_state_scheme"
    by (rule post_mono [OF reject_direct_post]) (use that in auto)
  show ?thesis
    unfolding call_challenge_def post_tryM
    by (rule post_mono [where Q = "\<lambda>res s'. invocation_count s' = invocation_count s \<and> (\<exists>ch. ct_structured res = challenge_value ch)"
          and E = "\<lambda>_ s'. invocation_count s' = invocation_count s"])
       (auto simp: wp_simps mcp_result_def split: exn.split
         intro!: post_mono [OF issue_resource_challenge_count] reject tool_success_challenge)
qed

lemma call_lookup_post:
  assumes "0 \<le> invocation_count s"
  shows "post (call_lookup lib app raw) s
     (\<lambda>res s'. (invocation_count s' = invocation_count s \<or>
          invocation_count s' = invocation_count s + 1 \<and>
          (\<exists>request arguments ad c pf. lookup_input_validate raw = Inr request \<and>
             redeem_permitted lib app request s arguments ad c pf (db s'))) \<and>
        (\<not> ct_is_error res \<longrightarrow> tool_success app res s s'))
     (\<lambda>e s'. invocation_count s' = invocation_count s)"
proof (cases "lookup_input_validate raw")
  case (Inl e)
  then show ?thesis
    by (auto simp: call_lookup_def wp_simps split: exn.splits intro!: post_mono [OF reject_direct_post])
next
  case (Inr request)
  let ?Q = "\<lambda>res s'. (invocation_count s' = invocation_count s \<or>
          invocation_count s' = invocation_count s + 1 \<and>
          (\<exists>request arguments ad c pf. lookup_input_validate raw = Inr request \<and>
             redeem_permitted lib app request s arguments ad c pf (db s'))) \<and>
        (\<not> ct_is_error res \<longrightarrow> tool_success app res s s')"
  have ok: "?Q (mcp_result lib (decision_to_dict d) (\<not> d_allowed d \<or> d_reason d = HANDLER_FAILED)) s'"
    if "redeem_decided lib app request s arguments ad d s'" for d s' arguments ad
  proof (cases "d_allowed d")
    case True
    have "d_reason d \<in> {ALLOW, HANDLER_FAILED}"
      using that True by (auto simp: redeem_decided_def redeem_allowed_def invocation_outcome_def split: sum.splits)
    with that True Inr show ?thesis
      by (auto simp: redeem_decided_def redeem_allowed_def mcp_result_def tool_success_def)
  next
    case False
    with that show ?thesis by (auto simp: redeem_decided_def redeem_denied_def mcp_result_def)
  qed
  have bad: "post (case e of
               PostInvocationError _ invocation_id completed \<Rightarrow>
                 bindM (liftE (unsigned_post_invocation_state completed invocation_id)) (\<lambda>value.
                 returnM (mcp_result lib value True))
             | _ \<Rightarrow> raiseM e) s' ?Q (\<lambda>e s'. invocation_count s' = invocation_count s)"
    if "redeem_raised lib app request s e s'" for e s'
    using that assms Inr
    by (cases e) (auto simp: wp_simps redeem_raised_def unsigned_post_invocation_state_def mcp_result_def)
  have "post (tryM (bindM (redeem lib app request) (\<lambda>d.
             returnM (mcp_result lib (decision_to_dict d) (\<not> d_allowed d \<or> d_reason d = HANDLER_FAILED))))
            (\<lambda>e. case e of
               PostInvocationError _ invocation_id completed \<Rightarrow>
                 bindM (liftE (unsigned_post_invocation_state completed invocation_id)) (\<lambda>value.
                 returnM (mcp_result lib value True))
             | _ \<Rightarrow> raiseM e)) s ?Q (\<lambda>e s'. invocation_count s' = invocation_count s)"
    unfolding post_tryM post_bindM
  proof (rule post_mono [OF redeem_post], goal_cases)
    case (1 d s')
    then show ?case unfolding post_returnM using ok by blast
  next
    case (2 e s')
    then show ?case by (intro bad)
  qed
  then show ?thesis by (simp add: call_lookup_def Inr)
qed

lemma call_tool_post:
  assumes "0 \<le> invocation_count s"
  shows "post (call_tool lib app name arguments) s
     (\<lambda>res s'. (invocation_count s' = invocation_count s \<or>
          tool_invoked lib app name (case arguments of None \<Rightarrow> fmempty | Some m \<Rightarrow> m) s s') \<and>
        (\<not> ct_is_error res \<longrightarrow> tool_success app res s s'))
     (\<lambda>e s'. invocation_count s' = invocation_count s)"
proof -
  let ?raw = "case arguments of None \<Rightarrow> fmempty | Some m \<Rightarrow> m"
  consider (challenge) "name = ''inventory.challenge''"
    | (lookup) "name \<noteq> ''inventory.challenge''" "name = rp_method (app_policy app)"
    | (unknown) "name \<noteq> ''inventory.challenge''" "name \<noteq> rp_method (app_policy app)" by blast
  then show ?thesis
  proof cases
    case challenge
    then have eq: "call_tool lib app name arguments s = call_challenge lib app ?raw s" for s :: "'a inventory_state_scheme"
      by (simp add: call_tool_def)
    show ?thesis by (rule post_cong [OF eq]) (rule post_mono [OF call_challenge_post]; simp)
  next
    case lookup
    then have eq: "call_tool lib app name arguments s = call_lookup lib app ?raw s" for s :: "'a inventory_state_scheme"
      by (simp add: call_tool_def)
    show ?thesis
      by (rule post_cong [OF eq]) (rule post_mono [OF call_lookup_post [OF assms]]; use lookup in \<open>auto simp: tool_invoked_def\<close>)
  next
    case unknown
    then have eq: "call_tool lib app name arguments s = reject_direct lib app ?raw s" for s :: "'a inventory_state_scheme"
      by (simp add: call_tool_def)
    show ?thesis by (rule post_cong [OF eq]) (rule post_mono [OF reject_direct_post]; simp)
  qed
qed

end
