(* ===== verification/Instances.thy ===== *)
theory Instances
  imports Broker Inventory
begin

text \<open>
  Concrete stand-ins for the packages and concrete services, requests and stores, at which the
  hypotheses of the theorems are discharged. They show that the hypotheses can hold; nothing else
  rests on them.
\<close>

section \<open>Packages\<close>

definition demo_ed :: ed25519_lib where
  "demo_ed = \<lparr>ed_public = (\<lambda>k. replicate 32 7),
     ed_sign = (\<lambda>k m. 0 # m),
     ed_load = (\<lambda>b. if length b = 32 then Inr () else Inl (ValueError ''An Ed25519 public key is 32 bytes long'')),
     ed_verify = (\<lambda>k sg m. if sg = 0 # m then Inr () else Inl InvalidSignature)\<rparr>"

definition demo_jws :: jws_lib where
  "demo_jws = \<lparr>serialize_compact = (\<lambda>h p k algs. Inr ''header.claims.signature''),
     deserialize_compact = (\<lambda>c k algs. Inl (ValueError ''no verification key'')),
     okp_as_dict = (\<lambda>k private. JStr ''jwk''), okp_import = (\<lambda>v. Inr [])\<rparr>"

definition demo_credential :: delegation_credential where
  "demo_credential = \<lparr>dc_credential_id = bytes_hex (replicate 32 0), dc_issuer = bytes_hex (replicate 32 7),
     dc_subject = bytes_hex (replicate 32 3), dc_scope = {|''inventory.read''|}, dc_depth = 0, dc_parent_id = None,
     dc_not_before = Some 90, dc_not_after = Some 150, dc_signature = ''00''\<rparr>"

definition demo_ca2a :: ca2a_lib where
  "demo_ca2a = \<lparr>verify_challenge = (\<lambda>secret token now. Inr ()),
     new_credential = (\<lambda>i iss sub sc d p nb na. Inr \<lparr>dc_credential_id = i, dc_issuer = iss, dc_subject = sub,
        dc_scope = sc, dc_depth = d, dc_parent_id = p, dc_not_before = nb, dc_not_after = na, dc_signature = []\<rparr>),
     sign_credential = (\<lambda>c k. Inr (c\<lparr>dc_signature := ''00''\<rparr>)),
     credential_body = (\<lambda>c. fmap_of_list [(''credential_id'', JStr (dc_credential_id c))]),
     credential_from_dict = (\<lambda>m. Inr demo_credential),
     verify_chain = (\<lambda>cs d roots now. Inr ()),
     proof_from_dict = (\<lambda>m. bindE (get_str m ''challenge'') (\<lambda>c. Inr \<lparr>hp_challenge = c, hp_rest = JNull\<rparr>)),
     verify_holder_proof = (\<lambda>pf c aud secret cap rec payload. Inr ())\<rparr>"

definition demo_manifest_lib :: manifest_lib where
  "demo_manifest_lib = \<lparr>model_validate_dump = (\<lambda>v. case v of JObj m \<Rightarrow> Inr m | _ \<Rightarrow> Inl (ValidationError ''manifest'')),
     canonical_hash = (\<lambda>m. Inr ''manifest digest''),
     verify_manifest = (\<lambda>m ctx. Inr \<lparr>mr_valid = True, mr_signature_verified = True\<rparr>)\<rparr>"

definition demo_libs :: libs where
  "demo_libs = \<lparr>lib_ed = demo_ed, lib_jws = demo_jws, lib_ca2a = demo_ca2a, lib_manifest = demo_manifest_lib,
     lib_dumps = (\<lambda>v. Inr [1]), lib_scan = (\<lambda>b. Inr RNull), lib_json_text = (\<lambda>v. ''{}''),
     lib_json_schema = (\<lambda>n. JNull)\<rparr>"

lemmas demo_lib_defs = demo_libs_def demo_ed_def demo_jws_def demo_ca2a_def demo_manifest_lib_def

lemma demo_ed_ok: "ed25519_ok demo_ed key"
  by (simp add: ed25519_ok_def demo_ed_def)

lemma demo_credential_ok: "credential_ok (lib_ca2a demo_libs)"
  by (simp add: credential_ok_def demo_lib_defs)

lemma demo_signable: "receipts_signable demo_libs sg"
  by (simp add: receipts_signable_def receipt_sign_def demo_lib_defs canonical_json_def)

section \<open>A broker with a pending challenge\<close>

definition demo_broker_policy :: broker_policy where
  "demo_broker_policy = \<lparr>bp_broker_id = ''broker-1'', bp_qualified_scope = ''inventory.read'',
     bp_resource_issuer_kid = ''kid-1'', bp_resource_issuer_public_hex = bytes_hex (replicate 32 7),
     bp_challenge_ttl_seconds = 60, bp_credential_ttl_seconds = 60,
     bp_manifest = \<lparr>mp_expected_digest = ''manifest digest'', mp_issuer = ''issuer'', mp_signing_key_id = ''signer'',
       mp_signing_public_b64url = ''AA'', mp_identity_public_hex = bytes_hex (replicate 32 7),
       mp_system_prompt_hash = ''p'', mp_policy_bundle_hash = ''b'', mp_model_hash = ''m''\<rparr>,
     bp_tpm = \<lparr>tp_selection = [(''sha256'', [0])], tp_expected_pcr_digest = [9], tp_trusted_roots_pem = [5]\<rparr>\<rparr>"

definition demo_evidence :: tpm_evidence where
  "demo_evidence = \<lparr>te_attest = [1], te_signature = [2], te_ak_chain_pem = [3]\<rparr>"

definition demo_broker :: capability_broker where
  "demo_broker = \<lparr>cb_policy = demo_broker_policy, cb_challenge_secret = replicate 32 8, cb_issuer_private_key = [4],
     cb_issuer_public = bytes_hex (replicate 32 7), cb_receipt_signer = \<lparr>signer_key = [6], signer_key_id = ''broker''\<rparr>,
     cb_appraise = test_appraise demo_evidence\<rparr>"

definition demo_request :: issuance_request where
  "demo_request = \<lparr>ir_version = ''atcap-issuance/v1'', ir_broker_id = ''broker-1'', ir_challenge = ''token'',
     ir_manifest_digest = ''manifest digest'', ir_identity_key = bytes_hex (replicate 32 7),
     ir_holder_key = bytes_hex (replicate 32 3), ir_resource_issuer_kid = ''kid-1'',
     ir_resource_issuer_key = bytes_hex (replicate 32 7), ir_requested_scope = ''inventory.read'',
     ir_identity_signature = bytes_hex [0, 1]\<rparr>"

definition demo_manifest :: json where
  "demo_manifest = obj [(''issuer'', JStr ''issuer'')]"

definition demo_store :: sqlite_store where
  "demo_store = \<lparr>broker_challenges = [\<lparr>br_token_hash = challenge_token_hash ''token'', br_issued_at = 95,
       br_expires_at = 155, br_consumed_at = None\<rparr>],
     resource_challenges = [\<lparr>rr_token_hash = challenge_token_hash ''token'',
       rr_credential_id = bytes_hex (replicate 32 0), rr_method = ''inventory.lookup'',
       rr_arguments_digest = sha256_hex [1], rr_record_id = ''record-1'', rr_audience = ''inventoryd'',
       rr_issued_at = 95, rr_expires_at = 155, rr_consumed_at = None\<rparr>],
     credential_redemptions = []\<rparr>"

definition demo_issue_state :: issue_state where
  "demo_issue_state = \<lparr>clock_at = (\<lambda>_. 100), ticks = 0, entropy = (\<lambda>_. 0), drawn = 0, db_busy = (\<lambda>_. False),
     db_calls = 0, db = demo_store, il_token_hash = None, il_manifest_digest = None, il_artifact_hashes = fmempty\<rparr>"

lemma demo_store_inv: "store_inv demo_store"
  by (simp add: store_inv_def demo_store_def)

lemma demo_sql_int: "sql_int 100"
  by (simp add: sql_int_def)

lemma demo_request_matches: "request_matches demo_request demo_broker_policy"
  by (simp add: request_matches_def demo_request_def demo_broker_policy_def issuance_version_def)

lemma demo_appraise: "appraise_request demo_libs demo_broker demo_request demo_manifest demo_evidence 100 = Inr ()"
proof -
  have "verify_signed_manifest demo_manifest_lib demo_manifest (bp_manifest demo_broker_policy) = Inr (fmap_of_list [(''issuer'', JStr ''issuer'')])"
    by (simp add: verify_signed_manifest_Inr manifest_accepted_def demo_manifest_lib_def demo_manifest_def obj_def demo_broker_policy_def)
  moreover have "verify_identity_endorsement demo_ed (\<lambda>v. Inr [1]) demo_request demo_broker_policy = Inr ()"
    unfolding verify_identity_endorsement_Inr
    by (simp add: demo_request_matches) (simp add: endorsed_def demo_ed_def demo_request_def del: bytes_hex.simps)
  ultimately show ?thesis
    by (simp add: appraise_request_def demo_broker_def demo_libs_def demo_ca2a_def issuance_qualifying_data_def
        canonical_json_def test_appraise_def)
qed

lemma demo_consume:
  "\<exists>st. consume_broker_tx (challenge_token_hash (ir_challenge demo_request)) 100 demo_store = Inr ((), st)"
  unfolding consume_broker_tx_Inr [OF demo_store_inv]
  by (simp add: demo_store_def demo_request_def sql_select_def demo_sql_int)

lemma demo_public_dict: "\<exists>pd. broker_public_dict demo_broker_policy = Inr pd"
  by (simp add: broker_public_dict_def bytes_fromhex_def demo_broker_policy_def)

lemma demo_broker_ready: "broker_ready demo_libs demo_broker demo_request demo_issue_state"
  using demo_public_dict
  by (simp add: broker_ready_def demo_signable) (simp add: demo_broker_def demo_broker_policy_def demo_request_def
    demo_issue_state_def demo_libs_def)

lemma demo_minted: "\<exists>c. minted demo_libs demo_broker demo_request now rnd c"
  by (simp add: minted_def demo_libs_def demo_ca2a_def)

lemma demo_issue:
  "\<exists>d s'. issue demo_libs demo_broker (request_obj demo_request) demo_manifest (evidence_obj demo_evidence) demo_issue_state
     = (Inr d, s') \<and> d_allowed d"
proof -
  from demo_consume obtain st where
    c: "consume_broker_tx (challenge_token_hash (ir_challenge demo_request)) 100 demo_store = Inr ((), st)" ..
  from demo_minted obtain cr where
    m: "minted demo_libs demo_broker demo_request 100 (map (entropy demo_issue_state) [drawn demo_issue_state..<drawn demo_issue_state + 32]) cr" by blast
  have t: "clock_at demo_issue_state n = 100" "db demo_issue_state = demo_store" for n
    by (simp_all add: demo_issue_state_def)
  show ?thesis
    using issue_completes [OF demo_broker_ready, of demo_manifest demo_evidence st cr] demo_appraise c m
    unfolding t by blast
qed

section \<open>A resource with a bound challenge\<close>

definition demo_app :: inventory_application where
  "demo_app = \<lparr>app_policy = \<lparr>rp_audience = ''inventoryd'', rp_method = ''inventory.lookup'',
       rp_qualified_scope = ''inventory.read'', rp_trusted_broker_public_hex = bytes_hex (replicate 32 7),
       rp_challenge_ttl_seconds = 60, rp_max_credential_lifetime_seconds = 60\<rparr>,
     app_challenge_secret = replicate 32 8, app_receipt_signer = \<lparr>signer_key = [6], signer_key_id = ''inventoryd''\<rparr>,
     app_catalog = fmap_of_list [(''widget-42'', 7)]\<rparr>"

definition demo_lookup :: lookup_input where
  "demo_lookup = \<lparr>ia_sku = ''widget-42'', li_credential = fmempty,
     li_holder_proof = fmap_of_list [(''challenge'', JStr ''token'')], li_record_id = ''record-1''\<rparr>"

definition demo_inventory_state :: inventory_state where
  "demo_inventory_state = \<lparr>clock_at = (\<lambda>_. 100), ticks = 0, entropy = (\<lambda>_. 0), drawn = 0, db_busy = (\<lambda>_. False),
     db_calls = 0, db = demo_store, invocation_count = 0, rl_credential_id = None, rl_token_hash = None\<rparr>"

lemma demo_inventory_ready: "inventory_ready demo_libs demo_app"
  by (simp add: inventory_ready_def demo_signable) (simp add: demo_libs_def demo_app_def)

lemma demo_redeem_ready: "redeem_ready demo_libs demo_app demo_lookup demo_inventory_state"
  by (simp add: redeem_ready_def demo_inventory_ready) (simp add: demo_inventory_state_def demo_lookup_def)

lemma demo_arguments:
  "new_inventory_arguments (ia_sku demo_lookup) = Inr \<lparr>ia_sku = ''widget-42''\<rparr>"
  "canonical_digest (lib_dumps demo_libs) (arguments_dump \<lparr>ia_sku = ''widget-42''\<rparr>) = Inr (sha256_hex [1])"
  by (simp_all add: new_inventory_arguments_def demo_lookup_def canonical_digest_def canonical_json_def demo_libs_def)

definition demo_proof :: holder_proof where
  "demo_proof = \<lparr>hp_challenge = ''token'', hp_rest = JNull\<rparr>"

lemma demo_checked:
  "redeem_checked demo_libs demo_app demo_lookup demo_inventory_state \<lparr>ia_sku = ''widget-42''\<rparr> (sha256_hex [1])
     demo_credential 90 150 demo_proof"
  by (simp add: redeem_checked_def parse_credential_def credential_bounds_def check_chain_def parse_proof_def
      check_stored_def check_holder_proof_def demo_libs_def demo_ca2a_def demo_credential_def demo_app_def demo_lookup_def
      demo_inventory_state_def demo_store_def demo_proof_def get_str_def sql_select_def record_of_row_def record_context_def
      expected_context_def canonical_json_def)

lemma demo_spends:
  "\<exists>st. redeem_spends demo_app demo_lookup demo_inventory_state (sha256_hex [1]) demo_credential 90 150 demo_proof
     \<lparr>first_spend = True, committed_at = 100, challenge_expires_at = 155\<rparr> st"
proof -
  have inv: "store_inv (db demo_inventory_state)"
    by (simp add: demo_inventory_state_def demo_store_inv)
  show ?thesis
    unfolding redeem_spends_def spend_tx_Inr [OF inv]
    by (simp add: demo_app_def demo_lookup_def demo_inventory_state_def demo_store_def demo_proof_def sql_select_def
        row_context_def expected_context_def demo_credential_def demo_sql_int)
qed

lemma demo_permitted:
  "\<exists>st. redeem_permitted demo_libs demo_app demo_lookup demo_inventory_state \<lparr>ia_sku = ''widget-42''\<rparr> (sha256_hex [1])
     demo_credential demo_proof st"
proof -
  have "redeem_in_time demo_inventory_state 90 150 \<lparr>first_spend = True, committed_at = 100, challenge_expires_at = 155\<rparr>"
    by (simp add: redeem_in_time_def demo_inventory_state_def)
  with demo_spends demo_checked show ?thesis by (fastforce intro: redeem_permittedI)
qed

lemma demo_redeem:
  "\<exists>d s'. redeem demo_libs demo_app demo_lookup demo_inventory_state = (Inr d, s') \<and> d_allowed d"
  using redeem_completes [OF demo_redeem_ready demo_arguments] demo_permitted by blast

end
