(* ===== verification/Issuance.thy ===== *)
theory Issuance
  imports Instances
begin

text \<open>
  What the broker promises: the properties of \<^verbatim>\<open>CapabilityBroker.issue\<close> and
  \<^verbatim>\<open>new_challenge\<close>, each with a concrete run at which its hypotheses hold.
\<close>

lemma broker_hash_burned:
  "store_inv st \<Longrightarrow> consume_broker_tx h now st = Inr ((), st') \<Longrightarrow> h \<in> b_burned (abs_store st')"
  using broker_burn.won_claimed [of st "ConsumeBroker h now" h] by simp

text \<open>C3: an allow decision of the broker means that every check held: the request and the evidence
  are well-typed objects, the challenge verified at the first clock reading, the manifest was
  accepted under the policy, the request names this broker, scope, resource issuer, identity and
  manifest and carries that identity's signature, the appraiser accepted the evidence for the
  qualifying data of this very request, and the stored challenge was unconsumed and unexpired at
  the reading taken under the write lock. The challenge is burned, and the returned credential is
  issued by the broker to the holder key of the request, for exactly the policy's scope, at depth
  zero, with a validity window of the policy's length that starts at the minting instant.\<close>

theorem issue_allowed:
  assumes run: "issue lib br request manifest evidence s = (Inr d, s')" and "d_allowed d"
    and inv: "store_inv (db s)" and ca: "credential_ok (lib_ca2a lib)"
  shows "\<exists>r ev qd row c.
     validate_issuance_request_runtime request = Inr r \<and> validate_tpm_evidence_runtime evidence = Inr ev \<and>
     verify_challenge (lib_ca2a lib) (cb_challenge_secret br) (ir_challenge r) (clock_at s (ticks s)) = Inr () \<and>
     (\<exists>n. manifest_accepted (lib_manifest lib) manifest (bp_manifest (cb_policy br)) n) \<and>
     request_matches r (cb_policy br) \<and> endorsed (lib_ed lib) (lib_dumps lib) r \<and>
     issuance_qualifying_data (lib_dumps lib) r = Inr qd \<and> cb_appraise br ev qd (bp_tpm (cb_policy br)) = Inr () \<and>
     sql_select br_token_hash (challenge_token_hash (ir_challenge r)) (broker_challenges (db s)) = Some row \<and>
     br_consumed_at row = None \<and> clock_at s (ticks s + 1) < br_expires_at row \<and>
     challenge_token_hash (ir_challenge r) \<in> b_burned (abs_store (db s')) \<and>
     d_result d = Some (obj [(''credential'', JObj (credential_to_dict (lib_ca2a lib) c))]) \<and>
     dc_issuer c = cb_issuer_public br \<and> dc_subject c = ir_holder_key r \<and>
     dc_scope c = {|bp_qualified_scope (cb_policy br)|} \<and> dc_depth c = 0 \<and> dc_parent_id c = None \<and>
     dc_not_before c = Some (clock_at s (ticks s + 2)) \<and>
     dc_not_after c = Some (clock_at s (ticks s + 2) + bp_credential_ttl_seconds (cb_policy br))"
proof -
  from post_returnD [OF issue_post run] \<open>d_allowed d\<close> obtain r where
    g: "issue_granted lib br request manifest evidence s r (db s')" and i: "issued_decision lib br r s d" by auto
  from g obtain ev where v: "validate_issuance_request_runtime request = Inr r" "validate_tpm_evidence_runtime evidence = Inr ev"
      "appraise_request lib br r manifest ev (clock_at s (ticks s)) = Inr ()"
    and tx: "consume_broker_tx (challenge_token_hash (ir_challenge r)) (clock_at s (ticks s + 1)) (db s) = Inr ((), db s')"
    by (auto simp: issue_granted_def)
  from v(3) obtain n qd where a: "verify_challenge (lib_ca2a lib) (cb_challenge_secret br) (ir_challenge r) (clock_at s (ticks s)) = Inr ()"
      "manifest_accepted (lib_manifest lib) manifest (bp_manifest (cb_policy br)) n" "request_matches r (cb_policy br)"
      "endorsed (lib_ed lib) (lib_dumps lib) r" "issuance_qualifying_data (lib_dumps lib) r = Inr qd"
      "cb_appraise br ev qd (bp_tpm (cb_policy br)) = Inr ()"
    by (auto simp: appraise_request_def bindE_Inr_iff verify_signed_manifest_Inr verify_identity_endorsement_Inr)
  from tx obtain row where row: "sql_select br_token_hash (challenge_token_hash (ir_challenge r)) (broker_challenges (db s)) = Some row"
      "br_consumed_at row = None" "clock_at s (ticks s + 1) < br_expires_at row"
    unfolding consume_broker_tx_Inr [OF inv] by blast
  note burned = broker_hash_burned [OF inv tx]
  from i obtain c u where c: "d_result d = Some (obj [(''credential'', JObj (credential_to_dict (lib_ca2a lib) c))])"
      "new_credential (lib_ca2a lib) (bytes_hex (map (entropy s) [drawn s..<drawn s + 32])) (cb_issuer_public br) (ir_holder_key r)
        {|bp_qualified_scope (cb_policy br)|} 0 None (Some (clock_at s (ticks s + 2)))
        (Some (clock_at s (ticks s + 2) + bp_credential_ttl_seconds (cb_policy br))) = Inr u"
      "sign_credential (lib_ca2a lib) u (cb_issuer_private_key br) = Inr c"
    by (auto simp: issued_decision_def minted_def)
  from c(3) ca have cu: "c = u\<lparr>dc_signature := dc_signature c\<rparr>" by (simp add: credential_ok_def)
  from c(2) ca have u: "dc_issuer u = cb_issuer_public br" "dc_subject u = ir_holder_key r"
      "dc_scope u = {|bp_qualified_scope (cb_policy br)|}" "dc_depth u = 0" "dc_parent_id u = None"
      "dc_not_before u = Some (clock_at s (ticks s + 2))"
      "dc_not_after u = Some (clock_at s (ticks s + 2) + bp_credential_ttl_seconds (cb_policy br))"
    by (simp_all add: credential_ok_def)
  have "dc_issuer c = dc_issuer u" "dc_subject c = dc_subject u" "dc_scope c = dc_scope u" "dc_depth c = dc_depth u"
      "dc_parent_id c = dc_parent_id u" "dc_not_before c = dc_not_before u" "dc_not_after c = dc_not_after u"
    by (subst cu, simp)+
  with u v(1,2) a row burned c(1) show ?thesis by metis
qed

theorem issue_allowed_witness:
  "\<exists>d s' c. issue demo_libs demo_broker (request_obj demo_request) demo_manifest (evidence_obj demo_evidence) demo_issue_state
     = (Inr d, s') \<and> d_allowed d \<and> dc_subject c = bytes_hex (replicate 32 3) \<and>
     d_result d = Some (obj [(''credential'', JObj (credential_to_dict demo_ca2a c))])"
proof -
  from demo_issue obtain d s' where run: "issue demo_libs demo_broker (request_obj demo_request) demo_manifest
      (evidence_obj demo_evidence) demo_issue_state = (Inr d, s')" and a: "d_allowed d" by blast
  have inv: "store_inv (db demo_issue_state)" by (simp add: demo_issue_state_def demo_store_inv)
  from issue_allowed [OF run a inv demo_credential_ok] obtain r c where
    r: "validate_issuance_request_runtime (request_obj demo_request) = Inr r" "dc_subject c = ir_holder_key r"
    "d_result d = Some (obj [(''credential'', JObj (credential_to_dict (lib_ca2a demo_libs) c))])"
    by (elim exE conjE) (rule that)
  from r(1) have "r = demo_request" by simp
  with r(2) have "dc_subject c = bytes_hex (replicate 32 3)" by (simp add: demo_request_def)
  with run a r(3) show ?thesis by (auto simp: demo_libs_def)
qed

text \<open>C9: a denial that is not an internal error leaves the store exactly as it was, so a rejected
  request cannot burn the challenge it presents, whoever sends it. The hypothesis says that the
  packages raise their own exceptions and not the program's decision errors.\<close>

theorem issue_denied_keeps_store:
  assumes "issue lib br request manifest evidence s = (Inr d, s')" "\<not> d_allowed d" "d_reason d \<noteq> INTERNAL_ERROR"
    and "packages_foreign lib"
  shows "db s' = db s"
  using post_returnD [OF issue_denial_burns [OF assms(4)] assms(1)] assms(2,3) by simp

lemma demo_foreign: "packages_foreign demo_libs"
  by (simp add: packages_foreign_def foreign_def demo_lib_defs)

text \<open>A request whose object has the wrong class.\<close>

definition demo_bad_object :: pyobj where
  "demo_bad_object = \<lparr>py_class = ''dict'', py_attrs = fmempty\<rparr>"

lemma demo_issue_denied:
  "\<exists>d s'. issue demo_libs demo_broker demo_bad_object demo_manifest (evidence_obj demo_evidence) demo_issue_state
     = (Inr d, s') \<and> \<not> d_allowed d \<and> d_reason d = REQUEST_BINDING"
proof -
  obtain pd where pd: "broker_public_dict demo_broker_policy = Inr pd" using demo_public_dict by blast
  let ?s = "demo_issue_state\<lparr>il_token_hash := None, il_manifest_digest := None, il_artifact_hashes := fmempty\<rparr>"
  let ?s1 = "?s\<lparr>il_artifact_hashes := fmupd ''broker_policy_sha256'' (sha256_hex [1]) fmempty\<rparr>"
  have body: "issue_body demo_libs demo_broker demo_bad_object demo_manifest (evidence_obj demo_evidence) ?s
      = (Inl (DecisionError REQUEST_BINDING ''issuance request has an invalid runtime type''), ?s1)"
    by (simp add: issue_body_def issue_prepare_def put_artifact_def run_simps validate_issuance_request_runtime_def
        demo_bad_object_def demo_broker_def pd canonical_digest_def canonical_json_def demo_libs_def)
  have "post (issue_denial demo_libs demo_broker REQUEST_BINDING) ?s1
      (\<lambda>d s'. \<not> d_allowed d \<and> d_reason d = REQUEST_BINDING) (\<lambda>_ _. False)"
    using broker_deny_legal [of _ 100 REQUEST_BINDING demo_broker] new_payload_Inr
    by (simp add: issue_denial_def wp_simps Let_def demo_issue_state_def del: upt_Suc replicate.simps)
       (simp add: receipt_sign_def demo_lib_defs canonical_json_def broker_deny_legal new_payload_Inr [THEN iffD2])
  from post_total [OF this] show ?thesis
    by (simp add: issue_def run_simps body)
qed

theorem issue_denied_keeps_store_witness:
  "\<exists>d s'. issue demo_libs demo_broker demo_bad_object demo_manifest (evidence_obj demo_evidence) demo_issue_state
     = (Inr d, s') \<and> \<not> d_allowed d \<and> db s' = demo_store"
proof -
  from demo_issue_denied obtain d s' where
    run: "issue demo_libs demo_broker demo_bad_object demo_manifest (evidence_obj demo_evidence) demo_issue_state = (Inr d, s')"
    and d: "\<not> d_allowed d" "d_reason d = REQUEST_BINDING" by blast
  from issue_denied_keeps_store [OF run d(1) _ demo_foreign] d(2) have "db s' = db demo_issue_state" by simp
  then have "db s' = demo_store" by (simp add: demo_issue_state_def)
  with run d(1) show ?thesis by blast
qed

text \<open>C4: over any sequence of issuance calls, by any brokers on one store and with any requests,
  evidence, package behaviour, clocks and database failures, no broker challenge is turned into a
  credential twice, and none that was burned before the sequence is turned into one.\<close>

theorem one_credential_per_challenge:
  assumes "store_inv st"
  shows "distinct (issued_challenges calls st) \<and> set (issued_challenges calls st) \<inter> b_burned (abs_store st) = {}"
  using issuance.wins_distinct [OF assms] issuance.wins_new [OF assms] by (auto simp: issued_challenges_wins)

theorem one_credential_per_challenge_witness:
  "distinct (issued_challenges
     (replicate 2 (demo_libs, demo_broker, request_obj demo_request, demo_manifest, evidence_obj demo_evidence, demo_issue_state))
     demo_store)"
  using one_credential_per_challenge [OF demo_store_inv] by blast

text \<open>C7: a qualified request is granted. When the checks pass at the first reading, the stored
  challenge is live at the reading under the lock, the credential can be minted and signed, and the
  broker can serialize its policy, reach its store and sign receipts, then issuance returns, allows,
  and burns the challenge.\<close>

theorem issue_grants_qualified:
  assumes "broker_ready lib br r s" "store_inv (db s)"
    and "appraise_request lib br r manifest ev (clock_at s (ticks s)) = Inr ()"
    and "sql_select br_token_hash (challenge_token_hash (ir_challenge r)) (broker_challenges (db s)) = Some row"
    and "br_consumed_at row = None" "clock_at s (ticks s + 1) < br_expires_at row" "sql_int (clock_at s (ticks s + 1))"
    and "minted lib br r (clock_at s (ticks s + 2)) (map (entropy s) [drawn s..<drawn s + 32]) c"
  shows "\<exists>d s'. issue lib br (request_obj r) manifest (evidence_obj ev) s = (Inr d, s') \<and> d_allowed d \<and>
    challenge_token_hash (ir_challenge r) \<in> b_burned (abs_store (db s'))"
proof -
  obtain st where st: "consume_broker_tx (challenge_token_hash (ir_challenge r)) (clock_at s (Suc (ticks s))) (db s) = Inr ((), st)"
    using assms(4-7) by (simp add: consume_broker_tx_Inr [OF assms(2)])
  from issue_completes [OF assms(1,3) st assms(8)] broker_hash_burned [OF assms(2) st] show ?thesis by blast
qed

theorem issue_grants_qualified_witness:
  "\<exists>d s'. issue demo_libs demo_broker (request_obj demo_request) demo_manifest (evidence_obj demo_evidence) demo_issue_state
     = (Inr d, s') \<and> d_allowed d \<and> challenge_token_hash ''token'' \<in> b_burned (abs_store (db s'))"
proof -
  let ?row = "\<lparr>br_token_hash = challenge_token_hash ''token'', br_issued_at = 95, br_expires_at = 155, br_consumed_at = None\<rparr>"
  obtain c where m: "minted demo_libs demo_broker demo_request (clock_at demo_issue_state (ticks demo_issue_state + 2))
      (map (entropy demo_issue_state) [drawn demo_issue_state..<drawn demo_issue_state + 32]) c"
    using demo_minted by blast
  have t: "clock_at demo_issue_state n = 100" "db demo_issue_state = demo_store" for n
    by (simp_all add: demo_issue_state_def)
  have "ir_challenge demo_request = ''token''" by (simp add: demo_request_def)
  then show ?thesis
    using issue_grants_qualified [OF demo_broker_ready, of demo_manifest demo_evidence ?row c] m
    by (simp add: t demo_store_inv demo_appraise demo_sql_int del: upt_Suc)
       (simp add: demo_store_def sql_select_def del: upt_Suc)
qed

text \<open>C20: every decision the broker returns comes with a receipt signed over claims that pass the
  receipt schema and describe that decision: allow or deny, the reason, and for an allow the hash of
  the challenge, the manifest digest, the scope and the identifier of the very credential returned.\<close>

theorem issue_receipt_faithful:
  assumes "issue lib br request manifest evidence s = (Inr d, s')"
  shows "\<exists>p. legal_receipt p \<and>
    receipt_sign (lib_jws lib) (lib_dumps lib) (cb_receipt_signer br) p = Inr (d_receipt d) \<and>
    broker_claims lib br request d p"
  by (rule post_returnD [OF issue_receipt_post assms])

theorem issue_receipt_faithful_witness:
  "\<exists>d s' p. issue demo_libs demo_broker (request_obj demo_request) demo_manifest (evidence_obj demo_evidence) demo_issue_state
     = (Inr d, s') \<and> legal_receipt p \<and> rp_decision p = ''allow''"
proof -
  from demo_issue obtain d s' where run: "issue demo_libs demo_broker (request_obj demo_request) demo_manifest
      (evidence_obj demo_evidence) demo_issue_state = (Inr d, s')" and a: "d_allowed d" by blast
  from issue_receipt_faithful [OF run] a show ?thesis using run by (auto simp: broker_claims_def)
qed

text \<open>C24: a challenge the broker hands out is new and live. Its token states the expiry that was
  stored, the packaged verifier accepted it, its hash was unknown to the store before, and storing it
  changes no other broker challenge and nothing of the resource side.\<close>

theorem new_challenge_live:
  assumes "new_challenge lib br s = (Inr token, s')"
  shows "let expiry = clock_at s (ticks s) + bp_challenge_ttl_seconds (cb_policy br); h = challenge_token_hash token;
             old = abs_store (db s); new = abs_store (db s') in
    challenge_expiry token = Inr expiry \<and> clock_at s (ticks s) < expiry \<and>
    verify_challenge (lib_ca2a lib) (cb_challenge_secret br) token (clock_at s (ticks s)) = Inr () \<and>
    b_issued old h = None \<and> h \<notin> b_burned new \<and>
    new = old\<lparr>b_issued := (b_issued old)(h \<mapsto> expiry)\<rparr>"
proof -
  define now where "now = clock_at s (ticks s)"
  define ttl where "ttl = bp_challenge_ttl_seconds (cb_policy br)"
  from post_returnD [OF new_challenge_post assms] obtain random where
    t: "0 < ttl" "0 \<le> now" "token = challenge_token (cb_challenge_secret br) (now + ttl) random"
      "verify_challenge (lib_ca2a lib) (cb_challenge_secret br) token now = Inr ()"
    and ins: "insert_broker_challenge (challenge_token_hash token) now (now + ttl) (db s) = Inr (db s')"
    unfolding Let_def now_def ttl_def by blast
  let ?h = "challenge_token_hash token"
  from ins have fresh: "sql_select br_token_hash ?h (broker_challenges (db s)) = None"
    and db: "db s' = (db s)\<lparr>broker_challenges := broker_challenges (db s) @
      [\<lparr>br_token_hash = ?h, br_issued_at = now, br_expires_at = now + ttl, br_consumed_at = None\<rparr>]\<rparr>"
    by (auto simp: insert_broker_challenge_Inr sql_select_None)
  have "abs_store (db s') = (abs_store (db s))\<lparr>b_issued := (b_issued (abs_store (db s)))(?h \<mapsto> now + ttl)\<rparr>"
    by (auto simp: db abs_store_def consumed_keys_def sql_select_append fun_eq_iff fresh split: option.splits)
  moreover have "b_issued (abs_store (db s)) ?h = None" "?h \<notin> b_burned (abs_store (db s))"
    by (simp_all add: abs_store_def fresh consumed_keys_def)
  moreover have "challenge_expiry token = Inr (now + ttl)"
    using t(1-3) by (simp add: challenge_expiry_token)
  ultimately show ?thesis
    using t(1,4) unfolding Let_def now_def ttl_def by simp
qed

theorem new_challenge_live_witness:
  "\<exists>token s'. new_challenge demo_libs demo_broker (demo_issue_state\<lparr>db := initialize None\<rparr>) = (Inr token, s') \<and>
     challenge_expiry token = Inr 160"
proof -
  let ?s = "demo_issue_state\<lparr>db := initialize None\<rparr>"
  have "post (new_challenge demo_libs demo_broker) ?s (\<lambda>_ _. True) (\<lambda>_ _. False)"
    by (simp add: new_challenge_def store_broker_challenge_def wp_simps Let_def demo_broker_def demo_broker_policy_def
        demo_issue_state_def demo_libs_def demo_ca2a_def insert_broker_challenge_def sql_insert_def initialize_def
        sql_ints_def sql_int_def)
  from post_total [OF this] obtain token s' where run: "new_challenge demo_libs demo_broker ?s = (Inr token, s')" by blast
  from new_challenge_live [OF run] have "challenge_expiry token = Inr 160"
    by (simp add: Let_def demo_issue_state_def demo_broker_def demo_broker_policy_def)
  with run show ?thesis by blast
qed

end
