(* ===== verification/Redemption.thy ===== *)
theory Redemption
  imports Inventory
begin

text \<open>
  Redemption at most once. First for calls that run one after the other, as an interpretation of the
  ledger contract \<open>one_shot\<close> on \<^verbatim>\<open>redeem\<close> itself. Then for any number of threads of one
  resource process, interleaved at every database access and at the counter, with crashes and with
  other clients of the same database: a step relation whose steps are the parts of \<^verbatim>\<open>redeem\<close>.
\<close>

section \<open>Calls in sequence\<close>

type_synonym redeem_call = "libs \<times> inventory_application \<times> lookup_input \<times> inventory_state"

fun redeem_step :: "redeem_call \<Rightarrow> sqlite_store \<Rightarrow> sqlite_store" where
  "redeem_step (lib, app, request, s) st = db (snd (redeem lib app request (s\<lparr>db := st\<rparr>)))"

text \<open>The credential whose redemption invoked the handler.\<close>

fun redeem_won :: "redeem_call \<Rightarrow> sqlite_store \<Rightarrow> string option" where
  "redeem_won (lib, app, request, s) st =
     (if invocation_count (snd (redeem lib app request (s\<lparr>db := st\<rparr>))) = invocation_count s then None
      else case parse_credential lib (li_credential request) of
             Inl _ \<Rightarrow> None | Inr c \<Rightarrow> Some (dc_credential_id c))"

lemma redeem_spends_op:
  "redeem_spends app request s ad c nb na pf spend st \<Longrightarrow>
   \<exists>h ctx now. fst ctx = dc_credential_id c \<and> spend_tx h ctx nb na now (db s) = Inr (spend, st)"
  by (auto simp: redeem_spends_def expected_context_def) (metis fst_conv)

lemma redeem_permitted_op:
  assumes "redeem_permitted lib app request s arguments ad c pf st"
  shows "\<exists>x. st = apply_op x (db s) \<and> credential_won x (db s) = Some (dc_credential_id c)"
proof -
  from assms obtain nb na spend where "redeem_spends app request s ad c nb na pf spend st" "first_spend spend"
    by (auto simp: redeem_permitted_def)
  with redeem_spends_op obtain h ctx now where
    "fst ctx = dc_credential_id c" "spend_tx h ctx nb na now (db s) = Inr (spend, st)" "first_spend spend" by blast
  then show ?thesis by (intro exI [of _ "Spend h ctx nb na now"]) simp
qed

lemma redeem_refused_op:
  assumes "redeem_refused lib app request s arguments ad reason st"
  shows "st = db s \<or> (\<exists>x. st = apply_op x (db s))"
proof -
  from assms consider "st = db s" | c nb na pf spend where "redeem_spends app request s ad c nb na pf spend st"
    unfolding redeem_refused_def by blast
  then show ?thesis
  proof cases
    case (2 c nb na pf spend)
    from redeem_spends_op [OF 2] obtain h ctx now where "spend_tx h ctx nb na now (db s) = Inr (spend, st)" by blast
    then have "st = apply_op (Spend h ctx nb na now) (db s)" by simp
    then show ?thesis by blast
  qed simp
qed

lemma redeem_permitted_credential:
  "redeem_permitted lib app request s arguments ad c pf st \<Longrightarrow> parse_credential lib (li_credential request) = Inr c"
  by (auto simp: redeem_permitted_def redeem_checked_def)

text \<open>A call either leaves the counter, and then at most burns a challenge, or it advances the counter
  by one on a first spend of its credential.\<close>

lemma redeem_outcome:
  assumes "redeem lib app request s = (res, s')"
  shows "invocation_count s' = invocation_count s \<and> (db s' = db s \<or> (\<exists>x. db s' = apply_op x (db s))) \<or>
    invocation_count s' = invocation_count s + 1 \<and>
    (\<exists>arguments ad c pf. parse_credential lib (li_credential request) = Inr c \<and>
       redeem_permitted lib app request s arguments ad c pf (db s'))"
proof (cases res)
  case (Inl e)
  then have "redeem_raised lib app request s e s'"
    using post_resultD [OF redeem_post assms] by simp
  then show ?thesis
    unfolding redeem_raised_def using redeem_refused_op redeem_permitted_credential
    by (metis (no_types, lifting))
next
  case (Inr d)
  with post_resultD [OF redeem_post assms] obtain arguments ad where "redeem_decided lib app request s arguments ad d s'"
    by auto
  then show ?thesis
    unfolding redeem_decided_def redeem_allowed_def redeem_denied_def
    using redeem_refused_op redeem_permitted_credential by (metis (no_types, lifting))
qed

lemma redeem_step_op: "redeem_step x st = st \<or> (\<exists>y. redeem_step x st = apply_op y st)"
proof -
  obtain lib app request s where x: "x = (lib, app, request, s)" by (cases x)
  obtain res s' where r: "redeem lib app request (s\<lparr>db := st\<rparr>) = (res, s')" by fastforce
  have "\<exists>y. db s' = apply_op y st" if "redeem_permitted lib app request (s\<lparr>db := st\<rparr>) arguments ad c pf (db s')"
    for arguments ad c pf
    using redeem_permitted_op [OF that] by auto
  with redeem_outcome [OF r] show ?thesis unfolding x by (auto simp: r)
qed

lemma redeem_won_op:
  assumes "redeem_won x st = Some k"
  shows "\<exists>y. redeem_step x st = apply_op y st \<and> credential_won y st = Some k"
proof -
  obtain lib app request s where x: "x = (lib, app, request, s)" by (cases x)
  obtain res s' where r: "redeem lib app request (s\<lparr>db := st\<rparr>) = (res, s')" by fastforce
  from assms obtain c where k: "invocation_count s' \<noteq> invocation_count s"
      "parse_credential lib (li_credential request) = Inr c" "k = dc_credential_id c"
    unfolding x by (auto simp: r split: if_splits sum.splits)
  with redeem_outcome [OF r] obtain arguments ad pf where
    "redeem_permitted lib app request (s\<lparr>db := st\<rparr>) arguments ad c pf (db s')" by auto
  from redeem_permitted_op [OF this] show ?thesis unfolding x k by (auto simp: r)
qed

interpretation redemption: one_shot redeem_step redeem_won "\<lambda>st. spent (abs_store st)" store_inv
proof
  fix st x k
  assume inv: "store_inv st"
  show "store_inv (redeem_step x st)"
    using redeem_step_op [of x st] apply_op_inv [OF inv] inv by metis
  show "spent (abs_store st) \<subseteq> spent (abs_store (redeem_step x st))"
    using redeem_step_op [of x st] credential_spend.claimed_mono [OF inv] by (metis order_refl)
  assume "redeem_won x st = Some k"
  from redeem_won_op [OF this] show "k \<notin> spent (abs_store st)" and "k \<in> spent (abs_store (redeem_step x st))"
    using credential_spend.won_fresh [OF inv] credential_spend.won_claimed [OF inv] by metis+
qed

primrec invoked_credentials :: "redeem_call list \<Rightarrow> sqlite_store \<Rightarrow> string list" where
  "invoked_credentials [] st = []"
| "invoked_credentials (x # xs) st =
     (case redeem_won x st of None \<Rightarrow> [] | Some k \<Rightarrow> [k]) @ invoked_credentials xs (redeem_step x st)"

lemma invoked_credentials_wins: "invoked_credentials xs st = redemption.wins xs st"
  by (induction xs arbitrary: st) simp_all

section \<open>Threads, crashes and other clients\<close>

text \<open>Where a thread is in \<^verbatim>\<open>redeem\<close>; the state it carries is its own environment and locals.\<close>

datatype session =
  Idle
| Entered lookup_input inventory_state
| Checked lookup_input inventory_arguments string delegation_credential int int string inventory_state
| Authorized lookup_input inventory_arguments string delegation_credential inventory_state
| Invoked lookup_input int

text \<open>The part of \<^verbatim>\<open>redeem\<close> before the spend: it reads the database once and does not write it.\<close>

definition redeem_check ::
  "libs \<Rightarrow> inventory_application \<Rightarrow> 'b lookup_input_scheme
   \<Rightarrow> ('a inventory_state_scheme, inventory_arguments \<times> string \<times> delegation_credential \<times> int \<times> int \<times> string) prog" where
  "redeem_check lib app request =
     bindM (liftE (new_inventory_arguments (ia_sku request))) (\<lambda>arguments.
     bindM (liftE (canonical_digest (lib_dumps lib) (arguments_dump arguments))) (\<lambda>ad.
     bindM (redeem_credential lib app (li_credential request)) (\<lambda>(c, nb, na).
     bindM (redeem_proof lib app arguments ad request c) (\<lambda>h.
     returnM (arguments, ad, c, nb, na, h)))))"

record world =
  w_store :: sqlite_store
  w_count :: int
  w_session :: "nat \<Rightarrow> session"
  w_log :: "string list"

text \<open>The log records the credential of every invocation; no step reads it.\<close>

inductive redeem_world :: "libs \<Rightarrow> inventory_application \<Rightarrow> world \<Rightarrow> world \<Rightarrow> bool" for lib app where
  enter: "w_session w i = Idle \<Longrightarrow> redeem_world lib app w (w\<lparr>w_session := (w_session w)(i := Entered request s)\<rparr>)"
| check_ok: "w_session w i = Entered request s \<Longrightarrow>
    redeem_check lib app request (s\<lparr>db := w_store w\<rparr>) = (Inr (arguments, ad, c, nb, na, h), s') \<Longrightarrow>
    redeem_world lib app w (w\<lparr>w_session := (w_session w)(i := Checked request arguments ad c nb na h s')\<rparr>)"
| check_denied: "w_session w i = Entered request s \<Longrightarrow>
    redeem_check lib app request (s\<lparr>db := w_store w\<rparr>) = (Inl e, s') \<Longrightarrow>
    redeem_world lib app w (w\<lparr>w_session := (w_session w)(i := Idle)\<rparr>)"
| spend_ok: "w_session w i = Checked request arguments ad c nb na h s \<Longrightarrow>
    redeem_spend app ad h request c nb na (s\<lparr>db := w_store w\<rparr>) = (Inr (), s') \<Longrightarrow>
    redeem_world lib app w (w\<lparr>w_store := db s', w_session := (w_session w)(i := Authorized request arguments ad c s')\<rparr>)"
| spend_denied: "w_session w i = Checked request arguments ad c nb na h s \<Longrightarrow>
    redeem_spend app ad h request c nb na (s\<lparr>db := w_store w\<rparr>) = (Inl e, s') \<Longrightarrow>
    redeem_world lib app w (w\<lparr>w_store := db s', w_session := (w_session w)(i := Idle)\<rparr>)"
| invoke: "w_session w i = Authorized request arguments ad c s \<Longrightarrow>
    record_invocation (s\<lparr>invocation_count := w_count w\<rparr>) = (Inr n, s') \<Longrightarrow>
    redeem_world lib app w (w\<lparr>w_count := invocation_count s', w_session := (w_session w)(i := Invoked request n),
      w_log := dc_credential_id c # w_log w\<rparr>)"
| report: "w_session w i = Invoked request n \<Longrightarrow>
    redeem_world lib app w (w\<lparr>w_session := (w_session w)(i := Idle)\<rparr>)"
| crash: "redeem_world lib app w (w\<lparr>w_session := (w_session w)(i := Idle)\<rparr>)"
| other_client: "redeem_world lib app w (w\<lparr>w_store := apply_op x (w_store w)\<rparr>)"

inductive_cases redeem_worldE: "redeem_world lib app w w'"

text \<open>Whatever the threads do, an authorized thread owns its credential: it is spent, it has not been
  invoked, and no other thread is authorized for it. None of this concerns credentials that were
  spent before (\<open>old\<close>).\<close>

fun authorized_for :: "session \<Rightarrow> string option" where
  "authorized_for (Authorized _ _ _ c _) = Some (dc_credential_id c)"
| "authorized_for _ = None"

definition world_inv :: "string set \<Rightarrow> world \<Rightarrow> bool" where
  "world_inv old w \<longleftrightarrow>
     store_inv (w_store w) \<and> old \<subseteq> spent (abs_store (w_store w)) \<and>
     distinct (w_log w) \<and> set (w_log w) \<subseteq> spent (abs_store (w_store w)) - old \<and>
     (\<forall>i k. authorized_for (w_session w i) = Some k \<longrightarrow>
        k \<in> spent (abs_store (w_store w)) \<and> k \<notin> set (w_log w) \<and> k \<notin> old \<and>
        (\<forall>j. j \<noteq> i \<longrightarrow> authorized_for (w_session w j) \<noteq> Some k))"

lemma world_inv_release:
  "world_inv old w \<Longrightarrow> authorized_for x = None \<Longrightarrow> world_inv old (w\<lparr>w_session := (w_session w)(i := x)\<rparr>)"
  by (auto simp: world_inv_def)

lemma world_inv_op: "world_inv old w \<Longrightarrow> world_inv old (w\<lparr>w_store := apply_op x (w_store w)\<rparr>)"
  using credential_spend.claimed_mono [of "w_store w" x] unfolding world_inv_def
  by (simp add: apply_op_inv) blast

lemma redeem_spend_op:
  assumes "redeem_spend app ad h request c nb na s = (res, s')"
  shows "db s' = db s \<or> (\<exists>x. db s' = apply_op x (db s))"
    and "res = Inr () \<Longrightarrow> \<exists>x. db s' = apply_op x (db s) \<and> credential_won x (db s) = Some (dc_credential_id c)"
proof -
  let ?ctx = "expected_context app (dc_credential_id c) ad (li_record_id request)"
  have tx: "\<exists>x. db s' = apply_op x (db s) \<and> (first_spend spend \<longrightarrow> credential_won x (db s) = Some (dc_credential_id c))"
    if "spend_tx h ?ctx nb na (clock_at s (ticks s)) (db s) = Inr (spend, db s')" for spend
    using that by (intro exI [of _ "Spend h ?ctx nb na (clock_at s (ticks s))"]) (simp add: expected_context_def)
  note p = post_resultD [OF redeem_spend_post assms]
  show "db s' = db s \<or> (\<exists>x. db s' = apply_op x (db s))"
    using p tx by (auto split: sum.splits)
  show "res = Inr () \<Longrightarrow> \<exists>x. db s' = apply_op x (db s) \<and> credential_won x (db s) = Some (dc_credential_id c)"
    using p tx by auto
qed

lemma world_inv_step: "redeem_world lib app w w' \<Longrightarrow> world_inv old w \<Longrightarrow> world_inv old w'"
proof (induction rule: redeem_world.induct)
  case (spend_ok w i request arguments ad c nb na h s s')
  from redeem_spend_op(2) [OF spend_ok(2) refl] obtain x where
    x: "db s' = apply_op x (w_store w)" "credential_won x (w_store w) = Some (dc_credential_id c)" by auto
  have inv: "store_inv (w_store w)" using spend_ok(3) by (simp add: world_inv_def)
  have fresh: "dc_credential_id c \<notin> spent (abs_store (w_store w))"
    and claimed: "dc_credential_id c \<in> spent (abs_store (db s'))"
    using credential_spend.won_fresh [OF inv x(2)] credential_spend.won_claimed [OF inv x(2)] x(1) by simp_all
  have "world_inv old (w\<lparr>w_store := db s'\<rparr>)" using world_inv_op [OF spend_ok(3)] x(1) by simp
  moreover have "authorized_for (w_session w j) \<noteq> Some (dc_credential_id c)" for j
    using spend_ok(3) fresh by (auto simp: world_inv_def)
  moreover have "dc_credential_id c \<notin> old" using spend_ok(3) fresh by (auto simp: world_inv_def)
  moreover have "dc_credential_id c \<notin> set (w_log w)" using spend_ok(3) fresh by (auto simp: world_inv_def)
  ultimately show ?case using claimed by (auto simp: world_inv_def)
next
  case (spend_denied w i request arguments ad c nb na h s e s')
  from redeem_spend_op(1) [OF spend_denied(2)] have "world_inv old (w\<lparr>w_store := db s'\<rparr>)"
    using world_inv_op [OF spend_denied(3)] spend_denied(3) by auto
  from world_inv_release [OF this, of Idle i] show ?case by simp
next
  case (invoke w i request arguments ad c s n s')
  have "authorized_for (w_session w i) = Some (dc_credential_id c)" using invoke(1) by simp
  with invoke(3) show ?case by (auto simp: world_inv_def)
qed (auto intro: world_inv_release world_inv_op)

lemma world_inv_steps: "(redeem_world lib app)\<^sup>*\<^sup>* w w' \<Longrightarrow> world_inv old w \<Longrightarrow> world_inv old w'"
  by (induction rule: rtranclp_induct) (auto intro: world_inv_step)

lemma world_count_step:
  "redeem_world lib app w w' \<Longrightarrow> w_count w' - int (length (w_log w')) = w_count w - int (length (w_log w))"
  by (induction rule: redeem_world.induct) (auto simp: record_invocation_def run_simps)

lemma world_count_steps:
  "(redeem_world lib app)\<^sup>*\<^sup>* w w' \<Longrightarrow> w_count w' - int (length (w_log w')) = w_count w - int (length (w_log w))"
  by (induction rule: rtranclp_induct) (auto dest: world_count_step)

end
