(* ===== verification/Resource_Access.thy ===== *)
theory Resource_Access
  imports Instances Redemption
begin

text \<open>
  What the resource promises: the properties of \<^verbatim>\<open>InventoryApplication\<close>, each with a concrete
  run at which its hypotheses hold.
\<close>

section \<open>At most once\<close>

definition demo_world :: world where
  "demo_world = \<lparr>w_store = demo_store, w_count = 0, w_session = (\<lambda>_. Idle), w_log = []\<rparr>"

definition demo_checked_state :: inventory_state where
  "demo_checked_state = demo_inventory_state\<lparr>rl_credential_id := Some (dc_credential_id demo_credential), ticks := 2,
     rl_token_hash := Some (challenge_token_hash ''token''), db_calls := 1\<rparr>"

lemma demo_check:
  "redeem_check demo_libs demo_app demo_lookup (demo_inventory_state\<lparr>db := demo_store\<rparr>)
   = (Inr (\<lparr>ia_sku = ''widget-42''\<rparr>, sha256_hex [1], demo_credential, 90, 150, challenge_token_hash ''token''),
      demo_checked_state)"
  by (simp add: redeem_check_def redeem_credential_def redeem_proof_def get_resource_challenge_def db_connect_def read_clock_def
      run_simps Let_def demo_arguments(2) new_inventory_arguments_def demo_checked_state_def
      parse_credential_def credential_bounds_def check_chain_def parse_proof_def
      check_stored_def check_holder_proof_def demo_ca2a_def demo_credential_def demo_app_def demo_lookup_def
      demo_inventory_state_def demo_store_def get_str_def sql_select_def record_of_row_def record_context_def
      expected_context_def canonical_json_def demo_libs_def canonical_digest_def)

lemma demo_spend_runs:
  "\<exists>s'. redeem_spend demo_app (sha256_hex [1]) (challenge_token_hash ''token'') demo_lookup demo_credential 90 150
     (demo_checked_state\<lparr>db := demo_store\<rparr>) = (Inr (), s')"
proof -
  from demo_spends obtain st where "spend_tx (challenge_token_hash ''token'')
      (expected_context demo_app (dc_credential_id demo_credential) (sha256_hex [1]) ''record-1'') 90 150 100 demo_store
      = Inr (\<lparr>first_spend = True, committed_at = 100, challenge_expires_at = 155\<rparr>, st)"
    by (auto simp: redeem_spends_def demo_inventory_state_def demo_proof_def demo_lookup_def)
  then have "post (redeem_spend demo_app (sha256_hex [1]) (challenge_token_hash ''token'') demo_lookup demo_credential 90 150)
      (demo_checked_state\<lparr>db := demo_store\<rparr>) (\<lambda>_ _. True) (\<lambda>_ _. False)"
    by (simp add: redeem_spend_def consume_challenge_and_spend_credential_def wp_simps Let_def demo_inventory_state_def
        demo_lookup_def demo_checked_state_def)
  from post_total [OF this] show ?thesis by auto
qed

lemma demo_world_run:
  "\<exists>w. (redeem_world demo_libs demo_app)\<^sup>*\<^sup>* demo_world w \<and> w_log w = [bytes_hex (replicate 32 0)]"
proof -
  let ?step = "redeem_world demo_libs demo_app"
  define w1 where "w1 = demo_world\<lparr>w_session := (w_session demo_world)(0 := Entered demo_lookup demo_inventory_state)\<rparr>"
  define w2 where "w2 = w1\<lparr>w_session := (w_session w1)(0 := Checked demo_lookup \<lparr>ia_sku = ''widget-42''\<rparr> (sha256_hex [1])
    demo_credential 90 150 (challenge_token_hash ''token'') demo_checked_state)\<rparr>"
  have 1: "?step demo_world w1" unfolding w1_def by (rule redeem_world.enter) (simp add: demo_world_def)
  have st: "w_store w1 = demo_store" "w_store w2 = demo_store"
    by (simp_all add: w2_def w1_def demo_world_def)
  have 2: "?step w1 w2" unfolding w2_def
    by (rule redeem_world.check_ok [where s = demo_inventory_state]) (simp add: w1_def, unfold st, rule demo_check)
  from demo_spend_runs obtain s' where sp: "redeem_spend demo_app (sha256_hex [1]) (challenge_token_hash ''token'') demo_lookup
      demo_credential 90 150 (demo_checked_state\<lparr>db := demo_store\<rparr>) = (Inr (), s')" by blast
  define w3 where "w3 = w2\<lparr>w_store := db s', w_session := (w_session w2)(0 := Authorized demo_lookup \<lparr>ia_sku = ''widget-42''\<rparr>
    (sha256_hex [1]) demo_credential s')\<rparr>"
  have 3: "?step w2 w3" unfolding w3_def
    by (rule redeem_world.spend_ok [where s = demo_checked_state and nb = 90 and na = 150 and h = "challenge_token_hash ''token''"])
       (simp add: w2_def, unfold st, rule sp)
  obtain n s'' where inv: "record_invocation (s'\<lparr>invocation_count := w_count w3\<rparr>) = (Inr n, s'')"
    by (simp add: record_invocation_def run_simps)
  define w4 where "w4 = w3\<lparr>w_count := invocation_count s'', w_session := (w_session w3)(0 := Invoked demo_lookup n),
      w_log := dc_credential_id demo_credential # w_log w3\<rparr>"
  have 4: "?step w3 w4" unfolding w4_def
    by (rule redeem_world.invoke [where s = s', OF _ inv]) (simp add: w3_def)
  have "w_log w4 = [bytes_hex (replicate 32 0)]"
    by (simp add: w4_def w3_def w2_def w1_def demo_world_def demo_credential_def)
  with 1 2 3 4 show ?thesis by (meson converse_rtranclp_into_rtranclp rtranclp.rtrancl_refl)
qed

text \<open>C1: at most once, under concurrency. Any number of threads redeem any requests against one
  store, interleaved at every database access and at the counter, threads may crash anywhere, and
  other clients of the database may run any of its operations in between. Starting from a
  well-formed store with no thread active, no credential ever has the handler invoked for it twice,
  none that was spent before is invoked at all, every invoked credential is recorded as spent, and
  the invocation counter has advanced by exactly the number of invocations.\<close>

theorem at_most_once_interleaved:
  assumes run: "(redeem_world lib app)\<^sup>*\<^sup>* w w'"
    and start: "store_inv (w_store w)" "w_log w = []" "\<forall>i. w_session w i = Idle"
  shows "distinct (w_log w') \<and> set (w_log w') \<subseteq> spent (abs_store (w_store w')) - spent (abs_store (w_store w)) \<and>
    w_count w' = w_count w + int (length (w_log w'))"
proof -
  have "world_inv (spent (abs_store (w_store w))) w" using start by (simp add: world_inv_def)
  with run have "world_inv (spent (abs_store (w_store w))) w'" by (rule world_inv_steps)
  moreover have "w_count w' = w_count w + int (length (w_log w'))"
    using world_count_steps [OF run] start(2) by simp
  ultimately show ?thesis by (simp add: world_inv_def)
qed

theorem at_most_once_interleaved_witness:
  "\<exists>w'. (redeem_world demo_libs demo_app)\<^sup>*\<^sup>* demo_world w' \<and> w_log w' = [bytes_hex (replicate 32 0)] \<and> w_count w' = 1"
proof -
  from demo_world_run obtain w' where run: "(redeem_world demo_libs demo_app)\<^sup>*\<^sup>* demo_world w'"
    and log: "w_log w' = [bytes_hex (replicate 32 0)]" by blast
  have "store_inv (w_store demo_world)" "w_log demo_world = []" "\<forall>i. w_session demo_world i = Idle"
    by (simp_all add: demo_world_def demo_store_inv)
  from at_most_once_interleaved [OF run this] log have "w_count w' = 1" by (simp add: demo_world_def)
  with run log show ?thesis by blast
qed

text \<open>C5: over any sequence of complete redemption calls on one store, with any requests, package
  behaviour, clocks and database failures, the credentials for which a call advanced the invocation
  counter are pairwise different and were not spent before.\<close>

theorem at_most_once_sequential:
  assumes "store_inv st"
  shows "distinct (invoked_credentials calls st) \<and> set (invoked_credentials calls st) \<inter> spent (abs_store st) = {}"
  using redemption.wins_distinct [OF assms] redemption.wins_new [OF assms] by (auto simp: invoked_credentials_wins)

theorem at_most_once_sequential_witness:
  "distinct (invoked_credentials (replicate 3 (demo_libs, demo_app, demo_lookup, demo_inventory_state)) demo_store)"
  using at_most_once_sequential [OF demo_store_inv] by blast

section \<open>What an allow decision means\<close>

lemma permitted_row:
  assumes inv: "store_inv (db s)" and perm: "redeem_permitted lib app request s arguments ad c pf st"
  shows "\<exists>nb na row. dc_not_before c = Some nb \<and> dc_not_after c = Some na \<and> lower_hex 64 (dc_credential_id c) \<and>
    na - nb \<le> rp_max_credential_lifetime_seconds (app_policy app) \<and>
    verify_chain (lib_ca2a lib) [c] 0 {|rp_trusted_broker_public_hex (app_policy app)|} (clock_at s (ticks s)) = Inr () \<and>
    dc_scope c = {|rp_qualified_scope (app_policy app)|} \<and>
    proof_from_dict (lib_ca2a lib) (li_holder_proof request) = Inr pf \<and>
    sql_select rr_token_hash (challenge_token_hash (hp_challenge pf)) (resource_challenges (db s)) = Some row \<and>
    row_context row = expected_context app (dc_credential_id c) ad (li_record_id request) \<and> rr_consumed_at row = None \<and>
    (\<forall>i \<in> {1, 2, 3}. clock_at s (ticks s + i) < rr_expires_at row) \<and>
    (\<forall>i \<in> {2, 3}. nb \<le> clock_at s (ticks s + i) \<and> clock_at s (ticks s + i) \<le> na) \<and>
    check_holder_proof lib app arguments (li_record_id request) c pf = Inr ()"
proof -
  from perm obtain nb na spend where chk: "redeem_checked lib app request s arguments ad c nb na pf"
    and sp: "redeem_spends app request s ad c nb na pf spend st" and t: "redeem_in_time s nb na spend"
    by (auto simp: redeem_permitted_def)
  from sp obtain row where row: "sql_select rr_token_hash (challenge_token_hash (hp_challenge pf)) (resource_challenges (db s)) = Some row"
      "rr_consumed_at row = None" "clock_at s (ticks s + 2) < rr_expires_at row" "nb \<le> clock_at s (ticks s + 2)"
      "clock_at s (ticks s + 2) \<le> na" "row_context row = expected_context app (dc_credential_id c) ad (li_record_id request)"
      "challenge_expires_at spend = rr_expires_at row"
    unfolding redeem_spends_def spend_tx_Inr [OF inv] by auto
  from chk row(1) have one: "clock_at s (ticks s + 1) < rr_expires_at row"
    by (auto simp: redeem_checked_def check_stored_def bindE_Inr_iff record_of_row_def)
  from chk have "dc_not_before c = Some nb \<and> dc_not_after c = Some na \<and> lower_hex 64 (dc_credential_id c) \<and>
      na - nb \<le> rp_max_credential_lifetime_seconds (app_policy app)"
    by (auto simp: redeem_checked_def credential_bounds_def bindE_Inr_iff split: option.splits)
  moreover from chk have "verify_chain (lib_ca2a lib) [c] 0 {|rp_trusted_broker_public_hex (app_policy app)|} (clock_at s (ticks s)) = Inr ()"
      "dc_scope c = {|rp_qualified_scope (app_policy app)|}" "proof_from_dict (lib_ca2a lib) (li_holder_proof request) = Inr pf"
      "check_holder_proof lib app arguments (li_record_id request) c pf = Inr ()"
    by (auto simp: redeem_checked_def check_chain_def parse_proof_def bindE_Inr_iff)
  moreover have "\<forall>i \<in> {1, 2, 3}. clock_at s (ticks s + i) < rr_expires_at row"
    using one row(3,7) t by (simp add: redeem_in_time_def Let_def)
  moreover have "\<forall>i \<in> {2, 3}. nb \<le> clock_at s (ticks s + i) \<and> clock_at s (ticks s + i) \<le> na"
    using row(4,5) t by (simp add: redeem_in_time_def Let_def)
  ultimately show ?thesis using row(1,2,6) by blast
qed

lemma permitted_spent:
  assumes "store_inv (db s)" "redeem_permitted lib app request s arguments ad c pf st"
  shows "dc_credential_id c \<notin> spent (abs_store (db s)) \<and> dc_credential_id c \<in> spent (abs_store st)"
proof -
  from redeem_permitted_op [OF assms(2)] obtain x where "st = apply_op x (db s)"
    "credential_won x (db s) = Some (dc_credential_id c)" by blast
  then show ?thesis
    using credential_spend.won_fresh [OF assms(1)] credential_spend.won_claimed [OF assms(1)] by metis
qed

text \<open>C2: an allow decision of the resource means that every authorization condition held. The
  credential parsed, has a 256-bit identifier, both validity bounds, a lifetime within policy and
  exactly the policy's scope, and verified against the trusted broker at the first reading. The
  challenge in the holder proof was issued here for this very credential, method, arguments, record
  and audience, was unconsumed, and was unexpired at the check, under the write lock and just before
  the handler; the credential was inside its window at the last two of these. The holder proof
  verified. The credential had not been spent and is spent now, and the counter advanced by one.\<close>

theorem redeem_allowed_sound:
  assumes run: "redeem lib app request s = (Inr d, s')" and "d_allowed d" and inv: "store_inv (db s)"
  shows "\<exists>arguments ad c pf nb na row.
    new_inventory_arguments (ia_sku request) = Inr arguments \<and>
    canonical_digest (lib_dumps lib) (arguments_dump arguments) = Inr ad \<and>
    parse_credential lib (li_credential request) = Inr c \<and> lower_hex 64 (dc_credential_id c) \<and>
    dc_not_before c = Some nb \<and> dc_not_after c = Some na \<and>
    na - nb \<le> rp_max_credential_lifetime_seconds (app_policy app) \<and>
    verify_chain (lib_ca2a lib) [c] 0 {|rp_trusted_broker_public_hex (app_policy app)|} (clock_at s (ticks s)) = Inr () \<and>
    dc_scope c = {|rp_qualified_scope (app_policy app)|} \<and>
    proof_from_dict (lib_ca2a lib) (li_holder_proof request) = Inr pf \<and>
    check_holder_proof lib app arguments (li_record_id request) c pf = Inr () \<and>
    sql_select rr_token_hash (challenge_token_hash (hp_challenge pf)) (resource_challenges (db s)) = Some row \<and>
    row_context row = expected_context app (dc_credential_id c) ad (li_record_id request) \<and> rr_consumed_at row = None \<and>
    (\<forall>i \<in> {1, 2, 3}. clock_at s (ticks s + i) < rr_expires_at row) \<and>
    (\<forall>i \<in> {2, 3}. nb \<le> clock_at s (ticks s + i) \<and> clock_at s (ticks s + i) \<le> na) \<and>
    dc_credential_id c \<notin> spent (abs_store (db s)) \<and> dc_credential_id c \<in> spent (abs_store (db s')) \<and>
    invocation_count s' = invocation_count s + 1"
proof -
  from post_returnD [OF redeem_post run] \<open>d_allowed d\<close> obtain arguments ad where
    a: "new_inventory_arguments (ia_sku request) = Inr arguments"
      "canonical_digest (lib_dumps lib) (arguments_dump arguments) = Inr ad"
    and al: "redeem_allowed lib app request s arguments ad d s'" by (auto simp: redeem_decided_def)
  from al obtain c pf where p: "redeem_permitted lib app request s arguments ad c pf (db s')"
      "invocation_count s' = invocation_count s + 1" by (auto simp: redeem_allowed_def)
  from permitted_row [OF inv p(1)] permitted_spent [OF inv p(1)] redeem_permitted_credential [OF p(1)] a p(2)
  show ?thesis by metis
qed

theorem redeem_allowed_sound_witness:
  "\<exists>d s'. redeem demo_libs demo_app demo_lookup demo_inventory_state = (Inr d, s') \<and> invocation_count s' = 1 \<and>
     bytes_hex (replicate 32 0) \<in> spent (abs_store (db s'))"
proof -
  from demo_redeem obtain d s' where run: "redeem demo_libs demo_app demo_lookup demo_inventory_state = (Inr d, s')"
    and a: "d_allowed d" by blast
  have inv: "store_inv (db demo_inventory_state)" by (simp add: demo_inventory_state_def demo_store_inv)
  from redeem_allowed_sound [OF run a inv] obtain c where
    "parse_credential demo_libs (li_credential demo_lookup) = Inr c" "dc_credential_id c \<in> spent (abs_store (db s'))"
    "invocation_count s' = invocation_count demo_inventory_state + 1"
    by (elim exE conjE) (rule that)
  then have "invocation_count s' = 1" "bytes_hex (replicate 32 0) \<in> spent (abs_store (db s'))"
    by (auto simp: parse_credential_def demo_libs_def demo_ca2a_def demo_credential_def demo_inventory_state_def)
  with run show ?thesis by blast
qed

section \<open>What a denial means\<close>

lemma spends_burned:
  assumes "store_inv (db s)" "redeem_spends app request s ad c nb na pf spend st"
  shows "challenge_token_hash (hp_challenge pf) \<in> r_burned (abs_store st)"
proof -
  let ?h = "challenge_token_hash (hp_challenge pf)"
  let ?x = "Spend ?h (expected_context app (dc_credential_id c) ad (li_record_id request)) nb na (clock_at s (Suc (Suc (ticks s))))"
  have "resource_won ?x (db s) = Some ?h" "apply_op ?x (db s) = st"
    using assms(2) by (simp_all add: redeem_spends_def)
  then show ?thesis using resource_burn.won_claimed [OF assms(1), of ?x ?h] by simp
qed

text \<open>C8: a denial never runs the handler: the counter is unchanged and there is no business result.
  The store is unchanged too, unless the denial came after the spend was committed; then the
  challenge is burned and the reason says why: the credential was already spent, or the challenge or
  the credential ran out between the commit and the handler.\<close>

theorem redeem_denied_no_handler:
  assumes run: "redeem lib app request s = (Inr d, s')" and "\<not> d_allowed d" and inv: "store_inv (db s)"
  shows "invocation_count s' = invocation_count s \<and> d_result d = None \<and>
    (db s' = db s \<or>
     d_reason d \<in> {CREDENTIAL_SPENT, CHALLENGE_STALE, CREDENTIAL_EXPIRED} \<and>
     (\<exists>pf. proof_from_dict (lib_ca2a lib) (li_holder_proof request) = Inr pf \<and>
        challenge_token_hash (hp_challenge pf) \<in> r_burned (abs_store (db s'))))"
proof -
  from post_returnD [OF redeem_post run] \<open>\<not> d_allowed d\<close> obtain arguments ad where
    d: "redeem_denied lib app request s arguments ad d s'" by (auto simp: redeem_decided_def)
  then have "redeem_refused lib app request s arguments ad (d_reason d) (db s')" by (simp add: redeem_denied_def)
  then consider "db s' = db s" | c nb na pf spend where "redeem_checked lib app request s arguments ad c nb na pf"
      "redeem_spends app request s ad c nb na pf spend (db s')" "d_reason d = refusal_reason spend (clock_at s (ticks s + 3))"
    unfolding redeem_refused_def by blast
  then show ?thesis
  proof cases
    case 2
    from 2(1) have "proof_from_dict (lib_ca2a lib) (li_holder_proof request) = Inr pf"
      by (simp add: redeem_checked_def parse_proof_def)
    moreover have "d_reason d \<in> {CREDENTIAL_SPENT, CHALLENGE_STALE, CREDENTIAL_EXPIRED}"
      by (simp add: 2(3) refusal_reason_def)
    ultimately show ?thesis using d spends_burned [OF inv 2(2)] by (auto simp: redeem_denied_def)
  qed (use d in \<open>simp add: redeem_denied_def\<close>)
qed

text \<open>A request for a challenge that was never issued.\<close>

definition demo_stray_lookup :: lookup_input where
  "demo_stray_lookup = demo_lookup\<lparr>li_holder_proof := fmempty\<rparr>"

lemma demo_redeem_denied:
  "\<exists>d s'. redeem demo_libs demo_app demo_stray_lookup demo_inventory_state = (Inr d, s') \<and> \<not> d_allowed d"
proof -
  let ?start = "demo_inventory_state\<lparr>rl_credential_id := None, rl_token_hash := None\<rparr>"
  let ?s = "demo_inventory_state\<lparr>rl_credential_id := Some (bytes_hex (replicate 32 0)), ticks := 1, rl_token_hash := None\<rparr>"
  have au: "redeem_authorize demo_libs demo_app \<lparr>ia_sku = ''widget-42''\<rparr> (sha256_hex [1]) demo_stray_lookup ?start
      = (Inl (DecisionError HOLDER_PROOF_INVALID ''holder proof is malformed''), ?s)"
    by (rule prod_eqI) (simp_all add: redeem_authorize_def redeem_credential_def redeem_proof_def run_simps read_clock_def parse_credential_def
        credential_bounds_def check_chain_def parse_proof_def demo_libs_def demo_ca2a_def demo_credential_def demo_app_def
        demo_stray_lookup_def demo_lookup_def demo_inventory_state_def get_str_def invalid_def)
  have "post (redeem_denial demo_libs demo_app (sha256_hex [1]) demo_stray_lookup HOLDER_PROOF_INVALID) ?s
      (\<lambda>_ _. True) (\<lambda>_ _. False)"
    unfolding redeem_denial_def redeem_receipt_def post_bindM post_getM
    by (rule post_mono [OF inventory_receipt_total [OF demo_inventory_ready]])
       (auto simp: demo_inventory_state_def wp_simps intro!: inventory_deny_legal [OF demo_inventory_ready])
  then have "post (redeem_denial demo_libs demo_app (sha256_hex [1]) demo_stray_lookup HOLDER_PROOF_INVALID) ?s
      (\<lambda>d _. \<not> d_allowed d) (\<lambda>_ _. False)"
    using redeem_denial_post by (rule post_mono [OF post_conj]) simp_all
  from post_total [OF this]
  have "\<exists>d s'. redeem_denial demo_libs demo_app (sha256_hex [1]) demo_stray_lookup HOLDER_PROOF_INVALID ?s = (Inr d, s') \<and> \<not> d_allowed d" .
  moreover have "new_inventory_arguments (ia_sku demo_stray_lookup) = Inr \<lparr>ia_sku = ''widget-42''\<rparr>"
    using demo_arguments(1) by (simp add: demo_stray_lookup_def)
  ultimately show ?thesis
    by (auto simp: redeem_def run_simps au demo_arguments(2))
qed

theorem redeem_denied_no_handler_witness:
  "\<exists>d s'. redeem demo_libs demo_app demo_stray_lookup demo_inventory_state = (Inr d, s') \<and> invocation_count s' = 0"
proof -
  from demo_redeem_denied obtain d s' where
    run: "redeem demo_libs demo_app demo_stray_lookup demo_inventory_state = (Inr d, s')" and d: "\<not> d_allowed d" by blast
  have inv: "store_inv (db demo_inventory_state)" by (simp add: demo_inventory_state_def demo_store_inv)
  from redeem_denied_no_handler [OF run d inv] have "invocation_count s' = 0" by (simp add: demo_inventory_state_def)
  with run show ?thesis by blast
qed

section \<open>Completion, receipts and failures after the handler\<close>

text \<open>C6: an authorized redemption completes. When every check passes, the challenge is unspent and
  live under the lock, the credential unspent, and nothing has expired just before the handler, and
  when the store answers and receipts can be signed, then \<^verbatim>\<open>redeem\<close> returns, allows, and
  reports the catalog quantity of the requested item (zero when the item is unknown) under the next
  invocation number, or a handler failure when that quantity is negative.\<close>

theorem redeem_completes_authorized:
  assumes ready: "redeem_ready lib app request s"
    and args: "new_inventory_arguments (ia_sku request) = Inr arguments"
      "canonical_digest (lib_dumps lib) (arguments_dump arguments) = Inr ad"
    and chk: "redeem_checked lib app request s arguments ad c nb na pf"
    and spend: "redeem_spends app request s ad c nb na pf spend st" "first_spend spend" "redeem_in_time s nb na spend"
  shows "\<exists>d s'. redeem lib app request s = (Inr d, s') \<and> d_allowed d \<and> db s' = st \<and>
    (let n = invocation_count s + 1; q = (case fmlookup (app_catalog app) (ia_sku request) of None \<Rightarrow> 0 | Some q \<Rightarrow> q) in
     invocation_count s' = n \<and>
     (if 0 \<le> q
      then d_reason d = ALLOW \<and>
        d_result d = Some (obj [(''sku'', JStr (ia_sku request)), (''quantity'', JInt q), (''invocation_number'', JInt n)])
      else d_reason d = HANDLER_FAILED \<and>
        d_result d = Some (obj [(''invoked'', JBool True), (''completed'', JBool False), (''invocation_number'', JInt n)])))"
proof -
  have perm: "redeem_permitted lib app request s arguments ad c pf st"
    using chk spend by (rule redeem_permittedI)
  from redeem_completes [OF ready args perm] obtain d s' where
    run: "redeem lib app request s = (Inr d, s')" "d_allowed d" "db s' = st" by blast
  from post_returnD [OF redeem_post run(1)] args run(2) have "redeem_allowed lib app request s arguments ad d s'"
    by (auto simp: redeem_decided_def)
  then obtain result where o: "invocation_outcome app arguments (invocation_count s + 1) = (d_reason d, result, the (d_result d))"
      "d_result d \<noteq> None" "invocation_count s' = invocation_count s + 1" by (auto simp: redeem_allowed_def)
  have sku: "ia_sku arguments = ia_sku request" "1 \<le> length (ia_sku request)" "length (ia_sku request) \<le> 128"
    using args(1) by (auto simp: new_inventory_arguments_def bindE_Inr_iff)
  have count: "0 \<le> invocation_count s" using ready by (simp add: redeem_ready_def)
  show ?thesis
    using run o sku count
    by (intro exI [of _ d] exI [of _ s'])
       (auto simp: Let_def invocation_outcome_def lookup_result_def inventory_lookup_def bindE_def require_def
         split: if_splits option.splits)
qed

theorem redeem_completes_authorized_witness:
  "\<exists>d s'. redeem demo_libs demo_app demo_lookup demo_inventory_state = (Inr d, s') \<and> d_reason d = ALLOW \<and>
     d_result d = Some (obj [(''sku'', JStr ''widget-42''), (''quantity'', JInt 7), (''invocation_number'', JInt 1)])"
proof -
  from demo_spends obtain st where sp: "redeem_spends demo_app demo_lookup demo_inventory_state (sha256_hex [1]) demo_credential
      90 150 demo_proof \<lparr>first_spend = True, committed_at = 100, challenge_expires_at = 155\<rparr> st" ..
  have t: "redeem_in_time demo_inventory_state 90 150 \<lparr>first_spend = True, committed_at = 100, challenge_expires_at = 155\<rparr>"
    by (simp add: redeem_in_time_def demo_inventory_state_def)
  have v: "invocation_count demo_inventory_state = 0" "ia_sku demo_lookup = ''widget-42''"
      "fmlookup (app_catalog demo_app) ''widget-42'' = Some 7"
    by (simp_all add: demo_inventory_state_def demo_lookup_def demo_app_def)
  show ?thesis
    using redeem_completes_authorized [OF demo_redeem_ready demo_arguments demo_checked sp _ t]
    by (auto simp: v Let_def)
qed

text \<open>C19: every decision of \<^verbatim>\<open>redeem\<close> comes with a receipt signed over claims that pass the receipt
  schema and describe it: the decision and its reason, the method, audience, scope, argument digest
  and record of the call, whether the handler ran and under which invocation number; for an allow also
  the credential and the challenge that were spent.\<close>

theorem redeem_receipt_faithful:
  assumes run: "redeem lib app request s = (Inr d, s')"
  shows "\<exists>p ad. legal_receipt p \<and>
    receipt_sign (lib_jws lib) (lib_dumps lib) (app_receipt_signer app) p = Inr (d_receipt d) \<and>
    redeem_claims app request ad (invocation_count s') d p \<and>
    canonical_digest (lib_dumps lib) (obj [(''sku'', JStr (ia_sku request))]) = Inr ad \<and>
    (d_allowed d \<longrightarrow> (\<exists>c pf. parse_credential lib (li_credential request) = Inr c \<and>
       proof_from_dict (lib_ca2a lib) (li_holder_proof request) = Inr pf \<and>
       rp_credential_id p = Some (dc_credential_id c) \<and>
       rp_challenge_token_hash p = Some (challenge_token_hash (hp_challenge pf))))"
proof -
  from post_returnD [OF redeem_post run] obtain arguments ad where
    a: "new_inventory_arguments (ia_sku request) = Inr arguments"
      "canonical_digest (lib_dumps lib) (arguments_dump arguments) = Inr ad"
    and dec: "redeem_decided lib app request s arguments ad d s'" by blast
  have ad: "canonical_digest (lib_dumps lib) (obj [(''sku'', JStr (ia_sku request))]) = Inr ad"
    using a by (auto simp: new_inventory_arguments_def bindE_Inr_iff arguments_dump_def)
  show ?thesis
  proof (cases "d_allowed d")
    case True
    with dec obtain c pf p where al: "redeem_permitted lib app request s arguments ad c pf (db s')" "legal_receipt p"
        "receipt_sign (lib_jws lib) (lib_dumps lib) (app_receipt_signer app) p = Inr (d_receipt d)"
        "redeem_claims app request ad (invocation_count s') d p" "rp_credential_id p = Some (dc_credential_id c)"
        "rp_challenge_token_hash p = Some (challenge_token_hash (hp_challenge pf))"
      by (auto simp: redeem_decided_def redeem_allowed_def)
    from al(1) have "parse_credential lib (li_credential request) = Inr c"
        "proof_from_dict (lib_ca2a lib) (li_holder_proof request) = Inr pf"
      by (auto simp: redeem_permitted_def redeem_checked_def parse_proof_def)
    with al ad show ?thesis by blast
  next
    case False
    with dec ad show ?thesis by (auto simp: redeem_decided_def redeem_denied_def)
  qed
qed

theorem redeem_receipt_faithful_witness:
  "\<exists>d s' p. redeem demo_libs demo_app demo_lookup demo_inventory_state = (Inr d, s') \<and> legal_receipt p \<and>
     rp_handler_invoked p \<and> rp_credential_id p = Some (bytes_hex (replicate 32 0))"
proof -
  from demo_redeem obtain d s' where run: "redeem demo_libs demo_app demo_lookup demo_inventory_state = (Inr d, s')"
    and a: "d_allowed d" by blast
  have c: "parse_credential demo_libs (li_credential demo_lookup) = Inr demo_credential"
    by (simp add: parse_credential_def demo_libs_def demo_ca2a_def)
  from redeem_receipt_faithful [OF run] a obtain p ad where "legal_receipt p"
      "redeem_claims demo_app demo_lookup ad (invocation_count s') d p" "rp_credential_id p = Some (dc_credential_id demo_credential)"
    unfolding c by auto
  with run a show ?thesis by (auto simp: redeem_claims_def demo_credential_def)
qed

text \<open>C10: an exception out of \<^verbatim>\<open>redeem\<close> either left the counter as it was, or it is the
  post-invocation error, which carries the number of the one invocation that happened, and then the
  credential has been spent: a failed receipt never hides or repeats an invocation.\<close>

theorem redeem_exception_accounted:
  assumes run: "redeem lib app request s = (Inl e, s')" and inv: "store_inv (db s)"
  shows "invocation_count s' = invocation_count s \<or>
    (\<exists>msg completed c. e = PostInvocationError msg (invocation_count s + 1) completed \<and>
       invocation_count s' = invocation_count s + 1 \<and> parse_credential lib (li_credential request) = Inr c \<and>
       dc_credential_id c \<notin> spent (abs_store (db s)) \<and> dc_credential_id c \<in> spent (abs_store (db s')))"
proof -
  from post_raiseD [OF redeem_post run] consider "invocation_count s' = invocation_count s"
    | msg completed arguments ad c pf where "invocation_count s' = invocation_count s + 1"
      "e = PostInvocationError msg (invocation_count s') completed"
      "redeem_permitted lib app request s arguments ad c pf (db s')"
    unfolding redeem_raised_def by blast
  then show ?thesis
  proof cases
    case 2
    then show ?thesis
      using permitted_spent [OF inv 2(3)] redeem_permitted_credential [OF 2(3)] by auto
  qed simp
qed

text \<open>A signer whose key is unavailable.\<close>

definition demo_unsigned_libs :: libs where
  "demo_unsigned_libs = demo_libs\<lparr>lib_jws := demo_jws\<lparr>serialize_compact := \<lambda>h p k algs. Inl (OtherError ''KeyUnavailable'')\<rparr>\<rparr>"

lemma demo_unsigned_redeem:
  "\<exists>e s'. redeem demo_unsigned_libs demo_app demo_lookup demo_inventory_state = (Inl e, s')"
proof -
  have "post (redeem demo_unsigned_libs demo_app demo_lookup) demo_inventory_state
      (\<lambda>d s'. \<exists>p. receipt_sign (lib_jws demo_unsigned_libs) (lib_dumps demo_unsigned_libs) (app_receipt_signer demo_app) p
         = Inr (d_receipt d)) (\<lambda>_ _. True)"
    by (rule post_mono [OF redeem_post])
       (auto simp: redeem_decided_def redeem_allowed_def redeem_denied_def split: if_splits)
  then have "post (redeem demo_unsigned_libs demo_app demo_lookup) demo_inventory_state (\<lambda>_ _. False) (\<lambda>_ _. True)"
    by (rule post_mono)
       (auto simp: receipt_sign_def demo_unsigned_libs_def demo_libs_def canonical_json_def demo_jws_def)
  then show ?thesis by (auto simp: post_def split: prod.splits sum.splits)
qed

theorem redeem_exception_accounted_witness:
  "\<exists>e s'. redeem demo_unsigned_libs demo_app demo_lookup demo_inventory_state = (Inl e, s') \<and>
     (invocation_count s' = 0 \<or> invocation_count s' = 1)"
proof -
  from demo_unsigned_redeem obtain e s' where
    run: "redeem demo_unsigned_libs demo_app demo_lookup demo_inventory_state = (Inl e, s')" by blast
  have inv: "store_inv (db demo_inventory_state)" by (simp add: demo_inventory_state_def demo_store_inv)
  have "invocation_count demo_inventory_state = 0" by (simp add: demo_inventory_state_def)
  with redeem_exception_accounted [OF run inv] run show ?thesis by auto
qed

section \<open>Challenges and tool calls\<close>

text \<open>C25: a challenge the resource hands out is bound and live. The credential identifier has 256 bits,
  the token states the stored expiry, its hash was not in use, and the store now maps it to exactly
  this credential, method, argument digest, record and audience; nothing else in the ledger changes.\<close>

theorem resource_challenge_bound:
  assumes "issue_resource_challenge lib app cid arguments rid s = (Inr issued, s')"
  shows "let expiry = clock_at s (ticks s) + rp_challenge_ttl_seconds (app_policy app); h = challenge_token_hash (rc_token issued);
             old = abs_store (db s); new = abs_store (db s') in
    lower_hex 64 cid \<and> challenge_expiry (rc_token issued) = Inr expiry \<and> rc_expires_at issued = expiry \<and> clock_at s (ticks s) < expiry \<and>
    canonical_digest (lib_dumps lib) (arguments_dump arguments) = Inr (rc_arguments_digest issued) \<and>
    r_issued old h = None \<and> h \<notin> r_burned new \<and>
    new = old\<lparr>r_issued := (r_issued old)(h \<mapsto> (expected_context app cid (rc_arguments_digest issued) rid, expiry))\<rparr>"
proof -
  define now where "now = clock_at s (ticks s)"
  define ttl where "ttl = rp_challenge_ttl_seconds (app_policy app)"
  define ctx where "ctx = expected_context app cid (rc_arguments_digest issued) rid"
  from post_returnD [OF issue_resource_challenge_post assms] obtain random where
    t: "lower_hex 64 cid" "0 < ttl" "0 \<le> now" "rc_token issued = challenge_token (app_challenge_secret app) (now + ttl) random"
      "canonical_digest (lib_dumps lib) (arguments_dump arguments) = Inr (rc_arguments_digest issued)" "rc_expires_at issued = now + ttl"
    and ins: "insert_resource_challenge (resource_row_of (challenge_token_hash (rc_token issued)) ctx now (now + ttl)) (db s) = Inr (db s')"
    unfolding Let_def now_def ttl_def ctx_def by blast
  let ?h = "challenge_token_hash (rc_token issued)"
  from ins have fresh: "sql_select rr_token_hash ?h (resource_challenges (db s)) = None"
    and db: "db s' = (db s)\<lparr>resource_challenges := resource_challenges (db s) @ [resource_row_of ?h ctx now (now + ttl)]\<rparr>"
    by (auto simp: insert_resource_challenge_Inr sql_select_None)
  have "abs_store (db s') = (abs_store (db s))\<lparr>r_issued := (r_issued (abs_store (db s)))(?h \<mapsto> (ctx, now + ttl))\<rparr>"
    by (auto simp: db abs_store_def consumed_keys_def sql_select_append fun_eq_iff fresh split: option.splits)
  moreover have "r_issued (abs_store (db s)) ?h = None" "?h \<notin> r_burned (abs_store (db s))"
    by (simp_all add: abs_store_def fresh consumed_keys_def)
  moreover have "challenge_expiry (rc_token issued) = Inr (now + ttl)"
    using t(2-4) by (simp add: challenge_expiry_token)
  ultimately show ?thesis
    using t(1,2,5,6) unfolding Let_def now_def ttl_def ctx_def by simp
qed

theorem resource_challenge_bound_witness:
  "\<exists>issued s'. issue_resource_challenge demo_libs demo_app (bytes_hex (replicate 32 0)) \<lparr>ia_sku = ''widget-42''\<rparr> ''record-1''
     (demo_inventory_state\<lparr>db := initialize None\<rparr>) = (Inr issued, s') \<and> challenge_expiry (rc_token issued) = Inr 160"
proof -
  let ?s = "demo_inventory_state\<lparr>db := initialize None\<rparr>"
  let ?m = "issue_resource_challenge demo_libs demo_app (bytes_hex (replicate 32 0)) \<lparr>ia_sku = ''widget-42''\<rparr> ''record-1''"
  have "post ?m ?s (\<lambda>_ _. True) (\<lambda>_ _. False)"
    by (simp add: issue_resource_challenge_def store_resource_challenge_def wp_simps Let_def demo_app_def demo_arguments(2)
        demo_inventory_state_def insert_resource_challenge_def sql_insert_def initialize_def sql_ints_def sql_int_def)
       (simp add: demo_libs_def demo_ca2a_def)
  from post_total [OF this] obtain c s' where run: "?m ?s = (Inr c, s')" by blast
  from resource_challenge_bound [OF run] have "challenge_expiry (rc_token c) = Inr 160"
    by (simp add: Let_def demo_inventory_state_def demo_app_def)
  with run show ?thesis by blast
qed

text \<open>C11: the tool interface is the only way in. A tool call advances the invocation counter only by
  one and only when it named the protected method with arguments that fit the closed lookup schema and
  the redemption was permitted; a result without the error flag is either a challenge, with the counter
  unchanged, or a completed lookup that counted once; and a call that raises has not invoked the handler.\<close>

theorem call_tool_only_way_in:
  assumes "call_tool lib app name arguments s = (res, s')" "0 \<le> invocation_count s"
  shows "case res of
      Inl _ \<Rightarrow> invocation_count s' = invocation_count s
    | Inr result \<Rightarrow>
        (invocation_count s' = invocation_count s \<or>
         tool_invoked lib app name (case arguments of None \<Rightarrow> fmempty | Some m \<Rightarrow> m) s s') \<and>
        (\<not> ct_is_error result \<longrightarrow> tool_success app result s s')"
  using post_resultD [OF call_tool_post [OF assms(2)] assms(1)] by simp

theorem call_tool_only_way_in_witness:
  "invocation_count (snd (call_tool demo_libs demo_app ''inventory.delete'' None demo_inventory_state)) = 0"
proof -
  have n: "0 \<le> invocation_count demo_inventory_state" "invocation_count demo_inventory_state = 0"
    by (simp_all add: demo_inventory_state_def)
  obtain res s' where r: "call_tool demo_libs demo_app ''inventory.delete'' None demo_inventory_state = (res, s')" by fastforce
  have "\<not> tool_invoked demo_libs demo_app ''inventory.delete'' fmempty demo_inventory_state s'"
    by (simp add: tool_invoked_def demo_app_def)
  with call_tool_only_way_in [OF r n(1)] n(2) show ?thesis by (auto simp: r split: sum.splits)
qed

end
