(* ===== verification/Provider_Readback.thy ===== *)
theory Provider_Readback
  imports Schema
begin

text \<open>
  \<^verbatim>\<open>provider_readback.py\<close> of \<^verbatim>\<open>examples/runpod-untrusted-caller\<close>: fail-closed checks of what the
  provider and the registry report, before a job is submitted. It parses bounded JSON with its own hooks,
  so numbers arrive as text and objects as lists of pairs; a dictionary keeps the order of its members.

  The file system and the JSON tokenizer are arguments: what opening and reading the file yields, and the
  token tree of the text or the way it fails to be one. When a text is both malformed and carries
  something a hook rejects, the model reports the former; both are the module's one error class.
\<close>

section \<open>Bounded JSON\<close>

definition MAX_JSON_BYTES :: nat where "MAX_JSON_BYTES = 1048576"

definition MAX_JSON_DEPTH :: nat where "MAX_JSON_DEPTH = 32"

definition MAX_JSON_NODES :: nat where "MAX_JSON_NODES = 10000"

definition MAX_OBJECT_KEYS :: nat where "MAX_OBJECT_KEYS = 256"

definition MAX_ARRAY_ITEMS :: nat where "MAX_ARRAY_ITEMS = 1024"

definition MAX_STRING_CHARS :: nat where "MAX_STRING_CHARS = 16384"

definition MAX_NUMBER_CHARS :: nat where "MAX_NUMBER_CHARS = 128"

lemmas max_defs = MAX_JSON_BYTES_def MAX_JSON_DEPTH_def MAX_JSON_NODES_def MAX_OBJECT_KEYS_def MAX_ARRAY_ITEMS_def
  MAX_STRING_CHARS_def MAX_NUMBER_CHARS_def

datatype token_json =
  TNull
| TBool bool
| TInt string
| TFloat string
| TConstant string
| TStr string
| TArr "token_json list"
| TObj "(string \<times> token_json) list"

text \<open>Values after the hooks. No check reads a decimal number, so it stays its text.\<close>

datatype pjson =
  PNull
| PBool bool
| PInt int
| PDecimal string
| PStr string
| PArr "pjson list"
| PObj "(string \<times> pjson) list"

type_synonym document = "(string \<times> pjson) list"

definition rejected :: "string \<Rightarrow> exn" where
  "rejected msg = ProviderReadbackError msg"

definition reject_duplicate_pairs :: "(string \<times> pjson) list \<Rightarrow> exn + (string \<times> pjson) list" where
  "reject_duplicate_pairs pairs =
     bindE (require (distinct (map fst pairs)) (rejected ''JSON contains a duplicate object member'')) (\<lambda>_. Inr pairs)"

definition bounded_int :: "string \<Rightarrow> exn + int" where
  "bounded_int raw =
     bindE (require (\<not> length raw > MAX_NUMBER_CHARS) (rejected ''JSON contains an oversized number'')) (\<lambda>_.
     of_option (ValueError ''invalid literal for int()'') (py_int raw))"

text \<open>\<^verbatim>\<open>decimal.Decimal(raw)\<close> raises \<^verbatim>\<open>InvalidOperation\<close> or yields a number that is finite or not.\<close>

datatype decimal_parse = DecimalInvalid | DecimalNotFinite | DecimalFinite

type_synonym decimal_parser = "string \<Rightarrow> decimal_parse"

definition bounded_decimal :: "decimal_parser \<Rightarrow> string \<Rightarrow> exn + string" where
  "bounded_decimal decimal raw =
     bindE (require (\<not> length raw > MAX_NUMBER_CHARS) (rejected ''JSON contains an oversized number'')) (\<lambda>_.
     case decimal raw of
       DecimalInvalid \<Rightarrow> Inl (rejected ''JSON contains an invalid number'')
     | DecimalNotFinite \<Rightarrow> Inl (rejected ''JSON contains a non-finite number'')
     | DecimalFinite \<Rightarrow> Inr raw)"

fun hooked_json :: "decimal_parser \<Rightarrow> token_json \<Rightarrow> exn + pjson" where
  "hooked_json decimal TNull = Inr PNull"
| "hooked_json decimal (TBool b) = Inr (PBool b)"
| "hooked_json decimal (TInt raw) = bindE (bounded_int raw) (\<lambda>i. Inr (PInt i))"
| "hooked_json decimal (TFloat raw) = bindE (bounded_decimal decimal raw) (\<lambda>d. Inr (PDecimal d))"
| "hooked_json decimal (TConstant _) = Inl (rejected ''JSON contains a non-standard numeric constant'')"
| "hooked_json decimal (TStr s) = Inr (PStr s)"
| "hooked_json decimal (TArr xs) = bindE (mapM_E (hooked_json decimal) xs) (\<lambda>vs. Inr (PArr vs))"
| "hooked_json decimal (TObj ps) =
     bindE (mapM_E (\<lambda>p. bindE (hooked_json decimal (snd p)) (\<lambda>v. Inr (fst p, v))) ps) (\<lambda>pairs.
     bindE (reject_duplicate_pairs pairs) (\<lambda>d. Inr (PObj d)))"

text \<open>\<^verbatim>\<open>_validate_json_shape\<close>: one counter of nodes runs through the whole value.\<close>

fun validate_json_shape :: "pjson \<Rightarrow> nat \<Rightarrow> nat \<Rightarrow> exn + nat" and
  validate_items :: "pjson list \<Rightarrow> nat \<Rightarrow> nat \<Rightarrow> exn + nat" and
  validate_members :: "(string \<times> pjson) list \<Rightarrow> nat \<Rightarrow> nat \<Rightarrow> exn + nat" where
  "validate_json_shape value depth nodes =
     bindE (require (\<not> Suc nodes > MAX_JSON_NODES) (rejected ''JSON exceeds the node limit'')) (\<lambda>_.
     bindE (require (\<not> depth > MAX_JSON_DEPTH) (rejected ''JSON exceeds the nesting limit'')) (\<lambda>_.
     case value of
       PStr s \<Rightarrow> bindE (require (\<not> length s > MAX_STRING_CHARS) (rejected ''JSON contains an oversized string'')) (\<lambda>_. Inr (Suc nodes))
     | PArr vs \<Rightarrow>
         bindE (require (\<not> length vs > MAX_ARRAY_ITEMS) (rejected ''JSON array exceeds the item limit'')) (\<lambda>_.
         validate_items vs (Suc depth) (Suc nodes))
     | PObj ms \<Rightarrow>
         bindE (require (\<not> length ms > MAX_OBJECT_KEYS) (rejected ''JSON object exceeds the member limit'')) (\<lambda>_.
         validate_members ms (Suc depth) (Suc nodes))
     | _ \<Rightarrow> Inr (Suc nodes)))"
| "validate_items [] depth nodes = Inr nodes"
| "validate_items (v # vs) depth nodes = bindE (validate_json_shape v depth nodes) (validate_items vs depth)"
| "validate_members [] depth nodes = Inr nodes"
| "validate_members ((k, v) # ms) depth nodes =
     bindE (require (\<not> length k > MAX_STRING_CHARS) (rejected ''JSON contains an oversized member name'')) (\<lambda>_.
     bindE (validate_json_shape v depth nodes) (validate_members ms depth))"

text \<open>What opening, \<^verbatim>\<open>fstat\<close> and reading up to one byte beyond the limit yield, and what the tokenizer
  makes of the bytes.\<close>

datatype file_view = Unreadable | Opened bool nat bytes

datatype tokens = NotUtf8 | NotJson | Tokens token_json

text \<open>The standard library's share: the tokenizer and the decimal parser.\<close>

record reader =
  tokenize :: "bytes \<Rightarrow> tokens"
  decimal_of :: decimal_parser

definition load_bounded_json_and_raw :: "reader \<Rightarrow> file_view \<Rightarrow> exn + (pjson \<times> bytes)" where
  "load_bounded_json_and_raw rd file =
     (case file of
        Unreadable \<Rightarrow> Inl (rejected ''provider JSON could not be read'')
      | Opened regular st_size content \<Rightarrow>
          bindE (require regular (rejected ''provider JSON must be a regular file'')) (\<lambda>_.
          bindE (require (\<not> st_size > MAX_JSON_BYTES) (rejected ''provider JSON exceeds the byte limit'')) (\<lambda>_.
          let raw = take (MAX_JSON_BYTES + 1) content in
          bindE (require (\<not> length raw > MAX_JSON_BYTES) (rejected ''provider JSON exceeds the byte limit'')) (\<lambda>_.
          case tokenize rd raw of
            NotUtf8 \<Rightarrow> Inl (rejected ''provider JSON is not valid UTF-8'')
          | NotJson \<Rightarrow> Inl (rejected ''provider JSON is malformed'')
          | Tokens t \<Rightarrow>
              bindE (hooked_json (decimal_of rd) t) (\<lambda>value.
              bindE (validate_json_shape value 0 0) (\<lambda>_. Inr (value, raw)))))))"

definition load_bounded_json :: "reader \<Rightarrow> file_view \<Rightarrow> exn + pjson" where
  "load_bounded_json rd file = bindE (load_bounded_json_and_raw rd file) (\<lambda>(value, _). Inr value)"

definition load_bounded_json_object :: "reader \<Rightarrow> file_view \<Rightarrow> exn + document" where
  "load_bounded_json_object rd file =
     bindE (load_bounded_json rd file) (\<lambda>value.
     case value of PObj d \<Rightarrow> Inr d | _ \<Rightarrow> Inl (rejected ''provider JSON must be a top-level object''))"

section \<open>Field checks\<close>

definition resource_id_pattern :: "string \<Rightarrow> bool" where
  "resource_id_pattern = bounded_id 127"

definition resource_name_pattern :: "string \<Rightarrow> bool" where
  "resource_name_pattern = bounded_id 191"

definition sha256_digest_pattern :: "string \<Rightarrow> bool" where
  "sha256_digest_pattern s \<longleftrightarrow> take 7 s = ''sha256:'' \<and> lower_hex 64 (drop 7 s)"

definition validate_expected :: "string \<Rightarrow> string \<Rightarrow> (string \<Rightarrow> bool) \<Rightarrow> exn + unit" where
  "validate_expected label v pat = require (pat v) (rejected (''expected '' @ label @ '' is invalid''))"

text \<open>\<^verbatim>\<open>type(observed) is type(expected) and observed == expected\<close>: the constructors keep the types
  apart, and the expected values are strings, integers, booleans, lists of strings and a dictionary with
  one member, on which equality of the values is Python's.\<close>

definition expect_exact :: "string \<Rightarrow> document \<Rightarrow> string \<times> pjson \<Rightarrow> exn + unit" where
  "expect_exact context d fe =
     (case map_of d (fst fe) of
        None \<Rightarrow> Inl (rejected (context @ '' omitted required field '' @ fst fe))
      | Some observed \<Rightarrow>
          require (observed = snd fe) (rejected (context @ '' field '' @ fst fe @ '' did not match requested policy'')))"

definition is_exact_empty :: "pjson \<Rightarrow> pjson list \<Rightarrow> bool" where
  "is_exact_empty v allowed = list_ex (\<lambda>c. v = c) allowed"

definition expect_absent_or_empty :: "string \<Rightarrow> document \<Rightarrow> string \<times> pjson list \<Rightarrow> exn + unit" where
  "expect_absent_or_empty context d fa =
     (case map_of d (fst fa) of
        None \<Rightarrow> Inr ()
      | Some observed \<Rightarrow>
          require (is_exact_empty observed (snd fa)) (rejected (context @ '' field '' @ fst fa @ '' must be empty'')))"

definition expect_absent :: "string \<Rightarrow> document \<Rightarrow> string \<Rightarrow> exn + unit" where
  "expect_absent context d field =
     require (map_of d field = None) (rejected (context @ '' field '' @ field @ '' must be absent''))"

definition default_ports :: "pjson list" where
  "default_ports = [PStr ''8888/http'', PStr ''22/tcp'']"

definition validate_provider_default_ports :: "string \<Rightarrow> document \<Rightarrow> exn + unit" where
  "validate_provider_default_ports context d =
     require (map_of d ''ports'' = Some (PArr default_ports))
       (rejected (context @ '' field ports did not match the reviewed runpodctl 2.12.0 provider defaults''))"

section \<open>Templates\<close>

definition empty_str :: pjson where "empty_str = PStr []"

definition empty_arr :: pjson where "empty_arr = PArr []"

definition empty_obj :: pjson where "empty_obj = PObj []"

definition template_expected :: "string \<Rightarrow> string \<Rightarrow> string \<Rightarrow> (string \<times> pjson) list" where
  "template_expected template_id template_name worker_image =
     [(''id'', PStr template_id), (''name'', PStr template_name), (''imageName'', PStr worker_image),
      (''isServerless'', PBool True), (''containerDiskInGb'', PInt 5)]"

definition validate_template :: "document \<Rightarrow> string \<Rightarrow> string \<Rightarrow> string \<Rightarrow> string \<Rightarrow> exn + unit" where
  "validate_template d template_id template_name worker_image context =
     bindE (forE (expect_exact context d) (template_expected template_id template_name worker_image)) (\<lambda>_.
     bindE (require (case map_of d ''volumeInGb'' of None \<Rightarrow> True | Some v \<Rightarrow> v = PInt 0)
              (rejected (context @ '' field volumeInGb must be absent or integer 0''))) (\<lambda>_.
     bindE (expect_absent_or_empty context d (''env'', [PNull, empty_obj, empty_arr])) (\<lambda>_.
     bindE (validate_provider_default_ports context d) (\<lambda>_.
     bindE (forE (\<lambda>f. expect_absent_or_empty context d (f, [PNull, empty_str, empty_arr]))
              [''dockerEntrypoint'', ''dockerStartCmd'']) (\<lambda>_.
     expect_absent_or_empty context d (''containerRegistryAuthId'', [PNull, empty_str]))))))"

definition identifier_sha256 :: "string \<Rightarrow> string" where
  "identifier_sha256 v = sha256_hex (utf8 v)"

definition template_config :: "string \<Rightarrow> string \<Rightarrow> pjson" where
  "template_config template_name worker_image = PObj
     [(''container_disk_gb'', PInt 5), (''container_registry_auth'', PBool False), (''docker_entrypoint_override'', PBool False),
      (''docker_start_command_override'', PBool False), (''environment'', PBool False),
      (''port_reachability_assurance'', PStr ''none''), (''ports_requested'', PBool False),
      (''provider_default_ports'', PArr default_ports), (''serverless'', PBool True), (''template_name'', PStr template_name),
      (''volume_gb'', PInt 0), (''worker_image'', PStr worker_image)]"

definition template_projection :: "string \<Rightarrow> string \<Rightarrow> string \<Rightarrow> document" where
  "template_projection template_id template_name worker_image =
     [(''schema_version'', PStr ''atcap.runpod.provider-readback-projection.v2''), (''resource'', PStr ''template''),
      (''template_id_sha256'', PStr (identifier_sha256 template_id)),
      (''requested_config'', template_config template_name worker_image), (''validation'', PStr ''passed'')]"

definition validate_template_readback :: "reader \<Rightarrow> file_view \<Rightarrow> string \<Rightarrow> string \<Rightarrow> string \<Rightarrow> exn + document" where
  "validate_template_readback rd file template_id template_name worker_image =
     bindE (validate_expected ''template ID'' template_id resource_id_pattern) (\<lambda>_.
     bindE (validate_expected ''template name'' template_name resource_name_pattern) (\<lambda>_.
     bindE (validate_expected ''worker image'' worker_image image_pattern) (\<lambda>_.
     bindE (load_bounded_json_object rd file) (\<lambda>d.
     bindE (validate_template d template_id template_name worker_image ''template read-back'') (\<lambda>_.
     Inr (template_projection template_id template_name worker_image))))))"

section \<open>Endpoints\<close>

text \<open>What an endpoint was requested as: the identifiers of \<^verbatim>\<open>validate_endpoint_readback\<close>.\<close>

record endpoint_request =
  ep_endpoint_id :: string
  ep_endpoint_name :: string
  ep_template_id :: string
  ep_template_name :: string
  ep_instance_id :: string
  ep_worker_image :: string

definition create_expected :: "endpoint_request \<Rightarrow> (string \<times> pjson) list" where
  "create_expected q =
     [(''id'', PStr (ep_endpoint_id q)), (''name'', PStr (ep_endpoint_name q)), (''templateId'', PStr (ep_template_id q)),
      (''computeType'', PStr ''CPU''), (''instanceIds'', PArr [PStr (ep_instance_id q)]), (''workersMin'', PInt 0),
      (''workersMax'', PInt 1), (''idleTimeout'', PInt 5), (''scalerType'', PStr ''REQUEST_COUNT''), (''scalerValue'', PInt 1),
      (''executionTimeoutMs'', PInt 120000), (''gpuCount'', PInt 1), (''flashBootType'', PStr ''OFF'')]"

definition gpu_empty_fields :: "(string \<times> pjson list) list" where
  "gpu_empty_fields = map (\<lambda>f. (f, [PNull, empty_str, empty_arr])) [''gpuIds'', ''gpuTypeIds'', ''gpuPoolIds'', ''serverlessGpuPools'']"

definition network_empty_fields :: "(string \<times> pjson list) list" where
  "network_empty_fields =
     [(''networkVolumeId'', [PNull, empty_str]), (''networkVolumeIds'', [PNull, empty_arr]), (''networkVolume'', [PNull, empty_obj]),
      (''networkVolumes'', [PNull, empty_arr]), (''locations'', [PNull, empty_str, empty_arr]), (''modelReferences'', [PNull, empty_arr])]"

definition validate_create :: "endpoint_request \<Rightarrow> document \<Rightarrow> exn + unit" where
  "validate_create q d =
     (let context = ''endpoint create response'' in
      bindE (forE (expect_exact context d) (create_expected q)) (\<lambda>_.
      bindE (forE (expect_absent_or_empty context d) gpu_empty_fields) (\<lambda>_.
      bindE (forE (expect_absent_or_empty context d) network_empty_fields) (\<lambda>_.
      forE (expect_absent context d) [''flashboot'', ''flashBoot'', ''template'', ''workers'']))))"

definition get_expected :: "endpoint_request \<Rightarrow> (string \<times> pjson) list" where
  "get_expected q =
     [(''id'', PStr (ep_endpoint_id q)), (''name'', PStr (ep_endpoint_name q)), (''templateId'', PStr (ep_template_id q)),
      (''workersMin'', PInt 0), (''workersMax'', PInt 1), (''idleTimeout'', PInt 5), (''scalerType'', PStr ''REQUEST_COUNT''),
      (''scalerValue'', PInt 1), (''executionTimeoutMs'', PInt 120000), (''gpuCount'', PInt 1), (''flashboot'', PBool False)]"

definition nested_expected :: "endpoint_request \<Rightarrow> (string \<times> pjson) list" where
  "nested_expected q =
     [(''id'', PStr (ep_template_id q)), (''name'', PStr (ep_template_name q)), (''isServerless'', PBool True),
      (''containerDiskInGb'', PInt 5), (''containerRegistryAuthId'', empty_str), (''readme'', empty_str),
      (''startJupyter'', PBool True), (''startSsh'', PBool True), (''config'', PObj [(''templateId'', PStr (ep_template_id q))])]"

definition validate_nested :: "endpoint_request \<Rightarrow> document \<Rightarrow> exn + unit" where
  "validate_nested q d =
     (let context = ''endpoint included template'' in
      bindE (forE (expect_exact context d) (nested_expected q)) (\<lambda>_.
      bindE (validate_provider_default_ports context d) (\<lambda>_.
      forE (expect_absent context d)
        [''imageName'', ''volumeInGb'', ''volumeMountPath'', ''env'', ''dockerEntrypoint'', ''dockerStartCmd''])))"

definition validate_get :: "endpoint_request \<Rightarrow> document \<Rightarrow> exn + unit" where
  "validate_get q d =
     (let context = ''endpoint REST read-back'' in
      bindE (forE (expect_exact context d) (get_expected q)) (\<lambda>_.
      bindE (forE (expect_absent context d) [''computeType'', ''instanceIds'', ''flashBootType'', ''flashBoot'']) (\<lambda>_.
      bindE (forE (expect_absent_or_empty context d) gpu_empty_fields) (\<lambda>_.
      bindE (forE (expect_absent_or_empty context d) network_empty_fields) (\<lambda>_.
      case map_of d ''template'' of
        Some (PObj nested) \<Rightarrow> validate_nested q nested
      | _ \<Rightarrow> Inl (rejected ''endpoint REST read-back omitted the included template''))))))"

definition endpoint_projection :: "endpoint_request \<Rightarrow> document" where
  "endpoint_projection q =
     [(''schema_version'', PStr ''atcap.runpod.provider-readback-projection.v3''), (''resource'', PStr ''endpoint''),
      (''endpoint_id_sha256'', PStr (identifier_sha256 (ep_endpoint_id q))),
      (''template_id_sha256'', PStr (identifier_sha256 (ep_template_id q))),
      (''provider_observation'', PObj
        [(''compute_binding_source'', PStr ''runpodctl-2.12.0-create-graphql-response''), (''generic_gpu_count'', PInt 1),
         (''generic_gpu_count_is_allocation_evidence'', PBool False), (''rest_compute_fields'', PStr ''omitted''),
         (''template_image_source'', PStr ''prior-standalone-template-readback''), (''template_start_jupyter'', PBool True),
         (''template_start_ssh'', PBool True)]),
      (''requested_config'', PObj
        [(''compute_type'', PStr ''CPU''), (''cpu_instance_id'', PStr (ep_instance_id q)), (''endpoint_name'', PStr (ep_endpoint_name q)),
         (''execution_timeout_seconds'', PInt 120), (''flash_boot'', PBool False), (''gpu'', PBool False),
         (''network_runtime_assurance'', PStr ''none''), (''idle_timeout_seconds'', PInt 5), (''network_volume'', PBool False),
         (''scaler_request_count'', PInt 1), (''template'', template_config (ep_template_name q) (ep_worker_image q)),
         (''template_name'', PStr (ep_template_name q)), (''workers_max'', PInt 1), (''workers_min'', PInt 0)]),
      (''validation'', PStr ''passed'')]"

definition validate_endpoint_readback :: "reader \<Rightarrow> file_view \<Rightarrow> file_view \<Rightarrow> endpoint_request \<Rightarrow> exn + document" where
  "validate_endpoint_readback rd file create_file q =
     bindE (validate_expected ''endpoint ID'' (ep_endpoint_id q) resource_id_pattern) (\<lambda>_.
     bindE (validate_expected ''endpoint name'' (ep_endpoint_name q) resource_name_pattern) (\<lambda>_.
     bindE (validate_expected ''template ID'' (ep_template_id q) resource_id_pattern) (\<lambda>_.
     bindE (validate_expected ''template name'' (ep_template_name q) resource_name_pattern) (\<lambda>_.
     bindE (validate_expected ''CPU instance ID'' (ep_instance_id q) resource_id_pattern) (\<lambda>_.
     bindE (validate_expected ''worker image'' (ep_worker_image q) image_pattern) (\<lambda>_.
     bindE (load_bounded_json_object rd create_file) (\<lambda>created.
     bindE (validate_create q created) (\<lambda>_.
     bindE (load_bounded_json_object rd file) (\<lambda>d.
     bindE (validate_get q d) (\<lambda>_.
     Inr (endpoint_projection q)))))))))))"

section \<open>Registry images\<close>

text \<open>\<^verbatim>\<open>worker_image.rsplit("@", 1)[1]\<close>.\<close>

definition after_last_at :: "string \<Rightarrow> string" where
  "after_last_at s = rev (takeWhile (\<lambda>c. c \<noteq> CHR ''@'') (rev s))"

definition prefixed_sha256 :: "bytes \<Rightarrow> string" where
  "prefixed_sha256 raw = ''sha256:'' @ sha256_hex raw"

text \<open>The digest of the raw bytes, or of the bytes without a final line feed; the flag says which.\<close>

definition match_digest :: "string \<Rightarrow> bytes \<Rightarrow> exn + bool" where
  "match_digest expected raw =
     (if prefixed_sha256 raw = expected then Inr False
      else if raw \<noteq> [] \<and> last raw = 10 \<and> prefixed_sha256 (butlast raw) = expected then Inr True
      else Inl (rejected ''raw image index bytes did not match the requested digest''))"

definition index_types :: "string list" where
  "index_types = [''application/vnd.docker.distribution.manifest.list.v2+json'', ''application/vnd.oci.image.index.v1+json'']"

definition manifest_types :: "string list" where
  "manifest_types = [''application/vnd.docker.distribution.manifest.v2+json'', ''application/vnd.oci.image.manifest.v1+json'']"

text \<open>One descriptor of the index: whether it is the linux/amd64 one.\<close>

definition platform_member :: "pjson \<Rightarrow> exn + bool" where
  "platform_member member =
     bindE (case member of PObj d \<Rightarrow> Inr d | _ \<Rightarrow> Inl (rejected ''image inspection platform member is malformed'')) (\<lambda>d.
     bindE (require ((case map_of d ''digest'' of Some (PStr s) \<Rightarrow> sha256_digest_pattern s | _ \<Rightarrow> False) \<and>
                     (case map_of d ''mediaType'' of Some (PStr s) \<Rightarrow> s \<in> set manifest_types | _ \<Rightarrow> False))
              (rejected ''image inspection platform descriptor is malformed'')) (\<lambda>_.
     bindE (case map_of d ''platform'' of Some (PObj p) \<Rightarrow> Inr p | _ \<Rightarrow> Inl (rejected ''image inspection platform is malformed'')) (\<lambda>p.
     case (map_of p ''os'', map_of p ''architecture'') of
       (Some (PStr os), Some (PStr arch)) \<Rightarrow>
         if os = ''linux'' \<and> arch = ''amd64''
         then bindE (require (case map_of p ''variant'' of None \<Rightarrow> True | Some v \<Rightarrow> v \<in> {PNull, empty_str})
                       (rejected ''linux/amd64 image descriptor has a variant'')) (\<lambda>_. Inr True)
         else Inr False
     | _ \<Rightarrow> Inl (rejected ''image inspection platform fields are malformed''))))"

definition image_projection :: "string \<Rightarrow> string \<Rightarrow> bool \<Rightarrow> document" where
  "image_projection worker_image digest lf_removed =
     [(''schema_version'', PStr ''atcap.registry-image-projection.v1''), (''worker_image'', PStr worker_image),
      (''manifest_digest'', PStr digest), (''linux_amd64'', PBool True), (''anonymous_inspection'', PBool True),
      (''cli_trailing_lf_removed'', PBool lf_removed), (''validation'', PStr ''passed'')]"

definition validate_image_manifest_readback :: "reader \<Rightarrow> file_view \<Rightarrow> string \<Rightarrow> exn + document" where
  "validate_image_manifest_readback rd file worker_image =
     bindE (validate_expected ''worker image'' worker_image image_pattern) (\<lambda>_.
     let expected_digest = after_last_at worker_image in
     bindE (load_bounded_json_and_raw rd file) (\<lambda>(loaded, raw).
     bindE (case loaded of PObj d \<Rightarrow> Inr d | _ \<Rightarrow> Inl (rejected ''image inspection must be a top-level object'')) (\<lambda>d.
     bindE (match_digest expected_digest raw) (\<lambda>lf_removed.
     bindE (expect_exact ''image inspection'' d (''schemaVersion'', PInt 2)) (\<lambda>_.
     bindE (require (case map_of d ''mediaType'' of Some (PStr s) \<Rightarrow> s \<in> set index_types | _ \<Rightarrow> False)
              (rejected ''image inspection did not return a supported image index'')) (\<lambda>_.
     bindE (case map_of d ''manifests'' of Some (PArr ms) \<Rightarrow> Inr ms
            | _ \<Rightarrow> Inl (rejected ''image inspection omitted the platform index'')) (\<lambda>members.
     bindE (mapM_E platform_member members) (\<lambda>matches.
     bindE (require (length (filter (\<lambda>b. b) matches) = 1)
              (rejected ''image inspection must contain exactly one linux/amd64 descriptor'')) (\<lambda>_.
     Inr (image_projection worker_image expected_digest lf_removed))))))))))"

section \<open>Created identifiers and listings\<close>

text \<open>The identifiers a create response names, in the document and its nested objects; all must be valid and
  the same.\<close>

definition id_candidates :: "string \<Rightarrow> document \<Rightarrow> document list" where
  "id_candidates kind d = d # List.map_filter (\<lambda>k. case map_of d k of Some (PObj nested) \<Rightarrow> Some nested | _ \<Rightarrow> None) [''data'', kind]"

definition id_names :: "string \<Rightarrow> string list" where
  "id_names kind = [''id'', kind @ ''Id'', kind @ ''_id'']"

definition named_values :: "string \<Rightarrow> document \<Rightarrow> pjson list" where
  "named_values kind d = concat (map (\<lambda>c. List.map_filter (map_of c) (id_names kind)) (id_candidates kind d))"

definition valid_id :: "pjson \<Rightarrow> exn + string" where
  "valid_id v =
     (case v of PStr s \<Rightarrow> if resource_id_pattern s then Inr s else Inl (rejected ''create response contains an invalid resource ID'')
      | _ \<Rightarrow> Inl (rejected ''create response contains an invalid resource ID''))"

definition extract_created_resource_id :: "reader \<Rightarrow> file_view \<Rightarrow> string \<Rightarrow> exn + string" where
  "extract_created_resource_id rd file kind =
     bindE (require (kind \<in> {''template'', ''endpoint''}) (rejected ''created resource kind is invalid'')) (\<lambda>_.
     bindE (load_bounded_json_object rd file) (\<lambda>d.
     bindE (mapM_E valid_id (named_values kind d)) (\<lambda>observed.
     case remdups observed of
       [x] \<Rightarrow> Inr x
     | _ \<Rightarrow> Inl (rejected ''create response did not contain one consistent resource ID''))))"

definition listing_items :: "pjson \<Rightarrow> exn + pjson list" where
  "listing_items v =
     (case v of
        PNull \<Rightarrow> Inr []
      | PArr items \<Rightarrow> Inr items
      | PObj d \<Rightarrow> (case map_of d ''data'' of Some (PArr items) \<Rightarrow> Inr items
                  | _ \<Rightarrow> Inl (rejected ''resource listing omitted its item array''))
      | _ \<Rightarrow> Inl (rejected ''resource listing must be an array or data object''))"

definition listing_item :: "pjson \<Rightarrow> exn + (string \<times> string)" where
  "listing_item v =
     bindE (case v of PObj d \<Rightarrow> Inr d | _ \<Rightarrow> Inl (rejected ''resource listing contains a malformed item'')) (\<lambda>d.
     bindE (case map_of d ''id'' of Some (PStr s) \<Rightarrow> if resource_id_pattern s then Inr s
              else Inl (rejected ''resource listing contains an invalid item ID'')
            | _ \<Rightarrow> Inl (rejected ''resource listing contains an invalid item ID'')) (\<lambda>identifier.
     bindE (case map_of d ''name'' of Some (PStr s) \<Rightarrow> Inr s
            | _ \<Rightarrow> Inl (rejected ''resource listing contains an invalid item name'')) (\<lambda>name.
     Inr (identifier, name))))"

definition listing_observation :: "string option \<Rightarrow> bool \<Rightarrow> document" where
  "listing_observation exact_name_id present =
     [(''schema_version'', PStr ''atcap.provider-listing-observation.v1''),
      (''exact_name_id'', case exact_name_id of None \<Rightarrow> PNull | Some i \<Rightarrow> PStr i), (''requested_id_present'', PBool present)]"

definition inspect_resource_listing :: "reader \<Rightarrow> file_view \<Rightarrow> string \<Rightarrow> string option \<Rightarrow> exn + document" where
  "inspect_resource_listing rd file resource_name resource_id =
     bindE (validate_expected ''resource name'' resource_name resource_name_pattern) (\<lambda>_.
     bindE (case resource_id of None \<Rightarrow> Inr () | Some i \<Rightarrow> validate_expected ''resource ID'' i resource_id_pattern) (\<lambda>_.
     bindE (load_bounded_json rd file) (\<lambda>v.
     bindE (listing_items v) (\<lambda>items.
     bindE (mapM_E listing_item items) (\<lambda>found.
     let exact_name_ids = map fst (filter (\<lambda>x. snd x = resource_name) found) in
     bindE (require (\<not> length exact_name_ids > 1) (rejected ''resource listing contains duplicate exact-name matches'')) (\<lambda>_.
     Inr (listing_observation (case exact_name_ids of [] \<Rightarrow> None | i # _ \<Rightarrow> Some i)
          (case resource_id of None \<Rightarrow> False | Some i \<Rightarrow> i \<in> fst ` set found))))))))"

section \<open>What the checks accept\<close>

text \<open>The number of values in a document, its nesting, and the limits on strings, arrays and objects.\<close>

fun json_nodes :: "pjson \<Rightarrow> nat" where
  "json_nodes (PArr vs) = Suc (sum_list (map json_nodes vs))"
| "json_nodes (PObj ms) = Suc (sum_list (map (\<lambda>m. json_nodes (snd m)) ms))"
| "json_nodes _ = 1"

fun json_depth :: "pjson \<Rightarrow> nat" where
  "json_depth (PArr vs) = foldr (\<lambda>v. max (Suc (json_depth v))) vs 0"
| "json_depth (PObj ms) = foldr (\<lambda>m. max (Suc (json_depth (snd m)))) ms 0"
| "json_depth _ = 0"

fun json_sizes_ok :: "pjson \<Rightarrow> bool" where
  "json_sizes_ok (PStr s) = (length s \<le> MAX_STRING_CHARS)"
| "json_sizes_ok (PArr vs) = (length vs \<le> MAX_ARRAY_ITEMS \<and> list_all json_sizes_ok vs)"
| "json_sizes_ok (PObj ms) =
     (length ms \<le> MAX_OBJECT_KEYS \<and> list_all (\<lambda>m. length (fst m) \<le> MAX_STRING_CHARS \<and> json_sizes_ok (snd m)) ms)"
| "json_sizes_ok _ = True"

lemma json_depth_le:
  "json_depth (PArr vs) \<le> b \<longleftrightarrow> (\<forall>v\<in>set vs. Suc (json_depth v) \<le> b)"
  "json_depth (PObj ms) \<le> b \<longleftrightarrow> (\<forall>m\<in>set ms. Suc (json_depth (snd m)) \<le> b)"
  by (induction vs) (simp_all, induction ms, simp_all)

declare json_depth.simps(1,2) [simp del]

fun unique_members :: "pjson \<Rightarrow> bool" where
  "unique_members (PArr vs) = list_all unique_members vs"
| "unique_members (PObj ms) = (distinct (map fst ms) \<and> list_all (\<lambda>m. unique_members (snd m)) ms)"
| "unique_members _ = True"

lemma mapM_E_all:
  assumes "mapM_E f xs = Inr ys" "\<And>x y. x \<in> set xs \<Longrightarrow> f x = Inr y \<Longrightarrow> P y"
  shows "list_all P ys"
  using assms unfolding mapM_E_Inr list_all_length list_all2_conv_all_nth by (metis nth_mem)

lemma hooked_json_unique_members: "hooked_json decimal t = Inr v \<Longrightarrow> unique_members v"
proof (induction decimal t arbitrary: v rule: hooked_json.induct)
  case (7 decimal xs)
  then obtain vs where "mapM_E (hooked_json decimal) xs = Inr vs" "v = PArr vs" by (auto simp: bindE_Inr_iff)
  with 7 show ?case by (auto intro: mapM_E_all)
next
  case (8 decimal ps)
  then obtain pairs where "mapM_E (\<lambda>p. bindE (hooked_json decimal (snd p)) (\<lambda>v. Inr (fst p, v))) ps = Inr pairs"
    and "v = PObj pairs" "distinct (map fst pairs)"
    by (auto simp: bindE_Inr_iff reject_duplicate_pairs_def)
  with 8 show ?case by (auto simp: bindE_Inr_iff intro: mapM_E_all)
qed (auto simp: bindE_Inr_iff)

lemma json_depth_add_le:
  "d + json_depth (PArr vs) \<le> b \<longleftrightarrow> d \<le> b \<and> (\<forall>v\<in>set vs. Suc d + json_depth v \<le> b)"
  "d + json_depth (PObj ms) \<le> b \<longleftrightarrow> d \<le> b \<and> (\<forall>m\<in>set ms. Suc d + json_depth (snd m) \<le> b)"
  using json_depth_le(1) [of vs "b - d"] json_depth_le(2) [of ms "b - d"] by (auto simp: le_diff_conv2 add.commute)

lemma validate_shape_gen:
  "validate_json_shape v d k = Inr n \<longleftrightarrow>
     n = k + json_nodes v \<and> n \<le> MAX_JSON_NODES \<and> d + json_depth v \<le> MAX_JSON_DEPTH \<and> json_sizes_ok v"
  "k \<le> MAX_JSON_NODES \<Longrightarrow> validate_items vs d k = Inr n \<longleftrightarrow>
     n = k + sum_list (map json_nodes vs) \<and> n \<le> MAX_JSON_NODES \<and> (\<forall>v\<in>set vs. d + json_depth v \<le> MAX_JSON_DEPTH \<and> json_sizes_ok v)"
  "k \<le> MAX_JSON_NODES \<Longrightarrow> validate_members ms d k = Inr n \<longleftrightarrow>
     n = k + sum_list (map (\<lambda>m. json_nodes (snd m)) ms) \<and> n \<le> MAX_JSON_NODES \<and>
     (\<forall>m\<in>set ms. length (fst m) \<le> MAX_STRING_CHARS \<and> d + json_depth (snd m) \<le> MAX_JSON_DEPTH \<and> json_sizes_ok (snd m))"
proof (induction v d k and vs d k and ms d k arbitrary: n and n and n rule: validate_json_shape_validate_items_validate_members.induct)
  case (1 v d k)
  show ?case
    using "1.IH"
    by (subst validate_json_shape.simps, cases v)
      (simp_all add: bindE_Inr_iff json_depth_add_le list_all_iff ball_conj_distrib, (fastforce simp: not_less)+)
next
  case (3 v vs d k)
  then show ?case by (auto simp: bindE_Inr_iff)
next
  case (5 k' v ms d k)
  then show ?case by (auto simp: bindE_Inr_iff)
qed (auto)

declare validate_json_shape.simps [simp del]

lemma expect_exact_Inr [simp]: "expect_exact context d fe = Inr u \<longleftrightarrow> map_of d (fst fe) = Some (snd fe)"
  by (simp add: expect_exact_def split: option.splits)

lemma expect_absent_or_empty_Inr [simp]:
  "expect_absent_or_empty context d fa = Inr u \<longleftrightarrow> (\<forall>v. map_of d (fst fa) = Some v \<longrightarrow> v \<in> set (snd fa))"
  by (auto simp: expect_absent_or_empty_def is_exact_empty_def list_ex_iff split: option.splits)

lemma expect_absent_Inr [simp]: "expect_absent context d f = Inr u \<longleftrightarrow> map_of d f = None"
  by (simp add: expect_absent_def)

lemma mapM_E_ex: "(\<exists>ys. mapM_E f xs = Inr ys) \<longleftrightarrow> (\<forall>x\<in>set xs. \<exists>y. f x = Inr y)"
  by (induction xs) (auto simp: bindE_Inr_iff)

lemma mapM_E_filter:
  "mapM_E f xs = Inr bs \<Longrightarrow> length (filter (\<lambda>b. b) bs) = length (filter (\<lambda>x. f x = Inr True) xs)"
  by (induction xs arbitrary: bs) (auto simp: bindE_Inr_iff)

text \<open>\<open>digest_of expected raw lf\<close>: the bytes, without their final line feed when \<open>lf\<close>, have the expected
  digest; \<open>lf\<close> holds only when the bytes as they are have another one.\<close>

definition digest_of :: "string \<Rightarrow> bytes \<Rightarrow> bool \<Rightarrow> bool" where
  "digest_of expected raw lf \<longleftrightarrow>
     prefixed_sha256 (if lf then butlast raw else raw) = expected \<and>
     (lf \<longrightarrow> raw \<noteq> [] \<and> last raw = 10 \<and> prefixed_sha256 raw \<noteq> expected)"

lemma match_digest_Inr: "match_digest expected raw = Inr lf \<longleftrightarrow> digest_of expected raw lf"
  by (auto simp: match_digest_def digest_of_def)

text \<open>C34: the bounded loader returns a value exactly for a regular file of at most one MiB whose bytes the
  tokenizer and the hooks accept, when the value has at most 10000 nodes nested at most 32 deep, no
  oversized string, array or object, and no member name twice in any object; the raw bytes it returns are
  the whole file.\<close>

theorem bounded_json_loaded_iff:
  "load_bounded_json_and_raw rd file = Inr (v, raw) \<longleftrightarrow>
     (\<exists>st_size t. file = Opened True st_size raw \<and> st_size \<le> MAX_JSON_BYTES \<and> length raw \<le> MAX_JSON_BYTES \<and>
        tokenize rd raw = Tokens t \<and> hooked_json (decimal_of rd) t = Inr v \<and> unique_members v \<and>
        json_nodes v \<le> MAX_JSON_NODES \<and> json_depth v \<le> MAX_JSON_DEPTH \<and> json_sizes_ok v)"
  using hooked_json_unique_members
  by (auto simp: load_bounded_json_and_raw_def bindE_Inr_iff Let_def not_less validate_shape_gen
      simp del: validate_json_shape.simps split: file_view.splits tokens.splits)

lemma case_PObj_Inr [simp]: "(case v of PObj d \<Rightarrow> Inr d | _ \<Rightarrow> Inl e) = Inr d' \<longleftrightarrow> v = PObj d'"
  by (cases v) auto

lemma case_Some_PArr_Inr [simp]: "(case m of Some (PArr vs) \<Rightarrow> Inr vs | _ \<Rightarrow> Inl e) = Inr vs' \<longleftrightarrow> m = Some (PArr vs')"
  by (auto split: option.splits pjson.splits)

lemma case_Some_PStr [simp]: "(case m of Some (PStr s) \<Rightarrow> P s | _ \<Rightarrow> False) \<longleftrightarrow> (\<exists>s. m = Some (PStr s) \<and> P s)"
  by (auto split: option.splits pjson.splits)

lemma validate_expected_Inr [simp]: "validate_expected label v pat = Inr u \<longleftrightarrow> pat v"
  by (simp add: validate_expected_def)


lemma valid_id_Inr [simp]: "valid_id v = Inr x \<longleftrightarrow> v = PStr x \<and> resource_id_pattern x"
  by (auto simp: valid_id_def split: pjson.splits)

lemma remdups_single: "remdups xs = [x] \<longleftrightarrow> set xs = {x}"
proof
  assume "set xs = {x}"
  then have "set (remdups xs) = {x}" "distinct (remdups xs)" by auto
  then show "remdups xs = [x]" by (cases "remdups xs"; cases "tl (remdups xs)") auto
qed (metis set_remdups list.set(1) list.simps(15))

lemma mapM_valid_id: "mapM_E valid_id vs = Inr xs \<longleftrightarrow> vs = map PStr xs \<and> list_all resource_id_pattern xs"
proof (induction vs arbitrary: xs)
  case (Cons v vs)
  then show ?case by (cases xs) (auto simp: bindE_Inr_iff)
qed auto

text \<open>An identifier is extracted from a create response exactly when every identifier the response names,
  at its top level and in its nested objects, is that one valid identifier.\<close>

lemma created_id_iff:
  "extract_created_resource_id rd file kind = Inr x \<longleftrightarrow>
     kind \<in> {''template'', ''endpoint''} \<and> resource_id_pattern x \<and>
     (\<exists>d. load_bounded_json_object rd file = Inr d \<and> set (named_values kind d) = {PStr x})"
proof -
  have single: "(case remdups xs of [y] \<Rightarrow> Inr y | _ \<Rightarrow> Inl e) = Inr x \<longleftrightarrow> set xs = {x}" for xs :: "string list" and e :: exn
    unfolding remdups_single [symmetric] by (simp split: list.split)
  have named: "(\<exists>xs. mapM_E valid_id vs = Inr xs \<and> set xs = {x}) \<longleftrightarrow> resource_id_pattern x \<and> set vs = {PStr x}" for vs
  proof
    assume "resource_id_pattern x \<and> set vs = {PStr x}"
    then obtain n where "vs = replicate n (PStr x)" "n \<noteq> 0" "resource_id_pattern x"
      using replicate_length_same [of vs "PStr x"] by (metis empty_iff empty_set replicate_0 singletonD singletonI)
    then have "mapM_E valid_id vs = Inr (replicate n x) \<and> set (replicate n x) = {x}"
      by (simp add: mapM_valid_id list_all_iff)
    then show "\<exists>xs. mapM_E valid_id vs = Inr xs \<and> set xs = {x}" by blast
  qed (auto simp: mapM_valid_id list_all_iff)
  show ?thesis
    unfolding extract_created_resource_id_def
    by (auto simp: bindE_Inr_iff single named)
qed

end
