(* ===== verification/Readback_Command.thy ===== *)
theory Readback_Command
  imports Provider_Readback Runtime "HOL-Library.List_Lexorder" "HOL-Library.Char_ord"
begin

text \<open>
  The command line of \<^verbatim>\<open>provider_readback.py\<close>: one validation per subcommand, and its projection written as one
  line of JSON to a file that must not exist. The subcommand with its parsed arguments is a value of
  \<open>provider_command\<close>; the files that are read are views, the files that are written are part of the state.
\<close>

section \<open>JSON text\<close>

text \<open>\<^verbatim>\<open>json.dumps(value, ensure_ascii=False, separators=(",", ":"), sort_keys=True)\<close>: control characters, the
  quote and the backslash are escaped, members are sorted by name, a \<^verbatim>\<open>Decimal\<close> is refused.\<close>

definition json_escape :: "char \<Rightarrow> string" where
  "json_escape c =
     (let n = of_char c :: nat in
      if n = 34 then [CHR 0x5C, CHR 0x22] else if n = 92 then [CHR 0x5C, CHR 0x5C]
      else if n = 10 then [CHR 0x5C, CHR ''n''] else if n = 13 then [CHR 0x5C, CHR ''r'']
      else if n = 9 then [CHR 0x5C, CHR ''t''] else if n = 12 then [CHR 0x5C, CHR ''f'']
      else if n = 8 then [CHR 0x5C, CHR ''b'']
      else if n < 32 then [CHR 0x5C, CHR ''u'', CHR ''0'', CHR ''0''] @ hex_of_byte (byte_of n)
      else [c])"

definition json_quote :: "string \<Rightarrow> string" where
  "json_quote s = [CHR 0x22] @ concat (map json_escape s) @ [CHR 0x22]"

primrec comma_separated :: "string list \<Rightarrow> string" where
  "comma_separated [] = []"
| "comma_separated (x # xs) = (if xs = [] then x else x @ '','' @ comma_separated xs)"

fun json_text :: "pjson \<Rightarrow> exn + string" where
  "json_text PNull = Inr ''null''"
| "json_text (PBool b) = Inr (if b then ''true'' else ''false'')"
| "json_text (PInt i) = Inr (int_str i)"
| "json_text (PDecimal _) = Inl (TypeError ''Object of type Decimal is not JSON serializable'')"
| "json_text (PStr s) = Inr (json_quote s)"
| "json_text (PArr vs) = bindE (mapM_E json_text vs) (\<lambda>ts. Inr (''['' @ comma_separated ts @ '']''))"
| "json_text (PObj ms) =
     bindE (mapM_E (\<lambda>m. bindE (json_text (snd m)) (\<lambda>t. Inr (fst m, t))) ms) (\<lambda>ts.
     Inr (''{'' @ comma_separated (map (\<lambda>(k, t). json_quote k @ '':'' @ t) (sort_key fst ts)) @ ''}''))"

definition projection_bytes :: "document \<Rightarrow> exn + bytes" where
  "projection_bytes d = bindE (json_text (PObj d)) (\<lambda>t. Inr (utf8 (t @ [CHR 0x0A])))"

section \<open>Writing a new file\<close>

text \<open>What is on disk, with permission bits, and what was printed; and how the disk treats a path: whether it
  lets it be created, and after how many bytes writing to it fails.\<close>

record command_state =
  co_files :: "(string, nat \<times> bytes) fmap"
  co_printed :: "string list"

record disk =
  dk_creatable :: "string \<Rightarrow> bool"
  dk_breaks_after :: "string \<Rightarrow> nat option"

text \<open>\<^verbatim>\<open>os.open(path, O_WRONLY | O_CREAT | O_EXCL | O_NOFOLLOW, 0o600)\<close>, then \<^verbatim>\<open>write\<close> and \<^verbatim>\<open>close\<close>.\<close>

definition create_exclusively :: "disk \<Rightarrow> string \<Rightarrow> (command_state, unit) prog" where
  "create_exclusively dk path =
     bindM (getM co_files) (\<lambda>fs.
     bindM (liftE (require (fmlookup fs path = None \<and> dk_creatable dk path) (OSError ''open''))) (\<lambda>_.
     modifyM (\<lambda>s. s\<lparr>co_files := fmupd path (384, []) (co_files s)\<rparr>)))"

definition write_contents :: "disk \<Rightarrow> string \<Rightarrow> bytes \<Rightarrow> (command_state, unit) prog" where
  "write_contents dk path contents =
     (case dk_breaks_after dk path of
        None \<Rightarrow> modifyM (\<lambda>s. s\<lparr>co_files := fmupd path (384, contents) (co_files s)\<rparr>)
      | Some n \<Rightarrow>
          bindM (modifyM (\<lambda>s. s\<lparr>co_files := fmupd path (384, take n contents) (co_files s)\<rparr>)) (\<lambda>_. raiseM (OSError ''write'')))"

definition is_os_error :: "exn \<Rightarrow> bool" where
  "is_os_error e = (case e of OSError _ \<Rightarrow> True | _ \<Rightarrow> False)"

definition os_errors_as :: "exn \<Rightarrow> ('s, 'a) prog \<Rightarrow> ('s, 'a) prog" where
  "os_errors_as new m = tryM m (\<lambda>e. raiseM (if is_os_error e then new else e))"

definition write_safe_projection :: "disk \<Rightarrow> string \<Rightarrow> document \<Rightarrow> (command_state, unit) prog" where
  "write_safe_projection dk path projection =
     bindM (liftE (projection_bytes projection)) (\<lambda>encoded.
     bindM (os_errors_as (rejected ''safe projection could not be created'') (create_exclusively dk path)) (\<lambda>_.
     os_errors_as (rejected ''safe projection could not be written'') (write_contents dk path encoded)))"

section \<open>The subcommands\<close>

datatype provider_command =
  TemplateCommand string string string string string
| EndpointCommand string string string endpoint_request
| ImageCommand string string string
| CreatedIdCommand string string
| ListingCommand string string string string

text \<open>The paths are \<^verbatim>\<open>--json\<close>, \<^verbatim>\<open>--create-json\<close> and \<^verbatim>\<open>--projection\<close> or \<^verbatim>\<open>--result\<close>; the empty resource
  identifier, the default of a listing, counts as none.\<close>

definition print_line :: "string \<Rightarrow> (command_state, unit) prog" where
  "print_line line = modifyM (\<lambda>s. s\<lparr>co_printed := co_printed s @ [line]\<rparr>)"

definition run_provider_command :: "reader \<Rightarrow> (string \<Rightarrow> file_view) \<Rightarrow> disk \<Rightarrow> provider_command \<Rightarrow> (command_state, unit) prog" where
  "run_provider_command rd view dk c =
     (case c of
        TemplateCommand json projection template_id template_name worker_image \<Rightarrow>
          bindM (liftE (validate_template_readback rd (view json) template_id template_name worker_image)) (\<lambda>d.
          write_safe_projection dk projection d)
      | EndpointCommand json create_json projection q \<Rightarrow>
          bindM (liftE (validate_endpoint_readback rd (view json) (view create_json) q)) (\<lambda>d.
          write_safe_projection dk projection d)
      | ImageCommand json projection worker_image \<Rightarrow>
          bindM (liftE (validate_image_manifest_readback rd (view json) worker_image)) (\<lambda>d.
          write_safe_projection dk projection d)
      | CreatedIdCommand json kind \<Rightarrow>
          bindM (liftE (extract_created_resource_id rd (view json) kind)) print_line
      | ListingCommand json result resource_name resource_id \<Rightarrow>
          bindM (liftE (inspect_resource_listing rd (view json) resource_name (if resource_id = [] then None else Some resource_id)))
            (\<lambda>d. write_safe_projection dk result d))"

definition provider_main :: "reader \<Rightarrow> (string \<Rightarrow> file_view) \<Rightarrow> disk \<Rightarrow> provider_command \<Rightarrow> (command_state, int) prog" where
  "provider_main rd view dk c =
     tryM (bindM (run_provider_command rd view dk c) (\<lambda>_. returnM 0))
       (\<lambda>e. case e of ProviderReadbackError _ \<Rightarrow> returnM 2 | _ \<Rightarrow> raiseM e)"

section \<open>One line of text\<close>

definition printable :: "string \<Rightarrow> bool" where
  "printable s \<longleftrightarrow> list_all (\<lambda>c. 32 \<le> (of_char c :: nat)) s"

lemma printable_append [simp]: "printable (s @ t) \<longleftrightarrow> printable s \<and> printable t"
  by (simp add: printable_def)

lemma printable_Cons [simp]: "printable (c # s) \<longleftrightarrow> 32 \<le> (of_char c :: nat) \<and> printable s"
  by (simp add: printable_def)

lemma printable_Nil [simp]: "printable []"
  by (simp add: printable_def)

lemma printable_hex_digit: "n < 16 \<Longrightarrow> 32 \<le> (of_char (hex_digit n) :: nat)"
proof -
  have "list_all (\<lambda>c. 32 \<le> (of_char c :: nat)) hex_digits"
    by (simp add: hex_digits_def)
  then show "n < 16 \<Longrightarrow> 32 \<le> (of_char (hex_digit n) :: nat)"
    using lower_hex_hex_digit [of n] by (simp add: lower_hex_char_def list_all_iff)
qed

lemma printable_escape: "printable (json_escape c)"
  by (auto simp: json_escape_def Let_def hex_of_byte_def printable_hex_digit)

lemma printable_quote: "printable (json_quote s)"
  by (induction s) (auto simp: json_quote_def printable_escape)

lemma printable_comma_separated: "list_all printable ts \<Longrightarrow> printable (comma_separated ts)"
  by (induction ts) auto

lemma printable_int_str: "printable (int_str i)"
  by (auto simp: int_str_def printable_def list_all_iff dest!: nat_str_chars intro: printable_hex_digit)

text \<open>Written text has no control character: the projection is one line.\<close>

lemma printable_json_text: "json_text v = Inr t \<Longrightarrow> printable t"
proof (induction v arbitrary: t rule: json_text.induct)
  case (6 vs)
  then show ?case
    by (auto simp: bindE_Inr_iff mapM_E_Inr list_all2_conv_all_nth list_all_length intro!: printable_comma_separated)
      (metis nth_mem)
next
  case (7 ms)
  from 7(2) obtain ts where ts: "list_all2 (\<lambda>m p. \<exists>x. json_text (snd m) = Inr x \<and> p = (fst m, x)) ms ts"
      "t = ''{'' @ comma_separated (map (\<lambda>(k, t). json_quote k @ '':'' @ t) (sort_key fst ts)) @ ''}''"
    by (auto simp: bindE_Inr_iff mapM_E_Inr eq_commute [of "(_, _)"])
  have "printable x" if "(k, x) \<in> set ts" for k x
  proof -
    from that obtain i where i: "i < length ts" "ts ! i = (k, x)" by (metis in_set_conv_nth)
    with ts(1) have "json_text (snd (ms ! i)) = Inr x" "ms ! i \<in> set ms" by (auto simp: list_all2_conv_all_nth)
    then show ?thesis by (rule 7(1) [rotated])
  qed
  then show ?case
    by (auto simp: ts(2) list_all_iff printable_quote intro!: printable_comma_separated)
qed (auto simp: printable_quote printable_int_str)

section \<open>Nothing but rejections\<close>

text \<open>A check that fails closed returns or raises the one exception the command line turns into its status.\<close>

definition fails_closed :: "exn + 'a \<Rightarrow> bool" where
  "fails_closed m \<longleftrightarrow> (case m of Inl e \<Rightarrow> (case e of ProviderReadbackError _ \<Rightarrow> True | _ \<Rightarrow> False) | Inr _ \<Rightarrow> True)"

named_theorems closes \<open>checks that fail closed\<close>

lemma fails_closed_simps [simp]: "fails_closed (Inr x)" "fails_closed (Inl (rejected msg))" "fails_closed (require b (rejected msg))"
  by (simp_all add: fails_closed_def rejected_def require_def)

lemma fails_closed_bindE [intro]: "fails_closed m \<Longrightarrow> (\<And>x. m = Inr x \<Longrightarrow> fails_closed (f x)) \<Longrightarrow> fails_closed (bindE m f)"
  by (cases m) (auto simp: fails_closed_def)

lemma fails_closed_mapM_E [intro]: "(\<And>x. x \<in> set xs \<Longrightarrow> fails_closed (f x)) \<Longrightarrow> fails_closed (mapM_E f xs)"
  by (induction xs) (auto intro!: fails_closed_bindE)

lemma fails_closed_forE [intro]: "(\<And>x. x \<in> set xs \<Longrightarrow> fails_closed (f x)) \<Longrightarrow> fails_closed (forE f xs)"
  by (induction xs) (auto intro!: fails_closed_bindE)

text \<open>The tokenizer hands the integer hook only text that \<^verbatim>\<open>int\<close> accepts.\<close>

fun integer_literals :: "token_json \<Rightarrow> bool" where
  "integer_literals (TInt raw) \<longleftrightarrow> py_int raw \<noteq> None"
| "integer_literals (TArr xs) \<longleftrightarrow> list_all integer_literals xs"
| "integer_literals (TObj ps) \<longleftrightarrow> list_all (\<lambda>p. integer_literals (snd p)) ps"
| "integer_literals _ \<longleftrightarrow> True"

definition reads_json :: "reader \<Rightarrow> bool" where
  "reads_json rd \<longleftrightarrow> (\<forall>raw t. tokenize rd raw = Tokens t \<longrightarrow> integer_literals t)"

lemma hooked_json_closed: "integer_literals t \<Longrightarrow> fails_closed (hooked_json decimal t)"
proof (induction decimal t rule: hooked_json.induct)
  case (8 decimal ps)
  then have "fails_closed (hooked_json decimal (snd p))" if "p \<in> set ps" for p
    using that by (simp add: list_all_iff)
  then show ?case
    by (auto simp: reject_duplicate_pairs_def intro!: fails_closed_bindE fails_closed_mapM_E)
qed (auto simp: bounded_int_def bounded_decimal_def list_all_iff split: decimal_parse.splits
    intro!: fails_closed_bindE fails_closed_mapM_E)

lemma validate_json_shape_closed:
  "fails_closed (validate_json_shape v depth nodes)"
  "fails_closed (validate_items vs depth nodes)"
  "fails_closed (validate_members ms depth nodes)"
proof (induction v depth nodes and vs depth nodes and ms depth nodes rule: validate_json_shape_validate_items_validate_members.induct)
  case (1 v depth nodes)
  then show ?case
    by (subst validate_json_shape.simps) (auto split: pjson.splits intro!: fails_closed_bindE)
qed (auto intro!: fails_closed_bindE)

lemma load_closed [closes]: "reads_json rd \<Longrightarrow> fails_closed (load_bounded_json_and_raw rd file)"
  by (auto simp: load_bounded_json_and_raw_def Let_def reads_json_def hooked_json_closed validate_json_shape_closed
      split: file_view.splits tokens.splits intro!: fails_closed_bindE)

lemma load_json_closed [closes]:
  "reads_json rd \<Longrightarrow> fails_closed (load_bounded_json rd file)"
  "reads_json rd \<Longrightarrow> fails_closed (load_bounded_json_object rd file)"
  by (auto simp: load_bounded_json_def load_bounded_json_object_def load_closed split: pjson.splits intro!: fails_closed_bindE)

lemma field_checks_closed [closes]:
  "fails_closed (validate_expected label v pat)" "fails_closed (expect_exact context d fe)"
  "fails_closed (expect_absent_or_empty context d fa)" "fails_closed (expect_absent context d f)"
  "fails_closed (validate_provider_default_ports context d)"
  by (auto simp: validate_expected_def expect_exact_def expect_absent_or_empty_def expect_absent_def
      validate_provider_default_ports_def split: option.splits)

lemma template_closed [closes]:
  "fails_closed (validate_template d i n worker context)"
  "reads_json rd \<Longrightarrow> fails_closed (validate_template_readback rd file i n worker)"
  unfolding validate_template_def validate_template_readback_def by (auto intro!: fails_closed_bindE fails_closed_forE closes)

lemma endpoint_closed [closes]: "reads_json rd \<Longrightarrow> fails_closed (validate_endpoint_readback rd file create q)"
  unfolding validate_endpoint_readback_def validate_create_def validate_get_def validate_nested_def Let_def
  by (auto intro!: fails_closed_bindE fails_closed_forE closes split: option.splits pjson.splits)

lemma image_closed [closes]: "reads_json rd \<Longrightarrow> fails_closed (validate_image_manifest_readback rd file worker)"
  unfolding validate_image_manifest_readback_def platform_member_def match_digest_def Let_def
  by (auto intro!: fails_closed_bindE fails_closed_mapM_E closes split: option.splits pjson.splits prod.splits)

lemma created_closed [closes]: "reads_json rd \<Longrightarrow> fails_closed (extract_created_resource_id rd file kind)"
  unfolding extract_created_resource_id_def valid_id_def
  by (auto intro!: fails_closed_bindE fails_closed_mapM_E closes split: pjson.splits list.splits)

lemma listing_closed [closes]: "reads_json rd \<Longrightarrow> fails_closed (inspect_resource_listing rd file name i)"
  unfolding inspect_resource_listing_def listing_items_def listing_item_def Let_def
  by (auto intro!: fails_closed_bindE fails_closed_mapM_E closes split: option.splits pjson.splits)

section \<open>What a run of the command line leaves behind\<close>

fun no_decimal :: "pjson \<Rightarrow> bool" where
  "no_decimal (PDecimal _) \<longleftrightarrow> False"
| "no_decimal (PArr vs) \<longleftrightarrow> list_all no_decimal vs"
| "no_decimal (PObj ms) \<longleftrightarrow> list_all (\<lambda>m. no_decimal (snd m)) ms"
| "no_decimal _ \<longleftrightarrow> True"

lemma mapM_E_total: "(\<And>x. x \<in> set xs \<Longrightarrow> \<exists>y. f x = Inr y) \<Longrightarrow> \<exists>ys. mapM_E f xs = Inr ys"
  by (induction xs) force+

lemma json_text_total: "no_decimal v \<Longrightarrow> \<exists>t. json_text v = Inr t"
proof (induction v rule: json_text.induct)
  case (6 vs)
  then have "\<exists>ts. mapM_E json_text vs = Inr ts" by (intro mapM_E_total) (simp add: list_all_iff)
  then show ?case by auto
next
  case (7 ms)
  then have "\<exists>t. json_text (snd m) = Inr t" if "m \<in> set ms" for m using that by (simp add: list_all_iff)
  then have "\<exists>ts. mapM_E (\<lambda>m. bindE (json_text (snd m)) (\<lambda>t. Inr (fst m, t))) ms = Inr ts"
    by (intro mapM_E_total) force
  then show ?case by auto
qed auto

text \<open>The effect a command has when its validation succeeds: a line that is printed or a document to write.\<close>

datatype command_effect = Prints string | Writes string document

definition effect_of :: "reader \<Rightarrow> (string \<Rightarrow> file_view) \<Rightarrow> provider_command \<Rightarrow> exn + command_effect" where
  "effect_of rd view c =
     (case c of
        TemplateCommand json projection i n worker \<Rightarrow>
          bindE (validate_template_readback rd (view json) i n worker) (\<lambda>d. Inr (Writes projection d))
      | EndpointCommand json create_json projection q \<Rightarrow>
          bindE (validate_endpoint_readback rd (view json) (view create_json) q) (\<lambda>d. Inr (Writes projection d))
      | ImageCommand json projection worker \<Rightarrow>
          bindE (validate_image_manifest_readback rd (view json) worker) (\<lambda>d. Inr (Writes projection d))
      | CreatedIdCommand json kind \<Rightarrow> bindE (extract_created_resource_id rd (view json) kind) (\<lambda>i. Inr (Prints i))
      | ListingCommand json result n i \<Rightarrow>
          bindE (inspect_resource_listing rd (view json) n (if i = [] then None else Some i)) (\<lambda>d. Inr (Writes result d)))"

lemma effect_closed: "reads_json rd \<Longrightarrow> fails_closed (effect_of rd view c)"
  unfolding effect_of_def by (auto intro!: fails_closed_bindE closes split: provider_command.splits)

lemma effect_writable: "effect_of rd view c = Inr (Writes path d) \<Longrightarrow> \<exists>t. json_text (PObj d) = Inr t"
  by (rule json_text_total)
    (auto simp: effect_of_def bindE_Inr_iff validate_template_readback_def validate_endpoint_readback_def
      validate_image_manifest_readback_def inspect_resource_listing_def template_projection_def endpoint_projection_def
      image_projection_def listing_observation_def template_config_def default_ports_def Let_def
      split: provider_command.splits option.splits list.splits)

definition perform :: "disk \<Rightarrow> command_effect \<Rightarrow> (command_state, unit) prog" where
  "perform dk e = (case e of Prints line \<Rightarrow> print_line line | Writes path d \<Rightarrow> write_safe_projection dk path d)"

lemma run_provider_command_effect: "run_provider_command rd view dk c = bindM (liftE (effect_of rd view c)) (perform dk)"
  by (rule ext) (auto simp: run_provider_command_def effect_of_def perform_def bindM_def liftE_def bindE_def
      split: provider_command.splits sum.splits)

text \<open>The files after an attempt to write a text: nothing changes when the path is taken or cannot be created,
  and a broken write leaves a prefix in a new file of mode 0600.\<close>

definition after_write :: "disk \<Rightarrow> string \<Rightarrow> bytes \<Rightarrow> command_state \<Rightarrow> int \<times> command_state" where
  "after_write dk path contents s =
     (if fmlookup (co_files s) path \<noteq> None \<or> \<not> dk_creatable dk path then (2, s)
      else case dk_breaks_after dk path of
             None \<Rightarrow> (0, s\<lparr>co_files := fmupd path (384, contents) (co_files s)\<rparr>)
           | Some n \<Rightarrow> (2, s\<lparr>co_files := fmupd path (384, take n contents) (co_files s)\<rparr>))"

text \<open>C35: The read-back command line always returns, and only 0 or 2: whatever the provider's file holds, a
  validation that fails ends in 2 with nothing written or printed. A validation that succeeds prints the
  identifier, or writes its projection, as one line of text without control characters, to a path that did not
  exist, with mode 0600; a path that is taken stays as it was. The tokenizer is only trusted to pass integer
  literals to the integer hook.\<close>

theorem provider_main_fail_closed:
  assumes "reads_json rd"
  shows "case effect_of rd view c of
      Inl _ \<Rightarrow> provider_main rd view dk c s = (Inr 2, s)
    | Inr (Prints line) \<Rightarrow> provider_main rd view dk c s = (Inr 0, s\<lparr>co_printed := co_printed s @ [line]\<rparr>)
    | Inr (Writes path d) \<Rightarrow>
        (\<exists>t. json_text (PObj d) = Inr t \<and> printable t \<and>
           (case after_write dk path (utf8 (t @ [CHR 0x0A])) s of (code, s') \<Rightarrow> provider_main rd view dk c s = (Inr code, s')))"
proof (cases "effect_of rd view c")
  case (Inl e)
  with effect_closed [OF assms, of view c] show ?thesis
    by (cases e) (auto simp: fails_closed_def provider_main_def run_provider_command_effect run_simps)
next
  case (Inr effect)
  show ?thesis
  proof (cases effect)
    case (Prints line)
    with Inr show ?thesis
      by (simp add: provider_main_def run_provider_command_effect run_simps perform_def print_line_def)
  next
    case (Writes path d)
    with Inr effect_writable obtain t where t: "json_text (PObj d) = Inr t" by blast
    have p: "provider_main rd view dk c s = tryM (bindM (write_safe_projection dk path d) (\<lambda>_. returnM 0))
       (\<lambda>e. case e of ProviderReadbackError _ \<Rightarrow> returnM 2 | _ \<Rightarrow> raiseM e) s"
      using Inr Writes by (simp add: provider_main_def run_provider_command_effect run_simps perform_def)
    have "provider_main rd view dk c s = (case after_write dk path (utf8 (t @ [CHR 0x0A])) s of (code, s') \<Rightarrow> (Inr code, s'))"
      unfolding p using t
      by (auto simp: write_safe_projection_def projection_bytes_def os_errors_as_def create_exclusively_def write_contents_def
          run_simps require_def after_write_def is_os_error_def rejected_def split: option.splits)
    with t printable_json_text [OF t] Inr Writes show ?thesis by (auto split: prod.splits)
  qed
qed

definition demo_reader :: reader where
  "demo_reader = \<lparr>tokenize = (\<lambda>_. Tokens (TArr [])), decimal_of = (\<lambda>_. DecimalFinite)\<rparr>"

definition demo_disk :: disk where
  "demo_disk = \<lparr>dk_creatable = (\<lambda>_. True), dk_breaks_after = (\<lambda>_. None)\<rparr>"

theorem provider_main_fail_closed_witness:
  "reads_json demo_reader \<and>
   (\<exists>t. json_text (PObj (listing_observation None False)) = Inr t \<and> printable t \<and>
      provider_main demo_reader (\<lambda>_. Opened True 2 [91, 93]) demo_disk (ListingCommand ''in'' ''out'' ''worker'' [])
        \<lparr>co_files = fmempty, co_printed = []\<rparr> =
      (Inr 0, \<lparr>co_files = fmupd ''out'' (384, utf8 (t @ [CHR 0x0A])) fmempty, co_printed = []\<rparr>))"
proof -
  have rd: "reads_json demo_reader"
    by (auto simp: reads_json_def demo_reader_def)
  have e: "effect_of demo_reader (\<lambda>_. Opened True 2 [91, 93]) (ListingCommand ''in'' ''out'' ''worker'' []) =
      Inr (Writes ''out'' (listing_observation None False))"
  proof -
    have "load_bounded_json demo_reader (Opened True 2 [91, 93]) = Inr (PArr [])"
      by (simp add: load_bounded_json_def load_bounded_json_and_raw_def demo_reader_def max_defs validate_json_shape.simps)
    moreover have "validate_expected ''resource name'' ''worker'' resource_name_pattern = Inr ()"
      by code_simp
    ultimately show ?thesis
      by (simp add: effect_of_def inspect_resource_listing_def listing_items_def validate_expected_def)
  qed
  show ?thesis
    using rd provider_main_fail_closed [OF rd, where view = "\<lambda>_. Opened True 2 [91, 93]" and dk = demo_disk
        and c = "ListingCommand ''in'' ''out'' ''worker'' []" and s = "\<lparr>co_files = fmempty, co_printed = []\<rparr>"]
    by (auto simp: e after_write_def demo_disk_def)
qed

end
