(* ===== verification/Polling.thy ===== *)
theory Polling
  imports Runtime
begin

text \<open>
  Loops that poll the outside world: \<^verbatim>\<open>while\<close> loops whose every round looks at a clock, a signal flag
  and a child process, and then stops or goes round again. A round is a function of its number and of the
  loop's state; the outside world is what the function reads at that number. Nothing forces the clock to
  advance, so the loop is a partial function: \<^term>\<open>None\<close> is a loop that never stops.
\<close>

section \<open>The loop\<close>

text \<open>A round yields the next state (\<^term>\<open>Inl\<close>) or the result of the loop (\<^term>\<open>Inr\<close>).\<close>

partial_function (option) poll :: "(nat \<Rightarrow> 's \<Rightarrow> 's + 'r) \<Rightarrow> nat \<Rightarrow> 's \<Rightarrow> 'r option" where
  "poll turn k s = (case turn k s of Inl s' \<Rightarrow> poll turn (Suc k) s' | Inr r \<Rightarrow> Some r)"

declare poll.simps [code]

lemma poll_stop: "turn k s = Inr r \<Longrightarrow> poll turn k s = Some r"
  by (simp add: poll.simps)

lemma poll_again: "turn k s = Inl s' \<Longrightarrow> poll turn k s = poll turn (Suc k) s'"
  by (simp add: poll.simps)

text \<open>A round that stops in every state ends the loop.\<close>

lemma poll_returns:
  assumes "\<And>s. \<exists>r. turn n s = Inr r" and "k \<le> n"
  shows "\<exists>r. poll turn k s = Some r"
  using assms(2)
proof (induction "n - k" arbitrary: k s)
  case 0
  with assms(1) show ?case by (metis diff_is_0_eq le_antisym poll_stop)
next
  case (Suc d)
  then have "poll turn (Suc k) s' \<noteq> None" for s' by auto
  with Suc.prems show ?case by (cases "turn k s") (auto simp: poll_stop poll_again)
qed

text \<open>What every round keeps, and every stop yields.\<close>

lemma poll_induct:
  fixes turn :: "nat \<Rightarrow> 's \<Rightarrow> 's + 'r"
  assumes "poll turn k s = Some r" "I s"
    and "\<And>k s s'. I s \<Longrightarrow> turn k s = Inl s' \<Longrightarrow> I s'" "\<And>k s r. I s \<Longrightarrow> turn k s = Inr r \<Longrightarrow> Q r"
  shows "Q r"
proof -
  let ?P = "\<lambda>turn. (\<forall>k s s'. I s \<longrightarrow> turn k s = Inl s' \<longrightarrow> I s') \<and> (\<forall>k s r. I s \<longrightarrow> turn k s = Inr r \<longrightarrow> Q r)"
  have "?P turn \<longrightarrow> I s \<longrightarrow> Q r"
    using assms(1)
  proof (rule poll.raw_induct [rotated])
    fix f :: "(nat \<Rightarrow> 's \<Rightarrow> 's + 'r) \<Rightarrow> nat \<Rightarrow> 's \<Rightarrow> 'r option" and turn :: "nat \<Rightarrow> 's \<Rightarrow> 's + 'r" and k s r
    assume IH: "\<And>turn k s r. f turn k s = Some r \<Longrightarrow> ?P turn \<longrightarrow> I s \<longrightarrow> Q r"
      and run: "(case turn k s of Inl s' \<Rightarrow> f turn (Suc k) s' | Inr r \<Rightarrow> Some r) = Some r"
    show "?P turn \<longrightarrow> I s \<longrightarrow> Q r"
      using run IH [of turn "Suc k" _ r] by (cases "turn k s") auto
  qed
  with assms(2-4) show ?thesis by blast
qed

lemma poll_Some:
  assumes "\<And>s. \<exists>r. turn n s = Inr r" "I s"
    and "\<And>k s s'. I s \<Longrightarrow> turn k s = Inl s' \<Longrightarrow> I s'" "\<And>k s r. I s \<Longrightarrow> turn k s = Inr r \<Longrightarrow> Q r"
  shows "\<exists>r. poll turn 0 s = Some r \<and> Q r"
  using poll_returns [of turn n 0 s] poll_induct [of turn 0 s _ I Q] assms by blast

section \<open>Ending a process group\<close>

text \<open>The two signals a supervised process group is sent, in the order in which they were sent. The first asks
  the group to terminate; the second follows when the child has not exited within the grace period.\<close>

datatype group_signal = SIGTERM | SIGKILL

definition kill_process_group :: "bool \<Rightarrow> group_signal list" where
  "kill_process_group exits_in_grace = (if exits_in_grace then [SIGTERM] else [SIGTERM, SIGKILL])"

lemma kill_process_group_sent:
  "kill_process_group g \<noteq> []" "hd (kill_process_group g) = SIGTERM" "SIGKILL \<in> set (kill_process_group g) \<longleftrightarrow> \<not> g"
  by (simp_all add: kill_process_group_def)

end
