(* ===== verification/Bounded_Capture.thy ===== *)
theory Bounded_Capture
  imports Polling Json
begin

text \<open>
  \<^verbatim>\<open>bounded_capture.py\<close>: run an untrusted command, copy its output into two private files up to a limit
  each, stop it at a deadline, a signal or a limit, and record what happened. The child process, the pipes,
  the files and the clock are arguments: what each round of the loop sees, and how each file operation
  ends. Times are integers in a fixed unit.
\<close>

section \<open>Outcomes\<close>

datatype capture_outcome =
  ChildExit | ChildSignal | Interrupted | StdoutLimit | StderrLimit | TimedOut | WrapperError

primrec outcome_str :: "capture_outcome \<Rightarrow> string" where
  "outcome_str ChildExit = ''child_exit''"
| "outcome_str ChildSignal = ''child_signal''"
| "outcome_str Interrupted = ''interrupted''"
| "outcome_str StdoutLimit = ''stdout_limit''"
| "outcome_str StderrLimit = ''stderr_limit''"
| "outcome_str TimedOut = ''timed_out''"
| "outcome_str WrapperError = ''wrapper_error''"

definition EXIT_TIMEOUT :: int where "EXIT_TIMEOUT = 124"

definition EXIT_LIMIT :: int where "EXIT_LIMIT = 125"

definition EXIT_WRAPPER_ERROR :: int where "EXIT_WRAPPER_ERROR = 126"

definition READ_CHUNK_BYTES :: nat where "READ_CHUNK_BYTES = 65536"

record capture_result =
  cr_outcome :: capture_outcome
  cr_child_returncode :: "int option"
  cr_child_signal :: "int option"
  cr_stdout_bytes_written :: int
  cr_stdout_total_bytes :: int
  cr_stderr_bytes_written :: int
  cr_stderr_total_bytes :: int

definition result_members :: "capture_result \<Rightarrow> (string \<times> json) list" where
  "result_members r =
     [(''schema_version'', JStr ''atcap-bounded-capture/v1''), (''outcome'', JStr (outcome_str (cr_outcome r))),
      (''child_returncode'', jopt_int (cr_child_returncode r)), (''child_signal'', jopt_int (cr_child_signal r)),
      (''stdout_bytes_written'', JInt (cr_stdout_bytes_written r)), (''stdout_total_bytes'', JInt (cr_stdout_total_bytes r)),
      (''stderr_bytes_written'', JInt (cr_stderr_bytes_written r)), (''stderr_total_bytes'', JInt (cr_stderr_total_bytes r))]"

section \<open>Destinations\<close>

text \<open>What is found at a destination path, and what a write to it does: the bytes the file takes, which may be
  fewer than were given, or an error.\<close>

datatype found_file = Unopenable | NoFile | FoundFile bool bytes

datatype write_outcome = Takes nat | WriteFails

text \<open>An open destination: its limit, the size it had, the count of bytes written, and its content.\<close>

record destination =
  de_limit :: int
  de_initial :: int
  de_written :: int
  de_content :: bytes

definition open_capture :: "bool \<Rightarrow> int \<Rightarrow> found_file \<Rightarrow> exn + destination" where
  "open_capture append_mode limit found =
     (let unopened = CaptureError ''capture destination could not be opened'' in
      case found of
        Unopenable \<Rightarrow> Inl unopened
      | NoFile \<Rightarrow>
          bindE (require (\<not> 0 > limit) (CaptureError ''capture destination already exceeds its limit'')) (\<lambda>_.
          Inr \<lparr>de_limit = limit, de_initial = 0, de_written = 0, de_content = []\<rparr>)
      | FoundFile regular content \<Rightarrow>
          bindE (require append_mode unopened) (\<lambda>_.
          bindE (require regular (CaptureError ''capture destination is not a regular file'')) (\<lambda>_.
          bindE (require (\<not> int (length content) > limit) (CaptureError ''capture destination already exceeds its limit'')) (\<lambda>_.
          Inr \<lparr>de_limit = limit, de_initial = int (length content), de_written = 0, de_content = content\<rparr>))))"

text \<open>\<^verbatim>\<open>destination.write(data)\<close> on the unbuffered file, whose result the code does not read.\<close>

definition write_destination :: "write_outcome \<Rightarrow> bytes \<Rightarrow> (destination, unit) prog" where
  "write_destination w bs =
     (case w of
        WriteFails \<Rightarrow> raiseM (OSError ''write'')
      | Takes n \<Rightarrow> modifyM (\<lambda>d. d\<lparr>de_content := de_content d @ take n bs\<rparr>))"

definition available :: "destination \<Rightarrow> int" where
  "available d = de_limit d - de_initial d - de_written d"

text \<open>One chunk into its destination; the result says whether the limit was reached.\<close>

definition store_chunk :: "write_outcome \<Rightarrow> bytes \<Rightarrow> (destination, bool) prog" where
  "store_chunk w chunk =
     bindM (getM available) (\<lambda>room.
     if int (length chunk) > room
     then bindM (if room > 0
                 then bindM (write_destination w (take (nat room) chunk)) (\<lambda>_.
                      modifyM (\<lambda>d. d\<lparr>de_written := de_written d + room\<rparr>))
                 else returnM ()) (\<lambda>_.
          returnM True)
     else bindM (write_destination w chunk) (\<lambda>_.
          bindM (modifyM (\<lambda>d. d\<lparr>de_written := de_written d + int (length chunk)\<rparr>)) (\<lambda>_.
          returnM False)))"

section \<open>One round\<close>

datatype stream_name = Stdout | Stderr

datatype read_outcome = WouldBlock | Reads bytes | ReadFails

text \<open>An event of \<^verbatim>\<open>selector.select\<close> with what the read and the write that may follow do.\<close>

record capture_event =
  ce_stream :: stream_name
  ce_read :: read_outcome
  ce_write :: write_outcome

record capture_state =
  ct_stdout :: destination
  ct_stderr :: destination
  ct_registered :: "stream_name list"
  ct_signal :: "int option"
  ct_stop :: "capture_outcome option"

primrec on_destination :: "stream_name \<Rightarrow> (destination, 'a) prog \<Rightarrow> (capture_state, 'a) prog" where
  "on_destination Stdout m = (\<lambda>s. case m (ct_stdout s) of (r, d) \<Rightarrow> (r, s\<lparr>ct_stdout := d\<rparr>))"
| "on_destination Stderr m = (\<lambda>s. case m (ct_stderr s) of (r, d) \<Rightarrow> (r, s\<lparr>ct_stderr := d\<rparr>))"

primrec limit_outcome :: "stream_name \<Rightarrow> capture_outcome" where
  "limit_outcome Stdout = StdoutLimit"
| "limit_outcome Stderr = StderrLimit"

definition handle_event :: "capture_event \<Rightarrow> (capture_state, unit) prog" where
  "handle_event e =
     (case ce_read e of
        WouldBlock \<Rightarrow> returnM ()
      | ReadFails \<Rightarrow> raiseM (OSError ''read'')
      | Reads bs \<Rightarrow>
          let chunk = take READ_CHUNK_BYTES bs in
          if chunk = [] then modifyM (\<lambda>s. s\<lparr>ct_registered := remove1 (ce_stream e) (ct_registered s)\<rparr>)
          else bindM (on_destination (ce_stream e) (store_chunk (ce_write e) chunk)) (\<lambda>full.
               if full then modifyM (\<lambda>s. s\<lparr>ct_stop := Some (limit_outcome (ce_stream e))\<rparr>) else returnM ()))"

text \<open>The \<^verbatim>\<open>for\<close> loop over the events: a limit breaks it. Only registered streams have events.\<close>

primrec handle_events :: "capture_event list \<Rightarrow> (capture_state, unit) prog" where
  "handle_events [] = returnM ()"
| "handle_events (e # es) =
     bindM (getM ct_registered) (\<lambda>registered.
     bindM (if ce_stream e \<in> set registered then handle_event e else returnM ()) (\<lambda>_.
     bindM (getM ct_stop) (\<lambda>stop.
     if stop = None then handle_events es else returnM ())))"

text \<open>What a round sees: the signal remembered so far, the clock, the events, and whether the child has
  exited.\<close>

record capture_tick =
  tk_signal :: "int option"
  tk_now :: int
  tk_events :: "capture_event list"
  tk_child_exited :: bool

text \<open>The loop ends with the round's state and possibly an exception.\<close>

type_synonym loop_end = "(exn + unit) \<times> capture_state"

definition capture_turn :: "int \<Rightarrow> (nat \<Rightarrow> capture_tick) \<Rightarrow> nat \<Rightarrow> capture_state \<Rightarrow> capture_state + loop_end" where
  "capture_turn deadline rounds k s =
     (let t = rounds k in
      if tk_signal t \<noteq> None then Inr (Inr (), s\<lparr>ct_signal := tk_signal t, ct_stop := Some Interrupted\<rparr>)
      else if deadline - tk_now t \<le> 0 then Inr (Inr (), s\<lparr>ct_stop := Some TimedOut\<rparr>)
      else case handle_events (tk_events t) s of
             (Inl e, s') \<Rightarrow> Inr (Inl e, s')
           | (Inr _, s') \<Rightarrow>
               if ct_stop s' \<noteq> None \<or> tk_child_exited t \<and> ct_registered s' = [] then Inr (Inr (), s') else Inl s')"

section \<open>The command\<close>

record capture_request =
  cq_command :: "string list"
  cq_stdout_path :: string
  cq_stderr_path :: string
  cq_result_path :: string
  cq_stdout_limit :: int
  cq_stderr_limit :: int
  cq_timeout :: int
  cq_append :: bool

text \<open>The world of one run: what is at the destinations, the signal before the child is started, whether it
  starts, the clock at its start, the rounds, whether killing the child's process group raises (the second attempt,
  in the exception handler, is taken to work), whether the child still runs when the handler looks, whether it
  exits within the grace period, its return code, and whether the result file can be written. Paths are absolute.\<close>

record capture_world =
  cw_stdout_file :: found_file
  cw_stderr_file :: found_file
  cw_early_signal :: "int option"
  cw_starts :: bool
  cw_started_at :: int
  cw_ticks :: "nat \<Rightarrow> capture_tick"
  cw_kill_fails :: bool
  cw_running_in_handler :: bool
  cw_exits_in_grace :: bool
  cw_returncode :: int
  cw_result_written :: bool

text \<open>What is left behind: the exit status, the result file, the two captures, and the signals the child's
  process group was sent.\<close>

record capture_report =
  cp_exit_status :: int
  cp_result :: "capture_result option"
  cp_stdout :: bytes
  cp_stderr :: bytes
  cp_group_signals :: "group_signal list"

text \<open>How the run ended: outcome, exit status, return code and signal of the child.\<close>

type_synonym ending = "capture_outcome \<times> int \<times> int option \<times> int option"

definition ending_of_exit :: "int \<Rightarrow> ending" where
  "ending_of_exit returncode =
     (if returncode < 0 then (ChildSignal, 128 - returncode, None, Some (- returncode))
      else (ChildExit, returncode, Some returncode, None))"

definition ending_of_stop :: "int option \<Rightarrow> capture_outcome \<Rightarrow> ending" where
  "ending_of_stop signal reason =
     (if reason = TimedOut then (reason, EXIT_TIMEOUT, None, None)
      else if reason \<in> {StdoutLimit, StderrLimit} then (reason, EXIT_LIMIT, None, None)
      else case signal of
             None \<Rightarrow> (WrapperError, EXIT_WRAPPER_ERROR, None, None)
           | Some n \<Rightarrow> (reason, 128 + n, None, Some n))"

definition ending_of_loop :: "capture_world \<Rightarrow> loop_end \<Rightarrow> ending" where
  "ending_of_loop w e =
     (case e of
        (Inl _, _) \<Rightarrow> (WrapperError, EXIT_WRAPPER_ERROR, None, None)
      | (Inr _, s) \<Rightarrow> (case ct_stop s of
                        Some reason \<Rightarrow> if cw_kill_fails w then (WrapperError, EXIT_WRAPPER_ERROR, None, None)
                                       else ending_of_stop (ct_signal s) reason
                      | None \<Rightarrow> ending_of_exit (cw_returncode w)))"

definition signals_of_loop :: "capture_world \<Rightarrow> loop_end \<Rightarrow> group_signal list" where
  "signals_of_loop w e =
     (let in_handler = (if cw_running_in_handler w then kill_process_group (cw_exits_in_grace w) else []) in
      case e of
        (Inl _, _) \<Rightarrow> in_handler
      | (Inr _, s) \<Rightarrow> if ct_stop s = None then []
                     else if cw_kill_fails w then in_handler else kill_process_group (cw_exits_in_grace w))"

definition report_of :: "capture_world \<Rightarrow> ending \<Rightarrow> group_signal list \<Rightarrow> capture_state \<Rightarrow> capture_report" where
  "report_of w ending signals s =
     (let (outcome, status, returncode, signal) = ending; out = ct_stdout s; err = ct_stderr s;
          result = \<lparr>cr_outcome = outcome, cr_child_returncode = returncode, cr_child_signal = signal,
            cr_stdout_bytes_written = de_written out, cr_stdout_total_bytes = de_initial out + de_written out,
            cr_stderr_bytes_written = de_written err, cr_stderr_total_bytes = de_initial err + de_written err\<rparr>
      in if cw_result_written w
         then \<lparr>cp_exit_status = status, cp_result = Some result, cp_stdout = de_content out, cp_stderr = de_content err,
               cp_group_signals = signals\<rparr>
         else \<lparr>cp_exit_status = EXIT_WRAPPER_ERROR, cp_result = None, cp_stdout = de_content out, cp_stderr = de_content err,
               cp_group_signals = signals\<rparr>)"

definition check_request :: "capture_request \<Rightarrow> exn + unit" where
  "check_request q =
     bindE (require (cq_command q \<noteq> []) (ValueError ''command must not be empty'')) (\<lambda>_.
     bindE (require (\<not> (cq_stdout_limit q < 0 \<or> cq_stderr_limit q < 0 \<or> cq_timeout q \<le> 0))
              (ValueError ''capture limits must be nonnegative and timeout must be positive'')) (\<lambda>_.
     require (distinct [cq_stdout_path q, cq_stderr_path q, cq_result_path q])
       (ValueError ''stdout, stderr, and result paths must be distinct'')))"

definition open_captures :: "capture_request \<Rightarrow> capture_world \<Rightarrow> exn + capture_state" where
  "open_captures q w =
     bindE (check_request q) (\<lambda>_.
     bindE (open_capture (cq_append q) (cq_stdout_limit q) (cw_stdout_file w)) (\<lambda>out.
     bindE (open_capture (cq_append q) (cq_stderr_limit q) (cw_stderr_file w)) (\<lambda>err.
     Inr \<lparr>ct_stdout = out, ct_stderr = err, ct_registered = [Stdout, Stderr], ct_signal = None, ct_stop = None\<rparr>)))"

definition capture_command :: "capture_request \<Rightarrow> capture_world \<Rightarrow> (exn + capture_report) option" where
  "capture_command q w =
     (case open_captures q w of
        Inl e \<Rightarrow> Some (Inl e)
      | Inr s \<Rightarrow>
          (case cw_early_signal w of
             Some n \<Rightarrow> Some (Inr (report_of w (Interrupted, 128 + n, None, Some n) [] s))
           | None \<Rightarrow>
               if \<not> cw_starts w then Some (Inr (report_of w (WrapperError, EXIT_WRAPPER_ERROR, None, None) [] s))
               else case poll (capture_turn (cw_started_at w + cq_timeout q) (cw_ticks w)) 0 s of
                      None \<Rightarrow> None
                    | Some (r, s') \<Rightarrow> Some (Inr (report_of w (ending_of_loop w (r, s')) (signals_of_loop w (r, s')) s'))))"

text \<open>\<^verbatim>\<open>main\<close>: a configuration the function refuses is the wrapper's exit status.\<close>

definition capture_main :: "capture_request \<Rightarrow> capture_world \<Rightarrow> (exn + int) option" where
  "capture_main q w =
     map_option (\<lambda>r. case r of
         Inr report \<Rightarrow> Inr (cp_exit_status report)
       | Inl e \<Rightarrow> (case e of CaptureError _ \<Rightarrow> Inr EXIT_WRAPPER_ERROR
                  | _ \<Rightarrow> if is_value_error e then Inr EXIT_WRAPPER_ERROR else Inl e)) (capture_command q w)"

section \<open>Bounds\<close>

text \<open>A destination never holds more than its limit, and never more than the count says.\<close>

definition destination_ok :: "int \<Rightarrow> destination \<Rightarrow> bool" where
  "destination_ok limit d \<longleftrightarrow> de_limit d = limit \<and> 0 \<le> de_written d \<and> de_initial d + de_written d \<le> limit \<and>
     int (length (de_content d)) \<le> de_initial d + de_written d"

definition captures_ok :: "capture_request \<Rightarrow> capture_state \<Rightarrow> bool" where
  "captures_ok q s \<longleftrightarrow> destination_ok (cq_stdout_limit q) (ct_stdout s) \<and> destination_ok (cq_stderr_limit q) (ct_stderr s)"

lemma open_capture_ok: "open_capture app limit found = Inr d \<Longrightarrow> destination_ok limit d"
  by (auto simp: open_capture_def destination_ok_def bindE_Inr_iff Let_def split: found_file.splits)

lemma store_chunk_ok:
  assumes "destination_ok limit d"
  shows "post (store_chunk w chunk) d (\<lambda>_. destination_ok limit) (\<lambda>_. destination_ok limit)"
  using assms
  by (cases w) (auto simp: store_chunk_def write_destination_def available_def destination_ok_def wp_simps)

lemma post_on_destination:
  "post (on_destination Stdout m) s Q E = post m (ct_stdout s) (\<lambda>x d. Q x (s\<lparr>ct_stdout := d\<rparr>)) (\<lambda>e d. E e (s\<lparr>ct_stdout := d\<rparr>))"
  "post (on_destination Stderr m) s Q E = post m (ct_stderr s) (\<lambda>x d. Q x (s\<lparr>ct_stderr := d\<rparr>)) (\<lambda>e d. E e (s\<lparr>ct_stderr := d\<rparr>))"
  by (auto simp: post_def split: prod.splits sum.splits)

declare on_destination.simps [simp del]

lemma handle_event_ok:
  assumes "captures_ok q s"
  shows "post (handle_event e) s (\<lambda>_. captures_ok q) (\<lambda>_. captures_ok q)"
proof (cases "ce_read e")
  case (Reads bs)
  have stored: "post (on_destination (ce_stream e) (store_chunk (ce_write e) chunk)) s (\<lambda>_. captures_ok q) (\<lambda>_. captures_ok q)" for chunk
    using assms
    by (cases "ce_stream e") (auto simp: post_on_destination captures_ok_def intro!: post_mono [OF store_chunk_ok])
  from Reads assms show ?thesis
    by (auto simp: handle_event_def wp_simps Let_def captures_ok_def intro!: post_mono [OF stored])
qed (use assms in \<open>simp_all add: handle_event_def wp_simps\<close>)

lemma handle_events_ok:
  "captures_ok q s \<Longrightarrow> post (handle_events es) s (\<lambda>_. captures_ok q) (\<lambda>_. captures_ok q)"
proof (induction es arbitrary: s)
  case (Cons e es)
  then show ?case
    by (auto simp: wp_simps intro!: post_mono [OF handle_event_ok])
qed (simp add: wp_simps)

lemma capture_turn_ok:
  assumes "captures_ok q s"
  shows "case capture_turn deadline rounds k s of Inl s' \<Rightarrow> captures_ok q s' | Inr r \<Rightarrow> captures_ok q (snd r)"
proof -
  obtain r s' where run: "handle_events (tk_events (rounds k)) s = (r, s')" by fastforce
  then have "captures_ok q s'"
    using post_resultD [OF handle_events_ok [OF assms] run] by (cases r) simp_all
  with assms run show ?thesis
    by (cases r) (simp_all add: capture_turn_def Let_def captures_ok_def)
qed

lemma capture_turn_deadline: "deadline \<le> tk_now (rounds n) \<Longrightarrow> \<exists>r. capture_turn deadline rounds n s = Inr r"
  by (simp add: capture_turn_def Let_def)

text \<open>Neither capture nor the totals in the result exceed the limits; a run without a result file has the
  wrapper's exit status.\<close>

definition report_ok :: "capture_request \<Rightarrow> capture_report \<Rightarrow> bool" where
  "report_ok q p \<longleftrightarrow>
     int (length (cp_stdout p)) \<le> cq_stdout_limit q \<and> int (length (cp_stderr p)) \<le> cq_stderr_limit q \<and>
     (case cp_result p of None \<Rightarrow> cp_exit_status p = EXIT_WRAPPER_ERROR
      | Some r \<Rightarrow> cr_stdout_total_bytes r \<le> cq_stdout_limit q \<and> cr_stderr_total_bytes r \<le> cq_stderr_limit q)"

lemma report_of_ok: "captures_ok q s \<Longrightarrow> report_ok q (report_of w e signals s)"
  by (auto simp: report_of_def report_ok_def captures_ok_def destination_ok_def Let_def split: prod.splits)

lemma open_captures_ok: "open_captures q w = Inr s \<Longrightarrow> captures_ok q s"
  by (auto simp: open_captures_def bindE_Inr_iff captures_ok_def open_capture_ok)

text \<open>A run that was stopped at the deadline or at a limit asked the child's process group to terminate, and
  killed it unless the child exited within the grace period.\<close>

definition stop_enforced :: "capture_world \<Rightarrow> capture_report \<Rightarrow> bool" where
  "stop_enforced w p =
     (case cp_result p of None \<Rightarrow> True
      | Some r \<Rightarrow> cr_outcome r \<in> {TimedOut, StdoutLimit, StderrLimit} \<longrightarrow> cp_group_signals p = kill_process_group (cw_exits_in_grace w))"

lemma report_of_stop_enforced: "stop_enforced w (report_of w (ending_of_loop w e) (signals_of_loop w e) s)"
  by (auto simp: stop_enforced_def report_of_def ending_of_loop_def signals_of_loop_def ending_of_stop_def ending_of_exit_def Let_def
      split: prod.splits sum.splits option.splits if_splits)

lemma report_of_not_stopped:
  "outcome \<in> {Interrupted, WrapperError} \<Longrightarrow> stop_enforced w (report_of w (outcome, x) [] s)"
  by (auto simp: stop_enforced_def report_of_def Let_def split: prod.splits)



section \<open>Examples\<close>

definition demo_capture :: capture_request where
  "demo_capture = \<lparr>cq_command = [''job''], cq_stdout_path = ''/o'', cq_stderr_path = ''/e'', cq_result_path = ''/r'',
     cq_stdout_limit = 4, cq_stderr_limit = 4, cq_timeout = 2, cq_append = False\<rparr>"

definition demo_capture_world :: "write_outcome \<Rightarrow> bytes \<Rightarrow> capture_world" where
  "demo_capture_world wr bs = \<lparr>cw_stdout_file = NoFile, cw_stderr_file = NoFile, cw_early_signal = None, cw_starts = True,
     cw_started_at = 0,
     cw_ticks = (\<lambda>n. \<lparr>tk_signal = None, tk_now = int n,
       tk_events = (if n = 0 then [\<lparr>ce_stream = Stdout, ce_read = Reads bs, ce_write = wr\<rparr>] else []), tk_child_exited = False\<rparr>),
     cw_kill_fails = False, cw_running_in_handler = True, cw_exits_in_grace = True, cw_returncode = 0, cw_result_written = True\<rparr>"

lemmas capture_run = capture_command_def open_captures_def check_request_def open_capture_def poll.simps [where k = 0]
  poll.simps [where k = "Suc 0"] poll.simps [where k = "Suc (Suc 0)"] capture_turn_def handle_event_def on_destination.simps store_chunk_def write_destination_def
  available_def run_simps report_of_def ending_of_loop_def signals_of_loop_def kill_process_group_def ending_of_stop_def ending_of_exit_def READ_CHUNK_BYTES_def
  demo_capture_def demo_capture_world_def


text \<open>The unbuffered write may take fewer bytes than it is given, and the count does not notice: here the file
  takes two of three bytes and the result reports three.\<close>

lemma short_write_overcounted:
  "case capture_command demo_capture (demo_capture_world (Takes 2) [1, 2, 3]) of
     Some (Inr p) \<Rightarrow> map_option cr_stdout_total_bytes (cp_result p) = Some 3 \<and> cp_stdout p = [1, 2]
   | _ \<Rightarrow> False"
  by (simp add: capture_run Let_def)

text \<open>The grace period waits for the child alone. When it exits within it, its process group has been sent the
  termination signal only: a descendant that ignores that signal is not killed.\<close>

lemma grace_spares_descendants:
  "case capture_command demo_capture (demo_capture_world (Takes 9) [1, 2, 3, 4, 5]) of
     Some (Inr p) \<Rightarrow> map_option cr_outcome (cp_result p) = Some StdoutLimit \<and> cp_group_signals p = [SIGTERM]
   | _ \<Rightarrow> False"
  by (simp add: capture_run Let_def)

end
