(* ===== verification/Deadline_Supervisor.thy ===== *)
theory Deadline_Supervisor
  imports Polling Json
begin

text \<open>
  \<^verbatim>\<open>deadline_supervisor.py\<close>: run a command in its own process group, end it at a deadline or a signal,
  first politely and after a grace period by force, and hand it a one-time token over a pipe on request.
  The child, the clock, the signals and the random token are arguments; times are integers in a fixed unit.
\<close>

record supervise_request =
  sq_command :: "string list"
  sq_limit :: int
  sq_grace :: int
  sq_append_handshake :: bool

text \<open>What a round sees: the signal remembered so far, the clock, and the child's exit during the wait.\<close>

record supervise_tick =
  st_signal :: "int option"
  st_now :: int
  st_exit :: "int option"

record supervise_world =
  sw_token :: bytes
  sw_read_fd :: nat
  sw_early_signal :: "int option"
  sw_spawn :: "exn + unit"
  sw_started_at :: int
  sw_ticks :: "nat \<Rightarrow> supervise_tick"
  sw_exits_in_grace :: bool

text \<open>What is left behind: the exit status, the command that was started, the token digest in its
  environment, the bytes on the pipe, and the signals its process group was sent.\<close>

record supervision =
  sv_exit_status :: int
  sv_started :: "string list option"
  sv_token_sha256 :: "string option"
  sv_pipe :: "bytes option"
  sv_group_signals :: "group_signal list"

text \<open>A round ends the loop with the child's own exit status or with the status of a stop.\<close>

datatype loop_exit = Exited int | Stopped int

definition supervise_turn :: "int \<Rightarrow> (nat \<Rightarrow> supervise_tick) \<Rightarrow> nat \<Rightarrow> unit \<Rightarrow> unit + loop_exit" where
  "supervise_turn deadline rounds k _ =
     (let t = rounds k in
      case st_signal t of
        Some n \<Rightarrow> Inr (Stopped (128 + n))
      | None \<Rightarrow>
          if deadline - st_now t \<le> 0 then Inr (Stopped 124)
          else case st_exit t of Some status \<Rightarrow> Inr (Exited status) | None \<Rightarrow> Inl ())"

definition token_text :: "bytes \<Rightarrow> bytes" where
  "token_text token = utf8 (bytes_hex token)"

definition child_command :: "supervise_request \<Rightarrow> supervise_world \<Rightarrow> string list" where
  "child_command q w =
     (if sq_append_handshake q then sq_command q @ [''--supervised-fd'', nat_str (sw_read_fd w)] else sq_command q)"

definition supervision_of :: "supervise_request \<Rightarrow> supervise_world \<Rightarrow> int \<Rightarrow> string list option \<Rightarrow> group_signal list \<Rightarrow> supervision" where
  "supervision_of q w status started signals =
     \<lparr>sv_exit_status = status, sv_started = started,
      sv_token_sha256 = (if sq_append_handshake q then Some (sha256_hex (token_text (sw_token w))) else None),
      sv_pipe = (if sq_append_handshake q then Some (token_text (sw_token w) @ [10]) else None),
      sv_group_signals = signals\<rparr>"

definition supervise :: "supervise_request \<Rightarrow> supervise_world \<Rightarrow> (exn + supervision) option" where
  "supervise q w =
     (if sq_command q = [] \<or> sq_limit q \<le> 0 \<or> sq_grace q \<le> 0
      then Some (Inl (ValueError ''supervisor arguments must be nonempty and positive''))
      else case sw_early_signal w of
        Some n \<Rightarrow> Some (Inr (supervision_of q w (128 + n) None []))
      | None \<Rightarrow>
          (case sw_spawn w of
             Inl e \<Rightarrow> Some (Inl e)
           | Inr _ \<Rightarrow>
               map_option (\<lambda>ended. Inr (case ended of
                   Exited status \<Rightarrow> supervision_of q w status (Some (child_command q w)) []
                 | Stopped status \<Rightarrow> supervision_of q w status (Some (child_command q w))
                     (kill_process_group (sw_exits_in_grace w))))
                 (poll (supervise_turn (sw_started_at w + sq_limit q) (sw_ticks w)) 0 ())))"

section \<open>The child does not outlive its deadline\<close>

text \<open>How a supervised child ends: by itself with the status that is returned, or sent the termination signal,
  and the kill signal after it when it did not exit within the grace period.\<close>

definition ended_by :: "supervise_world \<Rightarrow> supervision \<Rightarrow> bool" where
  "ended_by w v \<longleftrightarrow>
     (sv_group_signals v = [] \<and> (\<exists>n. st_exit (sw_ticks w n) = Some (sv_exit_status v))) \<or>
     (sv_group_signals v \<noteq> [] \<and> hd (sv_group_signals v) = SIGTERM \<and> (sw_exits_in_grace w \<or> SIGKILL \<in> set (sv_group_signals v)) \<and>
      (sv_exit_status v = 124 \<or> (\<exists>n m. st_signal (sw_ticks w n) = Some m \<and> sv_exit_status v = 128 + m)))"

definition loop_exit_seen :: "supervise_world \<Rightarrow> loop_exit \<Rightarrow> bool" where
  "loop_exit_seen w e =
     (case e of Exited status \<Rightarrow> \<exists>n. st_exit (sw_ticks w n) = Some status
      | Stopped status \<Rightarrow> status = 124 \<or> (\<exists>n m. st_signal (sw_ticks w n) = Some m \<and> status = 128 + m))"

lemma supervise_turn_seen: "supervise_turn deadline (sw_ticks w) k s = Inr e \<Longrightarrow> loop_exit_seen w e"
  by (auto simp: supervise_turn_def loop_exit_seen_def Let_def split: option.splits if_splits)

text \<open>Once the clock has reached the deadline in some round, supervision has returned: it refused its
  arguments, could not start the child, was interrupted before it, or the child has ended.\<close>

lemma supervised_child_ends:
  assumes "sw_started_at w + sq_limit q \<le> st_now (sw_ticks w n)"
  shows "\<exists>r. supervise q w = Some r \<and>
    (case r of Inl _ \<Rightarrow> True | Inr v \<Rightarrow> sv_started v = None \<or> sv_started v = Some (child_command q w) \<and> ended_by w v)"
proof -
  let ?turn = "supervise_turn (sw_started_at w + sq_limit q) (sw_ticks w)"
  have "\<exists>e. poll ?turn 0 () = Some e \<and> loop_exit_seen w e"
  proof (rule poll_Some [where I = "\<lambda>_. True" and n = n])
    show "\<exists>e. ?turn n s = Inr e" for s
      using assms by (simp add: supervise_turn_def Let_def split: option.splits)
  qed (simp_all add: supervise_turn_seen)
  then show ?thesis
    by (fastforce simp: supervise_def supervision_of_def loop_exit_seen_def ended_by_def kill_process_group_sent split: option.splits sum.splits loop_exit.splits)
qed

text \<open>The digest in the child's environment is that of the line on its pipe.\<close>

lemma supervise_Inr:
  "supervise q w = Some (Inr v) \<Longrightarrow> \<exists>status started signals. v = supervision_of q w status started signals"
  unfolding supervise_def by (auto split: if_split_asm option.split_asm sum.split_asm loop_exit.split) ((rule exI)+, rule refl)+

lemma handshake_digest:
  assumes "supervise q w = Some (Inr v)" "sv_pipe v = Some bs"
  shows "sv_token_sha256 v = Some (sha256_hex (butlast bs))"
  using supervise_Inr [OF assms(1)] assms(2) by (auto simp: supervision_of_def split: if_splits)

end
