(* ===== verification/Evidence_Manifest.thy ===== *)
theory Evidence_Manifest
  imports Json "HOL-Library.AList" "HOL-Library.List_Lexorder" "HOL-Library.Char_ord"
begin

text \<open>
  The two projections written next to the evidence: \<^verbatim>\<open>billing_observation.py\<close>, the size and digest of an
  untrusted billing response, and \<^verbatim>\<open>evidence_manifest.py\<close>, the checksums of an evidence directory. Files are
  values: whether they exist, their reported size, what reading them yields. The JSON files are represented
  by the value whose indented text they hold.
\<close>

section \<open>Billing observation\<close>

record raw_response =
  rr_exists :: bool
  rr_st_size :: nat
  rr_read_bytes :: "exn + bytes"

datatype retrieval = Received | Unavailable | Oversized

primrec retrieval_str :: "retrieval \<Rightarrow> string" where
  "retrieval_str Received = ''received''"
| "retrieval_str Unavailable = ''unavailable''"
| "retrieval_str Oversized = ''oversized''"

record billing_projection =
  bp_retrieval :: retrieval
  bp_endpoint_id_sha256 :: string
  bp_response_bytes :: nat
  bp_response_sha256 :: "string option"

definition MAX_BILLING_RESPONSE_BYTES :: nat where "MAX_BILLING_RESPONSE_BYTES = 1048576"

definition billing_members :: "billing_projection \<Rightarrow> (string \<times> json) list" where
  "billing_members p =
     [(''schema_version'', JStr ''atcap-runpod-billing-observation/v1''), (''provider'', JStr ''runpod''),
      (''trust'', JStr ''untrusted''), (''retrieval'', JStr (retrieval_str (bp_retrieval p))),
      (''endpoint_id_sha256'', JStr (bp_endpoint_id_sha256 p)), (''response_bytes'', JInt (int (bp_response_bytes p))),
      (''response_sha256'', jopt_str (bp_response_sha256 p))]"

text \<open>The function returns the projection and writes its members to a file that must not exist.\<close>

definition project_billing_response ::
  "raw_response \<Rightarrow> bool \<Rightarrow> string \<Rightarrow> bool \<Rightarrow> exn + (billing_projection \<times> json)" where
  "project_billing_response raw output_exists endpoint_id_sha256 command_succeeded =
     bindE (require (lower_hex 64 endpoint_id_sha256) (ValueError ''endpoint ID digest must be lowercase SHA-256'')) (\<lambda>_.
     let response_bytes = (if rr_exists raw then rr_st_size raw else 0) in
     bindE (if \<not> command_succeeded then Inr (Unavailable, None)
            else if response_bytes > MAX_BILLING_RESPONSE_BYTES then Inr (Oversized, None)
            else bindE (require (rr_exists raw) (OSError ''read_bytes'')) (\<lambda>_.
                 bindE (rr_read_bytes raw) (\<lambda>contents. Inr (Received, Some (sha256_hex contents))))) (\<lambda>(retrieval, digest).
     bindE (require (\<not> output_exists) (OSError ''FileExistsError'')) (\<lambda>_.
     let p = \<lparr>bp_retrieval = retrieval, bp_endpoint_id_sha256 = endpoint_id_sha256, bp_response_bytes = response_bytes,
              bp_response_sha256 = digest\<rparr>
     in Inr (p, obj (billing_members p)))))"

text \<open>A digest is recorded exactly for a response that was received and reported a size within the bound;
  nothing else of its content reaches the projection.\<close>

lemma billing_digest_iff:
  assumes "project_billing_response raw output_exists endpoint ok = Inr (p, doc)"
  shows "doc = obj (billing_members p) \<and> bp_endpoint_id_sha256 p = endpoint \<and>
    bp_response_bytes p = (if rr_exists raw then rr_st_size raw else 0) \<and>
    (bp_retrieval p = Received \<longleftrightarrow> ok \<and> bp_response_bytes p \<le> MAX_BILLING_RESPONSE_BYTES) \<and>
    (bp_response_sha256 p = None \<longleftrightarrow> bp_retrieval p \<noteq> Received)"
  using assms by (auto simp: project_billing_response_def bindE_Inr_iff Let_def split: if_splits)

lemma billing_no_content:
  assumes "rr_exists raw = rr_exists raw'" "rr_st_size raw = rr_st_size raw'"
    "bindE (rr_read_bytes raw) (\<lambda>c. Inr (sha256_hex c)) = bindE (rr_read_bytes raw') (\<lambda>c. Inr (sha256_hex c))"
  shows "project_billing_response raw output_exists endpoint ok = project_billing_response raw' output_exists endpoint ok"
  using assms by (auto simp: project_billing_response_def Let_def bindE_def split: sum.splits)

section \<open>Evidence manifest\<close>

text \<open>An entry below the evidence root: the parts of its relative path, whether it is a file, what reading it
  yields.\<close>

record tree_entry =
  te_parts :: "string list"
  te_is_file :: bool
  te_read_bytes :: "exn + bytes"

definition own_files :: "string list" where
  "own_files = [''SHA256SUMS'', ''verification-manifest.json'']"

primrec as_posix :: "string list \<Rightarrow> string" where
  "as_posix [] = []"
| "as_posix (p # ps) = (if ps = [] then p else p @ ''/'' @ as_posix ps)"

definition listed :: "tree_entry \<Rightarrow> bool" where
  "listed e \<longleftrightarrow> te_is_file e \<and> last (te_parts e) \<notin> set own_files"

definition add_file :: "tree_entry \<Rightarrow> (string \<times> string) list \<Rightarrow> exn + (string \<times> string) list" where
  "add_file e files =
     (if listed e
      then bindE (te_read_bytes e) (\<lambda>contents. Inr (AList.update (as_posix (te_parts e)) (sha256_hex contents) files))
      else Inr files)"

definition checksum_line :: "string \<times> string \<Rightarrow> string" where
  "checksum_line f = (case f of (name, digest) \<Rightarrow> digest @ ''  '' @ name @ ''\<newline>'')"

definition sums_text :: "(string \<times> string) list \<Rightarrow> string" where
  "sums_text files = concat (map checksum_line files)"

definition manifest_document :: "string \<Rightarrow> string option \<Rightarrow> string option \<Rightarrow> bool \<Rightarrow> (string \<times> string) list \<Rightarrow> json" where
  "manifest_document worker_image endpoint_id_sha256 template_id_sha256 cleanup_complete files =
     obj [(''schema_version'', JStr ''atcap-runpod-live-evidence-manifest/v1''), (''worker_image'', JStr worker_image),
          (''endpoint_id_sha256'', jopt_str endpoint_id_sha256), (''template_id_sha256'', jopt_str template_id_sha256),
          (''cleanup_complete'', JBool cleanup_complete), (''files'', jdict (fmap_of_list files))]"

text \<open>\<^verbatim>\<open>root.rglob("*")\<close> is \<^term>\<open>Some\<close> list of entries, in any order, or \<^term>\<open>None\<close> when the root is no
  directory; the results are the texts of the two files.\<close>

definition write_manifest ::
  "tree_entry list option \<Rightarrow> string \<Rightarrow> string option \<Rightarrow> string option \<Rightarrow> bool \<Rightarrow> exn + (bytes \<times> json)" where
  "write_manifest root worker_image endpoint_id_sha256 template_id_sha256 cleanup_complete =
     bindE (of_option (ValueError ''evidence root must be an existing directory'') root) (\<lambda>entries.
     bindE (forE (\<lambda>digest. require (case digest of None \<Rightarrow> True | Some d \<Rightarrow> lower_hex 64 d)
                     (ValueError ''resource identifier digest must be lowercase SHA-256''))
              [endpoint_id_sha256, template_id_sha256]) (\<lambda>_.
     bindE (foldE add_file (sort_key te_parts entries) []) (\<lambda>files.
     Inr (utf8 (sums_text files),
          manifest_document worker_image endpoint_id_sha256 template_id_sha256 cleanup_complete files))))"

text \<open>A directory tree yields each path once, and the parts of a path are not empty and contain no slash; then
  different paths have different names.\<close>

definition path_ok :: "string list \<Rightarrow> bool" where
  "path_ok ps \<longleftrightarrow> ps \<noteq> [] \<and> list_all (\<lambda>p. p \<noteq> [] \<and> CHR ''/'' \<notin> set p) ps"

definition tree_ok :: "tree_entry list \<Rightarrow> bool" where
  "tree_ok entries \<longleftrightarrow> list_all (\<lambda>e. path_ok (te_parts e)) entries \<and> distinct (map te_parts entries)"

lemma as_posix_Nil: "path_ok ps \<Longrightarrow> as_posix ps \<noteq> []"
  by (cases ps) (simp_all add: path_ok_def)

lemma append_delimited:
  "c \<notin> set p \<Longrightarrow> c \<notin> set q \<Longrightarrow> p @ c # x = q @ c # y \<longleftrightarrow> p = q \<and> x = y"
proof (induction p arbitrary: q)
  case Nil
  then show ?case by (cases q) auto
next
  case (Cons a p)
  then show ?case by (cases q) auto
qed

lemma as_posix_inject: "path_ok ps \<Longrightarrow> path_ok qs \<Longrightarrow> as_posix ps = as_posix qs \<longleftrightarrow> ps = qs"
proof (induction ps arbitrary: qs)
  case (Cons p ps)
  then obtain q qs' where qs: "qs = q # qs'" by (cases qs) (auto simp: path_ok_def)
  have parts: "CHR ''/'' \<notin> set p" "CHR ''/'' \<notin> set q" using Cons.prems by (simp_all add: path_ok_def qs)
  consider "ps = []" "qs' = []" | "ps = []" "qs' \<noteq> []" | "ps \<noteq> []" "qs' = []" | "ps \<noteq> []" "qs' \<noteq> []" by blast
  then show ?case
  proof cases
    case 4
    then have "path_ok ps" "path_ok qs'" using Cons.prems by (simp_all add: path_ok_def qs)
    with Cons.IH 4 parts show ?thesis by (simp add: qs append_delimited)
  qed (use parts in \<open>auto simp: qs\<close>)
qed (simp add: path_ok_def)

definition checksum_of :: "tree_entry \<Rightarrow> string \<times> string" where
  "checksum_of e = (as_posix (te_parts e), sha256_hex (case te_read_bytes e of Inl _ \<Rightarrow> [] | Inr c \<Rightarrow> c))"

lemma update_new: "k \<notin> fst ` set xs \<Longrightarrow> AList.update k v xs = xs @ [(k, v)]"
  by (induction xs) auto

lemma add_files_eq:
  assumes "distinct (map fst files @ map (\<lambda>e. as_posix (te_parts e)) es)"
  shows "foldE add_file es files = Inr files' \<longleftrightarrow>
    list_all (\<lambda>e. \<not> isl (te_read_bytes e)) (filter listed es) \<and> files' = files @ map checksum_of (filter listed es)"
  using assms
proof (induction es arbitrary: files)
  case (Cons e es)
  show ?case
  proof (cases "listed e")
    case True
    have new: "as_posix (te_parts e) \<notin> fst ` set files" using Cons.prems by auto
    have "distinct (map fst (files @ [checksum_of e]) @ map (\<lambda>e. as_posix (te_parts e)) es)"
      using Cons.prems by (auto simp: checksum_of_def)
    from Cons.IH [OF this] True new show ?thesis
      by (cases "te_read_bytes e") (auto simp: add_file_def checksum_of_def update_new)
  next
    case False
    with Cons.prems have "distinct (map fst files @ map (\<lambda>e. as_posix (te_parts e)) es)" by auto
    from Cons.IH [OF this] False show ?thesis by (simp add: add_file_def)
  qed
qed auto

text \<open>On a directory tree the manifest is written exactly when every listed file can be read; it then lists
  each of them once, in the order of their paths, with the digest of its content.\<close>

lemma manifest_complete:
  assumes "tree_ok entries"
  shows "write_manifest (Some entries) worker endpoint template cleanup = Inr (sums, doc) \<longleftrightarrow>
    list_all (\<lambda>d. case d of None \<Rightarrow> True | Some h \<Rightarrow> lower_hex 64 h) [endpoint, template] \<and>
    (let es = filter listed (sort_key te_parts entries) in
     list_all (\<lambda>e. \<not> isl (te_read_bytes e)) es \<and> sums = utf8 (sums_text (map checksum_of es)) \<and>
     doc = manifest_document worker endpoint template cleanup (map checksum_of es))"
proof -
  have parts: "distinct (map te_parts (sort_key te_parts entries))"
    using assms by (simp add: tree_ok_def distinct_map)
  have "inj_on (\<lambda>e. as_posix (te_parts e)) (set entries)"
    using assms by (fastforce simp: tree_ok_def inj_on_def list_all_iff distinct_map as_posix_inject)
  with parts have "distinct (map (\<lambda>e. as_posix (te_parts e)) (sort_key te_parts entries))"
    by (simp add: distinct_map)
  with add_files_eq [of "[]" "sort_key te_parts entries"] show ?thesis
    by (auto simp: write_manifest_def bindE_Inr_iff Let_def)
qed

text \<open>The checksum file determines what it lists, provided no name contains a line feed.\<close>

definition line_ok :: "string \<times> string \<Rightarrow> bool" where
  "line_ok f \<longleftrightarrow> lower_hex 64 (snd f) \<and> CHR ''\<newline>'' \<notin> set (fst f)"

lemma lower_hex_no_newline: "lower_hex n s \<Longrightarrow> CHR ''\<newline>'' \<notin> set s"
  by (auto simp: lower_hex_def list_all_iff lower_hex_char_def hex_digits_def dest!: bspec)

lemma checksum_line_inject:
  assumes "line_ok f" "line_ok g" "checksum_line f @ x = checksum_line g @ y"
  shows "f = g \<and> x = y"
proof -
  obtain n d m e where f: "f = (n, d)" "g = (m, e)" by fastforce
  from assms(1,2) have "CHR ''\<newline>'' \<notin> set (d @ ''  '' @ n)" "CHR ''\<newline>'' \<notin> set (e @ ''  '' @ m)" "length d = length e"
    by (auto simp: f line_ok_def lower_hex_def dest: lower_hex_no_newline [unfolded lower_hex_def, OF conjI, rotated])
  with assms(3) append_delimited [OF this(1,2), of x y] show ?thesis
    by (simp add: f checksum_line_def)
qed

lemma sums_determine:
  "list_all line_ok xs \<Longrightarrow> list_all line_ok ys \<Longrightarrow> sums_text xs = sums_text ys \<longleftrightarrow> xs = ys"
proof (induction xs arbitrary: ys)
  case Nil
  then show ?case by (cases ys) (auto simp: sums_text_def checksum_line_def)
next
  case (Cons f xs)
  show ?case
  proof (cases ys)
    case (Cons g ys')
    with Cons.prems checksum_line_inject [of f g "sums_text xs" "sums_text ys'"] Cons.IH [of ys'] show ?thesis
      by (auto simp: sums_text_def)
  qed (cases f, simp add: sums_text_def checksum_line_def)
qed

end
