(* ===== verification/Worker_Wire.thy ===== *)
theory Worker_Wire
  imports Schema
begin

text \<open>
  \<^verbatim>\<open>examples/runpod-untrusted-caller/lab/worker_wire.py\<close>: the wire contract between the trusted
  controller and the untrusted worker. Every model has its members, the condition its validators
  check, its reader and its interpretation as a closed model; \<open>strict_json_object\<close> decodes one
  object and rejects repeated names at every depth.
\<close>

section \<open>Variants and small models\<close>

datatype variant = Valid | Replay | ArgumentSubstitution | RecordSubstitution | WrongHolder | Malformed | Concurrent

primrec variant_str :: "variant \<Rightarrow> string" where
  "variant_str Valid = ''valid''"
| "variant_str Replay = ''replay''"
| "variant_str ArgumentSubstitution = ''argument-substitution''"
| "variant_str RecordSubstitution = ''record-substitution''"
| "variant_str WrongHolder = ''wrong-holder''"
| "variant_str Malformed = ''malformed''"
| "variant_str Concurrent = ''concurrent''"

definition all_variants :: "variant list" where
  "all_variants = [Valid, Replay, ArgumentSubstitution, RecordSubstitution, WrongHolder, Malformed, Concurrent]"

definition get_variant :: "(string, json) fmap \<Rightarrow> string \<Rightarrow> exn + variant" where
  "get_variant m k = bindE (get_str m k) (\<lambda>s. of_option invalid (find (\<lambda>v. variant_str v = s) all_variants))"

lemma find_variant: "find (\<lambda>v. variant_str v = s) all_variants = Some v \<longleftrightarrow> s = variant_str v"
  by (cases v) (auto simp: all_variants_def split: if_splits)

lemma get_variant_Inr: "get_variant m k = Inr v \<longleftrightarrow> fmlookup m k = Some (JStr (variant_str v))"
  by (auto simp: get_variant_def bindE_Inr_iff get_Inr find_variant)

lemma variant_str_inject [simp]: "variant_str v = variant_str w \<longleftrightarrow> v = w"
  by (cases v; cases w) simp_all

lemma all_variants_UNIV: "set all_variants = UNIV"
  unfolding all_variants_def using variant.exhaust by auto

lemma distinct_all_variants: "distinct all_variants"
  by (simp add: all_variants_def)

record inventory_arguments_wire =
  iw_sku :: string

definition iw_members :: "inventory_arguments_wire \<Rightarrow> (string \<times> json) list" where
  "iw_members x = [(''sku'', JStr (iw_sku x))]"

definition iw_valid :: "inventory_arguments_wire \<Rightarrow> bool" where
  "iw_valid x \<longleftrightarrow> len_in 1 128 (iw_sku x)"

definition iw_read :: "(string, json) fmap \<Rightarrow> exn + inventory_arguments_wire" where
  "iw_read m =
     bindE (closed_keys [''sku''] m) (\<lambda>_.
     bindE (get_str m ''sku'') (\<lambda>sku.
     let x = \<lparr>iw_sku = sku\<rparr> in bindE (require (iw_valid x) invalid) (\<lambda>_. Inr x)))"

interpretation iw: closed_model "[''sku'']" iw_members iw_read iw_valid
proof
  show "iw_read m = Inr x \<longleftrightarrow> closed_keys [''sku''] m = Inr () \<and>
      (\<forall>(k, v) \<in> set (iw_members x). fmlookup m k = Some v) \<and> iw_valid x" for m x
    by (cases x) (auto simp: iw_read_def iw_members_def res_simps get_Inr Let_def)
qed (simp_all add: iw_members_def)

text \<open>\<^verbatim>\<open>UntrustedRunpodMetadata\<close>: two fixed labels.\<close>

record runpod_metadata =
  md_provider :: string
  md_trust :: string

definition md_members :: "runpod_metadata \<Rightarrow> (string \<times> json) list" where
  "md_members x = [(''provider'', JStr (md_provider x)), (''trust'', JStr (md_trust x))]"

definition md_valid :: "runpod_metadata \<Rightarrow> bool" where
  "md_valid x \<longleftrightarrow> md_provider x = ''runpod'' \<and> md_trust x = ''untrusted''"

definition md_read :: "(string, json) fmap \<Rightarrow> exn + runpod_metadata" where
  "md_read m =
     bindE (closed_keys [''provider'', ''trust''] m) (\<lambda>_.
     bindE (get_str m ''provider'') (\<lambda>provider.
     bindE (get_str m ''trust'') (\<lambda>trust.
     let x = \<lparr>md_provider = provider, md_trust = trust\<rparr>
     in bindE (require (md_valid x) invalid) (\<lambda>_. Inr x))))"

interpretation md: closed_model "[''provider'', ''trust'']" md_members md_read md_valid
proof
  show "md_read m = Inr x \<longleftrightarrow> closed_keys [''provider'', ''trust''] m = Inr () \<and>
      (\<forall>(k, v) \<in> set (md_members x). fmlookup m k = Some v) \<and> md_valid x" for m x
    by (cases x) (auto simp: md_read_def md_members_def res_simps get_Inr Let_def)
qed (simp_all add: md_members_def)

text \<open>\<^verbatim>\<open>ProofSignature\<close>: 64 bytes in hexadecimal, or the number seven of the malformed case.\<close>

datatype proof_signature = HexSignature string | Seven

record holder_proof_wire =
  hw_challenge :: string
  hw_signature :: proof_signature

primrec signature_json :: "proof_signature \<Rightarrow> json" where
  "signature_json (HexSignature s) = JStr s"
| "signature_json Seven = JInt 7"

definition get_signature :: "(string, json) fmap \<Rightarrow> string \<Rightarrow> exn + proof_signature" where
  "get_signature m k = (case fmlookup m k of
     Some (JStr s) \<Rightarrow> if lower_hex 128 s then Inr (HexSignature s) else Inl invalid
   | Some (JInt i) \<Rightarrow> if i = 7 then Inr Seven else Inl invalid
   | _ \<Rightarrow> Inl invalid)"

primrec signature_valid :: "proof_signature \<Rightarrow> bool" where
  "signature_valid (HexSignature s) = lower_hex 128 s"
| "signature_valid Seven = True"

lemma get_signature_Inr: "get_signature m k = Inr x \<longleftrightarrow> fmlookup m k = Some (signature_json x) \<and> signature_valid x"
  by (cases x) (auto simp: get_signature_def split: option.splits json.splits if_splits)

definition hw_members :: "holder_proof_wire \<Rightarrow> (string \<times> json) list" where
  "hw_members x = [(''challenge'', JStr (hw_challenge x)), (''signature'', signature_json (hw_signature x))]"

definition hw_valid :: "holder_proof_wire \<Rightarrow> bool" where
  "hw_valid x \<longleftrightarrow> len_in 1 8192 (hw_challenge x) \<and> signature_valid (hw_signature x)"

definition hw_read :: "(string, json) fmap \<Rightarrow> exn + holder_proof_wire" where
  "hw_read m =
     bindE (closed_keys [''challenge'', ''signature''] m) (\<lambda>_.
     bindE (get_str m ''challenge'') (\<lambda>challenge.
     bindE (get_signature m ''signature'') (\<lambda>signature.
     let x = \<lparr>hw_challenge = challenge, hw_signature = signature\<rparr>
     in bindE (require (hw_valid x) invalid) (\<lambda>_. Inr x))))"

interpretation hw: closed_model "[''challenge'', ''signature'']" hw_members hw_read hw_valid
proof
  show "hw_read m = Inr x \<longleftrightarrow> closed_keys [''challenge'', ''signature''] m = Inr () \<and>
      (\<forall>(k, v) \<in> set (hw_members x). fmlookup m k = Some v) \<and> hw_valid x" for m x
    by (cases x) (auto simp: hw_read_def hw_members_def hw_valid_def res_simps get_Inr get_signature_Inr Let_def)
qed (simp_all add: hw_members_def)

section \<open>Requests and payloads\<close>

record worker_request =
  wr_schema_version :: string
  wr_case_id :: string
  wr_run_id :: string
  wr_variant :: variant
  wr_credential :: "(string, json) fmap"
  wr_challenge :: string
  wr_audience :: string
  wr_qualified_scope :: string
  wr_record_id :: string
  wr_arguments :: inventory_arguments_wire
  wr_worker_image :: string
  wr_worker_code_digest :: string

definition wr_names :: "string list" where
  "wr_names = [''schema_version'', ''case_id'', ''run_id'', ''variant'', ''credential'', ''challenge'', ''audience'',
     ''qualified_scope'', ''record_id'', ''arguments'', ''worker_image'', ''worker_code_digest'']"

definition wr_members :: "worker_request \<Rightarrow> (string \<times> json) list" where
  "wr_members x =
     [(''schema_version'', JStr (wr_schema_version x)), (''case_id'', JStr (wr_case_id x)),
      (''run_id'', JStr (wr_run_id x)), (''variant'', JStr (variant_str (wr_variant x))),
      (''credential'', JObj (wr_credential x)), (''challenge'', JStr (wr_challenge x)),
      (''audience'', JStr (wr_audience x)), (''qualified_scope'', JStr (wr_qualified_scope x)),
      (''record_id'', JStr (wr_record_id x)), (''arguments'', obj (iw_members (wr_arguments x))),
      (''worker_image'', JStr (wr_worker_image x)), (''worker_code_digest'', JStr (wr_worker_code_digest x))]"

definition wr_valid :: "worker_request \<Rightarrow> bool" where
  "wr_valid x \<longleftrightarrow>
     wr_schema_version x = ''atcap-runpod-worker-request/v1'' \<and> run_id_pattern (wr_case_id x) \<and>
     run_id_pattern (wr_run_id x) \<and> wr_challenge x \<noteq> [] \<and> len_in 1 256 (wr_audience x) \<and>
     len_in 1 512 (wr_qualified_scope x) \<and> len_in 1 256 (wr_record_id x) \<and> iw_valid (wr_arguments x) \<and>
     image_pattern (wr_worker_image x) \<and> lower_hex 64 (wr_worker_code_digest x)"

definition new_worker_request :: "worker_request \<Rightarrow> exn + worker_request" where
  "new_worker_request x = bindE (require (wr_valid x) invalid) (\<lambda>_. Inr x)"

definition wr_read :: "(string, json) fmap \<Rightarrow> exn + worker_request" where
  "wr_read m =
     bindE (closed_keys wr_names m) (\<lambda>_.
     bindE (get_str m ''schema_version'') (\<lambda>schema_version.
     bindE (get_str m ''case_id'') (\<lambda>case_id.
     bindE (get_str m ''run_id'') (\<lambda>run_id.
     bindE (get_variant m ''variant'') (\<lambda>variant.
     bindE (get_obj m ''credential'') (\<lambda>credential.
     bindE (get_str m ''challenge'') (\<lambda>challenge.
     bindE (get_str m ''audience'') (\<lambda>audience.
     bindE (get_str m ''qualified_scope'') (\<lambda>qualified_scope.
     bindE (get_str m ''record_id'') (\<lambda>record_id.
     bindE (get_model iw_read m ''arguments'') (\<lambda>arguments.
     bindE (get_str m ''worker_image'') (\<lambda>worker_image.
     bindE (get_str m ''worker_code_digest'') (\<lambda>worker_code_digest.
     new_worker_request
       \<lparr>wr_schema_version = schema_version, wr_case_id = case_id, wr_run_id = run_id, wr_variant = variant,
        wr_credential = credential, wr_challenge = challenge, wr_audience = audience,
        wr_qualified_scope = qualified_scope, wr_record_id = record_id, wr_arguments = arguments,
        wr_worker_image = worker_image, wr_worker_code_digest = worker_code_digest\<rparr>)))))))))))))"

interpretation wr: closed_model wr_names wr_members wr_read wr_valid
proof
  show "wr_read m = Inr x \<longleftrightarrow> closed_keys wr_names m = Inr () \<and>
      (\<forall>(k, v) \<in> set (wr_members x). fmlookup m k = Some v) \<and> wr_valid x" for m x
    by (cases x) (auto simp: wr_read_def new_worker_request_def wr_members_def wr_valid_def res_simps get_Inr
      get_variant_Inr iw.get_model_Inr)
qed (simp_all add: wr_members_def wr_names_def)

definition request_dump :: "worker_request \<Rightarrow> json" where
  "request_dump x = obj (wr_members x)"

record worker_payload =
  wp_schema_version :: string
  wp_holder_private_key :: string
  wp_worker_image :: string
  wp_worker_code_digest :: string
  wp_requests :: "worker_request list"

definition wp_names :: "string list" where
  "wp_names = [''schema_version'', ''disposable_holder_private_key'', ''worker_image'', ''worker_code_digest'', ''requests'']"

definition wp_members :: "worker_payload \<Rightarrow> (string \<times> json) list" where
  "wp_members x =
     [(''schema_version'', JStr (wp_schema_version x)),
      (''disposable_holder_private_key'', JStr (wp_holder_private_key x)),
      (''worker_image'', JStr (wp_worker_image x)), (''worker_code_digest'', JStr (wp_worker_code_digest x)),
      (''requests'', JArr (map (\<lambda>r. obj (wr_members r)) (wp_requests x)))]"

text \<open>\<^verbatim>\<open>_consistent_requests\<close>: distinct run identifiers, one image and one digest.\<close>

definition consistent_requests :: "worker_payload \<Rightarrow> exn + unit" where
  "consistent_requests x =
     bindE (require (distinct (map wr_run_id (wp_requests x)))
              (ValueError ''worker payload has duplicate run IDs'')) (\<lambda>_.
     forE (\<lambda>r. bindE (require (wr_worker_image r = wp_worker_image x)
                        (ValueError ''worker image is inconsistent across the payload'')) (\<lambda>_.
               require (wr_worker_code_digest r = wp_worker_code_digest x)
                 (ValueError ''worker digest is inconsistent across the payload''))) (wp_requests x))"

definition wp_fields :: "worker_payload \<Rightarrow> bool" where
  "wp_fields x \<longleftrightarrow>
     wp_schema_version x = ''atcap-runpod-worker-payload/v1'' \<and> lower_hex 64 (wp_holder_private_key x) \<and>
     image_pattern (wp_worker_image x) \<and> lower_hex 64 (wp_worker_code_digest x) \<and>
     len_in 1 128 (wp_requests x) \<and> list_all wr_valid (wp_requests x)"

text \<open>A \<^verbatim>\<open>ValueError\<close> of a validator reaches the caller as a \<^verbatim>\<open>ValidationError\<close>.\<close>

definition new_worker_payload :: "worker_payload \<Rightarrow> exn + worker_payload" where
  "new_worker_payload x =
     bindE (require (wp_fields x) invalid) (\<lambda>_.
     bindE (mapE (\<lambda>_. invalid) (consistent_requests x)) (\<lambda>_. Inr x))"

definition wp_valid :: "worker_payload \<Rightarrow> bool" where
  "wp_valid x \<longleftrightarrow> wp_fields x \<and> distinct (map wr_run_id (wp_requests x)) \<and>
     (\<forall>r \<in> set (wp_requests x). wr_worker_image r = wp_worker_image x \<and> wr_worker_code_digest r = wp_worker_code_digest x)"

lemma new_worker_payload_Inr: "new_worker_payload x = Inr y \<longleftrightarrow> y = x \<and> wp_valid x"
  by (auto simp: new_worker_payload_def consistent_requests_def wp_valid_def res_simps)

definition wp_read :: "(string, json) fmap \<Rightarrow> exn + worker_payload" where
  "wp_read m =
     bindE (closed_keys wp_names m) (\<lambda>_.
     bindE (get_str m ''schema_version'') (\<lambda>schema_version.
     bindE (get_str m ''disposable_holder_private_key'') (\<lambda>disposable_holder_private_key.
     bindE (get_str m ''worker_image'') (\<lambda>worker_image.
     bindE (get_str m ''worker_code_digest'') (\<lambda>worker_code_digest.
     bindE (get_list wr_read m ''requests'') (\<lambda>requests.
     new_worker_payload
       \<lparr>wp_schema_version = schema_version, wp_holder_private_key = disposable_holder_private_key,
        wp_worker_image = worker_image, wp_worker_code_digest = worker_code_digest, wp_requests = requests\<rparr>))))))"

interpretation wp: closed_model wp_names wp_members wp_read wp_valid
proof
  show "wp_read m = Inr x \<longleftrightarrow> closed_keys wp_names m = Inr () \<and>
      (\<forall>(k, v) \<in> set (wp_members x). fmlookup m k = Some v) \<and> wp_valid x" for m x
    by (cases x) (auto simp: wp_read_def new_worker_payload_Inr wp_members_def wp_valid_def wp_fields_def res_simps get_Inr
      wr.get_list_Inr)
qed (simp_all add: wp_members_def wp_names_def)

section \<open>Responses\<close>

record worker_response_body =
  ws_schema_version :: string
  ws_case_id :: string
  ws_run_id :: string
  ws_request_sha256 :: string
  ws_worker_public_key :: string
  ws_proof_subject :: string
  ws_worker_image :: string
  ws_worker_code_digest :: string
  ws_holder_proof :: holder_proof_wire
  ws_runpod_metadata :: runpod_metadata

record worker_response = worker_response_body +
  ws_holder_signature :: string

definition ws_names :: "string list" where
  "ws_names = [''schema_version'', ''case_id'', ''run_id'', ''request_sha256'', ''worker_public_key'', ''proof_subject'',
     ''worker_image'', ''worker_code_digest'', ''holder_proof'', ''runpod_metadata'']"

definition body_members :: "'a worker_response_body_scheme \<Rightarrow> (string \<times> json) list" where
  "body_members x =
     [(''schema_version'', JStr (ws_schema_version x)), (''case_id'', JStr (ws_case_id x)),
      (''run_id'', JStr (ws_run_id x)), (''request_sha256'', JStr (ws_request_sha256 x)),
      (''worker_public_key'', JStr (ws_worker_public_key x)), (''proof_subject'', JStr (ws_proof_subject x)),
      (''worker_image'', JStr (ws_worker_image x)), (''worker_code_digest'', JStr (ws_worker_code_digest x)),
      (''holder_proof'', obj (hw_members (ws_holder_proof x))),
      (''runpod_metadata'', obj (md_members (ws_runpod_metadata x)))]"

definition body_valid :: "'a worker_response_body_scheme \<Rightarrow> bool" where
  "body_valid x \<longleftrightarrow>
     ws_schema_version x = ''atcap-runpod-worker-response/v1'' \<and> run_id_pattern (ws_case_id x) \<and>
     run_id_pattern (ws_run_id x) \<and> lower_hex 64 (ws_request_sha256 x) \<and> lower_hex 64 (ws_worker_public_key x) \<and>
     lower_hex 64 (ws_proof_subject x) \<and> image_pattern (ws_worker_image x) \<and> lower_hex 64 (ws_worker_code_digest x) \<and>
     hw_valid (ws_holder_proof x) \<and> md_valid (ws_runpod_metadata x)"

definition new_response_body :: "worker_response_body \<Rightarrow> exn + worker_response_body" where
  "new_response_body x = bindE (require (body_valid x) invalid) (\<lambda>_. Inr x)"

definition response_members :: "worker_response \<Rightarrow> (string \<times> json) list" where
  "response_members x = body_members x @ [(''holder_signature'', JStr (ws_holder_signature x))]"

definition response_valid :: "worker_response \<Rightarrow> bool" where
  "response_valid x \<longleftrightarrow> body_valid x \<and> lower_hex 128 (ws_holder_signature x)"

definition new_worker_response :: "worker_response \<Rightarrow> exn + worker_response" where
  "new_worker_response x = bindE (require (response_valid x) invalid) (\<lambda>_. Inr x)"

definition response_read :: "(string, json) fmap \<Rightarrow> exn + worker_response" where
  "response_read m =
     bindE (closed_keys (ws_names @ [''holder_signature'']) m) (\<lambda>_.
     bindE (get_str m ''schema_version'') (\<lambda>schema_version.
     bindE (get_str m ''case_id'') (\<lambda>case_id.
     bindE (get_str m ''run_id'') (\<lambda>run_id.
     bindE (get_str m ''request_sha256'') (\<lambda>request_sha256.
     bindE (get_str m ''worker_public_key'') (\<lambda>worker_public_key.
     bindE (get_str m ''proof_subject'') (\<lambda>proof_subject.
     bindE (get_str m ''worker_image'') (\<lambda>worker_image.
     bindE (get_str m ''worker_code_digest'') (\<lambda>worker_code_digest.
     bindE (get_model hw_read m ''holder_proof'') (\<lambda>holder_proof.
     bindE (get_model md_read m ''runpod_metadata'') (\<lambda>runpod_metadata.
     bindE (get_str m ''holder_signature'') (\<lambda>holder_signature.
     new_worker_response
       \<lparr>ws_schema_version = schema_version, ws_case_id = case_id, ws_run_id = run_id,
        ws_request_sha256 = request_sha256, ws_worker_public_key = worker_public_key,
        ws_proof_subject = proof_subject, ws_worker_image = worker_image,
        ws_worker_code_digest = worker_code_digest, ws_holder_proof = holder_proof,
        ws_runpod_metadata = runpod_metadata, ws_holder_signature = holder_signature\<rparr>))))))))))))"

interpretation response: closed_model "ws_names @ [''holder_signature'']" response_members response_read response_valid
proof
  show "response_read m = Inr x \<longleftrightarrow> closed_keys (ws_names @ [''holder_signature'']) m = Inr () \<and>
      (\<forall>(k, v) \<in> set (response_members x). fmlookup m k = Some v) \<and> response_valid x" for m x
    by (cases x) (auto simp: response_read_def new_worker_response_def response_members_def body_members_def response_valid_def
      body_valid_def res_simps get_Inr hw.get_model_Inr md.get_model_Inr)
qed (simp_all add: response_members_def body_members_def ws_names_def)

definition response_dump :: "worker_response \<Rightarrow> json" where
  "response_dump x = obj (response_members x)"

text \<open>\<^verbatim>\<open>signed_body\<close>: the response without its signature, validated again.\<close>

definition signed_body :: "worker_response \<Rightarrow> exn + worker_response_body" where
  "signed_body x = new_response_body (worker_response_body.truncate x)"

lemma body_members_truncate [simp]: "body_members (worker_response_body.truncate x) = body_members x"
  by (simp add: body_members_def worker_response_body.defs)

lemma body_valid_truncate [simp]: "body_valid (worker_response_body.truncate x) = body_valid x"
  by (simp add: body_valid_def worker_response_body.defs)

record worker_response_bundle =
  wb_schema_version :: string
  wb_responses :: "worker_response list"

definition bundle_members :: "worker_response_bundle \<Rightarrow> (string \<times> json) list" where
  "bundle_members x =
     [(''schema_version'', JStr (wb_schema_version x)),
      (''responses'', JArr (map (\<lambda>r. obj (response_members r)) (wb_responses x)))]"

definition bundle_valid :: "worker_response_bundle \<Rightarrow> bool" where
  "bundle_valid x \<longleftrightarrow>
     wb_schema_version x = ''atcap-runpod-worker-response-bundle/v1'' \<and> len_in 1 128 (wb_responses x) \<and>
     list_all response_valid (wb_responses x) \<and> distinct (map ws_run_id (wb_responses x))"

definition new_response_bundle :: "worker_response_bundle \<Rightarrow> exn + worker_response_bundle" where
  "new_response_bundle x = bindE (require (bundle_valid x) invalid) (\<lambda>_. Inr x)"

definition bundle_read :: "(string, json) fmap \<Rightarrow> exn + worker_response_bundle" where
  "bundle_read m =
     bindE (closed_keys [''schema_version'', ''responses''] m) (\<lambda>_.
     bindE (get_str m ''schema_version'') (\<lambda>schema_version.
     bindE (get_list response_read m ''responses'') (\<lambda>responses.
     new_response_bundle \<lparr>wb_schema_version = schema_version, wb_responses = responses\<rparr>)))"

interpretation wb: closed_model "[''schema_version'', ''responses'']" bundle_members bundle_read bundle_valid
proof
  show "bundle_read m = Inr x \<longleftrightarrow> closed_keys [''schema_version'', ''responses''] m = Inr () \<and>
      (\<forall>(k, v) \<in> set (bundle_members x). fmlookup m k = Some v) \<and> bundle_valid x" for m x
    by (cases x) (auto simp: bundle_read_def new_response_bundle_def bundle_members_def bundle_valid_def res_simps get_Inr
      response.get_list_Inr)
qed (simp_all add: bundle_members_def)

definition bundle_dump :: "worker_response_bundle \<Rightarrow> json" where
  "bundle_dump x = obj (bundle_members x)"

text \<open>\<^verbatim>\<open>RunpodJobEnvelope\<close>: three members have a default and may be absent.\<close>

record runpod_job_envelope =
  je_id :: string
  je_status :: string
  je_delay_time :: "int option"
  je_execution_time :: "int option"
  je_worker_id :: "string option"
  je_output :: worker_response_bundle

definition opt_ms :: "int option \<Rightarrow> bool" where
  "opt_ms x = (case x of None \<Rightarrow> True | Some i \<Rightarrow> 0 \<le> i \<and> i \<le> 86400000)"

definition envelope_valid :: "runpod_job_envelope \<Rightarrow> bool" where
  "envelope_valid x \<longleftrightarrow>
     len_in 1 256 (je_id x) \<and> je_status x = ''COMPLETED'' \<and> opt_ms (je_delay_time x) \<and> opt_ms (je_execution_time x) \<and>
     (case je_worker_id x of None \<Rightarrow> True | Some s \<Rightarrow> len_in 1 256 s) \<and> bundle_valid (je_output x)"

definition with_default :: "'a \<Rightarrow> ((string, json) fmap \<Rightarrow> string \<Rightarrow> exn + 'a) \<Rightarrow> (string, json) fmap \<Rightarrow> string \<Rightarrow> exn + 'a" where
  "with_default d getter m k = (if fmlookup m k = None then Inr d else getter m k)"

definition envelope_read :: "(string, json) fmap \<Rightarrow> exn + runpod_job_envelope" where
  "envelope_read m =
     bindE (closed_keys [''id'', ''status'', ''delayTime'', ''executionTime'', ''workerId'', ''output''] m) (\<lambda>_.
     bindE (get_str m ''id'') (\<lambda>id'.
     bindE (get_str m ''status'') (\<lambda>status.
     bindE (with_default None get_opt_int m ''delayTime'') (\<lambda>delay_time.
     bindE (with_default None get_opt_int m ''executionTime'') (\<lambda>execution_time.
     bindE (with_default None get_opt_str m ''workerId'') (\<lambda>worker_id.
     bindE (get_model bundle_read m ''output'') (\<lambda>output.
     let x = \<lparr>je_id = id', je_status = status, je_delay_time = delay_time, je_execution_time = execution_time,
              je_worker_id = worker_id, je_output = output\<rparr>
     in bindE (require (envelope_valid x) invalid) (\<lambda>_. Inr x))))))))"

section \<open>\<^verbatim>\<open>strict_json_object\<close>\<close>

definition strict_json_object :: "json_scan \<Rightarrow> bytes \<Rightarrow> exn + (string, json) fmap" where
  "strict_json_object scan raw =
     bindE (scan raw) (\<lambda>text.
     bindE (unique_json text) (\<lambda>decoded.
     case decoded of JObj m \<Rightarrow> Inr m | _ \<Rightarrow> Inl (ValueError ''wire document must be a JSON object'')))"

text \<open>Plainly: no object of the text repeats a member name.\<close>

fun no_duplicates :: "raw_json \<Rightarrow> bool" where
  "no_duplicates (RArr xs) = list_all no_duplicates xs"
| "no_duplicates (RObj ps) = (distinct (map fst ps) \<and> list_all (\<lambda>p. no_duplicates (snd p)) ps)"
| "no_duplicates _ = True"

lemma mapM_E_iff:
  "(\<And>x y. x \<in> set xs \<Longrightarrow> f x = Inr y \<longleftrightarrow> P x \<and> y = g x) \<Longrightarrow> mapM_E f xs = Inr ys \<longleftrightarrow> list_all P xs \<and> ys = map g xs"
  by (induction xs arbitrary: ys) (auto simp: bindE_Inr_iff)

lemma fmap_of_list_rev: "distinct (map fst kvs) \<Longrightarrow> fmap_of_list (rev kvs) = fmap_of_list kvs"
  by (rule fmap_ext) (simp add: map_of_inject_set [of "rev kvs" kvs, THEN iffD2] rev_map [symmetric])

lemma unique_json_Inr: "unique_json r = Inr j \<longleftrightarrow> no_duplicates r \<and> j = plain_json r"
proof (induction r arbitrary: j rule: unique_json.induct)
  case (6 xs)
  have "mapM_E unique_json xs = Inr ys \<longleftrightarrow> list_all no_duplicates xs \<and> ys = map plain_json xs" for ys
    by (rule mapM_E_iff) (rule 6)
  then show ?case by (auto simp: bindE_Inr_iff)
next
  case (7 ps)
  have "bindE (unique_json (snd p)) (\<lambda>v. Inr (fst p, v)) = Inr y \<longleftrightarrow> no_duplicates (snd p) \<and> y = (fst p, plain_json (snd p))"
    if "p \<in> set ps" for p y
    using 7 [OF that] by (auto simp: bindE_Inr_iff)
  then have items: "mapM_E (\<lambda>p. bindE (unique_json (snd p)) (\<lambda>v. Inr (fst p, v))) ps = Inr kvs
      \<longleftrightarrow> list_all (\<lambda>p. no_duplicates (snd p)) ps \<and> kvs = map (\<lambda>p. (fst p, plain_json (snd p))) ps" for kvs
    by (rule mapM_E_iff)
  have "map fst (map (\<lambda>p. (fst p, plain_json (snd p))) ps) = map fst ps" by simp
  then show ?case
    unfolding unique_json.simps plain_json.simps no_duplicates.simps bindE_Inr_iff items
    by (auto simp: fmap_of_list_rev o_def)
qed auto

lemma strict_json_object_Inr:
  "strict_json_object scan raw = Inr m \<longleftrightarrow> (\<exists>r. scan raw = Inr r \<and> no_duplicates r \<and> plain_json r = JObj m)"
  by (auto simp: strict_json_object_def bindE_Inr_iff unique_json_Inr as_object_Inr)

text \<open>A payload document is accepted exactly when it is the dump of a payload whose members satisfy
  their patterns, with one to 128 valid requests, pairwise different run identifiers, and the payload's
  own image and code digest in every request.\<close>

lemma worker_payload_accepted_iff:
  "wp_read m = Inr p \<longleftrightarrow> JObj m = obj (wp_members p) \<and>
   wp_schema_version p = ''atcap-runpod-worker-payload/v1'' \<and> lower_hex 64 (wp_holder_private_key p) \<and>
   image_pattern (wp_worker_image p) \<and> lower_hex 64 (wp_worker_code_digest p) \<and>
   1 \<le> length (wp_requests p) \<and> length (wp_requests p) \<le> 128 \<and> distinct (map wr_run_id (wp_requests p)) \<and>
   list_all (\<lambda>r. wr_valid r \<and> wr_worker_image r = wp_worker_image p \<and> wr_worker_code_digest r = wp_worker_code_digest p)
     (wp_requests p)"
  unfolding wp.accepts_iff by (auto simp: wp_valid_def wp_fields_def len_in_def list_all_iff)

end
