(* ===== verification/Worker.thy ===== *)
theory Worker
  imports Worker_Wire Runtime External
begin

text \<open>
  \<^verbatim>\<open>lab/worker.py\<close> and \<^verbatim>\<open>handler.py\<close> of \<^verbatim>\<open>examples/runpod-untrusted-caller\<close>: the disposable holder
  worker, which holds one private key, answers each request with a holder proof prescribed by the request's
  variant and signs the answer; the serverless entry point.
\<close>

section \<open>Packages\<close>

text \<open>The entry points of \<^verbatim>\<open>cryptography\<close> and \<^verbatim>\<open>ca2a_runtime\<close> that only the worker calls:
  \<^verbatim>\<open>Ed25519PrivateKey.from_private_bytes\<close>, \<^verbatim>\<open>Ed25519PrivateKey.generate\<close> on 32 bytes of the
  random source, \<^verbatim>\<open>dataclasses.replace(credential, subject=...)\<close>, \<^verbatim>\<open>build_holder_proof\<close>
  and \<^verbatim>\<open>HolderProof.to_dict\<close>.\<close>

record holder_lib =
  load_private_key :: "bytes \<Rightarrow> exn + bytes"
  generate_private_key :: "bytes \<Rightarrow> bytes"
  replace_subject :: "delegation_credential \<Rightarrow> string \<Rightarrow> exn + delegation_credential"
  build_holder_proof :: "bytes \<Rightarrow> delegation_credential \<Rightarrow> string \<Rightarrow> string \<Rightarrow> string \<Rightarrow> string \<Rightarrow> bytes \<Rightarrow> exn + holder_proof"
  proof_to_dict :: "holder_proof \<Rightarrow> (string, json) fmap"

section \<open>Parsing\<close>

text \<open>Decode strictly, require the canonical text, validate: the body of \<^verbatim>\<open>_parse_canonical\<close>, which the
  controller's parsers repeat.\<close>

definition strict_canonical :: "libs \<Rightarrow> ((string, json) fmap \<Rightarrow> exn + 'm) \<Rightarrow> bytes \<Rightarrow> exn + 'm" where
  "strict_canonical lib rd raw =
     bindE (strict_json_object (lib_scan lib) raw) (\<lambda>decoded.
     bindE (canonical_json (lib_dumps lib) (JObj decoded)) (\<lambda>canonical.
     bindE (require (canonical = raw) (ValueError ''document is not RFC 8785 canonical JSON'')) (\<lambda>_.
     rd decoded)))"

definition parse_canonical :: "libs \<Rightarrow> ((string, json) fmap \<Rightarrow> exn + 'm) \<Rightarrow> bytes \<Rightarrow> exn + 'm" where
  "parse_canonical lib rd raw =
     catching (\<lambda>_. True) (LabProtocolError ''worker input failed strict canonical validation'')
       (strict_canonical lib rd raw)"

section \<open>The worker\<close>

record disposable_holder_worker =
  hk_private_key :: bytes
  hk_public_key :: string
  hk_worker_image :: string
  hk_worker_code_digest :: string
  hk_runpod_metadata :: runpod_metadata

definition untrusted_metadata :: runpod_metadata where
  "untrusted_metadata = \<lparr>md_provider = ''runpod'', md_trust = ''untrusted''\<rparr>"

definition new_worker :: "libs \<Rightarrow> bytes \<Rightarrow> string \<Rightarrow> string \<Rightarrow> runpod_metadata option \<Rightarrow> disposable_holder_worker" where
  "new_worker lib key worker_image digest metadata =
     \<lparr>hk_private_key = key, hk_public_key = bytes_hex (ed_public (lib_ed lib) key), hk_worker_image = worker_image,
      hk_worker_code_digest = digest,
      hk_runpod_metadata = (case metadata of None \<Rightarrow> untrusted_metadata | Some m \<Rightarrow> m)\<rparr>"

definition from_payload :: "libs \<Rightarrow> holder_lib \<Rightarrow> worker_payload \<Rightarrow> runpod_metadata option \<Rightarrow> exn + disposable_holder_worker" where
  "from_payload lib hl payload metadata =
     bindE (catching is_value_error (LabProtocolError ''disposable holder key is malformed'')
              (bindE (bytes_fromhex (wp_holder_private_key payload)) (load_private_key hl))) (\<lambda>key.
     Inr (new_worker lib key (wp_worker_image payload) (wp_worker_code_digest payload) metadata))"

text \<open>What the variant prescribes: the key that proves, the credential, the record and the arguments the
  proof is made for.\<close>

definition arguments_json :: "string \<Rightarrow> json" where
  "arguments_json sku = obj [(''sku'', JStr sku)]"

definition prescribed_proof ::
  "libs \<Rightarrow> holder_lib \<Rightarrow> disposable_holder_worker \<Rightarrow> worker_request \<Rightarrow> delegation_credential
   \<Rightarrow> ('a env_scheme, bytes \<times> delegation_credential \<times> string \<times> json) prog" where
  "prescribed_proof lib hl w r c =
     (let key = hk_private_key w; rid = wr_record_id r; sku = iw_sku (wr_arguments r) in
      case wr_variant r of
        ArgumentSubstitution \<Rightarrow> returnM (key, c, rid, arguments_json (sku @ ''-substituted''))
      | RecordSubstitution \<Rightarrow> returnM (key, c, rid @ ''-substituted'', arguments_json sku)
      | WrongHolder \<Rightarrow>
          bindM (token_bytes 32) (\<lambda>seed.
          let stray = generate_private_key hl seed in
          bindM (liftE (replace_subject hl c (bytes_hex (ed_public (lib_ed lib) stray)))) (\<lambda>c'.
          returnM (stray, c', rid, arguments_json sku)))
      | _ \<Rightarrow> returnM (key, c, rid, arguments_json sku))"

definition holder_proof_of ::
  "libs \<Rightarrow> holder_lib \<Rightarrow> worker_request \<Rightarrow> bytes \<times> delegation_credential \<times> string \<times> json \<Rightarrow> exn + holder_proof_wire" where
  "holder_proof_of lib hl r plan =
     (let (key, c, rid, arguments) = plan in
      bindE (canonical_json (lib_dumps lib) arguments) (\<lambda>sealed.
      bindE (build_holder_proof hl key c (wr_audience r) (wr_challenge r) (wr_qualified_scope r) rid sealed) (\<lambda>pf.
      bindE (hw_read (proof_to_dict hl pf)) (\<lambda>wire.
      if wr_variant r = Malformed
      then let x = \<lparr>hw_challenge = hp_challenge pf, hw_signature = Seven\<rparr>
           in bindE (require (hw_valid x) invalid) (\<lambda>_. Inr x)
      else Inr wire))))"

definition response_body_of ::
  "libs \<Rightarrow> disposable_holder_worker \<Rightarrow> worker_request \<Rightarrow> string \<Rightarrow> holder_proof_wire \<Rightarrow> exn + worker_response_body" where
  "response_body_of lib w r subject proof_wire =
     bindE (canonical_digest (lib_dumps lib) (request_dump r)) (\<lambda>digest.
     new_response_body
       \<lparr>ws_schema_version = ''atcap-runpod-worker-response/v1'', ws_case_id = wr_case_id r, ws_run_id = wr_run_id r,
        ws_request_sha256 = digest, ws_worker_public_key = hk_public_key w, ws_proof_subject = subject,
        ws_worker_image = hk_worker_image w, ws_worker_code_digest = hk_worker_code_digest w,
        ws_holder_proof = proof_wire, ws_runpod_metadata = hk_runpod_metadata w\<rparr>)"

definition sign_response :: "libs \<Rightarrow> disposable_holder_worker \<Rightarrow> worker_response_body \<Rightarrow> exn + worker_response" where
  "sign_response lib w body =
     bindE (canonical_json (lib_dumps lib) (obj (body_members body))) (\<lambda>signed.
     new_worker_response
       (worker_response_body.extend body
          (worker_response.fields (bytes_hex (ed_sign (lib_ed lib) (hk_private_key w) signed)))))"

definition worker_generate ::
  "libs \<Rightarrow> holder_lib \<Rightarrow> disposable_holder_worker \<Rightarrow> worker_request \<Rightarrow> ('a env_scheme, worker_response) prog" where
  "worker_generate lib hl w r =
     tryM
       (bindM (liftE (credential_from_dict (lib_ca2a lib) (wr_credential r))) (\<lambda>credential.
        bindM (prescribed_proof lib hl w r credential) (\<lambda>plan.
        bindM (liftE (holder_proof_of lib hl r plan)) (\<lambda>proof_wire.
        bindM (liftE (response_body_of lib w r (dc_subject (fst (snd plan))) proof_wire)) (\<lambda>body.
        liftE (sign_response lib w body))))))
       (\<lambda>e. case e of
          LabProtocolError _ \<Rightarrow> raiseM e
        | _ \<Rightarrow> raiseM (LabProtocolError ''worker could not generate the requested proof''))"

definition handle_bytes ::
  "libs \<Rightarrow> holder_lib \<Rightarrow> disposable_holder_worker \<Rightarrow> bytes \<Rightarrow> ('a env_scheme, bytes) prog" where
  "handle_bytes lib hl w raw =
     bindM (liftE (parse_canonical lib wr_read raw)) (\<lambda>request.
     bindM (worker_generate lib hl w request) (\<lambda>response.
     liftE (canonical_json (lib_dumps lib) (response_dump response))))"

definition process_payload ::
  "libs \<Rightarrow> holder_lib \<Rightarrow> bytes \<Rightarrow> runpod_metadata option \<Rightarrow> ('a env_scheme, bytes) prog" where
  "process_payload lib hl raw metadata =
     bindM (liftE (parse_canonical lib wp_read raw)) (\<lambda>payload.
     bindM (liftE (from_payload lib hl payload metadata)) (\<lambda>worker.
     bindM (mapM_M (worker_generate lib hl worker) (wp_requests payload)) (\<lambda>responses.
     bindM (liftE (new_response_bundle
              \<lparr>wb_schema_version = ''atcap-runpod-worker-response-bundle/v1'', wb_responses = responses\<rparr>)) (\<lambda>collected.
     liftE (canonical_json (lib_dumps lib) (bundle_dump collected))))))"

text \<open>\<^verbatim>\<open>handler.py\<close>: the serverless entry point; an error never reflects the payload.\<close>

definition serverless_handler ::
  "libs \<Rightarrow> holder_lib \<Rightarrow> (string, json) fmap \<Rightarrow> ('a env_scheme, (string, json) fmap) prog" where
  "serverless_handler lib hl event =
     (case fmlookup event ''input'' of
        Some (JObj payload) \<Rightarrow>
          bindM (tryM
            (bindM (liftE (lib_dumps lib (JObj payload))) (\<lambda>raw.
             bindM (process_payload lib hl raw (Some untrusted_metadata)) (\<lambda>response.
             bindM (liftE (lib_scan lib response)) (\<lambda>r. returnM (plain_json r)))))
            (\<lambda>_. raiseM (ValueError ''worker rejected the proof-generation request''))) (\<lambda>decoded.
          case decoded of JObj m \<Rightarrow> returnM m | _ \<Rightarrow> raiseM (OtherError ''worker produced a non-object response''))
      | _ \<Rightarrow> raiseM (ValueError ''worker input must be a JSON object''))"

section \<open>What a response says\<close>

text \<open>The response answers this request: it carries its identifiers and its digest, the worker's key, image
  and code digest, and the worker's signature over the canonical text of everything else.\<close>

definition answers :: "libs \<Rightarrow> disposable_holder_worker \<Rightarrow> worker_request \<Rightarrow> worker_response \<Rightarrow> bool" where
  "answers lib w r x \<longleftrightarrow>
     response_valid x \<and> ws_case_id x = wr_case_id r \<and> ws_run_id x = wr_run_id r \<and>
     canonical_digest (lib_dumps lib) (request_dump r) = Inr (ws_request_sha256 x) \<and>
     ws_worker_public_key x = hk_public_key w \<and> ws_worker_image x = hk_worker_image w \<and>
     ws_worker_code_digest x = hk_worker_code_digest w \<and>
     (\<exists>b. lib_dumps lib (obj (body_members x)) = Inr b \<and>
        ws_holder_signature x = bytes_hex (ed_sign (lib_ed lib) (hk_private_key w) b))"

lemma sign_response_Inr:
  "sign_response lib w body = Inr x \<longleftrightarrow>
   response_valid x \<and> worker_response_body.truncate x = body \<and>
   (\<exists>b. lib_dumps lib (obj (body_members body)) = Inr b \<and>
      ws_holder_signature x = bytes_hex (ed_sign (lib_ed lib) (hk_private_key w) b))"
  by (cases x; cases body)
     (auto simp: sign_response_def new_worker_response_def canonical_json_def bindE_Inr_iff
        worker_response_body.defs worker_response.defs)

lemma response_body_of_Inr:
  "response_body_of lib w r subject pf = Inr body \<longleftrightarrow>
   body_valid body \<and> canonical_digest (lib_dumps lib) (request_dump r) = Inr (ws_request_sha256 body) \<and>
   ws_schema_version body = ''atcap-runpod-worker-response/v1'' \<and>
   ws_case_id body = wr_case_id r \<and> ws_run_id body = wr_run_id r \<and> ws_worker_public_key body = hk_public_key w \<and>
   ws_proof_subject body = subject \<and> ws_worker_image body = hk_worker_image w \<and>
   ws_worker_code_digest body = hk_worker_code_digest w \<and> ws_holder_proof body = pf \<and>
   ws_runpod_metadata body = hk_runpod_metadata w"
  by (cases body) (auto simp: response_body_of_def new_response_body_def bindE_Inr_iff)

lemma signed_answers:
  assumes "response_body_of lib w r subject pf = Inr body" "sign_response lib w body = Inr x"
  shows "answers lib w r x \<and> ws_proof_subject x = subject \<and> ws_holder_proof x = pf"
proof -
  from assms(2) have t: "worker_response_body.truncate x = body" and v: "response_valid x"
    by (simp_all add: sign_response_Inr)
  have f: "ws_case_id body = ws_case_id x" "ws_run_id body = ws_run_id x" "ws_request_sha256 body = ws_request_sha256 x"
    "ws_worker_public_key body = ws_worker_public_key x" "ws_worker_image body = ws_worker_image x"
    "ws_worker_code_digest body = ws_worker_code_digest x" "ws_proof_subject body = ws_proof_subject x"
    "ws_holder_proof body = ws_holder_proof x" "body_members body = body_members x"
    unfolding t [symmetric] by (simp_all only: body_members_truncate, simp_all add: worker_response_body.defs)
  show ?thesis
    using assms v by (auto simp: answers_def response_body_of_Inr sign_response_Inr f)
qed

definition is_lab_protocol_error :: "exn \<Rightarrow> bool" where
  "is_lab_protocol_error e = (case e of LabProtocolError _ \<Rightarrow> True | _ \<Rightarrow> False)"

lemma worker_generate_post:
  "post (worker_generate lib hl w r) s (\<lambda>x _. answers lib w r x) (\<lambda>e _. is_lab_protocol_error e)"
proof -
  have handler: "post (case e of LabProtocolError _ \<Rightarrow> raiseM e
        | _ \<Rightarrow> raiseM (LabProtocolError ''worker could not generate the requested proof'')) s'
      Q (\<lambda>e _. is_lab_protocol_error e)" for e s' and Q :: "worker_response \<Rightarrow> 'a env_scheme \<Rightarrow> bool"
    by (cases e) (simp_all add: wp_simps is_lab_protocol_error_def)
  have plan: "post (prescribed_proof lib hl w r c) s' (\<lambda>_ _. True) (\<lambda>_ _. True)" for c and s' :: "'a env_scheme"
    by (rule postI) simp_all
  show ?thesis
    unfolding worker_generate_def
    by (simp add: wp_simps handler) (auto simp: wp_simps intro!: post_mono [OF plan] dest: signed_answers)
qed

lemma strict_canonical_Inr:
  "strict_canonical lib rd raw = Inr x \<longleftrightarrow>
   (\<exists>m. strict_json_object (lib_scan lib) raw = Inr m \<and> lib_dumps lib (JObj m) = Inr raw \<and> rd m = Inr x)"
  by (auto simp: strict_canonical_def canonical_json_def bindE_Inr_iff)

lemma parse_canonical_Inr: "parse_canonical lib rd raw = Inr x \<longleftrightarrow> strict_canonical lib rd raw = Inr x"
  by (simp add: parse_canonical_def)

section \<open>Properties\<close>

lemma worker_generate_all_post:
  "post (mapM_M (worker_generate lib hl w) rs) s (\<lambda>xs _. list_all2 (answers lib w) rs xs) (\<lambda>_ _. True)"
proof -
  have one: "post (worker_generate lib hl w r) s' (\<lambda>x s''. answers lib w r x \<and> True) (\<lambda>_ _. True)"
    for r and s' :: "'a env_scheme"
    by (rule post_mono [OF worker_generate_post]) simp_all
  show ?thesis
    by (rule post_mono [OF post_mapM_M [where I = "\<lambda>_. True" and J = "\<lambda>_. True", OF one]]) simp_all
qed

text \<open>C27: a payload that is processed comes back complete and in order: the input is the canonical text of a
  valid payload, the output is the canonical text of a bundle with exactly one response per request, each
  of which answers its request under the payload's key, image and code digest, and no run identifier occurs
  twice.\<close>

theorem process_payload_answers:
  assumes run: "process_payload lib hl raw metadata s = (Inr out, s')"
  shows "\<exists>payload key responses.
    strict_canonical lib wp_read raw = Inr payload \<and>
    bindE (bytes_fromhex (wp_holder_private_key payload)) (load_private_key hl) = Inr key \<and>
    list_all2 (answers lib (new_worker lib key (wp_worker_image payload) (wp_worker_code_digest payload) metadata))
      (wp_requests payload) responses \<and>
    distinct (map ws_run_id responses) \<and>
    lib_dumps lib (bundle_dump \<lparr>wb_schema_version = ''atcap-runpod-worker-response-bundle/v1'', wb_responses = responses\<rparr>) = Inr out"
proof -
  let ?all = "\<lambda>xs. \<lparr>wb_schema_version = ''atcap-runpod-worker-response-bundle/v1'', wb_responses = xs\<rparr>"
  let ?worker = "\<lambda>p k. new_worker lib k (wp_worker_image p) (wp_worker_code_digest p) metadata"
  have "post (process_payload lib hl raw metadata) s
      (\<lambda>out _. \<exists>payload key responses. strict_canonical lib wp_read raw = Inr payload \<and>
         bindE (bytes_fromhex (wp_holder_private_key payload)) (load_private_key hl) = Inr key \<and>
         list_all2 (answers lib (?worker payload key)) (wp_requests payload) responses \<and>
         distinct (map ws_run_id responses) \<and> lib_dumps lib (bundle_dump (?all responses)) = Inr out)
      (\<lambda>_ _. True)"
    by (auto simp: process_payload_def wp_simps parse_canonical_Inr from_payload_def new_response_bundle_def bundle_valid_def
        bindE_Inr_iff canonical_json_def intro!: post_mono [OF worker_generate_all_post])
  then show ?thesis using run by (rule post_returnD)
qed

text \<open>An exception out of the serverless entry point is one of three fixed texts, so nothing of the
  payload, in particular not its private key, reaches the provider's log through an error, whatever the
  worker and the packages raise.\<close>

theorem handler_errors_fixed:
  assumes "serverless_handler lib hl event s = (Inl e, s')"
  shows "e \<in> {ValueError ''worker input must be a JSON object'',
    ValueError ''worker rejected the proof-generation request'', OtherError ''worker produced a non-object response''}"
proof -
  let ?E = "\<lambda>e (_ :: 'a env_scheme). e \<in> {ValueError ''worker input must be a JSON object'',
    ValueError ''worker rejected the proof-generation request'', OtherError ''worker produced a non-object response''}"
  have decoded: "post (case v of JObj m \<Rightarrow> returnM m | _ \<Rightarrow> raiseM (OtherError ''worker produced a non-object response'')) s1
      (\<lambda>_ _. True) ?E" for v and s1 :: "'a env_scheme"
    by (cases v) (simp_all add: wp_simps)
  have payload: "post (process_payload lib hl raw md) s1 (\<lambda>_ _. True) (\<lambda>_ _. True)" for raw md and s1 :: "'a env_scheme"
    by (rule postI) simp_all
  have input: "post (serverless_handler lib hl event) s (\<lambda>_ _. True) ?E" if "fmlookup event ''input'' = Some (JObj p)" for p
    unfolding serverless_handler_def
    by (simp add: that wp_simps decoded) (auto intro!: post_mono [OF payload] decoded [simplified] simp: wp_simps)
  have "post (serverless_handler lib hl event) s (\<lambda>_ _. True) ?E"
  proof (cases "\<exists>p. fmlookup event ''input'' = Some (JObj p)")
    case True
    then show ?thesis using input by blast
  next
    case False
    then show ?thesis
      by (simp add: serverless_handler_def wp_simps split: option.splits json.splits)
  qed
  then show ?thesis using assms by (rule post_raiseD)
qed

text \<open>The second error path: an event without an input.\<close>

theorem handler_errors_fixed_witness:
  "\<forall>lib hl. \<forall>s :: env. \<exists>e s'. serverless_handler lib hl fmempty s = (Inl e, s') \<and>
    e \<in> {ValueError ''worker input must be a JSON object'',
      ValueError ''worker rejected the proof-generation request'', OtherError ''worker produced a non-object response''}"
proof (intro allI)
  fix lib hl and s :: env
  have run: "serverless_handler lib hl fmempty s = (Inl (ValueError ''worker input must be a JSON object''), s)"
    by (simp add: serverless_handler_def run_simps)
  then show "\<exists>e s'. serverless_handler lib hl fmempty s = (Inl e, s') \<and>
    e \<in> {ValueError ''worker input must be a JSON object'',
      ValueError ''worker rejected the proof-generation request'', OtherError ''worker produced a non-object response''}"
    using handler_errors_fixed [OF run] by blast
qed

section \<open>What the worker leaves alone\<close>

text \<open>Apart from random bytes the worker touches no state.\<close>

lemma worker_generate_frame:
  assumes f: "\<And>s n. f (s\<lparr>drawn := n\<rparr>) = f s"
  shows "post (worker_generate lib hl w r) s (\<lambda>_ s'. f s' = f s) (\<lambda>_ s'. f s' = f s)"
proof -
  have plan: "post (prescribed_proof lib hl w r c) s' (\<lambda>_ s''. f s'' = f s') (\<lambda>_ s''. f s'' = f s')" for c s'
    by (cases "wr_variant r") (simp_all add: prescribed_proof_def Let_def wp_simps f)
  have handler: "post (case e of LabProtocolError _ \<Rightarrow> raiseM e
        | _ \<Rightarrow> raiseM (LabProtocolError ''worker could not generate the requested proof'')) s'
      Q (\<lambda>_ s''. f s'' = f s)" if "f s' = f s" for e s' and Q :: "worker_response \<Rightarrow> 'a env_scheme \<Rightarrow> bool"
    using that by (cases e) (simp_all add: wp_simps)
  show ?thesis
    unfolding worker_generate_def
    by (auto simp: wp_simps intro!: post_mono [OF plan] handler)
qed

lemma handle_bytes_frame:
  assumes f: "\<And>s n. f (s\<lparr>drawn := n\<rparr>) = f s"
  shows "post (handle_bytes lib hl w raw) s (\<lambda>_ s'. f s' = f s) (\<lambda>_ s'. f s' = f s)"
  unfolding handle_bytes_def by (auto simp: wp_simps intro!: post_mono [OF worker_generate_frame [where f = f, OF f]])

section \<open>A payload with one request\<close>

definition demo_worker_image :: string where
  "demo_worker_image = ''a/b@sha256:'' @ replicate 64 CHR ''0''"

definition demo_worker_request :: worker_request where
  "demo_worker_request =
     \<lparr>wr_schema_version = ''atcap-runpod-worker-request/v1'', wr_case_id = ''case'', wr_run_id = ''run'', wr_variant = Valid,
      wr_credential = fmap_of_list [], wr_challenge = ''t'', wr_audience = ''a'', wr_qualified_scope = ''s'', wr_record_id = ''r'',
      wr_arguments = \<lparr>iw_sku = ''w''\<rparr>, wr_worker_image = demo_worker_image, wr_worker_code_digest = replicate 64 CHR ''1''\<rparr>"

definition demo_worker_payload :: worker_payload where
  "demo_worker_payload =
     \<lparr>wp_schema_version = ''atcap-runpod-worker-payload/v1'', wp_holder_private_key = bytes_hex (replicate 32 2),
      wp_worker_image = demo_worker_image, wp_worker_code_digest = replicate 64 CHR ''1'', wp_requests = [demo_worker_request]\<rparr>"

definition demo_request_raw :: raw_json where
  "demo_request_raw = RObj
     [(''schema_version'', RStr ''atcap-runpod-worker-request/v1''), (''case_id'', RStr ''case''), (''run_id'', RStr ''run''),
      (''variant'', RStr ''valid''), (''credential'', RObj []), (''challenge'', RStr ''t''), (''audience'', RStr ''a''),
      (''qualified_scope'', RStr ''s''), (''record_id'', RStr ''r''), (''arguments'', RObj [(''sku'', RStr ''w'')]),
      (''worker_image'', RStr demo_worker_image), (''worker_code_digest'', RStr (replicate 64 CHR ''1''))]"

definition demo_payload_raw :: raw_json where
  "demo_payload_raw = RObj
     [(''schema_version'', RStr ''atcap-runpod-worker-payload/v1''),
      (''disposable_holder_private_key'', RStr (bytes_hex (replicate 32 2))), (''worker_image'', RStr demo_worker_image),
      (''worker_code_digest'', RStr (replicate 64 CHR ''1'')), (''requests'', RArr [demo_request_raw])]"

definition demo_holder_credential :: delegation_credential where
  "demo_holder_credential = \<lparr>dc_credential_id = ''c'', dc_issuer = ''i'', dc_subject = bytes_hex (replicate 32 3), dc_scope = {|''s''|},
     dc_depth = 0, dc_parent_id = None, dc_not_before = None, dc_not_after = None, dc_signature = []\<rparr>"

definition demo_worker_libs :: libs where
  "demo_worker_libs =
     \<lparr>lib_ed = \<lparr>ed_public = (\<lambda>k. replicate 32 7), ed_sign = (\<lambda>k m. replicate 64 5), ed_load = (\<lambda>b. Inr ()),
        ed_verify = (\<lambda>k sg m. Inr ())\<rparr>,
      lib_jws = \<lparr>serialize_compact = (\<lambda>h p k algs. Inr ''j''), deserialize_compact = (\<lambda>c k algs. Inl (ValueError ''j'')),
        okp_as_dict = (\<lambda>k private. JNull), okp_import = (\<lambda>v. Inr [])\<rparr>,
      lib_ca2a = \<lparr>verify_challenge = (\<lambda>secret token now. Inr ()), new_credential = (\<lambda>i iss sub sc d p nb na. Inr demo_holder_credential),
        sign_credential = (\<lambda>c k. Inr c), credential_body = (\<lambda>c. fmempty), credential_from_dict = (\<lambda>m. Inr demo_holder_credential),
        verify_chain = (\<lambda>cs d roots now. Inr ()), proof_from_dict = (\<lambda>m. Inl (ValueError ''p'')),
        verify_holder_proof = (\<lambda>pf c aud secret cap rec payload. Inr ())\<rparr>,
      lib_manifest = \<lparr>model_validate_dump = (\<lambda>v. Inl invalid), canonical_hash = (\<lambda>m. Inr ''h''),
        verify_manifest = (\<lambda>m ctx. Inl invalid)\<rparr>,
      lib_dumps = (\<lambda>v. Inr [1]), lib_scan = (\<lambda>b. Inr demo_payload_raw), lib_json_text = (\<lambda>v. ''{}''), lib_json_schema = (\<lambda>n. JNull)\<rparr>"

definition demo_holder_lib :: holder_lib where
  "demo_holder_lib =
     \<lparr>load_private_key = (\<lambda>b. Inr b), generate_private_key = (\<lambda>seed. seed), replace_subject = (\<lambda>c s. Inr (c\<lparr>dc_subject := s\<rparr>)),
      build_holder_proof = (\<lambda>k c aud ch cap rid payload. Inr \<lparr>hp_challenge = ch, hp_rest = JStr (bytes_hex (replicate 64 9))\<rparr>),
      proof_to_dict = (\<lambda>pf. fmap_of_list [(''challenge'', JStr (hp_challenge pf)), (''signature'', hp_rest pf)])\<rparr>"

lemma demo_worker_valid: "wp_valid demo_worker_payload"
  by code_simp

lemma demo_payload_json: "unique_json demo_payload_raw = Inr (obj (wp_members demo_worker_payload))"
proof -
  have "distinct (map fst kvs) \<Longrightarrow> plain_json (RObj kvs) = obj (map (\<lambda>p. (fst p, plain_json (snd p))) kvs)" for kvs
    by (simp add: obj_def fmap_of_list_rev o_def)
  then show ?thesis
    unfolding unique_json_Inr
    by (simp add: demo_payload_raw_def demo_request_raw_def wp_members_def demo_worker_payload_def wr_members_def
        demo_worker_request_def iw_members_def obj_def del: plain_json.simps(7) bytes_hex.simps)
qed

lemma demo_payload_parses: "strict_canonical demo_worker_libs wp_read [1] = Inr demo_worker_payload"
  using wp.reads_back [OF demo_worker_valid]
  by (simp add: strict_canonical_def strict_json_object_def demo_worker_libs_def demo_payload_json canonical_json_def obj_def)

lemma demo_worker_generates:
  fixes s :: "'a env_scheme"
  defines "w \<equiv> new_worker demo_worker_libs (replicate 32 2) demo_worker_image (replicate 64 CHR ''1'') None"
  shows "\<exists>x. worker_generate demo_worker_libs demo_holder_lib w demo_worker_request s = (Inr x, s) \<and> ws_run_id x = ''run'' \<and> response_valid x"
proof -
  let ?sig = "bytes_hex (replicate 64 9)" and ?r = demo_worker_request and ?lib = demo_worker_libs
  let ?wire = "\<lparr>hw_challenge = ''t'', hw_signature = HexSignature ?sig\<rparr>"
  let ?body = "\<lparr>ws_schema_version = ''atcap-runpod-worker-response/v1'', ws_case_id = ''case'', ws_run_id = ''run'',
     ws_request_sha256 = sha256_hex [1], ws_worker_public_key = bytes_hex (replicate 32 7),
     ws_proof_subject = bytes_hex (replicate 32 3), ws_worker_image = demo_worker_image,
     ws_worker_code_digest = replicate 64 CHR ''1'', ws_holder_proof = ?wire, ws_runpod_metadata = untrusted_metadata\<rparr>"
  let ?x = "worker_response_body.extend ?body (worker_response.fields (bytes_hex (replicate 64 5)))"
  have img: "image_pattern demo_worker_image" by code_simp
  have ids: "run_id_pattern ''case''" "run_id_pattern ''run''" "lower_hex 64 (replicate 64 CHR ''1'')" by code_simp+
  note no_eval = bytes_hex.simps
  have hv: "hw_valid ?wire" by (simp add: hw_valid_def len_in_def del: no_eval)
  have bv: "body_valid ?body"
    using img ids hv by (simp add: body_valid_def untrusted_metadata_def md_valid_def del: no_eval)
  have xv: "response_valid ?x"
    using img ids hv
    by (simp add: response_valid_def body_valid_def untrusted_metadata_def md_valid_def worker_response_body.defs worker_response.defs
        del: no_eval)
  have hp: "holder_proof_of ?lib demo_holder_lib ?r (replicate 32 2, demo_holder_credential, ''r'', arguments_json ''w'') = Inr ?wire"
    using hw.reads_back [OF hv]
    by (simp add: holder_proof_of_def demo_worker_libs_def demo_holder_lib_def demo_worker_request_def canonical_json_def hw_members_def
        del: no_eval)
  have body: "response_body_of ?lib w ?r (bytes_hex (replicate 32 3)) ?wire = Inr ?body"
    using bv by (simp add: response_body_of_def new_response_body_def w_def new_worker_def demo_worker_libs_def
        canonical_digest_def canonical_json_def demo_worker_request_def del: no_eval)
  have sign: "sign_response ?lib w ?body = Inr ?x"
    using xv by (simp add: sign_response_def new_worker_response_def w_def new_worker_def demo_worker_libs_def canonical_json_def
        del: no_eval)
  have plan: "prescribed_proof ?lib demo_holder_lib w ?r demo_holder_credential
      = returnM (replicate 32 2, demo_holder_credential, ''r'', arguments_json ''w'')"
    by (simp add: prescribed_proof_def w_def new_worker_def demo_worker_request_def Let_def)
  have cred: "credential_from_dict (lib_ca2a ?lib) m = Inr demo_holder_credential" "dc_subject demo_holder_credential = bytes_hex (replicate 32 3)" for m
    by (simp_all add: demo_worker_libs_def demo_holder_credential_def)
  have "worker_generate ?lib demo_holder_lib w ?r s = (Inr ?x, s)"
    by (simp add: worker_generate_def run_simps cred plan hp body sign del: no_eval)
  then show ?thesis using xv by (simp add: worker_response_body.defs worker_response.defs del: no_eval)
qed

theorem process_payload_answers_witness:
  "\<forall>s :: env. \<exists>responses.
     process_payload demo_worker_libs demo_holder_lib [1] None s = (Inr [1], s) \<and>
     list_all2 (answers demo_worker_libs (new_worker demo_worker_libs (replicate 32 2) demo_worker_image (replicate 64 CHR ''1'') None))
       [demo_worker_request] responses"
proof
  fix s :: env
  let ?lib = demo_worker_libs and ?w = "new_worker demo_worker_libs (replicate 32 2) demo_worker_image (replicate 64 CHR ''1'') None"
  note no_eval = bytes_hex.simps
  obtain x where x: "worker_generate ?lib demo_holder_lib ?w demo_worker_request s = (Inr x, s)" "ws_run_id x = ''run''" "response_valid x"
    using demo_worker_generates by blast
  have key: "bindE (bytes_fromhex (wp_holder_private_key demo_worker_payload)) (load_private_key demo_holder_lib) = Inr (replicate 32 2)"
    by (simp add: demo_worker_payload_def bytes_fromhex_def demo_holder_lib_def del: no_eval)
  have worker: "from_payload ?lib demo_holder_lib demo_worker_payload None = Inr ?w"
    using key by (simp add: from_payload_def) (simp add: demo_worker_payload_def)
  have run: "process_payload ?lib demo_holder_lib [1] None s = (Inr [1], s)"
    using x worker
    by (simp add: process_payload_def run_simps parse_canonical_def demo_payload_parses)
       (simp add: demo_worker_payload_def run_simps new_response_bundle_def bundle_valid_def len_in_def canonical_json_def
          demo_worker_libs_def)
  from process_payload_answers [OF run] demo_payload_parses key
  show "\<exists>responses. process_payload ?lib demo_holder_lib [1] None s = (Inr [1], s) \<and>
      list_all2 (answers ?lib ?w) [demo_worker_request] responses"
    using run by (auto simp: demo_worker_payload_def simp del: no_eval)
qed

end
