(* ===== verification/Transport.thy ===== *)
theory Transport
  imports Worker Storage
begin

text \<open>
  \<^verbatim>\<open>lab/transport.py\<close>: the in-memory transport. It remembers every run identifier it was asked to
  submit, hands the canonical request to the worker, and may corrupt the answer or miss the deadline.
  Whether the invocation for a run identifier outlives its deadline depends on the event loop and the
  configured delay and is an argument of the model.
\<close>

record fake_worker_transport =
  tr_worker :: disposable_holder_worker
  tr_late :: "string \<Rightarrow> bool"
  tr_corrupt_run_ids :: "string fset"
  tr_response_mutator :: "(bytes \<Rightarrow> worker_request \<Rightarrow> exn + bytes) option"

record transport_state = env +
  seen_run_ids :: "string list"

text \<open>The body of \<^verbatim>\<open>invoke\<close>: an exception of the worker is a protocol error.\<close>

definition invoke :: "libs \<Rightarrow> holder_lib \<Rightarrow> fake_worker_transport \<Rightarrow> worker_request \<Rightarrow> ('a env_scheme, bytes) prog" where
  "invoke lib hl t r =
     bindM (liftE (lib_dumps lib (request_dump r))) (\<lambda>raw.
     bindM (tryM (handle_bytes lib hl (tr_worker t) raw) (\<lambda>_. raiseM (LabProtocolError ''worker execution failed''))) (\<lambda>response.
     let response = (if wr_run_id r |\<in>| tr_corrupt_run_ids t then utf8 ''{\"corrupt\":'' else response) in
     liftE (case tr_response_mutator t of None \<Rightarrow> Inr response | Some f \<Rightarrow> f response r)))"

definition reserve_run_id :: "string \<Rightarrow> ('a transport_state_scheme, unit) prog" where
  "reserve_run_id run_id =
     bindM (getM seen_run_ids) (\<lambda>seen.
     bindM (liftE (require (run_id \<notin> set seen) (DuplicateRunIdError ''worker request run ID was already submitted''))) (\<lambda>_.
     modifyM (\<lambda>s. s\<lparr>seen_run_ids := run_id # seen_run_ids s\<rparr>)))"

definition submit ::
  "libs \<Rightarrow> holder_lib \<Rightarrow> fake_worker_transport \<Rightarrow> worker_request \<Rightarrow> int \<Rightarrow> ('a transport_state_scheme, bytes) prog" where
  "submit lib hl t r timeout =
     bindM (liftE (require (timeout > 0) (ValueError ''transport timeout must be positive''))) (\<lambda>_.
     bindM (reserve_run_id (wr_run_id r)) (\<lambda>_.
     if tr_late t (wr_run_id r)
     then raiseM (LabTimeoutError ''worker response deadline expired'')
     else invoke lib hl t r))"

section \<open>Each run identifier is submitted once\<close>

lemma invoke_keeps_seen:
  fixes s :: "'a transport_state_scheme"
  shows "post (invoke lib hl t r) s (\<lambda>_ s'. seen_run_ids s' = seen_run_ids s) (\<lambda>_ s'. seen_run_ids s' = seen_run_ids s)"
proof -
  have frame: "post (handle_bytes lib hl w raw) s' (\<lambda>_ s''. seen_run_ids s'' = seen_run_ids s')
      (\<lambda>_ s''. seen_run_ids s'' = seen_run_ids s')" for w raw and s' :: "'a transport_state_scheme"
    by (rule handle_bytes_frame) simp
  show ?thesis
    unfolding invoke_def by (auto simp: wp_simps Let_def intro!: post_mono [OF frame])
qed

lemma submit_post:
  fixes s :: "'a transport_state_scheme"
  shows "post (submit lib hl t r timeout) s
     (\<lambda>_ s'. wr_run_id r \<notin> set (seen_run_ids s) \<and> seen_run_ids s' = wr_run_id r # seen_run_ids s)
     (\<lambda>_ s'. seen_run_ids s' = seen_run_ids s \<or>
        wr_run_id r \<notin> set (seen_run_ids s) \<and> seen_run_ids s' = wr_run_id r # seen_run_ids s)"
  unfolding submit_def reserve_run_id_def
  by (auto simp: wp_simps intro!: post_mono [OF invoke_keeps_seen])

text \<open>A call of \<^verbatim>\<open>submit\<close> by any client of one transport; it wins its run identifier when an answer
  comes back.\<close>

type_synonym submit_call = "libs \<times> holder_lib \<times> fake_worker_transport \<times> worker_request \<times> int"

fun submit_step :: "submit_call \<Rightarrow> transport_state \<Rightarrow> transport_state" where
  "submit_step (lib, hl, t, r, timeout) s = snd (submit lib hl t r timeout s)"

fun submit_won :: "submit_call \<Rightarrow> transport_state \<Rightarrow> string option" where
  "submit_won (lib, hl, t, r, timeout) s =
     (case fst (submit lib hl t r timeout s) of Inl _ \<Rightarrow> None | Inr _ \<Rightarrow> Some (wr_run_id r))"

interpretation submission: one_shot submit_step submit_won "\<lambda>s. set (seen_run_ids s)" "\<lambda>_. True"
proof
  fix x :: submit_call and s :: transport_state and k
  obtain lib hl t r timeout where x: "x = (lib, hl, t, r, timeout)" by (cases x rule: prod_cases5)
  obtain res s' where run: "submit lib hl t r timeout s = (res, s')" by fastforce
  note eff = post_resultD [OF submit_post run]
  show "set (seen_run_ids s) \<subseteq> set (seen_run_ids (submit_step x s))"
    using eff by (auto simp: x run split: sum.splits)
  assume "submit_won x s = Some k"
  with eff show "k \<notin> set (seen_run_ids s)" "k \<in> set (seen_run_ids (submit_step x s))"
    by (auto simp: x run split: sum.splits)
qed simp

primrec answered_run_ids :: "submit_call list \<Rightarrow> transport_state \<Rightarrow> string list" where
  "answered_run_ids [] s = []"
| "answered_run_ids (x # xs) s =
     (case submit_won x s of None \<Rightarrow> [] | Some k \<Rightarrow> [k]) @ answered_run_ids xs (submit_step x s)"

lemma answered_run_ids_wins: "answered_run_ids xs s = submission.wins xs s"
  by (induction xs arbitrary: s) simp_all

text \<open>C31: over any sequence of submissions to one transport, with any workers, faults and deadlines, no run
  identifier is answered twice, and none that was submitted before is answered.\<close>

theorem answered_once:
  "distinct (answered_run_ids calls s) \<and> set (answered_run_ids calls s) \<inter> set (seen_run_ids s) = {}"
  using submission.wins_distinct submission.wins_new by (auto simp: answered_run_ids_wins)

end
