(* ===== verification/Wire.thy ===== *)
theory Wire
  imports Worker_Wire "HOL-Library.Product_Lexorder" "HOL-Library.List_Lexorder" "HOL-Library.Char_ord"
    "HOL-Library.Multiset"
begin

text \<open>
  \<^verbatim>\<open>lab/wire.py\<close>: the controller's case specifications and prepared cases, and the observations and
  the experiment record it signs. Each model has its fields' conditions and its validators, as in the
  source; the models that are read back from a signed record also have their readers.
\<close>

section \<open>Cases\<close>

definition commit_pattern :: "string \<Rightarrow> bool" where
  "commit_pattern = lower_hex 40"

definition manifest_digest_pattern :: "string \<Rightarrow> bool" where
  "manifest_digest_pattern s \<longleftrightarrow> take 7 s = ''sha256:'' \<and> lower_hex 64 (drop 7 s)"

text \<open>An after-validator that raises makes the construction fail with a validation error.\<close>

definition model_checks :: "bool \<Rightarrow> exn + unit \<Rightarrow> 'm \<Rightarrow> exn + 'm" where
  "model_checks ok checks x =
     bindE (require ok invalid) (\<lambda>_. bindE (mapE (\<lambda>_. invalid) checks) (\<lambda>_. Inr x))"

lemma model_checks_Inr: "model_checks ok checks x = Inr y \<longleftrightarrow> ok \<and> checks = Inr () \<and> y = x"
  by (auto simp: model_checks_def bindE_Inr_iff)

record case_spec =
  cs_case_id :: string
  cs_variant :: variant
  cs_sku :: string
  cs_record_id :: string
  cs_concurrency :: int

definition cs_fields :: "case_spec \<Rightarrow> bool" where
  "cs_fields x \<longleftrightarrow> run_id_pattern (cs_case_id x) \<and> len_in 1 128 (cs_sku x) \<and> len_in 1 256 (cs_record_id x) \<and>
     1 \<le> cs_concurrency x \<and> cs_concurrency x \<le> 64"

definition variant_count :: "case_spec \<Rightarrow> exn + unit" where
  "variant_count x =
     bindE (require (\<not> (cs_variant x = Concurrent \<and> cs_concurrency x < 2))
              (ValueError ''concurrent case requires at least two attempts'')) (\<lambda>_.
     require (\<not> (cs_variant x \<noteq> Concurrent \<and> cs_concurrency x \<noteq> 1))
       (ValueError ''only concurrent cases may request multiple attempts''))"

definition new_case_spec :: "case_spec \<Rightarrow> exn + case_spec" where
  "new_case_spec x = model_checks (cs_fields x) (variant_count x) x"

record capability_grant_wire =
  gw_credential :: "(string, json) fmap"
  gw_broker_receipt_jws :: string
  gw_manifest_digest :: string
  gw_broker_policy_sha256 :: string
  gw_broker_challenge_token_hash :: string
  gw_tpm_attest_sha256 :: string
  gw_tpm_signature_sha256 :: string
  gw_tpm_ak_chain_sha256 :: string
  gw_issuance_request_sha256 :: string

definition gw_valid :: "capability_grant_wire \<Rightarrow> bool" where
  "gw_valid x \<longleftrightarrow> gw_broker_receipt_jws x \<noteq> [] \<and> manifest_digest_pattern (gw_manifest_digest x) \<and>
     lower_hex 64 (gw_broker_policy_sha256 x) \<and> lower_hex 64 (gw_broker_challenge_token_hash x) \<and>
     lower_hex 64 (gw_tpm_attest_sha256 x) \<and> lower_hex 64 (gw_tpm_signature_sha256 x) \<and>
     lower_hex 64 (gw_tpm_ak_chain_sha256 x) \<and> lower_hex 64 (gw_issuance_request_sha256 x)"

definition new_grant_wire :: "capability_grant_wire \<Rightarrow> exn + capability_grant_wire" where
  "new_grant_wire x = bindE (require (gw_valid x) invalid) (\<lambda>_. Inr x)"

record prepared_case =
  pc_spec :: case_spec
  pc_grant :: capability_grant_wire
  pc_requests :: "worker_request list"
  pc_invocation_count_before :: int

definition pc_fields :: "prepared_case \<Rightarrow> bool" where
  "pc_fields x \<longleftrightarrow> cs_fields (pc_spec x) \<and> variant_count (pc_spec x) = Inr () \<and> gw_valid (pc_grant x) \<and>
     len_in 1 64 (pc_requests x) \<and> list_all wr_valid (pc_requests x) \<and> 0 \<le> pc_invocation_count_before x"

definition request_shape :: "prepared_case \<Rightarrow> exn + unit" where
  "request_shape x =
     (let spec = pc_spec x; expected = (if cs_variant spec = Concurrent then cs_concurrency spec else 1) in
      bindE (require (int (length (pc_requests x)) = expected)
               (ValueError ''prepared request count does not match case specification'')) (\<lambda>_.
      bindE (require (\<not> list_ex (\<lambda>r. wr_case_id r \<noteq> cs_case_id spec) (pc_requests x))
               (ValueError ''prepared request names another case'')) (\<lambda>_.
      bindE (require (\<not> list_ex (\<lambda>r. wr_variant r \<noteq> cs_variant spec) (pc_requests x))
               (ValueError ''prepared request names another adversarial variant'')) (\<lambda>_.
      require (distinct (map wr_run_id (pc_requests x)))
        (ValueError ''prepared case has duplicate worker run IDs'')))))"

definition new_prepared_case :: "prepared_case \<Rightarrow> exn + prepared_case" where
  "new_prepared_case x = model_checks (pc_fields x) (request_shape x) x"

section \<open>Observed attempts\<close>

record attempt_observation =
  ao_run_id :: string
  ao_redemption_sequence :: int
  ao_request_sha256 :: string
  ao_worker_response_sha256 :: string
  ao_holder_proof_sha256 :: string
  ao_allowed :: bool
  ao_reason :: string
  ao_receipt_jws :: string
  ao_receipt_verified :: bool
  ao_handler_invoked :: bool
  ao_business_result :: string
  ao_invocation_id :: "int option"

definition ao_names :: "string list" where
  "ao_names = [''run_id'', ''redemption_sequence'', ''request_sha256'', ''worker_response_sha256'', ''holder_proof_sha256'',
     ''allowed'', ''reason'', ''receipt_jws'', ''receipt_verified'', ''handler_invoked'', ''business_result'', ''invocation_id'']"

definition ao_members :: "attempt_observation \<Rightarrow> (string \<times> json) list" where
  "ao_members x =
     [(''run_id'', JStr (ao_run_id x)), (''redemption_sequence'', JInt (ao_redemption_sequence x)),
      (''request_sha256'', JStr (ao_request_sha256 x)), (''worker_response_sha256'', JStr (ao_worker_response_sha256 x)),
      (''holder_proof_sha256'', JStr (ao_holder_proof_sha256 x)), (''allowed'', JBool (ao_allowed x)),
      (''reason'', JStr (ao_reason x)), (''receipt_jws'', JStr (ao_receipt_jws x)),
      (''receipt_verified'', JBool (ao_receipt_verified x)), (''handler_invoked'', JBool (ao_handler_invoked x)),
      (''business_result'', JStr (ao_business_result x)), (''invocation_id'', jopt_int (ao_invocation_id x))]"

definition opt_at_least :: "int \<Rightarrow> int option \<Rightarrow> bool" where
  "opt_at_least lo x = (case x of None \<Rightarrow> True | Some i \<Rightarrow> lo \<le> i)"

definition ao_fields :: "attempt_observation \<Rightarrow> bool" where
  "ao_fields x \<longleftrightarrow> run_id_pattern (ao_run_id x) \<and> 1 \<le> ao_redemption_sequence x \<and> ao_redemption_sequence x \<le> 2 \<and>
     lower_hex 64 (ao_request_sha256 x) \<and> lower_hex 64 (ao_worker_response_sha256 x) \<and>
     lower_hex 64 (ao_holder_proof_sha256 x) \<and> reason_of (ao_reason x) \<noteq> None \<and> ao_receipt_jws x \<noteq> [] \<and>
     ao_receipt_verified x \<and> ao_business_result x \<in> {''not_invoked'', ''completed'', ''failed''} \<and>
     opt_at_least 1 (ao_invocation_id x)"

definition decision_semantics :: "attempt_observation \<Rightarrow> exn + unit" where
  "decision_semantics x =
     (if ao_allowed x
      then require (\<not> (ao_reason x \<noteq> reason_str ALLOW \<or> \<not> ao_handler_invoked x \<or> ao_business_result x \<noteq> ''completed'' \<or>
                       ao_invocation_id x = None))
             (ValueError ''allowed attempt has inconsistent execution semantics'')
      else require (\<not> (ao_reason x = reason_str ALLOW \<or> ao_handler_invoked x \<or> ao_business_result x \<noteq> ''not_invoked'' \<or>
                       ao_invocation_id x \<noteq> None))
             (ValueError ''denied attempt has inconsistent execution semantics''))"

definition new_attempt :: "attempt_observation \<Rightarrow> exn + attempt_observation" where
  "new_attempt x = model_checks (ao_fields x) (decision_semantics x) x"

definition ao_valid :: "attempt_observation \<Rightarrow> bool" where
  "ao_valid x \<longleftrightarrow> ao_fields x \<and> decision_semantics x = Inr ()"

definition ao_read :: "(string, json) fmap \<Rightarrow> exn + attempt_observation" where
  "ao_read m =
     bindE (closed_keys ao_names m) (\<lambda>_.
     bindE (get_str m ''run_id'') (\<lambda>run_id.
     bindE (get_int m ''redemption_sequence'') (\<lambda>redemption_sequence.
     bindE (get_str m ''request_sha256'') (\<lambda>request_sha256.
     bindE (get_str m ''worker_response_sha256'') (\<lambda>worker_response_sha256.
     bindE (get_str m ''holder_proof_sha256'') (\<lambda>holder_proof_sha256.
     bindE (get_bool m ''allowed'') (\<lambda>allowed.
     bindE (get_str m ''reason'') (\<lambda>reason.
     bindE (get_str m ''receipt_jws'') (\<lambda>receipt_jws.
     bindE (get_bool m ''receipt_verified'') (\<lambda>receipt_verified.
     bindE (get_bool m ''handler_invoked'') (\<lambda>handler_invoked.
     bindE (get_str m ''business_result'') (\<lambda>business_result.
     bindE (get_opt_int m ''invocation_id'') (\<lambda>invocation_id.
     new_attempt
       \<lparr>ao_run_id = run_id, ao_redemption_sequence = redemption_sequence, ao_request_sha256 = request_sha256,
        ao_worker_response_sha256 = worker_response_sha256, ao_holder_proof_sha256 = holder_proof_sha256,
        ao_allowed = allowed, ao_reason = reason, ao_receipt_jws = receipt_jws, ao_receipt_verified = receipt_verified,
        ao_handler_invoked = handler_invoked, ao_business_result = business_result,
        ao_invocation_id = invocation_id\<rparr>)))))))))))))"

interpretation ao: closed_model ao_names ao_members ao_read ao_valid
proof
  show "ao_read m = Inr x \<longleftrightarrow> closed_keys ao_names m = Inr () \<and>
      (\<forall>(k, v) \<in> set (ao_members x). fmlookup m k = Some v) \<and> ao_valid x" for m x
    by (cases x) (auto simp: ao_read_def new_attempt_def model_checks_Inr ao_valid_def ao_members_def bindE_Inr_iff get_Inr)
qed (simp_all add: ao_members_def ao_names_def)

section \<open>Observed cases\<close>

record case_observation =
  co_case_id :: string
  co_variant :: variant
  co_broker_receipt_jws :: string
  co_broker_receipt_verified :: bool
  co_worker_binding_verified :: bool
  co_worker_public_key :: string
  co_worker_image :: string
  co_worker_code_digest :: string
  co_worker_binding_scope :: string
  co_runpod_metadata :: "runpod_metadata list"
  co_attempts :: "attempt_observation list"
  co_invocation_delta :: int
  co_credential_redemption_count :: int

definition co_names :: "string list" where
  "co_names = [''case_id'', ''variant'', ''broker_receipt_jws'', ''broker_receipt_verified'', ''worker_binding_verified'',
     ''worker_public_key'', ''worker_image'', ''worker_code_digest'', ''worker_binding_scope'', ''runpod_metadata'',
     ''attempts'', ''invocation_delta'', ''credential_redemption_count'']"

definition co_members :: "case_observation \<Rightarrow> (string \<times> json) list" where
  "co_members x =
     [(''case_id'', JStr (co_case_id x)), (''variant'', JStr (variant_str (co_variant x))),
      (''broker_receipt_jws'', JStr (co_broker_receipt_jws x)),
      (''broker_receipt_verified'', JBool (co_broker_receipt_verified x)),
      (''worker_binding_verified'', JBool (co_worker_binding_verified x)),
      (''worker_public_key'', JStr (co_worker_public_key x)), (''worker_image'', JStr (co_worker_image x)),
      (''worker_code_digest'', JStr (co_worker_code_digest x)), (''worker_binding_scope'', JStr (co_worker_binding_scope x)),
      (''runpod_metadata'', JArr (map (\<lambda>y. obj (md_members y)) (co_runpod_metadata x))),
      (''attempts'', JArr (map (\<lambda>y. obj (ao_members y)) (co_attempts x))),
      (''invocation_delta'', JInt (co_invocation_delta x)),
      (''credential_redemption_count'', JInt (co_credential_redemption_count x))]"

definition co_fields :: "case_observation \<Rightarrow> bool" where
  "co_fields x \<longleftrightarrow> run_id_pattern (co_case_id x) \<and> co_broker_receipt_jws x \<noteq> [] \<and> co_broker_receipt_verified x \<and>
     co_worker_binding_verified x \<and> lower_hex 64 (co_worker_public_key x) \<and> image_pattern (co_worker_image x) \<and>
     lower_hex 64 (co_worker_code_digest x) \<and> co_worker_binding_scope x = ''holder-key-and-claimed-digest-only'' \<and>
     len_in 1 64 (co_runpod_metadata x) \<and> list_all md_valid (co_runpod_metadata x) \<and>
     len_in 1 65 (co_attempts x) \<and> list_all ao_valid (co_attempts x) \<and>
     0 \<le> co_invocation_delta x \<and> co_invocation_delta x \<le> 1 \<and>
     0 \<le> co_credential_redemption_count x \<and> co_credential_redemption_count x \<le> 1"

definition all_same :: "'a list \<Rightarrow> bool" where
  "all_same xs \<longleftrightarrow> length (remdups xs) = 1"

text \<open>The decisions a variant has to show, and the observed ones with the order of a race removed
  (\<^verbatim>\<open>sorted(observed, key=lambda item: (not item[0], item[1]))\<close>).\<close>

definition expected_outcomes :: "variant \<Rightarrow> nat \<Rightarrow> (bool \<times> string) list" where
  "expected_outcomes v n =
     (case v of
        Valid \<Rightarrow> [(True, reason_str ALLOW)]
      | Replay \<Rightarrow> [(True, reason_str ALLOW), (False, reason_str CHALLENGE_CONSUMED)]
      | Concurrent \<Rightarrow> (True, reason_str ALLOW) # replicate (n - 1) (False, reason_str CREDENTIAL_SPENT)
      | _ \<Rightarrow> [(False, reason_str HOLDER_PROOF_INVALID)])"

definition observed_outcomes :: "variant \<Rightarrow> attempt_observation list \<Rightarrow> (bool \<times> string) list" where
  "observed_outcomes v attempts =
     (let observed = map (\<lambda>a. (ao_allowed a, ao_reason a)) attempts
      in if v = Concurrent then sort_key (\<lambda>(allowed, reason). (\<not> allowed, reason)) observed else observed)"

definition expected_count :: "variant \<Rightarrow> int" where
  "expected_count v = (if v \<in> {Valid, Replay, Concurrent} then 1 else 0)"

definition replay_checks :: "attempt_observation list \<Rightarrow> exn + unit" where
  "replay_checks attempts =
     bindE (require (map ao_redemption_sequence attempts = [1, 2])
              (ValueError ''replay case has inconsistent redemption sequence'')) (\<lambda>_.
     bindE (require (all_same (map ao_run_id attempts))
              (ValueError ''replay case must repeat exactly one worker request'')) (\<lambda>_.
     require (all_same (map (\<lambda>a. (ao_request_sha256 a, ao_worker_response_sha256 a, ao_holder_proof_sha256 a)) attempts))
       (ValueError ''replay case must reuse the exact request and proof'')))"

definition concurrent_checks :: "attempt_observation list \<Rightarrow> exn + unit" where
  "concurrent_checks attempts =
     bindE (require (\<not> (length attempts < 2 \<or> list_ex (\<lambda>a. ao_redemption_sequence a \<noteq> 1) attempts))
              (ValueError ''concurrent case has inconsistent attempt shape'')) (\<lambda>_.
     bindE (require (distinct (map ao_run_id attempts))
              (ValueError ''concurrent case has duplicate attempt run IDs'')) (\<lambda>_.
     forE (\<lambda>f. require (distinct (map f attempts)) (ValueError ''concurrent case has duplicate request/proof bindings''))
       [ao_request_sha256, ao_worker_response_sha256, ao_holder_proof_sha256]))"

definition case_semantics :: "case_observation \<Rightarrow> exn + unit" where
  "case_semantics x =
     (let v = co_variant x; attempts = co_attempts x in
      bindE (if v = Replay then replay_checks attempts
             else if v = Concurrent then concurrent_checks attempts else Inr ()) (\<lambda>_.
      bindE (require (\<not> (v \<notin> {Replay, Concurrent} \<and>
                        (\<not> all_same (map ao_run_id attempts) \<or> ao_redemption_sequence (hd attempts) \<noteq> 1)))
               (ValueError ''single-attempt case has inconsistent run/sequence bindings'')) (\<lambda>_.
      bindE (require (length (co_runpod_metadata x) = (if v = Concurrent then length attempts else 1))
               (ValueError ''case metadata count does not match worker requests'')) (\<lambda>_.
      require (\<not> (observed_outcomes v attempts \<noteq> expected_outcomes v (length attempts) \<or>
                  co_invocation_delta x \<noteq> expected_count v \<or> co_credential_redemption_count x \<noteq> expected_count v))
        (ValueError ''case observation contradicts its adversarial variant'')))))"

definition new_case_observation :: "case_observation \<Rightarrow> exn + case_observation" where
  "new_case_observation x = model_checks (co_fields x) (case_semantics x) x"

definition co_valid :: "case_observation \<Rightarrow> bool" where
  "co_valid x \<longleftrightarrow> co_fields x \<and> case_semantics x = Inr ()"

definition co_read :: "(string, json) fmap \<Rightarrow> exn + case_observation" where
  "co_read m =
     bindE (closed_keys co_names m) (\<lambda>_.
     bindE (get_str m ''case_id'') (\<lambda>case_id.
     bindE (get_variant m ''variant'') (\<lambda>variant.
     bindE (get_str m ''broker_receipt_jws'') (\<lambda>broker_receipt_jws.
     bindE (get_bool m ''broker_receipt_verified'') (\<lambda>broker_receipt_verified.
     bindE (get_bool m ''worker_binding_verified'') (\<lambda>worker_binding_verified.
     bindE (get_str m ''worker_public_key'') (\<lambda>worker_public_key.
     bindE (get_str m ''worker_image'') (\<lambda>worker_image.
     bindE (get_str m ''worker_code_digest'') (\<lambda>worker_code_digest.
     bindE (get_str m ''worker_binding_scope'') (\<lambda>worker_binding_scope.
     bindE (get_list md_read m ''runpod_metadata'') (\<lambda>runpod_metadata.
     bindE (get_list ao_read m ''attempts'') (\<lambda>attempts.
     bindE (get_int m ''invocation_delta'') (\<lambda>invocation_delta.
     bindE (get_int m ''credential_redemption_count'') (\<lambda>credential_redemption_count.
     new_case_observation
       \<lparr>co_case_id = case_id, co_variant = variant, co_broker_receipt_jws = broker_receipt_jws,
        co_broker_receipt_verified = broker_receipt_verified, co_worker_binding_verified = worker_binding_verified,
        co_worker_public_key = worker_public_key, co_worker_image = worker_image,
        co_worker_code_digest = worker_code_digest, co_worker_binding_scope = worker_binding_scope,
        co_runpod_metadata = runpod_metadata, co_attempts = attempts, co_invocation_delta = invocation_delta,
        co_credential_redemption_count = credential_redemption_count\<rparr>))))))))))))))"

interpretation co: closed_model co_names co_members co_read co_valid
proof
  show "co_read m = Inr x \<longleftrightarrow> closed_keys co_names m = Inr () \<and>
      (\<forall>(k, v) \<in> set (co_members x). fmlookup m k = Some v) \<and> co_valid x" for m x
    by (cases x) (auto simp: co_read_def new_case_observation_def model_checks_Inr co_valid_def co_members_def
      co_fields_def bindE_Inr_iff get_Inr get_variant_Inr md.get_list_Inr ao.get_list_Inr)
qed (simp_all add: co_members_def co_names_def)

section \<open>Provider observation and verifier keys\<close>

record runpod_observation =
  ro_provider :: string
  ro_trust :: string
  ro_endpoint_id_sha256 :: string
  ro_job_id_sha256 :: string
  ro_worker_id_sha256 :: "string option"
  ro_status :: string
  ro_worker_image_argument :: string
  ro_delay_time_ms :: "int option"
  ro_execution_time_ms :: "int option"

definition ro_names :: "string list" where
  "ro_names = [''provider'', ''trust'', ''endpoint_id_sha256'', ''job_id_sha256'', ''worker_id_sha256'', ''status'',
     ''worker_image_argument'', ''delay_time_ms'', ''execution_time_ms'']"

definition ro_members :: "runpod_observation \<Rightarrow> (string \<times> json) list" where
  "ro_members x =
     [(''provider'', JStr (ro_provider x)), (''trust'', JStr (ro_trust x)),
      (''endpoint_id_sha256'', JStr (ro_endpoint_id_sha256 x)), (''job_id_sha256'', JStr (ro_job_id_sha256 x)),
      (''worker_id_sha256'', jopt_str (ro_worker_id_sha256 x)), (''status'', JStr (ro_status x)),
      (''worker_image_argument'', JStr (ro_worker_image_argument x)), (''delay_time_ms'', jopt_int (ro_delay_time_ms x)),
      (''execution_time_ms'', jopt_int (ro_execution_time_ms x))]"

definition ro_valid :: "runpod_observation \<Rightarrow> bool" where
  "ro_valid x \<longleftrightarrow> ro_provider x = ''runpod'' \<and> ro_trust x = ''untrusted'' \<and> lower_hex 64 (ro_endpoint_id_sha256 x) \<and>
     lower_hex 64 (ro_job_id_sha256 x) \<and> (case ro_worker_id_sha256 x of None \<Rightarrow> True | Some s \<Rightarrow> lower_hex 64 s) \<and>
     ro_status x = ''COMPLETED'' \<and> image_pattern (ro_worker_image_argument x) \<and> opt_ms (ro_delay_time_ms x) \<and>
     opt_ms (ro_execution_time_ms x)"

definition ro_read :: "(string, json) fmap \<Rightarrow> exn + runpod_observation" where
  "ro_read m =
     bindE (closed_keys ro_names m) (\<lambda>_.
     bindE (get_str m ''provider'') (\<lambda>provider.
     bindE (get_str m ''trust'') (\<lambda>trust.
     bindE (get_str m ''endpoint_id_sha256'') (\<lambda>endpoint_id_sha256.
     bindE (get_str m ''job_id_sha256'') (\<lambda>job_id_sha256.
     bindE (get_opt_str m ''worker_id_sha256'') (\<lambda>worker_id_sha256.
     bindE (get_str m ''status'') (\<lambda>status.
     bindE (get_str m ''worker_image_argument'') (\<lambda>worker_image_argument.
     bindE (get_opt_int m ''delay_time_ms'') (\<lambda>delay_time_ms.
     bindE (get_opt_int m ''execution_time_ms'') (\<lambda>execution_time_ms.
     let x = \<lparr>ro_provider = provider, ro_trust = trust, ro_endpoint_id_sha256 = endpoint_id_sha256,
        ro_job_id_sha256 = job_id_sha256, ro_worker_id_sha256 = worker_id_sha256, ro_status = status,
        ro_worker_image_argument = worker_image_argument, ro_delay_time_ms = delay_time_ms,
        ro_execution_time_ms = execution_time_ms\<rparr>
     in bindE (require (ro_valid x) invalid) (\<lambda>_. Inr x)))))))))))"

interpretation ro: closed_model ro_names ro_members ro_read ro_valid
proof
  show "ro_read m = Inr x \<longleftrightarrow> closed_keys ro_names m = Inr () \<and>
      (\<forall>(k, v) \<in> set (ro_members x). fmlookup m k = Some v) \<and> ro_valid x" for m x
    by (cases x) (auto simp: ro_read_def ro_members_def bindE_Inr_iff get_Inr Let_def)
qed (simp_all add: ro_members_def ro_names_def)

record public_jwk =
  jk_kty :: string
  jk_crv :: string
  jk_x :: string
  jk_alg :: string
  jk_kid :: string
  jk_use :: string

definition jk_names :: "string list" where
  "jk_names = [''kty'', ''crv'', ''x'', ''alg'', ''kid'', ''use'']"

definition jk_members :: "public_jwk \<Rightarrow> (string \<times> json) list" where
  "jk_members x = [(''kty'', JStr (jk_kty x)), (''crv'', JStr (jk_crv x)), (''x'', JStr (jk_x x)), (''alg'', JStr (jk_alg x)),
     (''kid'', JStr (jk_kid x)), (''use'', JStr (jk_use x))]"

definition jk_valid :: "public_jwk \<Rightarrow> bool" where
  "jk_valid x \<longleftrightarrow> jk_kty x = ''OKP'' \<and> jk_crv x = ''Ed25519'' \<and>
     list_all (\<lambda>c. alnum c \<or> c \<in> set ''_-'') (jk_x x) \<and> length (jk_x x) = 43 \<and> jk_alg x = ''Ed25519'' \<and>
     len_in 1 128 (jk_kid x) \<and> jk_use x = ''sig''"

definition jk_read :: "(string, json) fmap \<Rightarrow> exn + public_jwk" where
  "jk_read m =
     bindE (closed_keys jk_names m) (\<lambda>_.
     bindE (get_str m ''kty'') (\<lambda>kty.
     bindE (get_str m ''crv'') (\<lambda>crv.
     bindE (get_str m ''x'') (\<lambda>x.
     bindE (get_str m ''alg'') (\<lambda>alg.
     bindE (get_str m ''kid'') (\<lambda>kid.
     bindE (get_str m ''use'') (\<lambda>use.
     let j = \<lparr>jk_kty = kty, jk_crv = crv, jk_x = x, jk_alg = alg, jk_kid = kid, jk_use = use\<rparr>
     in bindE (require (jk_valid j) invalid) (\<lambda>_. Inr j))))))))"

interpretation jk: closed_model jk_names jk_members jk_read jk_valid
proof
  show "jk_read m = Inr x \<longleftrightarrow> closed_keys jk_names m = Inr () \<and>
      (\<forall>(k, v) \<in> set (jk_members x). fmlookup m k = Some v) \<and> jk_valid x" for m x
    by (cases x) (auto simp: jk_read_def jk_members_def bindE_Inr_iff get_Inr Let_def)
qed (simp_all add: jk_members_def jk_names_def)

record public_receipt_verifier =
  pv_key_id :: string
  pv_public_jwk :: public_jwk

definition pv_members :: "public_receipt_verifier \<Rightarrow> (string \<times> json) list" where
  "pv_members x = [(''key_id'', JStr (pv_key_id x)), (''public_jwk'', obj (jk_members (pv_public_jwk x)))]"

definition matching_key_id :: "public_receipt_verifier \<Rightarrow> exn + unit" where
  "matching_key_id x =
     require (jk_kid (pv_public_jwk x) = pv_key_id x) (ValueError ''receipt verifier key ID disagrees with its public JWK'')"

definition new_public_verifier :: "public_receipt_verifier \<Rightarrow> exn + public_receipt_verifier" where
  "new_public_verifier x = model_checks (len_in 1 128 (pv_key_id x) \<and> jk_valid (pv_public_jwk x)) (matching_key_id x) x"

definition pv_valid :: "public_receipt_verifier \<Rightarrow> bool" where
  "pv_valid x \<longleftrightarrow> len_in 1 128 (pv_key_id x) \<and> jk_valid (pv_public_jwk x) \<and> jk_kid (pv_public_jwk x) = pv_key_id x"

definition pv_read :: "(string, json) fmap \<Rightarrow> exn + public_receipt_verifier" where
  "pv_read m =
     bindE (closed_keys [''key_id'', ''public_jwk''] m) (\<lambda>_.
     bindE (get_str m ''key_id'') (\<lambda>key_id.
     bindE (get_model jk_read m ''public_jwk'') (\<lambda>jwk.
     new_public_verifier \<lparr>pv_key_id = key_id, pv_public_jwk = jwk\<rparr>)))"

interpretation pv: closed_model "[''key_id'', ''public_jwk'']" pv_members pv_read pv_valid
proof
  show "pv_read m = Inr x \<longleftrightarrow> closed_keys [''key_id'', ''public_jwk''] m = Inr () \<and>
      (\<forall>(k, v) \<in> set (pv_members x). fmlookup m k = Some v) \<and> pv_valid x" for m x
    by (cases x) (auto simp: pv_read_def new_public_verifier_def model_checks_Inr matching_key_id_def pv_members_def
      pv_valid_def bindE_Inr_iff get_Inr jk.get_model_Inr)
qed (simp_all add: pv_members_def)

section \<open>The experiment record\<close>

definition TRUST_BOUNDARY :: string where
  "TRUST_BOUNDARY =
     ''local-controller-policy-store-tpm-root-and-verification-keys-trusted;'' @
     ''runpod-host-control-plane-queue-worker-registry-metadata-and-output-untrusted''"

definition ASSURANCE_DISCLAIMER :: string where
  "ASSURANCE_DISCLAIMER =
     ''This experiment tests application-level behavior against a remote untrusted caller. '' @
     ''The self-contained JWS and bundled verifier establish internal signature consistency '' @
     ''only; controller origin requires independently pinning the verifier key. With that '' @
     ''pin, the JWS authenticates only the configured local controller's observed transcript; '' @
     ''it does not attest Runpod, its host, control plane, queue, or worker; '' @
     ''registry metadata or worker-image execution; holder-key residency; TPM/worker '' @
     ''co-location; agent execution; TEE, network, or runtime integrity; or safe behavior.''"

record experiment_record =
  er_schema_version :: string
  er_experiment_id :: string
  er_observed_at :: int
  er_commit_sha :: string
  er_uv_lock_sha256 :: string
  er_assurance_scope :: string
  er_trust_boundary :: string
  er_assurance_disclaimer :: string
  er_tpm_mode :: string
  er_tpm_evidence_verified :: bool
  er_tpm_assurance_included :: bool
  er_worker_public_key :: string
  er_worker_image :: string
  er_worker_code_digest :: string
  er_worker_binding_scope :: string
  er_broker_receipt_verifier :: public_receipt_verifier
  er_resource_receipt_verifier :: public_receipt_verifier
  er_runpod_observation :: runpod_observation
  er_broker_receipt_count :: int
  er_resource_receipt_count :: int
  er_allowed_attempt_count :: int
  er_denied_attempt_count :: int
  er_handler_invocation_count :: int
  er_credential_redemption_count :: int
  er_cases :: "case_observation list"

definition er_names :: "string list" where
  "er_names = [''schema_version'', ''experiment_id'', ''observed_at'', ''commit_sha'', ''uv_lock_sha256'', ''assurance_scope'',
     ''trust_boundary'', ''assurance_disclaimer'', ''tpm_mode'', ''tpm_evidence_verified'', ''tpm_assurance_included'',
     ''worker_public_key'', ''worker_image'', ''worker_code_digest'', ''worker_binding_scope'', ''broker_receipt_verifier'',
     ''resource_receipt_verifier'', ''runpod_observation'', ''broker_receipt_count'', ''resource_receipt_count'',
     ''allowed_attempt_count'', ''denied_attempt_count'', ''handler_invocation_count'', ''credential_redemption_count'',
     ''cases'']"

definition er_members :: "experiment_record \<Rightarrow> (string \<times> json) list" where
  "er_members x =
     [(''schema_version'', JStr (er_schema_version x)), (''experiment_id'', JStr (er_experiment_id x)),
      (''observed_at'', JInt (er_observed_at x)), (''commit_sha'', JStr (er_commit_sha x)),
      (''uv_lock_sha256'', JStr (er_uv_lock_sha256 x)), (''assurance_scope'', JStr (er_assurance_scope x)),
      (''trust_boundary'', JStr (er_trust_boundary x)), (''assurance_disclaimer'', JStr (er_assurance_disclaimer x)),
      (''tpm_mode'', JStr (er_tpm_mode x)), (''tpm_evidence_verified'', JBool (er_tpm_evidence_verified x)),
      (''tpm_assurance_included'', JBool (er_tpm_assurance_included x)),
      (''worker_public_key'', JStr (er_worker_public_key x)), (''worker_image'', JStr (er_worker_image x)),
      (''worker_code_digest'', JStr (er_worker_code_digest x)), (''worker_binding_scope'', JStr (er_worker_binding_scope x)),
      (''broker_receipt_verifier'', obj (pv_members (er_broker_receipt_verifier x))),
      (''resource_receipt_verifier'', obj (pv_members (er_resource_receipt_verifier x))),
      (''runpod_observation'', obj (ro_members (er_runpod_observation x))),
      (''broker_receipt_count'', JInt (er_broker_receipt_count x)),
      (''resource_receipt_count'', JInt (er_resource_receipt_count x)),
      (''allowed_attempt_count'', JInt (er_allowed_attempt_count x)),
      (''denied_attempt_count'', JInt (er_denied_attempt_count x)),
      (''handler_invocation_count'', JInt (er_handler_invocation_count x)),
      (''credential_redemption_count'', JInt (er_credential_redemption_count x)),
      (''cases'', JArr (map (\<lambda>y. obj (co_members y)) (er_cases x)))]"

definition er_fields :: "experiment_record \<Rightarrow> bool" where
  "er_fields x \<longleftrightarrow> er_schema_version x = ''atcap-runpod-experiment-record/v1'' \<and> run_id_pattern (er_experiment_id x) \<and>
     0 \<le> er_observed_at x \<and> commit_pattern (er_commit_sha x) \<and> lower_hex 64 (er_uv_lock_sha256 x) \<and>
     er_assurance_scope x = ''local-controller-observation-only'' \<and> er_trust_boundary x = TRUST_BOUNDARY \<and>
     er_assurance_disclaimer x = ASSURANCE_DISCLAIMER \<and> er_tpm_mode x \<in> {''test-double'', ''real-swtpm''} \<and>
     lower_hex 64 (er_worker_public_key x) \<and> image_pattern (er_worker_image x) \<and> lower_hex 64 (er_worker_code_digest x) \<and>
     er_worker_binding_scope x = ''holder-key-and-claimed-digest-only'' \<and> pv_valid (er_broker_receipt_verifier x) \<and>
     pv_valid (er_resource_receipt_verifier x) \<and> ro_valid (er_runpod_observation x) \<and>
     1 \<le> er_broker_receipt_count x \<and> 1 \<le> er_resource_receipt_count x \<and> 0 \<le> er_allowed_attempt_count x \<and>
     0 \<le> er_denied_attempt_count x \<and> 0 \<le> er_handler_invocation_count x \<and> 0 \<le> er_credential_redemption_count x \<and>
     len_in 1 64 (er_cases x) \<and> list_all co_valid (er_cases x)"

definition attempts_of :: "case_observation list \<Rightarrow> attempt_observation list" where
  "attempts_of cases = concat (map co_attempts cases)"

definition invocation_ids :: "attempt_observation list \<Rightarrow> int list" where
  "invocation_ids attempts = List.map_filter ao_invocation_id attempts"

definition count_int :: "('a \<Rightarrow> bool) \<Rightarrow> 'a list \<Rightarrow> int" where
  "count_int P xs = int (length (filter P xs))"

text \<open>Every one of the seven variants, once.\<close>

definition exact_matrix :: "variant list \<Rightarrow> bool" where
  "exact_matrix vs \<longleftrightarrow> length vs = length all_variants \<and> set vs = set all_variants"

definition record_semantics :: "experiment_record \<Rightarrow> exn + unit" where
  "record_semantics x =
     (let broker = er_broker_receipt_verifier x; resource = er_resource_receipt_verifier x;
          cases = er_cases x; attempts = attempts_of cases; ids = invocation_ids attempts;
          real = (er_tpm_mode x = ''real-swtpm'') in
      bindE (require (\<not> (pv_key_id broker = pv_key_id resource \<or> jk_x (pv_public_jwk broker) = jk_x (pv_public_jwk resource)))
               (ValueError ''broker and resource receipt verifiers must be distinct'')) (\<lambda>_.
      bindE (require (ro_worker_image_argument (er_runpod_observation x) = er_worker_image x)
               (ValueError ''provider observation contradicts the configured worker image'')) (\<lambda>_.
      bindE (require (er_tpm_evidence_verified x = real)
               (ValueError ''TPM evidence flag contradicts the selected appraisal mode'')) (\<lambda>_.
      bindE (require (er_tpm_assurance_included x = (real \<and> er_tpm_evidence_verified x))
               (ValueError ''TPM assurance flag disagrees with the verified evidence path'')) (\<lambda>_.
      bindE (require (distinct (map co_case_id cases))
               (ValueError ''experiment record has duplicate case IDs'')) (\<lambda>_.
      bindE (require (exact_matrix (map co_variant cases))
               (ValueError ''experiment record does not contain the exact required case matrix'')) (\<lambda>_.
      bindE (forE (\<lambda>c. require (\<not> (co_worker_public_key c \<noteq> er_worker_public_key x \<or> co_worker_image c \<noteq> er_worker_image x \<or>
                                    co_worker_code_digest c \<noteq> er_worker_code_digest x))
                      (ValueError ''experiment case has inconsistent worker bindings'')) cases) (\<lambda>_.
      bindE (require (distinct ids \<and> set ids = set (map int [1..<length ids + 1]))
               (ValueError ''allowed attempts do not identify distinct local invocations'')) (\<lambda>_.
      require ([er_broker_receipt_count x, er_resource_receipt_count x, er_allowed_attempt_count x, er_denied_attempt_count x,
                er_handler_invocation_count x, er_credential_redemption_count x] =
               [int (length cases), int (length attempts), count_int ao_allowed attempts, count_int (\<lambda>a. \<not> ao_allowed a) attempts,
                sum_list (map co_invocation_delta cases), sum_list (map co_credential_redemption_count cases)])
        (ValueError ''experiment aggregate counts do not match observed cases''))))))))))"

definition new_experiment_record :: "experiment_record \<Rightarrow> exn + experiment_record" where
  "new_experiment_record x = model_checks (er_fields x) (record_semantics x) x"

definition er_valid :: "experiment_record \<Rightarrow> bool" where
  "er_valid x \<longleftrightarrow> er_fields x \<and> record_semantics x = Inr ()"

definition er_read :: "(string, json) fmap \<Rightarrow> exn + experiment_record" where
  "er_read m =
     bindE (closed_keys er_names m) (\<lambda>_.
     bindE (get_str m ''schema_version'') (\<lambda>schema_version.
     bindE (get_str m ''experiment_id'') (\<lambda>experiment_id.
     bindE (get_int m ''observed_at'') (\<lambda>observed_at.
     bindE (get_str m ''commit_sha'') (\<lambda>commit_sha.
     bindE (get_str m ''uv_lock_sha256'') (\<lambda>uv_lock_sha256.
     bindE (get_str m ''assurance_scope'') (\<lambda>assurance_scope.
     bindE (get_str m ''trust_boundary'') (\<lambda>trust_boundary.
     bindE (get_str m ''assurance_disclaimer'') (\<lambda>assurance_disclaimer.
     bindE (get_str m ''tpm_mode'') (\<lambda>tpm_mode.
     bindE (get_bool m ''tpm_evidence_verified'') (\<lambda>tpm_evidence_verified.
     bindE (get_bool m ''tpm_assurance_included'') (\<lambda>tpm_assurance_included.
     bindE (get_str m ''worker_public_key'') (\<lambda>worker_public_key.
     bindE (get_str m ''worker_image'') (\<lambda>worker_image.
     bindE (get_str m ''worker_code_digest'') (\<lambda>worker_code_digest.
     bindE (get_str m ''worker_binding_scope'') (\<lambda>worker_binding_scope.
     bindE (get_model pv_read m ''broker_receipt_verifier'') (\<lambda>broker_receipt_verifier.
     bindE (get_model pv_read m ''resource_receipt_verifier'') (\<lambda>resource_receipt_verifier.
     bindE (get_model ro_read m ''runpod_observation'') (\<lambda>runpod_observation.
     bindE (get_int m ''broker_receipt_count'') (\<lambda>broker_receipt_count.
     bindE (get_int m ''resource_receipt_count'') (\<lambda>resource_receipt_count.
     bindE (get_int m ''allowed_attempt_count'') (\<lambda>allowed_attempt_count.
     bindE (get_int m ''denied_attempt_count'') (\<lambda>denied_attempt_count.
     bindE (get_int m ''handler_invocation_count'') (\<lambda>handler_invocation_count.
     bindE (get_int m ''credential_redemption_count'') (\<lambda>credential_redemption_count.
     bindE (get_list co_read m ''cases'') (\<lambda>cases.
     new_experiment_record
       \<lparr>er_schema_version = schema_version, er_experiment_id = experiment_id, er_observed_at = observed_at,
        er_commit_sha = commit_sha, er_uv_lock_sha256 = uv_lock_sha256, er_assurance_scope = assurance_scope,
        er_trust_boundary = trust_boundary, er_assurance_disclaimer = assurance_disclaimer, er_tpm_mode = tpm_mode,
        er_tpm_evidence_verified = tpm_evidence_verified, er_tpm_assurance_included = tpm_assurance_included,
        er_worker_public_key = worker_public_key, er_worker_image = worker_image,
        er_worker_code_digest = worker_code_digest, er_worker_binding_scope = worker_binding_scope,
        er_broker_receipt_verifier = broker_receipt_verifier, er_resource_receipt_verifier = resource_receipt_verifier,
        er_runpod_observation = runpod_observation, er_broker_receipt_count = broker_receipt_count,
        er_resource_receipt_count = resource_receipt_count, er_allowed_attempt_count = allowed_attempt_count,
        er_denied_attempt_count = denied_attempt_count, er_handler_invocation_count = handler_invocation_count,
        er_credential_redemption_count = credential_redemption_count, er_cases = cases\<rparr>))))))))))))))))))))))))))"

interpretation er: closed_model er_names er_members er_read er_valid
proof
  show "er_read m = Inr x \<longleftrightarrow> closed_keys er_names m = Inr () \<and>
      (\<forall>(k, v) \<in> set (er_members x). fmlookup m k = Some v) \<and> er_valid x" for m x
    by (cases x) (auto simp: er_read_def new_experiment_record_def model_checks_Inr er_valid_def er_members_def
      er_fields_def bindE_Inr_iff get_Inr pv.get_model_Inr ro.get_model_Inr co.get_list_Inr)
qed (simp_all add: er_members_def er_names_def)

section \<open>The trusted state between the two halves of a live run\<close>

record public_experiment_verifier =
  pe_schema_version :: string
  pe_key_id :: string
  pe_public_jwk :: public_jwk

definition new_public_experiment_verifier :: "public_experiment_verifier \<Rightarrow> exn + public_experiment_verifier" where
  "new_public_experiment_verifier x =
     model_checks (pe_schema_version x = ''atcap-runpod-experiment-verifier/v1'' \<and> len_in 1 128 (pe_key_id x) \<and>
                   jk_valid (pe_public_jwk x))
       (require (jk_kid (pe_public_jwk x) = pe_key_id x)
          (ValueError ''experiment verifier key ID disagrees with its public JWK'')) x"

record resource_policy_state =
  ps_audience :: string
  ps_method :: string
  ps_qualified_scope :: string
  ps_trusted_broker_public_hex :: string
  ps_challenge_ttl_seconds :: int
  ps_max_credential_lifetime_seconds :: int

definition ps_valid :: "resource_policy_state \<Rightarrow> bool" where
  "ps_valid x \<longleftrightarrow> lower_hex 64 (ps_trusted_broker_public_hex x) \<and> 0 < ps_challenge_ttl_seconds x \<and>
     0 < ps_max_credential_lifetime_seconds x"

record trusted_lab_state =
  ts_schema_version :: string
  ts_experiment_id :: string
  ts_commit_sha :: string
  ts_uv_lock_sha256 :: string
  ts_tpm_mode :: string
  ts_tpm_evidence_verified :: bool
  ts_database_filename :: string
  ts_resource_policy :: resource_policy_state
  ts_resource_challenge_secret :: string
  ts_inventory_receipt_key_id :: string
  ts_inventory_receipt_private_jwk :: "(string, json) fmap"
  ts_broker_receipt_key_id :: string
  ts_broker_receipt_public_jwk :: "(string, json) fmap"
  ts_experiment_key_id :: string
  ts_experiment_private_jwk :: "(string, json) fmap"
  ts_expected_worker_public_key :: string
  ts_worker_image :: string
  ts_worker_code_digest :: string
  ts_prepared_cases :: "prepared_case list"

definition pc_valid :: "prepared_case \<Rightarrow> bool" where
  "pc_valid x \<longleftrightarrow> pc_fields x \<and> request_shape x = Inr ()"

definition ts_fields :: "trusted_lab_state \<Rightarrow> bool" where
  "ts_fields x \<longleftrightarrow> ts_schema_version x = ''atcap-runpod-trusted-state/v1'' \<and> run_id_pattern (ts_experiment_id x) \<and>
     commit_pattern (ts_commit_sha x) \<and> lower_hex 64 (ts_uv_lock_sha256 x) \<and>
     ts_tpm_mode x \<in> {''test-double'', ''real-swtpm''} \<and> ts_database_filename x = ''lab.sqlite3'' \<and>
     ps_valid (ts_resource_policy x) \<and> 64 \<le> length (ts_resource_challenge_secret x) \<and>
     lower_hex 64 (ts_expected_worker_public_key x) \<and> image_pattern (ts_worker_image x) \<and>
     lower_hex 64 (ts_worker_code_digest x) \<and> len_in 1 64 (ts_prepared_cases x) \<and>
     list_all pc_valid (ts_prepared_cases x)"

definition complete_prepared_matrix :: "trusted_lab_state \<Rightarrow> exn + unit" where
  "complete_prepared_matrix x =
     (let cases = ts_prepared_cases x in
      bindE (require (distinct (map (\<lambda>c. cs_case_id (pc_spec c)) cases))
               (ValueError ''trusted state has duplicate case IDs'')) (\<lambda>_.
      bindE (require (distinct (map wr_run_id (concat (map pc_requests cases))))
               (ValueError ''trusted state has duplicate global worker run IDs'')) (\<lambda>_.
      bindE (require (exact_matrix (map (\<lambda>c. cs_variant (pc_spec c)) cases))
               (ValueError ''trusted state does not contain the exact required case matrix'')) (\<lambda>_.
      forE (\<lambda>c. require (\<not> list_ex (\<lambda>r. wr_worker_image r \<noteq> ts_worker_image x \<or> wr_worker_code_digest r \<noteq> ts_worker_code_digest x)
                           (pc_requests c))
                  (ValueError ''trusted state has inconsistent worker bindings'')) cases))))"

definition new_trusted_lab_state :: "trusted_lab_state \<Rightarrow> exn + trusted_lab_state" where
  "new_trusted_lab_state x = model_checks (ts_fields x) (complete_prepared_matrix x) x"

section \<open>What a valid record says\<close>

lemma exact_matrix_iff: "exact_matrix vs \<longleftrightarrow> mset vs = mset all_variants"
proof
  assume m: "exact_matrix vs"
  then have "card (set vs) = length vs"
    by (simp add: exact_matrix_def distinct_card distinct_all_variants)
  then have "distinct vs" by (rule card_distinct)
  with m show "mset vs = mset all_variants"
    by (metis exact_matrix_def distinct_all_variants set_eq_iff_mset_eq_distinct)
next
  assume "mset vs = mset all_variants"
  then show "exact_matrix vs"
    by (metis exact_matrix_def mset_eq_length mset_eq_setD)
qed

lemma observed_outcomes_mset: "mset (observed_outcomes v attempts) = mset (map (\<lambda>a. (ao_allowed a, ao_reason a)) attempts)"
  by (simp add: observed_outcomes_def Let_def)

text \<open>Whatever the order a race left, the decisions of a valid case are the prescribed ones.\<close>

lemma case_outcomes:
  assumes "co_valid c"
  shows "mset (map (\<lambda>a. (ao_allowed a, ao_reason a)) (co_attempts c))
    = mset (expected_outcomes (co_variant c) (length (co_attempts c)))"
  using assms observed_outcomes_mset [of "co_variant c" "co_attempts c"]
  by (auto simp: co_valid_def case_semantics_def Let_def bindE_Inr_iff)

lemma case_counts:
  assumes "co_valid c"
  shows "co_invocation_delta c = expected_count (co_variant c)" "co_credential_redemption_count c = expected_count (co_variant c)"
  using assms by (auto simp: co_valid_def case_semantics_def Let_def bindE_Inr_iff)

lemma length_filter_mset: "length (filter P xs) = size (filter_mset P (mset xs))"
  by (simp flip: mset_filter)

lemma case_allowed:
  assumes "co_valid c"
  shows "count_int ao_allowed (co_attempts c) = expected_count (co_variant c)"
proof -
  have "length (filter ao_allowed (co_attempts c)) = length (filter fst (map (\<lambda>a. (ao_allowed a, ao_reason a)) (co_attempts c)))"
    by (simp add: filter_map o_def)
  also have "\<dots> = length (filter fst (expected_outcomes (co_variant c) (length (co_attempts c))))"
    unfolding length_filter_mset case_outcomes [OF assms] ..
  also have "int \<dots> = expected_count (co_variant c)"
    by (cases "co_variant c") (simp_all add: expected_outcomes_def expected_count_def filter_replicate)
  finally show ?thesis by (simp add: count_int_def)
qed

lemma sum_over_matrix:
  fixes g :: "variant \<Rightarrow> int"
  assumes "exact_matrix (map f xs)"
  shows "sum_list (map (\<lambda>x. g (f x)) xs) = sum_list (map g all_variants)"
proof -
  have "sum_list (map (\<lambda>x. g (f x)) xs) = sum_mset (image_mset g (mset (map f xs)))"
    by (simp add: multiset.map_comp o_def flip: sum_mset_sum_list)
  also have "\<dots> = sum_mset (image_mset g (mset all_variants))"
    using assms by (simp only: exact_matrix_iff)
  finally show ?thesis by (simp flip: sum_mset_sum_list)
qed

lemma expected_total: "sum_list (map expected_count all_variants) = 3"
  by (simp add: all_variants_def expected_count_def)

lemma count_int_concat: "count_int P (concat (map f xs)) = sum_list (map (\<lambda>x. count_int P (f x)) xs)"
  by (induction xs) (simp_all add: count_int_def)

lemma invocation_ids_length:
  "list_all ao_valid attempts \<Longrightarrow> int (length (invocation_ids attempts)) = count_int ao_allowed attempts"
  by (induction attempts)
     (auto simp: invocation_ids_def count_int_def List.map_filter_def ao_valid_def decision_semantics_def split: if_splits)

lemma all_same_iff: "all_same xs \<longleftrightarrow> (\<exists>x. set xs = {x})"
  by (simp add: all_same_def length_remdups_card_conv card_1_singleton_iff)

lemma all_same_map: "all_same xs \<Longrightarrow> all_same (map f xs)"
  by (auto simp: all_same_iff)

lemma replay_checks_same:
  assumes "replay_checks xs = Inr u"
  shows "all_same (map ao_run_id xs) \<and> all_same (map ao_holder_proof_sha256 xs)"
proof -
  let ?b = "\<lambda>a. (ao_request_sha256 a, ao_worker_response_sha256 a, ao_holder_proof_sha256 a)"
  from assms have "all_same (map ao_run_id xs)" and b: "all_same (map ?b xs)"
    by (simp_all only: replay_checks_def bindE_Inr_iff require_Inr_iff simp_thms ex_simps)
  then show ?thesis using all_same_map [OF b, of "\<lambda>(_, _, p). p"] by (simp add: o_def)
qed

text \<open>C30: a case observation that validates shows exactly what its variant prescribes, whatever order a race
  left: the decisions are the prescribed ones, as many attempts are allowed as handler invocations and
  credential redemptions are reported, one for the valid, replayed and concurrent cases and none for the
  others; a replay repeats one request with one proof, and the attempts of a race differ in run identifier,
  request, response and proof.\<close>

theorem case_observation_prescribed:
  assumes "new_case_observation c = Inr c'"
  shows "mset (map (\<lambda>a. (ao_allowed a, ao_reason a)) (co_attempts c'))
      = mset (expected_outcomes (co_variant c') (length (co_attempts c'))) \<and>
    count_int ao_allowed (co_attempts c') = expected_count (co_variant c') \<and>
    co_invocation_delta c' = expected_count (co_variant c') \<and> co_credential_redemption_count c' = expected_count (co_variant c') \<and>
    (co_variant c' = Replay \<longrightarrow> all_same (map ao_run_id (co_attempts c')) \<and> all_same (map ao_holder_proof_sha256 (co_attempts c'))) \<and>
    (co_variant c' = Concurrent \<longrightarrow> 2 \<le> length (co_attempts c') \<and> distinct (map ao_run_id (co_attempts c')) \<and>
       distinct (map ao_request_sha256 (co_attempts c')) \<and> distinct (map ao_holder_proof_sha256 (co_attempts c')))"
proof -
  from assms have v: "co_valid c" and "c' = c" by (auto simp: new_case_observation_def model_checks_Inr co_valid_def)
  then show ?thesis
    using case_outcomes [OF v] case_counts [OF v] case_allowed [OF v]
    by (auto simp: co_valid_def case_semantics_def concurrent_checks_def Let_def bindE_Inr_iff dest: replay_checks_same)
qed

text \<open>C29: an experiment record that validates reports the complete matrix and adds up: seven cases, each
  variant once, exactly three handler invocations, three redemptions and three allowed attempts, whose
  invocation numbers are one, two and three, and every other attempt denied.\<close>

theorem experiment_record_totals:
  assumes "new_experiment_record x = Inr r"
  shows "mset (map co_variant (er_cases r)) = mset all_variants \<and> distinct (map co_case_id (er_cases r)) \<and>
    er_broker_receipt_count r = 7 \<and> er_handler_invocation_count r = 3 \<and> er_credential_redemption_count r = 3 \<and>
    er_allowed_attempt_count r = 3 \<and>
    er_denied_attempt_count r = er_resource_receipt_count r - 3 \<and>
    distinct (invocation_ids (attempts_of (er_cases r))) \<and> set (invocation_ids (attempts_of (er_cases r))) = {1, 2, 3}"
proof -
  from assms have f: "er_fields r" and s: "record_semantics r = Inr ()"
    by (auto simp: new_experiment_record_def model_checks_Inr)
  let ?as = "attempts_of (er_cases r)"
  from s have m: "exact_matrix (map co_variant (er_cases r))" and d: "distinct (map co_case_id (er_cases r))"
    and ids: "distinct (invocation_ids ?as)" "set (invocation_ids ?as) = set (map int [1..<length (invocation_ids ?as) + 1])"
    and counts: "er_broker_receipt_count r = int (length (er_cases r))" "er_resource_receipt_count r = int (length ?as)"
      "er_allowed_attempt_count r = count_int ao_allowed ?as" "er_denied_attempt_count r = count_int (\<lambda>a. \<not> ao_allowed a) ?as"
      "er_handler_invocation_count r = sum_list (map co_invocation_delta (er_cases r))"
      "er_credential_redemption_count r = sum_list (map co_credential_redemption_count (er_cases r))"
    by (auto simp: record_semantics_def Let_def bindE_Inr_iff simp del: upt_Suc)
  have mm: "mset (map co_variant (er_cases r)) = mset all_variants" using m by (simp only: exact_matrix_iff)
  have seven: "length (er_cases r) = 7" using m by (simp add: exact_matrix_def all_variants_def)
  from f have v: "list_all co_valid (er_cases r)" by (simp add: er_fields_def)
  have total: "sum_list (map (\<lambda>c. expected_count (co_variant c)) (er_cases r)) = 3"
    using sum_over_matrix [OF m, of expected_count] expected_total by simp
  have sums: "sum_list (map co_invocation_delta (er_cases r)) = 3" "sum_list (map co_credential_redemption_count (er_cases r)) = 3"
      "count_int ao_allowed ?as = 3"
    unfolding total [symmetric] attempts_of_def count_int_concat
    using v by (auto simp: list_all_iff case_counts case_allowed intro!: arg_cong [where f = sum_list] map_cong)
  have "list_all ao_valid ?as"
    using v by (fastforce simp: attempts_of_def list_all_iff co_valid_def co_fields_def)
  then have "length (invocation_ids ?as) = 3" using sums(3) invocation_ids_length by fastforce
  with ids have "set (invocation_ids ?as) = {1, 2, 3}" by (simp add: upt_rec)
  moreover have "count_int (\<lambda>a. \<not> ao_allowed a) ?as = int (length ?as) - count_int ao_allowed ?as"
    using sum_length_filter_compl [of ao_allowed ?as] by (simp add: count_int_def)
  ultimately show ?thesis
    using d ids(1) counts sums mm seven by (intro conjI) (assumption | simp)+
qed

text \<open>A record of one complete run, with a race of two.\<close>

definition demo_image :: string where
  "demo_image = ''a/b@sha256:'' @ replicate 64 CHR ''0''"

definition demo_hex :: "char \<Rightarrow> string" where
  "demo_hex c = replicate 64 c"

definition demo_attempt :: "char \<Rightarrow> int \<Rightarrow> reason \<Rightarrow> int option \<Rightarrow> attempt_observation" where
  "demo_attempt c n r i =
     \<lparr>ao_run_id = [c], ao_redemption_sequence = n, ao_request_sha256 = demo_hex c, ao_worker_response_sha256 = demo_hex c,
      ao_holder_proof_sha256 = demo_hex c, ao_allowed = (r = ALLOW), ao_reason = reason_str r, ao_receipt_jws = ''j'',
      ao_receipt_verified = True, ao_handler_invoked = (r = ALLOW),
      ao_business_result = (if r = ALLOW then ''completed'' else ''not_invoked''), ao_invocation_id = i\<rparr>"

definition demo_metadata :: runpod_metadata where
  "demo_metadata = \<lparr>md_provider = ''runpod'', md_trust = ''untrusted''\<rparr>"

definition demo_case :: "char \<Rightarrow> variant \<Rightarrow> attempt_observation list \<Rightarrow> case_observation" where
  "demo_case c v attempts =
     \<lparr>co_case_id = [c], co_variant = v, co_broker_receipt_jws = ''j'', co_broker_receipt_verified = True,
      co_worker_binding_verified = True, co_worker_public_key = demo_hex CHR ''1'', co_worker_image = demo_image,
      co_worker_code_digest = demo_hex CHR ''2'', co_worker_binding_scope = ''holder-key-and-claimed-digest-only'',
      co_runpod_metadata = replicate (if v = Concurrent then length attempts else 1) demo_metadata,
      co_attempts = attempts, co_invocation_delta = expected_count v, co_credential_redemption_count = expected_count v\<rparr>"

definition demo_cases :: "case_observation list" where
  "demo_cases =
     [demo_case CHR ''a'' Valid [demo_attempt CHR ''a'' 1 ALLOW (Some 1)],
      demo_case CHR ''b'' Replay [demo_attempt CHR ''b'' 1 ALLOW (Some 2), demo_attempt CHR ''b'' 2 CHALLENGE_CONSUMED None],
      demo_case CHR ''c'' ArgumentSubstitution [demo_attempt CHR ''c'' 1 HOLDER_PROOF_INVALID None],
      demo_case CHR ''d'' RecordSubstitution [demo_attempt CHR ''d'' 1 HOLDER_PROOF_INVALID None],
      demo_case CHR ''e'' WrongHolder [demo_attempt CHR ''e'' 1 HOLDER_PROOF_INVALID None],
      demo_case CHR ''f'' Malformed [demo_attempt CHR ''f'' 1 HOLDER_PROOF_INVALID None],
      demo_case CHR ''0'' Concurrent
        [demo_attempt CHR ''0'' 1 CREDENTIAL_SPENT None, demo_attempt CHR ''1'' 1 ALLOW (Some 3)]]"

definition demo_verifier :: "char \<Rightarrow> public_receipt_verifier" where
  "demo_verifier c = \<lparr>pv_key_id = [c], pv_public_jwk = \<lparr>jk_kty = ''OKP'', jk_crv = ''Ed25519'', jk_x = replicate 43 c,
     jk_alg = ''Ed25519'', jk_kid = [c], jk_use = ''sig''\<rparr>\<rparr>"

definition demo_record :: experiment_record where
  "demo_record =
     \<lparr>er_schema_version = ''atcap-runpod-experiment-record/v1'', er_experiment_id = ''e'', er_observed_at = 100,
      er_commit_sha = replicate 40 CHR ''0'', er_uv_lock_sha256 = demo_hex CHR ''3'',
      er_assurance_scope = ''local-controller-observation-only'', er_trust_boundary = TRUST_BOUNDARY,
      er_assurance_disclaimer = ASSURANCE_DISCLAIMER, er_tpm_mode = ''test-double'', er_tpm_evidence_verified = False,
      er_tpm_assurance_included = False, er_worker_public_key = demo_hex CHR ''1'', er_worker_image = demo_image,
      er_worker_code_digest = demo_hex CHR ''2'', er_worker_binding_scope = ''holder-key-and-claimed-digest-only'',
      er_broker_receipt_verifier = demo_verifier CHR ''b'', er_resource_receipt_verifier = demo_verifier CHR ''r'',
      er_runpod_observation = \<lparr>ro_provider = ''runpod'', ro_trust = ''untrusted'', ro_endpoint_id_sha256 = demo_hex CHR ''4'',
        ro_job_id_sha256 = demo_hex CHR ''5'', ro_worker_id_sha256 = None, ro_status = ''COMPLETED'',
        ro_worker_image_argument = demo_image, ro_delay_time_ms = None, ro_execution_time_ms = Some 5\<rparr>,
      er_broker_receipt_count = 7, er_resource_receipt_count = 9, er_allowed_attempt_count = 3, er_denied_attempt_count = 6,
      er_handler_invocation_count = 3, er_credential_redemption_count = 3, er_cases = demo_cases\<rparr>"

lemma demo_image_pattern: "image_pattern demo_image"
  by code_simp

lemma demo_cases_valid: "list_all co_valid demo_cases"
  by code_simp

lemma demo_record_valid: "er_fields demo_record \<and> record_semantics demo_record = Inr ()"
  by code_simp

theorem case_observation_prescribed_witness:
  "let c = demo_case CHR ''0'' Concurrent
     [demo_attempt CHR ''0'' 1 CREDENTIAL_SPENT None, demo_attempt CHR ''1'' 1 ALLOW (Some 3)] in
   new_case_observation c = Inr c \<and> count_int ao_allowed (co_attempts c) = 1"
proof -
  let ?c = "demo_case CHR ''0'' Concurrent
     [demo_attempt CHR ''0'' 1 CREDENTIAL_SPENT None, demo_attempt CHR ''1'' 1 ALLOW (Some 3)]"
  have c: "new_case_observation ?c = Inr ?c"
    using demo_cases_valid by (simp add: demo_cases_def new_case_observation_def model_checks_Inr co_valid_def)
  then show ?thesis
    using case_observation_prescribed [OF c] by (simp add: demo_case_def expected_count_def)
qed

theorem experiment_record_totals_witness:
  "new_experiment_record demo_record = Inr demo_record \<and> er_handler_invocation_count demo_record = 3 \<and>
   set (invocation_ids (attempts_of (er_cases demo_record))) = {1, 2, 3}"
proof -
  have r: "new_experiment_record demo_record = Inr demo_record"
    using demo_record_valid by (simp add: new_experiment_record_def model_checks_Inr)
  then show ?thesis using experiment_record_totals [OF r] by simp
qed

end
