(* ===== verification/Experiment_Record.thy ===== *)
theory Experiment_Record
  imports Wire Receipt Worker
begin

text \<open>
  \<^verbatim>\<open>lab/record.py\<close>: the signed experiment record. Verification checks the signature and the schema,
  and then verifies every receipt the record embeds again, with the keys the record names, and compares
  it with the case it belongs to.

  The verifier collects what it has seen in sets and lists that it fills from each accepted receipt; the
  model keeps the accepted receipts themselves, in order and with their texts, and reads those sets and
  lists off them.
\<close>

section \<open>Signer and verifier\<close>

definition EXPERIMENT_JWS_TYPE :: string where
  "EXPERIMENT_JWS_TYPE = ''atcap-runpod-experiment+jws''"

definition EXPECTED_QUALIFIED_SCOPE :: string where
  "EXPECTED_QUALIFIED_SCOPE = ''mcp://inventoryd/tool/inventory.lookup''"

definition EXPECTED_METHOD :: string where
  "EXPECTED_METHOD = ''inventory.lookup''"

definition EXPECTED_AUDIENCE :: string where
  "EXPECTED_AUDIENCE = ''inventoryd''"

record experiment_signer =
  es_private_key :: okp_key
  es_key_id :: string

record experiment_verifier =
  ev_public_key :: okp_key
  ev_key_id :: string

definition signer_from_private_jwk :: "jws_lib \<Rightarrow> json \<Rightarrow> string \<Rightarrow> exn + experiment_signer" where
  "signer_from_private_jwk jws jwk key_id =
     bindE (okp_import jws jwk) (\<lambda>key. Inr \<lparr>es_private_key = key, es_key_id = key_id\<rparr>)"

definition signer_private_jwk :: "jws_lib \<Rightarrow> experiment_signer \<Rightarrow> json" where
  "signer_private_jwk jws signer = okp_as_dict jws (es_private_key signer) True"

definition signer_public_jwk :: "jws_lib \<Rightarrow> experiment_signer \<Rightarrow> json" where
  "signer_public_jwk jws signer = okp_as_dict jws (es_private_key signer) False"

definition verifier_from_public_jwk :: "jws_lib \<Rightarrow> json \<Rightarrow> string \<Rightarrow> exn + experiment_verifier" where
  "verifier_from_public_jwk jws jwk key_id =
     bindE (okp_import jws jwk) (\<lambda>key. Inr \<lparr>ev_public_key = key, ev_key_id = key_id\<rparr>)"

definition experiment_header :: "string \<Rightarrow> dict" where
  "experiment_header key_id =
     fmap_of_list [(''alg'', JWS_ALGORITHM), (''kid'', key_id), (''typ'', EXPERIMENT_JWS_TYPE)]"

record signed_experiment_record =
  sr_compact_jws :: string

definition record_sign :: "libs \<Rightarrow> experiment_signer \<Rightarrow> experiment_record \<Rightarrow> exn + signed_experiment_record" where
  "record_sign lib signer payload =
     bindE (canonical_json (lib_dumps lib) (obj (er_members payload))) (\<lambda>claims.
     bindE (serialize_compact (lib_jws lib) (experiment_header (es_key_id signer)) claims (es_private_key signer)
              [JWS_ALGORITHM]) (\<lambda>compact.
     bindE (require (compact \<noteq> []) invalid) (\<lambda>_.
     Inr \<lparr>sr_compact_jws = compact\<rparr>)))"

section \<open>Embedded receipts\<close>

type_synonym receipt_log = "(string \<times> decision_receipt_payload) list"

record receipt_trace =
  tc_brokers :: receipt_log
  tc_resources :: receipt_log
  tc_replay_challenge :: "string option"

abbreviation seen :: "(decision_receipt_payload \<Rightarrow> 'a) \<Rightarrow> receipt_log \<Rightarrow> 'a list" where
  "seen f log \<equiv> map (\<lambda>p. f (snd p)) log"

definition broker_artifacts :: "string list" where
  "broker_artifacts = [''broker_policy_sha256'', ''issuance_request_sha256'', ''tpm_ak_chain_sha256'', ''tpm_attest_sha256'',
     ''tpm_signature_sha256'']"

definition opt_hex :: "string option \<Rightarrow> bool" where
  "opt_hex x = (case x of None \<Rightarrow> False | Some s \<Rightarrow> lower_hex 64 s)"

text \<open>The long condition under which a broker receipt fits its case, and the one under which a resource
  receipt fits its attempt.\<close>

definition broker_receipt_matches :: "experiment_record \<Rightarrow> decision_receipt_payload \<Rightarrow> bool" where
  "broker_receipt_matches payload b \<longleftrightarrow>
     rp_deciding_service b = ''broker'' \<and> rp_decision b = ''allow'' \<and> rp_reason b = reason_str ALLOW \<and>
     rp_credential_id b \<noteq> None \<and> rp_scope b \<noteq> None \<and> rp_challenge_token_hash b \<noteq> None \<and> rp_manifest_digest b \<noteq> None \<and> \<not> rp_decided_at b > er_observed_at payload \<and>
     fset (fmdom (rp_artifact_hashes b)) = set broker_artifacts \<and>
     opt_hex (rp_credential_id b) \<and> opt_hex (rp_challenge_token_hash b) \<and> fmpred (\<lambda>_ v. lower_hex 64 v) (rp_artifact_hashes b) \<and>
     (case rp_manifest_digest b of None \<Rightarrow> False | Some d \<Rightarrow> manifest_digest_pattern d) \<and>
     rp_call_method b = None \<and> rp_call_audience b = None \<and> rp_arguments_digest b = None \<and> rp_record_id b = None"

definition broker_receipt_fits :: "experiment_record \<Rightarrow> receipt_trace \<Rightarrow> decision_receipt_payload \<Rightarrow> bool" where
  "broker_receipt_fits payload tr b \<longleftrightarrow>
     rp_receipt_id b \<notin> set (seen rp_receipt_id (tc_brokers tr)) \<and>
     rp_credential_id b \<notin> set (seen rp_credential_id (tc_brokers tr)) \<and>
     rp_challenge_token_hash b \<notin> set (seen rp_challenge_token_hash (tc_brokers tr)) \<and> broker_receipt_matches payload b"

definition resource_receipt_matches ::
  "experiment_record \<Rightarrow> variant \<Rightarrow> decision_receipt_payload \<Rightarrow> attempt_observation \<Rightarrow> decision_receipt_payload \<Rightarrow> bool" where
  "resource_receipt_matches payload v b a r \<longleftrightarrow>
     rp_deciding_service r = ''inventoryd'' \<and>
     rp_decision r = (if ao_allowed a then ''allow'' else ''deny'') \<and> rp_reason r = ao_reason a \<and>
     rp_credential_id r = rp_credential_id b \<and> rp_scope r = rp_scope b \<and> rp_call_method r \<noteq> None \<and>
     rp_call_audience r \<noteq> None \<and> rp_arguments_digest r \<noteq> None \<and> rp_record_id r \<noteq> None \<and> rp_manifest_digest r = None \<and>
     \<not> rp_decided_at r < rp_decided_at b \<and> \<not> rp_decided_at r > er_observed_at payload \<and>
     rp_handler_invoked r = ao_handler_invoked a \<and> rp_business_result r = ao_business_result a \<and>
     rp_invocation_id r = ao_invocation_id a \<and> fset (fmdom (rp_artifact_hashes r)) = {''resource_policy_sha256''} \<and>
     opt_hex (fmlookup (rp_artifact_hashes r) ''resource_policy_sha256'') \<and> opt_hex (rp_arguments_digest r) \<and>
     (if v = Malformed then rp_challenge_token_hash r = None else opt_hex (rp_challenge_token_hash r))"

definition resource_receipt_fits ::
  "experiment_record \<Rightarrow> receipt_trace \<Rightarrow> variant \<Rightarrow> decision_receipt_payload \<Rightarrow> attempt_observation \<Rightarrow> decision_receipt_payload \<Rightarrow> bool" where
  "resource_receipt_fits payload tr v b a r \<longleftrightarrow>
     rp_receipt_id r \<notin> set (seen rp_receipt_id (tc_resources tr)) \<and> resource_receipt_matches payload v b a r"

definition verify_attempt ::
  "libs \<Rightarrow> receipt_verifier \<Rightarrow> experiment_record \<Rightarrow> variant \<Rightarrow> decision_receipt_payload \<Rightarrow> attempt_observation
   \<Rightarrow> receipt_trace \<Rightarrow> exn + receipt_trace" where
  "verify_attempt lib verifier payload v b a tr =
     bindE (require (ao_receipt_jws a \<notin> set (map fst (tc_resources tr))) (ValueError ''experiment reuses a resource receipt'')) (\<lambda>_.
     bindE (receipt_verify (lib_jws lib) (lib_dumps lib) (lib_scan lib) verifier \<lparr>compact_jws = ao_receipt_jws a\<rparr>) (\<lambda>r.
     bindE (require (resource_receipt_fits payload tr v b a r)
              (ValueError ''resource receipt contradicts the experiment attempt'')) (\<lambda>_.
     Inr (tr\<lparr>tc_resources := tc_resources tr @ [(ao_receipt_jws a, r)]\<rparr>))))"

definition expected_invocation_id :: "variant \<Rightarrow> int option" where
  "expected_invocation_id v = (case v of Valid \<Rightarrow> Some 1 | Replay \<Rightarrow> Some 2 | Concurrent \<Rightarrow> Some 3 | _ \<Rightarrow> None)"

text \<open>The receipts of one case together.\<close>

definition case_receipts_check :: "case_observation \<Rightarrow> receipt_log \<Rightarrow> exn + unit" where
  "case_receipts_check c log =
     (let hashes = seen rp_challenge_token_hash log; records = seen rp_record_id log; digests = seen rp_arguments_digest log;
          allowed = map ao_invocation_id (filter ao_allowed (co_attempts c)) in
      bindE (require (\<not> (co_variant c = Replay \<and> \<not> (all_same hashes \<and> all_same records \<and> all_same digests)))
               (ValueError ''replay receipts do not reuse the same call context'')) (\<lambda>_.
      bindE (require (\<not> (co_variant c = Replay \<and>
                        \<not> (sorted (seen rp_decided_at log) \<and> sorted (seen rp_handler_count_snapshot log))))
               (ValueError ''replay receipts contradict their redemption order'')) (\<lambda>_.
      bindE (require (\<not> (co_variant c = Concurrent \<and> \<not> (distinct hashes \<and> distinct records \<and> all_same digests)))
               (ValueError ''concurrent receipts contradict their fresh call contexts'')) (\<lambda>_.
      require (\<not> (case expected_invocation_id (co_variant c) of None \<Rightarrow> False | Some i \<Rightarrow> allowed \<noteq> [Some i]))
        (ValueError ''allowed receipt contradicts the fixed case execution order'')))))"

definition note_replay :: "case_observation \<Rightarrow> receipt_log \<Rightarrow> receipt_trace \<Rightarrow> receipt_trace" where
  "note_replay c log tr =
     (if co_variant c = Replay then tr\<lparr>tc_replay_challenge := rp_challenge_token_hash (snd (hd log))\<rparr> else tr)"

definition verify_case ::
  "libs \<Rightarrow> receipt_verifier \<Rightarrow> receipt_verifier \<Rightarrow> experiment_record \<Rightarrow> case_observation \<Rightarrow> receipt_trace \<Rightarrow> exn + receipt_trace" where
  "verify_case lib broker_verifier resource_verifier payload c tr =
     bindE (require (co_broker_receipt_jws c \<notin> set (map fst (tc_brokers tr))) (ValueError ''experiment reuses a broker receipt'')) (\<lambda>_.
     bindE (receipt_verify (lib_jws lib) (lib_dumps lib) (lib_scan lib) broker_verifier \<lparr>compact_jws = co_broker_receipt_jws c\<rparr>) (\<lambda>b.
     bindE (require (broker_receipt_fits payload tr b) (ValueError ''broker receipt contradicts the experiment case'')) (\<lambda>_.
     let tr1 = tr\<lparr>tc_brokers := tc_brokers tr @ [(co_broker_receipt_jws c, b)]\<rparr> in
     bindE (foldE (verify_attempt lib resource_verifier payload (co_variant c) b) (co_attempts c) tr1) (\<lambda>tr2.
     let log = drop (length (tc_resources tr)) (tc_resources tr2) in
     bindE (case_receipts_check c log) (\<lambda>_.
     Inr (note_replay c log tr2))))))"

definition artifact :: "string \<Rightarrow> decision_receipt_payload \<Rightarrow> string option" where
  "artifact k r = fmlookup (rp_artifact_hashes r) k"

text \<open>The checks after the loop, over everything that was collected. Sets are compared by their number of
  different members.\<close>

definition resource_challenge_hashes :: "receipt_log \<Rightarrow> string list" where
  "resource_challenge_hashes log = List.map_filter (\<lambda>p. rp_challenge_token_hash (snd p)) log"

definition replay_pair_only :: "string option \<Rightarrow> string list \<Rightarrow> bool" where
  "replay_pair_only replay hashes =
     (case replay of
        None \<Rightarrow> False
      | Some h \<Rightarrow> count_list hashes h = 2 \<and> list_all (\<lambda>x. count_list hashes x = (if x = h then 2 else 1)) hashes)"

definition final_checks :: "experiment_record \<Rightarrow> receipt_trace \<Rightarrow> exn + unit" where
  "final_checks payload tr =
     (let bs = tc_brokers tr; rs = tc_resources tr; n = length (er_cases payload); snapshots = seen rp_handler_count_snapshot rs in
      bindE (require (all_same (seen rp_scope bs) \<and> all_same (seen rp_call_method rs) \<and> all_same (seen rp_call_audience rs) \<and>
                all_same (seen rp_manifest_digest bs) \<and> all_same (seen (artifact ''broker_policy_sha256'') bs) \<and>
                all_same (seen (artifact ''resource_policy_sha256'') rs))
               (ValueError ''embedded receipts disagree on resource bindings'')) (\<lambda>_.
      bindE (require (set (seen rp_scope bs) = {Some EXPECTED_QUALIFIED_SCOPE} \<and>
                set (seen rp_call_method rs) = {Some EXPECTED_METHOD} \<and> set (seen rp_call_audience rs) = {Some EXPECTED_AUDIENCE})
               (ValueError ''embedded receipts do not name the fixed inventory capability'')) (\<lambda>_.
      bindE (require (length (remdups (seen (artifact ''issuance_request_sha256'') bs)) = n)
               (ValueError ''broker receipts reuse an issuance request'')) (\<lambda>_.
      bindE (require (\<not> (er_tpm_mode payload = ''real-swtpm'' \<and>
                \<not> (all_same (seen (artifact ''tpm_ak_chain_sha256'') bs) \<and>
                   length (remdups (seen (artifact ''tpm_attest_sha256'') bs)) = n \<and>
                   length (remdups (seen (artifact ''tpm_signature_sha256'') bs)) = n)))
               (ValueError ''real-swtpm broker receipts contradict the fresh-quote trace'')) (\<lambda>_.
      bindE (require (snapshots \<noteq> [] \<and> list_all (\<lambda>k. \<not> k > er_handler_invocation_count payload) snapshots \<and>
                Max (set snapshots) = er_handler_invocation_count payload)
               (ValueError ''resource receipt snapshots contradict the final handler count'')) (\<lambda>_.
      require (replay_pair_only (tc_replay_challenge tr) (resource_challenge_hashes rs))
        (ValueError ''resource challenge hashes are reused outside the replay pair'')))))))"

definition import_verifier :: "libs \<Rightarrow> public_receipt_verifier \<Rightarrow> exn + receipt_verifier" where
  "import_verifier lib v =
     bindE (okp_import (lib_jws lib) (obj (jk_members (pv_public_jwk v)))) (\<lambda>key.
     Inr \<lparr>verifier_key = key, verifier_key_id = pv_key_id v\<rparr>)"

definition verify_embedded_receipts :: "libs \<Rightarrow> experiment_record \<Rightarrow> exn + unit" where
  "verify_embedded_receipts lib payload =
     bindE (import_verifier lib (er_broker_receipt_verifier payload)) (\<lambda>broker_verifier.
     bindE (import_verifier lib (er_resource_receipt_verifier payload)) (\<lambda>resource_verifier.
     bindE (foldE (verify_case lib broker_verifier resource_verifier payload) (er_cases payload)
              \<lparr>tc_brokers = [], tc_resources = [], tc_replay_challenge = None\<rparr>) (\<lambda>tr.
     final_checks payload tr)))"

definition record_verify :: "libs \<Rightarrow> experiment_verifier \<Rightarrow> signed_experiment_record \<Rightarrow> exn + experiment_record" where
  "record_verify lib v sr =
     catching (\<lambda>_. True) (ExperimentRecordError ''experiment record verification failed'')
       (bindE (deserialize_compact (lib_jws lib) (sr_compact_jws sr) (ev_public_key v) [JWS_ALGORITHM]) (\<lambda>(header, claims).
        bindE (require (header = experiment_header (ev_key_id v)) (ValueError ''unexpected protected header'')) (\<lambda>_.
        bindE (strict_canonical lib er_read claims) (\<lambda>payload.
        bindE (verify_embedded_receipts lib payload) (\<lambda>_. Inr payload)))))"

section \<open>What the loop establishes\<close>

text \<open>One receipt per attempt, in order, verified and matching; over the whole record they are new.\<close>

definition attempt_receipt ::
  "libs \<Rightarrow> receipt_verifier \<Rightarrow> experiment_record \<Rightarrow> variant \<Rightarrow> decision_receipt_payload \<Rightarrow> attempt_observation
   \<Rightarrow> string \<times> decision_receipt_payload \<Rightarrow> bool" where
  "attempt_receipt lib verifier payload v b a p \<longleftrightarrow>
     fst p = ao_receipt_jws a \<and>
     receipt_verify (lib_jws lib) (lib_dumps lib) (lib_scan lib) verifier \<lparr>compact_jws = ao_receipt_jws a\<rparr> = Inr (snd p) \<and>
     resource_receipt_matches payload v b a (snd p)"

definition log_fresh :: "receipt_log \<Rightarrow> bool" where
  "log_fresh log \<longleftrightarrow> distinct (map fst log) \<and> distinct (seen rp_receipt_id log)"

lemma log_fresh_prefix: "log_fresh (xs @ ys) \<Longrightarrow> log_fresh xs"
  by (simp add: log_fresh_def)

lemma verify_attempt_iff:
  assumes "log_fresh (tc_resources tr)"
  shows "verify_attempt lib verifier payload v b a tr = Inr tr' \<longleftrightarrow>
    (\<exists>p. tr' = tr\<lparr>tc_resources := tc_resources tr @ [p]\<rparr> \<and> attempt_receipt lib verifier payload v b a p \<and>
       log_fresh (tc_resources tr @ [p]))"
  using assms by (fastforce simp: verify_attempt_def bindE_Inr_iff attempt_receipt_def log_fresh_def resource_receipt_fits_def)

lemma verify_attempts_iff:
  assumes "log_fresh (tc_resources tr)"
  shows "foldE (verify_attempt lib verifier payload v b) as tr = Inr tr' \<longleftrightarrow>
    (\<exists>log. tr' = tr\<lparr>tc_resources := tc_resources tr @ log\<rparr> \<and> list_all2 (attempt_receipt lib verifier payload v b) as log \<and>
       log_fresh (tc_resources tr @ log))"
  using assms
proof (induction as arbitrary: tr)
  case Nil
  then show ?case by auto
next
  case (Cons a as)
  note ih = Cons.IH [of "tr\<lparr>tc_resources := tc_resources tr @ [p]\<rparr>" for p, simplified]
  show ?case
  proof
    assume "foldE (verify_attempt lib verifier payload v b) (a # as) tr = Inr tr'"
    then obtain p where p: "attempt_receipt lib verifier payload v b a p" "log_fresh (tc_resources tr @ [p])"
      and rest: "foldE (verify_attempt lib verifier payload v b) as (tr\<lparr>tc_resources := tc_resources tr @ [p]\<rparr>) = Inr tr'"
      by (auto simp: bindE_Inr_iff verify_attempt_iff [OF Cons.prems])
    with ih [OF p(2)] show "\<exists>log. tr' = tr\<lparr>tc_resources := tc_resources tr @ log\<rparr> \<and>
        list_all2 (attempt_receipt lib verifier payload v b) (a # as) log \<and> log_fresh (tc_resources tr @ log)"
      by (auto intro: exI [of _ "p # log" for log])
  next
    assume "\<exists>log. tr' = tr\<lparr>tc_resources := tc_resources tr @ log\<rparr> \<and>
        list_all2 (attempt_receipt lib verifier payload v b) (a # as) log \<and> log_fresh (tc_resources tr @ log)"
    then obtain p log where p: "tr' = tr\<lparr>tc_resources := tc_resources tr @ p # log\<rparr>"
        "attempt_receipt lib verifier payload v b a p" "list_all2 (attempt_receipt lib verifier payload v b) as log"
        "log_fresh ((tc_resources tr @ [p]) @ log)"
      by (auto simp: list_all2_Cons1)
    note f = log_fresh_prefix [OF p(4)]
    have "verify_attempt lib verifier payload v b a tr = Inr (tr\<lparr>tc_resources := tc_resources tr @ [p]\<rparr>)"
      using verify_attempt_iff [OF Cons.prems] p(2) f by blast
    moreover have "foldE (verify_attempt lib verifier payload v b) as (tr\<lparr>tc_resources := tc_resources tr @ [p]\<rparr>) = Inr tr'"
      unfolding ih [OF f] using p by (intro exI [of _ log]) simp
    ultimately show "foldE (verify_attempt lib verifier payload v b) (a # as) tr = Inr tr'" by simp
  qed
qed

text \<open>The receipts of one case: its broker receipt and those of its attempts.\<close>

type_synonym case_log = "(string \<times> decision_receipt_payload) \<times> receipt_log"

definition case_receipts ::
  "libs \<Rightarrow> receipt_verifier \<Rightarrow> receipt_verifier \<Rightarrow> experiment_record \<Rightarrow> case_observation \<Rightarrow> case_log \<Rightarrow> bool" where
  "case_receipts lib bv rv payload c x \<longleftrightarrow>
     fst (fst x) = co_broker_receipt_jws c \<and>
     receipt_verify (lib_jws lib) (lib_dumps lib) (lib_scan lib) bv \<lparr>compact_jws = co_broker_receipt_jws c\<rparr> = Inr (snd (fst x)) \<and>
     broker_receipt_matches payload (snd (fst x)) \<and>
     list_all2 (attempt_receipt lib rv payload (co_variant c) (snd (fst x))) (co_attempts c) (snd x) \<and>
     case_receipts_check c (snd x) = Inr ()"

definition brokers_fresh :: "receipt_log \<Rightarrow> bool" where
  "brokers_fresh log \<longleftrightarrow> log_fresh log \<and> distinct (seen rp_credential_id log) \<and> distinct (seen rp_challenge_token_hash log)"

lemma brokers_fresh_prefix: "brokers_fresh (xs @ ys) \<Longrightarrow> brokers_fresh xs"
  by (simp add: brokers_fresh_def log_fresh_def)

definition log_case :: "case_observation \<times> case_log \<Rightarrow> receipt_trace \<Rightarrow> receipt_trace" where
  "log_case = (\<lambda>(c, x) tr.
     note_replay c (snd x) (tr\<lparr>tc_brokers := tc_brokers tr @ [fst x], tc_resources := tc_resources tr @ snd x\<rparr>))"

lemma brokers_fresh_snoc:
  assumes "brokers_fresh (tc_brokers tr)"
  shows "broker_receipt_fits payload tr b \<and> jws \<notin> set (map fst (tc_brokers tr)) \<longleftrightarrow>
    broker_receipt_matches payload b \<and> brokers_fresh (tc_brokers tr @ [(jws, b)])"
  using assms by (auto simp: brokers_fresh_def log_fresh_def broker_receipt_fits_def)

lemma verify_case_iff:
  assumes fresh: "brokers_fresh (tc_brokers tr)" "log_fresh (tc_resources tr)"
  shows "verify_case lib bv rv payload c tr = Inr tr' \<longleftrightarrow>
    (\<exists>x. case_receipts lib bv rv payload c x \<and> brokers_fresh (tc_brokers tr @ [fst x]) \<and>
       log_fresh (tc_resources tr @ snd x) \<and> tr' = log_case (c, x) tr)" (is "?L \<longleftrightarrow> ?R")
proof -
  let ?verify = "receipt_verify (lib_jws lib) (lib_dumps lib) (lib_scan lib) bv \<lparr>compact_jws = co_broker_receipt_jws c\<rparr>"
  let ?tr1 = "\<lambda>b. tr\<lparr>tc_brokers := tc_brokers tr @ [(co_broker_receipt_jws c, b)]\<rparr>"
  have "?L \<longleftrightarrow> (\<exists>b tr2. ?verify = Inr b \<and> broker_receipt_matches payload b \<and>
      brokers_fresh (tc_brokers tr @ [(co_broker_receipt_jws c, b)]) \<and>
      foldE (verify_attempt lib rv payload (co_variant c) b) (co_attempts c) (?tr1 b) = Inr tr2 \<and>
      case_receipts_check c (drop (length (tc_resources tr)) (tc_resources tr2)) = Inr () \<and>
      tr' = note_replay c (drop (length (tc_resources tr)) (tc_resources tr2)) tr2)"
    using brokers_fresh_snoc [OF fresh(1)] by (auto simp: verify_case_def Let_def bindE_Inr_iff)
  also have "\<dots> \<longleftrightarrow> (\<exists>b log. ?verify = Inr b \<and> broker_receipt_matches payload b \<and>
      brokers_fresh (tc_brokers tr @ [(co_broker_receipt_jws c, b)]) \<and>
      list_all2 (attempt_receipt lib rv payload (co_variant c) b) (co_attempts c) log \<and> log_fresh (tc_resources tr @ log) \<and>
      case_receipts_check c log = Inr () \<and> tr' = log_case (c, ((co_broker_receipt_jws c, b), log)) tr)"
    (is "?A \<longleftrightarrow> ?B")
  proof
    show "?A \<Longrightarrow> ?B"
      using fresh(2) by (auto simp: verify_attempts_iff log_case_def)
    assume ?B
    then obtain b log where "?verify = Inr b" "broker_receipt_matches payload b"
        "brokers_fresh (tc_brokers tr @ [(co_broker_receipt_jws c, b)])"
        "list_all2 (attempt_receipt lib rv payload (co_variant c) b) (co_attempts c) log" "log_fresh (tc_resources tr @ log)"
        "case_receipts_check c log = Inr ()" "tr' = log_case (c, ((co_broker_receipt_jws c, b), log)) tr" by blast
    then show ?A
      using fresh(2)
      by (intro exI [of _ b] exI [of _ "(?tr1 b)\<lparr>tc_resources := tc_resources tr @ log\<rparr>"])
         (auto simp: verify_attempts_iff log_case_def)
  qed
  also have "\<dots> \<longleftrightarrow> ?R"
    by (auto simp: case_receipts_def)
  finally show ?thesis .
qed

lemma verify_cases_iff:
  assumes "brokers_fresh (tc_brokers tr)" "log_fresh (tc_resources tr)"
  shows "foldE (verify_case lib bv rv payload) cs tr = Inr tr' \<longleftrightarrow>
    (\<exists>xs. list_all2 (case_receipts lib bv rv payload) cs xs \<and> brokers_fresh (tc_brokers tr @ map fst xs) \<and>
       log_fresh (tc_resources tr @ concat (map snd xs)) \<and> tr' = fold log_case (zip cs xs) tr)"
  using assms
proof (induction cs arbitrary: tr)
  case Nil
  then show ?case by auto
next
  case (Cons c cs)
  have logs [simp]: "tc_brokers (log_case (c, x) tr) = tc_brokers tr @ [fst x]"
    "tc_resources (log_case (c, x) tr) = tc_resources tr @ snd x" for x
    by (simp_all add: log_case_def note_replay_def)
  note ih = Cons.IH [of "log_case (c, x) tr" for x, simplified logs]
  show ?case
  proof
    assume "foldE (verify_case lib bv rv payload) (c # cs) tr = Inr tr'"
    then obtain x where x: "case_receipts lib bv rv payload c x" "brokers_fresh (tc_brokers tr @ [fst x])"
        "log_fresh (tc_resources tr @ snd x)" "foldE (verify_case lib bv rv payload) cs (log_case (c, x) tr) = Inr tr'"
      by (auto simp: bindE_Inr_iff verify_case_iff [OF Cons.prems])
    from ih [OF x(2,3)] x(4) obtain xs where "list_all2 (case_receipts lib bv rv payload) cs xs"
        "brokers_fresh ((tc_brokers tr @ [fst x]) @ map fst xs)" "log_fresh ((tc_resources tr @ snd x) @ concat (map snd xs))"
        "tr' = fold log_case (zip cs xs) (log_case (c, x) tr)" by blast
    with x(1) show "\<exists>xs. list_all2 (case_receipts lib bv rv payload) (c # cs) xs \<and>
        brokers_fresh (tc_brokers tr @ map fst xs) \<and> log_fresh (tc_resources tr @ concat (map snd xs)) \<and>
        tr' = fold log_case (zip (c # cs) xs) tr"
      by (intro exI [of _ "x # xs"]) simp
  next
    assume "\<exists>xs. list_all2 (case_receipts lib bv rv payload) (c # cs) xs \<and>
        brokers_fresh (tc_brokers tr @ map fst xs) \<and> log_fresh (tc_resources tr @ concat (map snd xs)) \<and>
        tr' = fold log_case (zip (c # cs) xs) tr"
    then obtain x xs where x: "case_receipts lib bv rv payload c x" "list_all2 (case_receipts lib bv rv payload) cs xs"
        "brokers_fresh ((tc_brokers tr @ [fst x]) @ map fst xs)" "log_fresh ((tc_resources tr @ snd x) @ concat (map snd xs))"
        "tr' = fold log_case (zip cs xs) (log_case (c, x) tr)"
      by (auto simp: list_all2_Cons1)
    note f = brokers_fresh_prefix [OF x(3)] log_fresh_prefix [OF x(4)]
    have "verify_case lib bv rv payload c tr = Inr (log_case (c, x) tr)"
      using verify_case_iff [OF Cons.prems] x(1) f by blast
    moreover have "foldE (verify_case lib bv rv payload) cs (log_case (c, x) tr) = Inr tr'"
      unfolding ih [OF f] using x by blast
    ultimately show "foldE (verify_case lib bv rv payload) (c # cs) tr = Inr tr'" by simp
  qed
qed

text \<open>The whole trace of a record, from the receipts of its cases.\<close>

definition record_trace :: "case_observation list \<Rightarrow> case_log list \<Rightarrow> receipt_trace" where
  "record_trace cs xs = fold log_case (zip cs xs) \<lparr>tc_brokers = [], tc_resources = [], tc_replay_challenge = None\<rparr>"

lemma verify_embedded_receipts_Inr:
  "verify_embedded_receipts lib payload = Inr u \<longleftrightarrow>
   (\<exists>bv rv xs. import_verifier lib (er_broker_receipt_verifier payload) = Inr bv \<and>
      import_verifier lib (er_resource_receipt_verifier payload) = Inr rv \<and>
      list_all2 (case_receipts lib bv rv payload) (er_cases payload) xs \<and> brokers_fresh (map fst xs) \<and>
      log_fresh (concat (map snd xs)) \<and> final_checks payload (record_trace (er_cases payload) xs) = Inr ())"
proof -
  let ?s = "\<lparr>tc_brokers = [], tc_resources = [], tc_replay_challenge = None\<rparr>"
  have "brokers_fresh (tc_brokers ?s)" "log_fresh (tc_resources ?s)"
    by (simp_all add: brokers_fresh_def log_fresh_def)
  note loop = verify_cases_iff [OF this]
  show ?thesis
    by (auto simp: verify_embedded_receipts_def bindE_Inr_iff loop record_trace_def)
qed

lemma record_verify_Inr:
  "record_verify lib v sr = Inr payload \<longleftrightarrow>
   (\<exists>claims. deserialize_compact (lib_jws lib) (sr_compact_jws sr) (ev_public_key v) [JWS_ALGORITHM]
        = Inr (experiment_header (ev_key_id v), claims) \<and>
      strict_canonical lib er_read claims = Inr payload \<and> verify_embedded_receipts lib payload = Inr ())"
  by (auto simp: record_verify_def bindE_Inr_iff split_beta)


end
