(* ===== verification/Controller.thy ===== *)
theory Controller
  imports Broker Redemption Transport Experiment_Record
begin

text \<open>
  \<^verbatim>\<open>lab/controller.py\<close>: the trusted controller. It prepares cases (one resource challenge per worker
  request), appraises the untrusted worker's answers, redeems them at its own inventory, observes the
  signed decisions and signs the experiment record.

  The controller and its inventory share one store, as every caller of the constructor arranges. The
  threads of a concurrent case meet in the store's transactions; the model runs their redemptions one
  after the other in an arbitrary order (the order in which they commit) and lets any of them miss its
  deadline.
\<close>

section \<open>Grants\<close>

record capability_grant =
  cg_credential :: delegation_credential
  cg_broker_receipt :: signed_decision_receipt
  cg_manifest_digest :: string
  cg_broker_policy_sha256 :: string
  cg_broker_challenge_token_hash :: string
  cg_tpm_attest_sha256 :: string
  cg_tpm_signature_sha256 :: string
  cg_tpm_ak_chain_sha256 :: string
  cg_issuance_request_sha256 :: string

definition grant_to_wire :: "libs \<Rightarrow> capability_grant \<Rightarrow> exn + capability_grant_wire" where
  "grant_to_wire lib g = new_grant_wire
     \<lparr>gw_credential = credential_to_dict (lib_ca2a lib) (cg_credential g),
      gw_broker_receipt_jws = compact_jws (cg_broker_receipt g),
      gw_manifest_digest = cg_manifest_digest g,
      gw_broker_policy_sha256 = cg_broker_policy_sha256 g,
      gw_broker_challenge_token_hash = cg_broker_challenge_token_hash g,
      gw_tpm_attest_sha256 = cg_tpm_attest_sha256 g,
      gw_tpm_signature_sha256 = cg_tpm_signature_sha256 g,
      gw_tpm_ak_chain_sha256 = cg_tpm_ak_chain_sha256 g,
      gw_issuance_request_sha256 = cg_issuance_request_sha256 g\<rparr>"

definition grant_from_wire :: "libs \<Rightarrow> capability_grant_wire \<Rightarrow> exn + capability_grant" where
  "grant_from_wire lib w =
     bindE (catching (\<lambda>_. True) (LabProtocolError ''prepared credential is malformed'')
              (credential_from_dict (lib_ca2a lib) (gw_credential w))) (\<lambda>credential.
     Inr \<lparr>cg_credential = credential,
          cg_broker_receipt = \<lparr>compact_jws = gw_broker_receipt_jws w\<rparr>,
          cg_manifest_digest = gw_manifest_digest w,
          cg_broker_policy_sha256 = gw_broker_policy_sha256 w,
          cg_broker_challenge_token_hash = gw_broker_challenge_token_hash w,
          cg_tpm_attest_sha256 = gw_tpm_attest_sha256 w,
          cg_tpm_signature_sha256 = gw_tpm_signature_sha256 w,
          cg_tpm_ak_chain_sha256 = gw_tpm_ak_chain_sha256 w,
          cg_issuance_request_sha256 = gw_issuance_request_sha256 w\<rparr>)"

section \<open>The controller\<close>

text \<open>The case identifiers it has reserved are state.\<close>

record trusted_controller =
  tc_inventory :: inventory_application
  tc_broker_receipt_verifier :: receipt_verifier
  tc_resource_receipt_verifier :: receipt_verifier
  tc_experiment_signer :: experiment_signer
  tc_worker_key :: bytes
  tc_expected_worker_public_key :: string
  tc_worker_image :: string
  tc_worker_code_digest :: string

record controller_state = inventory_state +
  reserved_case_ids :: "string list"

definition new_trusted_controller ::
  "libs \<Rightarrow> inventory_application \<Rightarrow> receipt_verifier \<Rightarrow> receipt_verifier \<Rightarrow> experiment_signer \<Rightarrow> string \<Rightarrow> string \<Rightarrow> string
   \<Rightarrow> exn + trusted_controller" where
  "new_trusted_controller lib app broker resource signer expected_key worker_image digest =
     bindE (catching is_value_error (ValueError ''expected worker public key must be 32-byte Ed25519 hex'')
              (bindE (bytes_fromhex expected_key) (\<lambda>raw. bindE (ed_load (lib_ed lib) raw) (\<lambda>_. Inr raw)))) (\<lambda>key.
     Inr \<lparr>tc_inventory = app, tc_broker_receipt_verifier = broker, tc_resource_receipt_verifier = resource,
          tc_experiment_signer = signer, tc_worker_key = key, tc_expected_worker_public_key = expected_key,
          tc_worker_image = worker_image, tc_worker_code_digest = digest\<rparr>)"

definition reserve_case_id :: "string \<Rightarrow> ('a controller_state_scheme, unit) prog" where
  "reserve_case_id case_id =
     bindM (getM reserved_case_ids) (\<lambda>reserved.
     bindM (liftE (require (case_id \<notin> set reserved) (DuplicateRunIdError ''controller case ID was already reserved''))) (\<lambda>_.
     modifyM (\<lambda>s. s\<lparr>reserved_case_ids := case_id # reserved_case_ids s\<rparr>)))"

fun is_decision_error :: "exn \<Rightarrow> bool" where
  "is_decision_error (DecisionError _ _) = True"
| "is_decision_error _ = False"

definition controller_policy :: "trusted_controller \<Rightarrow> resource_policy" where
  "controller_policy tc = app_policy (tc_inventory tc)"

definition receipt_binds_grant :: "trusted_controller \<Rightarrow> capability_grant \<Rightarrow> decision_receipt_payload \<Rightarrow> bool" where
  "receipt_binds_grant tc g p \<longleftrightarrow>
     \<not> (rp_deciding_service p \<noteq> ''broker'' \<or> rp_decision p \<noteq> ''allow'' \<or> rp_reason p \<noteq> reason_str ALLOW \<or>
        rp_credential_id p \<noteq> Some (dc_credential_id (cg_credential g)) \<or>
        rp_scope p \<noteq> Some (rp_qualified_scope (controller_policy tc)) \<or>
        rp_manifest_digest p \<noteq> Some (cg_manifest_digest g) \<or>
        rp_challenge_token_hash p \<noteq> Some (cg_broker_challenge_token_hash g) \<or>
        rp_artifact_hashes p \<noteq> fmap_of_list
          [(''broker_policy_sha256'', cg_broker_policy_sha256 g), (''tpm_attest_sha256'', cg_tpm_attest_sha256 g),
           (''tpm_signature_sha256'', cg_tpm_signature_sha256 g), (''tpm_ak_chain_sha256'', cg_tpm_ak_chain_sha256 g),
           (''issuance_request_sha256'', cg_issuance_request_sha256 g)])"

definition verify_grant :: "libs \<Rightarrow> trusted_controller \<Rightarrow> capability_grant \<Rightarrow> exn + unit" where
  "verify_grant lib tc g =
     bindE (catching is_decision_error (LabBindingError ''broker receipt did not verify'')
              (receipt_verify (lib_jws lib) (lib_dumps lib) (lib_scan lib) (tc_broker_receipt_verifier tc) (cg_broker_receipt g))) (\<lambda>p.
     bindE (require (receipt_binds_grant tc g p) (LabBindingError ''broker receipt does not bind this capability'')) (\<lambda>_.
     bindE (require (dc_subject (cg_credential g) = tc_expected_worker_public_key tc)
              (LabBindingError ''credential subject does not match the expected worker key'')) (\<lambda>_.
     bindE (require (dc_issuer (cg_credential g) = rp_trusted_broker_public_hex (controller_policy tc))
              (LabBindingError ''credential issuer does not match resource policy'')) (\<lambda>_.
     require (dc_scope (cg_credential g) = {|rp_qualified_scope (controller_policy tc)|})
       (LabBindingError ''credential scope does not match resource policy'')))))"

section \<open>Preparing a case\<close>

text \<open>\<^verbatim>\<open>f"{n:02d}"\<close>\<close>

definition two_digits :: "nat \<Rightarrow> string" where
  "two_digits n = (if n < 10 then ''0'' @ nat_str n else nat_str n)"

definition numbered :: "nat \<Rightarrow> string \<Rightarrow> nat \<Rightarrow> string" where
  "numbered n prefix index = (if n = 1 then prefix else prefix @ ''.'' @ two_digits (index + 1))"

definition prepare_request ::
  "libs \<Rightarrow> trusted_controller \<Rightarrow> capability_grant \<Rightarrow> case_spec \<Rightarrow> nat \<Rightarrow> nat \<Rightarrow> ('a stored_env_scheme, worker_request) prog" where
  "prepare_request lib tc g spec n index =
     (let run_id = numbered n (cs_case_id spec) index; record_id = numbered n (cs_record_id spec) index in
      bindM (liftE (new_inventory_arguments (cs_sku spec))) (\<lambda>arguments.
      bindM (issue_resource_challenge lib (tc_inventory tc) (dc_credential_id (cg_credential g)) arguments record_id) (\<lambda>challenge.
      liftE (new_worker_request
        \<lparr>wr_schema_version = ''atcap-runpod-worker-request/v1'', wr_case_id = cs_case_id spec, wr_run_id = run_id,
         wr_variant = cs_variant spec, wr_credential = credential_to_dict (lib_ca2a lib) (cg_credential g),
         wr_challenge = rc_token challenge, wr_audience = rp_audience (controller_policy tc),
         wr_qualified_scope = rp_qualified_scope (controller_policy tc), wr_record_id = record_id,
         wr_arguments = \<lparr>iw_sku = cs_sku spec\<rparr>, wr_worker_image = tc_worker_image tc,
         wr_worker_code_digest = tc_worker_code_digest tc\<rparr>))))"

definition request_count :: "case_spec \<Rightarrow> nat" where
  "request_count spec = (if cs_variant spec = Concurrent then nat (cs_concurrency spec) else 1)"

definition prepare_case ::
  "libs \<Rightarrow> trusted_controller \<Rightarrow> capability_grant \<Rightarrow> case_spec \<Rightarrow> ('a controller_state_scheme, prepared_case) prog" where
  "prepare_case lib tc g spec =
     bindM (reserve_case_id (cs_case_id spec)) (\<lambda>_.
     bindM (liftE (verify_grant lib tc g)) (\<lambda>_.
     let n = request_count spec in
     bindM (mapM_M (prepare_request lib tc g spec n) [0..<n]) (\<lambda>requests.
     bindM (liftE (grant_to_wire lib g)) (\<lambda>wire.
     bindM (getM invocation_count) (\<lambda>before.
     liftE (new_prepared_case
       \<lparr>pc_spec = spec, pc_grant = wire, pc_requests = requests, pc_invocation_count_before = before\<rparr>))))))"

section \<open>Parsing responses\<close>

definition MAX_WORKER_RESPONSE_BYTES :: nat where "MAX_WORKER_RESPONSE_BYTES = 1048576"

definition parse_response :: "libs \<Rightarrow> bytes \<Rightarrow> exn + worker_response" where
  "parse_response lib raw =
     bindE (require (\<not> length raw > MAX_WORKER_RESPONSE_BYTES)
              (LabProtocolError ''worker response failed bounded bytes validation'')) (\<lambda>_.
     catching (\<lambda>_. True) (LabProtocolError ''worker response failed strict canonical validation'')
       (strict_canonical lib response_read raw))"

definition parse_response_bundle :: "libs \<Rightarrow> bytes \<Rightarrow> exn + worker_response_bundle" where
  "parse_response_bundle lib raw =
     bindE (require (\<not> length raw > MAX_WORKER_RESPONSE_BYTES)
              (LabProtocolError ''worker response bundle failed bounded bytes validation'')) (\<lambda>_.
     catching (\<lambda>_. True) (LabProtocolError ''worker response bundle failed strict canonical validation'')
       (strict_canonical lib bundle_read raw))"

section \<open>Appraising a response\<close>

fun is_signature_failure :: "exn \<Rightarrow> bool" where
  "is_signature_failure InvalidSignature = True"
| "is_signature_failure e = is_value_error e"

definition verify_worker_response :: "libs \<Rightarrow> trusted_controller \<Rightarrow> worker_request \<Rightarrow> worker_response \<Rightarrow> exn + unit" where
  "verify_worker_response lib tc r x =
     bindE (canonical_digest (lib_dumps lib) (request_dump r)) (\<lambda>expected_digest.
     bindE (require (\<not> (ws_case_id x \<noteq> wr_case_id r \<or> ws_run_id x \<noteq> wr_run_id r))
              (LabBindingError ''worker response run binding does not match the request'')) (\<lambda>_.
     bindE (require (ws_request_sha256 x = expected_digest)
              (LabBindingError ''worker response request digest does not match'')) (\<lambda>_.
     bindE (require (ws_worker_public_key x = tc_expected_worker_public_key tc)
              (LabBindingError ''worker response public key does not match'')) (\<lambda>_.
     bindE (require (ws_worker_image x = tc_worker_image tc)
              (LabBindingError ''worker response image does not match'')) (\<lambda>_.
     bindE (require (ws_worker_code_digest x = tc_worker_code_digest tc)
              (LabBindingError ''worker response code digest does not match'')) (\<lambda>_.
     catching is_signature_failure (LabBindingError ''worker holder signature did not verify'')
       (bindE (bytes_fromhex (ws_holder_signature x)) (\<lambda>sig.
        bindE (signed_body x) (\<lambda>body.
        bindE (canonical_json (lib_dumps lib) (obj (body_members body))) (\<lambda>signed.
        ed_verify (lib_ed lib) (tc_worker_key tc) sig signed))))))))))"

fun is_proof_failure :: "exn \<Rightarrow> bool" where
  "is_proof_failure (HolderProofInvalid _) = True"
| "is_proof_failure e = (is_type_error e \<or> is_value_error e)"

definition proof_verifies ::
  "libs \<Rightarrow> trusted_controller \<Rightarrow> worker_request \<Rightarrow> worker_response \<Rightarrow> delegation_credential \<Rightarrow> string \<Rightarrow> json \<Rightarrow> exn + bool" where
  "proof_verifies lib tc r x credential record_id arguments =
     (case bindE (proof_from_dict (lib_ca2a lib) (fmap_of_list (hw_members (ws_holder_proof x)))) (\<lambda>pf.
           bindE (canonical_json (lib_dumps lib) arguments) (\<lambda>sealed.
           verify_holder_proof (lib_ca2a lib) pf credential (wr_audience r) (app_challenge_secret (tc_inventory tc))
             (wr_qualified_scope r) record_id sealed)) of
        Inl e \<Rightarrow> if is_proof_failure e then Inr False else Inl e
      | Inr _ \<Rightarrow> Inr True)"

text \<open>What a denial variant has to show instead of a valid proof.\<close>

definition prescribed_denial ::
  "libs \<Rightarrow> holder_lib \<Rightarrow> trusted_controller \<Rightarrow> worker_request \<Rightarrow> worker_response \<Rightarrow> delegation_credential \<Rightarrow> exn + bool" where
  "prescribed_denial lib hl tc r x credential =
     (let sku = iw_sku (wr_arguments r); rid = wr_record_id r in
      case wr_variant r of
        ArgumentSubstitution \<Rightarrow> proof_verifies lib tc r x credential rid (arguments_json (sku @ ''-substituted''))
      | RecordSubstitution \<Rightarrow> proof_verifies lib tc r x credential (rid @ ''-substituted'') (arguments_json sku)
      | WrongHolder \<Rightarrow>
          bindE (replace_subject hl credential (ws_proof_subject x)) (\<lambda>stray.
          proof_verifies lib tc r x stray rid (arguments_json sku))
      | _ \<Rightarrow> Inr (hw_signature (ws_holder_proof x) = Seven))"

definition preappraise_prescribed_proof ::
  "libs \<Rightarrow> holder_lib \<Rightarrow> trusted_controller \<Rightarrow> worker_request \<Rightarrow> worker_response \<Rightarrow> exn + unit" where
  "preappraise_prescribed_proof lib hl tc r x =
     bindE (catching (\<lambda>_. True) (LabProtocolError ''prepared credential failed proof pre-appraisal'')
              (credential_from_dict (lib_ca2a lib) (wr_credential r))) (\<lambda>credential.
     bindE (require (hw_challenge (ws_holder_proof x) = wr_challenge r)
              (LabBindingError ''worker proof challenge does not match the prepared request'')) (\<lambda>_.
     bindE (if wr_variant r = WrongHolder
            then require (ws_proof_subject x \<noteq> dc_subject credential)
                   (LabBindingError ''wrong-holder case did not use a distinct proof subject'')
            else require (ws_proof_subject x = dc_subject credential)
                   (LabBindingError ''worker proof subject does not match the prepared credential'')) (\<lambda>_.
     bindE (proof_verifies lib tc r x credential (wr_record_id r) (arguments_json (iw_sku (wr_arguments r)))) (\<lambda>verifies_original.
     if wr_variant r \<in> {Valid, Replay, Concurrent}
     then require verifies_original (LabBindingError ''allow-path worker proof failed local pre-appraisal'')
     else
       bindE (require (\<not> verifies_original) (LabBindingError ''denial-case worker returned a valid original proof'')) (\<lambda>_.
       bindE (prescribed_denial lib hl tc r x credential) (\<lambda>prescribed.
       require prescribed (LabBindingError ''worker proof does not match the prescribed adversarial variant'')))))))"

section \<open>Observing a decision\<close>

text \<open>\<^verbatim>\<open>decision.result.get("invocation_number")\<close>: a missing member is \<^verbatim>\<open>None\<close>.\<close>

definition result_invocation_number :: "json \<Rightarrow> exn + json" where
  "result_invocation_number result =
     (case result of
        JObj m \<Rightarrow> Inr (case fmlookup m ''invocation_number'' of None \<Rightarrow> JNull | Some v \<Rightarrow> v)
      | _ \<Rightarrow> Inl (OtherError ''AttributeError''))"

text \<open>The comparison of the receipt with the observed decision; what it computes on the way is computed only
  when the comparisons before it succeed.\<close>

definition bind_receipt :: "libs \<Rightarrow> trusted_controller \<Rightarrow> decision \<Rightarrow> worker_request \<Rightarrow> string \<Rightarrow> decision_receipt_payload \<Rightarrow> exn + unit" where
  "bind_receipt lib tc d r arguments_digest p =
     (let policy = controller_policy tc; unbound = LabBindingError ''resource receipt does not bind the observed decision'' in
      bindE (require (\<not> (rp_deciding_service p \<noteq> ''inventoryd'' \<or> rp_decision p \<noteq> (if d_allowed d then ''allow'' else ''deny'') \<or>
                         rp_reason p \<noteq> reason_str (d_reason d))) unbound) (\<lambda>_.
      bindE (credential_from_dict (lib_ca2a lib) (wr_credential r)) (\<lambda>credential.
      bindE (require (\<not> (rp_credential_id p \<noteq> Some (dc_credential_id credential) \<or> rp_scope p \<noteq> Some (wr_qualified_scope r) \<or>
                         rp_call_method p \<noteq> Some (rp_method policy) \<or> rp_call_audience p \<noteq> Some (wr_audience r) \<or>
                         rp_arguments_digest p \<noteq> Some arguments_digest \<or> rp_record_id p \<noteq> Some (wr_record_id r) \<or>
                         rp_challenge_token_hash p \<noteq>
                           (if wr_variant r = Malformed then None else Some (challenge_token_hash (wr_challenge r))))) unbound) (\<lambda>_.
      bindE (canonical_digest (lib_dumps lib) (resource_public_dict policy)) (\<lambda>policy_digest.
      require (rp_artifact_hashes p = fmap_of_list [(''resource_policy_sha256'', policy_digest)]) unbound)))))"

definition check_invocation :: "decision \<Rightarrow> decision_receipt_payload \<Rightarrow> exn + unit" where
  "check_invocation d p =
     (if rp_handler_invoked p
      then bindE (of_option (LabBindingError ''invoked decision omitted its result state'') (d_result d)) (\<lambda>result.
           bindE (result_invocation_number result) (\<lambda>invocation_number.
           require (invocation_number = jopt_int (rp_invocation_id p))
             (LabBindingError ''resource receipt invocation ID does not match result'')))
      else require (rp_invocation_id p = None) (LabBindingError ''non-invocation receipt contains an invocation ID''))"

definition observe_decision ::
  "libs \<Rightarrow> trusted_controller \<Rightarrow> decision \<Rightarrow> worker_request \<Rightarrow> worker_response \<Rightarrow> int \<Rightarrow> exn + attempt_observation" where
  "observe_decision lib tc d r x redemption_sequence =
     bindE (catching is_decision_error (LabBindingError ''resource receipt did not verify'')
              (receipt_verify (lib_jws lib) (lib_dumps lib) (lib_scan lib) (tc_resource_receipt_verifier tc) (d_receipt d))) (\<lambda>p.
     bindE (canonical_digest (lib_dumps lib) (arguments_json (iw_sku (wr_arguments r)))) (\<lambda>arguments_digest.
     bindE (bind_receipt lib tc d r arguments_digest p) (\<lambda>_.
     bindE (check_invocation d p) (\<lambda>_.
     bindE (require (rp_business_result p \<noteq> ''not_applicable'')
              (LabBindingError ''inventory receipt has a broker-only business result'')) (\<lambda>_.
     bindE (canonical_digest (lib_dumps lib) (request_dump r)) (\<lambda>request_sha256.
     bindE (canonical_digest (lib_dumps lib) (response_dump x)) (\<lambda>worker_response_sha256.
     bindE (canonical_digest (lib_dumps lib) (obj (hw_members (ws_holder_proof x)))) (\<lambda>holder_proof_sha256.
     new_attempt
       \<lparr>ao_run_id = wr_run_id r, ao_redemption_sequence = redemption_sequence, ao_request_sha256 = request_sha256,
        ao_worker_response_sha256 = worker_response_sha256, ao_holder_proof_sha256 = holder_proof_sha256,
        ao_allowed = d_allowed d, ao_reason = reason_str (d_reason d), ao_receipt_jws = compact_jws (d_receipt d),
        ao_receipt_verified = True, ao_handler_invoked = rp_handler_invoked p,
        ao_business_result = rp_business_result p, ao_invocation_id = rp_invocation_id p\<rparr>))))))))"

section \<open>Validating and redeeming cases\<close>

definition validate_case_inputs ::
  "libs \<Rightarrow> holder_lib \<Rightarrow> trusted_controller \<Rightarrow> prepared_case \<Rightarrow> worker_response list \<Rightarrow> exn + (capability_grant \<times> worker_response list)" where
  "validate_case_inputs lib hl tc prepared responses =
     bindE (grant_from_wire lib (pc_grant prepared)) (\<lambda>grant.
     bindE (verify_grant lib tc grant) (\<lambda>_.
     let requests = pc_requests prepared; by_run_id = map_of (map (\<lambda>x. (ws_run_id x, x)) responses) in
     bindE (require (length responses = length requests)
              (LabProtocolError ''worker response count does not match prepared requests'')) (\<lambda>_.
     bindE (require (distinct (map ws_run_id responses)) (LabProtocolError ''worker returned duplicate run IDs'')) (\<lambda>_.
     bindE (require (set (map ws_run_id responses) = set (map wr_run_id requests))
              (LabProtocolError ''worker response run IDs do not match prepared requests'')) (\<lambda>_.
     bindE (mapM_E (\<lambda>r. of_option (OtherError ''KeyError'') (by_run_id (wr_run_id r))) requests) (\<lambda>ordered.
     bindE (forE (\<lambda>(r, x). bindE (verify_worker_response lib tc r x) (\<lambda>_. preappraise_prescribed_proof lib hl tc r x))
              (zip requests ordered)) (\<lambda>_.
     Inr (grant, ordered))))))))"

definition controller_redeem ::
  "libs \<Rightarrow> trusted_controller \<Rightarrow> worker_request \<Rightarrow> worker_response \<Rightarrow> ('a inventory_state_scheme, decision) prog" where
  "controller_redeem lib tc r x =
     bindM (liftE (lookup_input_validate (fmap_of_list
       [(''sku'', JStr (iw_sku (wr_arguments r))), (''credential'', JObj (wr_credential r)),
        (''holder_proof'', obj (hw_members (ws_holder_proof x))), (''record_id'', JStr (wr_record_id r))]))) (\<lambda>lookup.
     redeem lib (tc_inventory tc) lookup)"

text \<open>The race of a concurrent case: the order in which the redemptions run, and which results miss the
  deadline. A thread that is not in the order was never released.\<close>

record race =
  race_order :: "nat list"
  race_late :: "nat list"

definition attemptM :: "('s, 'a) prog \<Rightarrow> ('s, exn + 'a) prog" where
  "attemptM m s = (case m s of (r, s') \<Rightarrow> (Inr r, s'))"

definition race_redeem ::
  "libs \<Rightarrow> trusted_controller \<Rightarrow> race \<Rightarrow> (worker_request \<times> worker_response) list \<Rightarrow> ('a inventory_state_scheme, decision list) prog" where
  "race_redeem lib tc rc pairs =
     (let order = remdups (filter (\<lambda>i. i < length pairs) (race_order rc)) in
      bindM (mapM_M (\<lambda>i. bindM (attemptM (controller_redeem lib tc (fst (pairs ! i)) (snd (pairs ! i)))) (\<lambda>d. returnM (i, d))) order) (\<lambda>finished.
      liftE (mapM_E (\<lambda>i. if i \<in> set (race_late rc) then Inl (OtherError ''TimeoutError'')
                         else case map_of finished i of None \<Rightarrow> Inl (OtherError ''TimeoutError'') | Some d \<Rightarrow> d)
               [0..<length pairs])))"

definition require_expected_outcomes :: "case_spec \<Rightarrow> attempt_observation list \<Rightarrow> exn + unit" where
  "require_expected_outcomes spec observations =
     require (observed_outcomes (cs_variant spec) observations
              = expected_outcomes (cs_variant spec) (nat (cs_concurrency spec)))
       (LabBindingError ''observed decision set does not match the adversarial case'')"

text \<open>The decisions of one case, with the redemption sequence each is observed under.\<close>

definition observe_case ::
  "libs \<Rightarrow> trusted_controller \<Rightarrow> race \<Rightarrow> prepared_case \<Rightarrow> worker_response list \<Rightarrow> ('a inventory_state_scheme, attempt_observation list) prog" where
  "observe_case lib tc rc prepared ordered =
     (if cs_variant (pc_spec prepared) = Concurrent
      then
        let pairs = zip (pc_requests prepared) ordered in
        bindM (race_redeem lib tc rc pairs) (\<lambda>decisions.
        liftE (mapM_E (\<lambda>((r, x), d). observe_decision lib tc d r x 1) (zip pairs decisions)))
      else
        case (pc_requests prepared, ordered) of
          (r # _, x # _) \<Rightarrow>
            bindM (controller_redeem lib tc r x) (\<lambda>first.
            bindM (liftE (observe_decision lib tc first r x 1)) (\<lambda>a.
            if cs_variant (pc_spec prepared) = Replay
            then bindM (controller_redeem lib tc r x) (\<lambda>replayed.
                 bindM (liftE (observe_decision lib tc replayed r x 2)) (\<lambda>b.
                 returnM [a, b]))
            else returnM [a]))
        | _ \<Rightarrow> raiseM (OtherError ''IndexError''))"

definition redeem_validated_case ::
  "libs \<Rightarrow> trusted_controller \<Rightarrow> race \<Rightarrow> prepared_case \<Rightarrow> capability_grant \<Rightarrow> worker_response list
   \<Rightarrow> ('a inventory_state_scheme, case_observation) prog" where
  "redeem_validated_case lib tc rc prepared grant ordered =
     (let spec = pc_spec prepared in
      bindM (getM invocation_count) (\<lambda>invocation_before.
      bindM (observe_case lib tc rc prepared ordered) (\<lambda>observations.
      bindM (liftE (require_expected_outcomes spec observations)) (\<lambda>_.
      bindM (getM invocation_count) (\<lambda>invocation_after.
      bindM (redemption_count (dc_credential_id (cg_credential grant))) (\<lambda>redemptions.
      bindM (liftE (require (\<not> (invocation_after - invocation_before \<noteq> expected_count (cs_variant spec) \<or>
                                int redemptions \<noteq> expected_count (cs_variant spec)))
                      (LabBindingError ''observed handler/spend counts violate the case invariant''))) (\<lambda>_.
      liftE (new_case_observation
        \<lparr>co_case_id = cs_case_id spec, co_variant = cs_variant spec,
         co_broker_receipt_jws = compact_jws (cg_broker_receipt grant), co_broker_receipt_verified = True,
         co_worker_binding_verified = True, co_worker_public_key = tc_expected_worker_public_key tc,
         co_worker_image = tc_worker_image tc, co_worker_code_digest = tc_worker_code_digest tc,
         co_worker_binding_scope = ''holder-key-and-claimed-digest-only'',
         co_runpod_metadata = map ws_runpod_metadata ordered, co_attempts = observations,
         co_invocation_delta = invocation_after - invocation_before,
         co_credential_redemption_count = int redemptions\<rparr>))))))))"

definition finalize_cases ::
  "libs \<Rightarrow> holder_lib \<Rightarrow> trusted_controller \<Rightarrow> (string \<Rightarrow> race) \<Rightarrow> (prepared_case \<times> worker_response list) list
   \<Rightarrow> ('a inventory_state_scheme, case_observation list) prog" where
  "finalize_cases lib hl tc races inputs =
     bindM (liftE (mapM_E (\<lambda>(prepared, responses).
              bindE (validate_case_inputs lib hl tc prepared responses) (\<lambda>(grant, ordered). Inr (prepared, grant, ordered))) inputs)) (\<lambda>validated.
     mapM_M (\<lambda>(prepared, grant, ordered).
       redeem_validated_case lib tc (races (cs_case_id (pc_spec prepared))) prepared grant ordered) validated)"

definition finalize_case ::
  "libs \<Rightarrow> holder_lib \<Rightarrow> trusted_controller \<Rightarrow> (string \<Rightarrow> race) \<Rightarrow> prepared_case \<Rightarrow> worker_response list
   \<Rightarrow> ('a inventory_state_scheme, case_observation) prog" where
  "finalize_case lib hl tc races prepared responses =
     bindM (finalize_cases lib hl tc races [(prepared, responses)]) (\<lambda>cases. returnM (hd cases))"

section \<open>Running a case over the transport\<close>

text \<open>The transport is another object with a state of its own, on the same environment.\<close>

record lab_state = controller_state +
  lab_seen_run_ids :: "string list"

definition transport_view :: "'a lab_state_scheme \<Rightarrow> transport_state" where
  "transport_view s =
     \<lparr>clock_at = clock_at s, ticks = ticks s, entropy = entropy s, drawn = drawn s, db_busy = db_busy s, db_calls = db_calls s,
      seen_run_ids = lab_seen_run_ids s\<rparr>"

definition on_transport :: "(transport_state, 'b) prog \<Rightarrow> ('a lab_state_scheme, 'b) prog" where
  "on_transport m s =
     (case m (transport_view s) of
        (r, t) \<Rightarrow> (r, s\<lparr>clock_at := clock_at t, ticks := ticks t, entropy := entropy t, drawn := drawn t, db_busy := db_busy t,
                     db_calls := db_calls t, lab_seen_run_ids := seen_run_ids t\<rparr>))"

text \<open>\<^verbatim>\<open>asyncio.gather\<close>: every submission runs; the first failure, in the order of the requests, is raised.\<close>

definition run_case ::
  "libs \<Rightarrow> holder_lib \<Rightarrow> trusted_controller \<Rightarrow> (string \<Rightarrow> race) \<Rightarrow> capability_grant \<Rightarrow> case_spec \<Rightarrow> fake_worker_transport \<Rightarrow> int
   \<Rightarrow> ('a lab_state_scheme, case_observation) prog" where
  "run_case lib hl tc races grant spec transport timeout =
     bindM (prepare_case lib tc grant spec) (\<lambda>prepared.
     bindM (mapM_M (\<lambda>r. attemptM (on_transport (submit lib hl transport r timeout))) (pc_requests prepared)) (\<lambda>gathered.
     bindM (liftE (mapM_E (\<lambda>x. x) gathered)) (\<lambda>raw_responses.
     bindM (liftE (mapM_E (parse_response lib) raw_responses)) (\<lambda>responses.
     finalize_case lib hl tc races prepared responses))))"

section \<open>Signing the record\<close>

definition public_verifier_of :: "jws_lib \<Rightarrow> receipt_verifier \<Rightarrow> exn + public_receipt_verifier" where
  "public_verifier_of jws v =
     bindE (case verifier_public_jwk jws v of JObj m \<Rightarrow> jk_read m | _ \<Rightarrow> Inl invalid) (\<lambda>jwk.
     new_public_verifier \<lparr>pv_key_id = verifier_key_id v, pv_public_jwk = jwk\<rparr>)"

definition sign_record ::
  "libs \<Rightarrow> trusted_controller \<Rightarrow> string \<Rightarrow> string \<Rightarrow> string \<Rightarrow> string \<Rightarrow> bool \<Rightarrow> runpod_observation \<Rightarrow> case_observation list
   \<Rightarrow> ('a env_scheme, experiment_record \<times> signed_experiment_record) prog" where
  "sign_record lib tc experiment_id commit_sha uv_lock_sha256 tpm_mode tpm_evidence_verified observation cases =
     (let attempts = attempts_of cases in
      bindM read_clock (\<lambda>observed_at.
      bindM (liftE (public_verifier_of (lib_jws lib) (tc_broker_receipt_verifier tc))) (\<lambda>broker.
      bindM (liftE (public_verifier_of (lib_jws lib) (tc_resource_receipt_verifier tc))) (\<lambda>resource.
      bindM (liftE (new_experiment_record
        \<lparr>er_schema_version = ''atcap-runpod-experiment-record/v1'', er_experiment_id = experiment_id,
         er_observed_at = observed_at, er_commit_sha = commit_sha, er_uv_lock_sha256 = uv_lock_sha256,
         er_assurance_scope = ''local-controller-observation-only'', er_trust_boundary = TRUST_BOUNDARY,
         er_assurance_disclaimer = ASSURANCE_DISCLAIMER, er_tpm_mode = tpm_mode,
         er_tpm_evidence_verified = tpm_evidence_verified,
         er_tpm_assurance_included = (tpm_mode = ''real-swtpm'' \<and> tpm_evidence_verified),
         er_worker_public_key = tc_expected_worker_public_key tc, er_worker_image = tc_worker_image tc,
         er_worker_code_digest = tc_worker_code_digest tc,
         er_worker_binding_scope = ''holder-key-and-claimed-digest-only'',
         er_broker_receipt_verifier = broker, er_resource_receipt_verifier = resource,
         er_runpod_observation = observation, er_broker_receipt_count = int (length cases),
         er_resource_receipt_count = int (length attempts), er_allowed_attempt_count = count_int ao_allowed attempts,
         er_denied_attempt_count = count_int (\<lambda>a. \<not> ao_allowed a) attempts,
         er_handler_invocation_count = sum_list (map co_invocation_delta cases),
         er_credential_redemption_count = sum_list (map co_credential_redemption_count cases), er_cases = cases\<rparr>)) (\<lambda>payload.
      bindM (liftE (record_sign lib (tc_experiment_signer tc) payload)) (\<lambda>record.
      returnM (payload, record)))))))"

section \<open>Prepared cases\<close>

text \<open>The store holds an unconsumed challenge with the request's token, bound to this credential, the
  request's arguments and its record.\<close>

definition challenge_bound :: "libs \<Rightarrow> trusted_controller \<Rightarrow> capability_grant \<Rightarrow> sqlite_store \<Rightarrow> worker_request \<Rightarrow> bool" where
  "challenge_bound lib tc g st r \<longleftrightarrow>
     (\<exists>row ad. row \<in> set (resource_challenges st) \<and> rr_token_hash row = challenge_token_hash (wr_challenge r) \<and>
        canonical_digest (lib_dumps lib) (arguments_json (iw_sku (wr_arguments r))) = Inr ad \<and>
        row_context row = expected_context (tc_inventory tc) (dc_credential_id (cg_credential g)) ad (wr_record_id r) \<and>
        rr_consumed_at row = None)"

lemma challenge_bound_mono:
  "challenge_bound lib tc g st r \<Longrightarrow> set (resource_challenges st) \<subseteq> set (resource_challenges st') \<Longrightarrow> challenge_bound lib tc g st' r"
  unfolding challenge_bound_def by blast

definition requests_case :: "trusted_controller \<Rightarrow> case_spec \<Rightarrow> worker_request \<Rightarrow> bool" where
  "requests_case tc spec r \<longleftrightarrow> wr_valid r \<and> wr_case_id r = cs_case_id spec \<and> wr_variant r = cs_variant spec \<and>
     iw_sku (wr_arguments r) = cs_sku spec \<and> wr_audience r = rp_audience (controller_policy tc) \<and>
     wr_qualified_scope r = rp_qualified_scope (controller_policy tc) \<and>
     wr_worker_image r = tc_worker_image tc \<and> wr_worker_code_digest r = tc_worker_code_digest tc"

lemma prepare_request_post:
  "post (prepare_request lib tc g spec n i) s
     (\<lambda>r s'. requests_case tc spec r \<and> challenge_bound lib tc g (db s') r \<and>
        set (resource_challenges (db s)) \<subseteq> set (resource_challenges (db s')))
     (\<lambda>_ _. True)"
  unfolding prepare_request_def Let_def
  by (auto simp: wp_simps new_inventory_arguments_def bindE_Inr_iff new_worker_request_def requests_case_def challenge_bound_def
      insert_resource_challenge_Inr resource_row_of_def row_context_def expected_context_def arguments_dump_def arguments_json_def Let_def
      intro!: post_mono [OF issue_resource_challenge_post])

lemma prepare_requests_post:
  "post (mapM_M (prepare_request lib tc g spec n) is) s
     (\<lambda>rs s'. list_all (\<lambda>r. requests_case tc spec r \<and> challenge_bound lib tc g (db s') r) rs \<and>
        set (resource_challenges (db s)) \<subseteq> set (resource_challenges (db s')))
     (\<lambda>_ _. True)"
proof (induction "is" arbitrary: s)
  case (Cons i "is")
  show ?case
    by (simp add: wp_simps)
       (rule post_mono [OF prepare_request_post], rule post_mono [OF Cons.IH], auto intro: challenge_bound_mono)
qed (simp add: wp_simps)

lemma prepare_requests_frame:
  fixes s :: "'a controller_state_scheme"
  shows "post (mapM_M (prepare_request lib tc g spec n) is) s
     (\<lambda>_ s'. reserved_case_ids s' = reserved_case_ids s) (\<lambda>_ s'. reserved_case_ids s' = reserved_case_ids s)"
proof (induction "is" arbitrary: s)
  case (Cons i "is")
  have one: "post (prepare_request lib tc g spec n i) s
     (\<lambda>_ s'. reserved_case_ids s' = reserved_case_ids s) (\<lambda>_ s'. reserved_case_ids s' = reserved_case_ids s)" 
     for s :: "'a controller_state_scheme"
    by (auto simp: prepare_request_def issue_resource_challenge_def store_resource_challenge_def wp_simps Let_def simp del: upt_Suc)
  show ?case
    by (simp add: wp_simps) (rule post_mono [OF one], rule post_mono [OF Cons.IH], auto)
qed (simp add: wp_simps)

lemma prepare_case_post:
  fixes s :: "'a controller_state_scheme"
  shows "post (prepare_case lib tc g spec) s
     (\<lambda>p s'. cs_case_id spec \<notin> set (reserved_case_ids s) \<and> reserved_case_ids s' = cs_case_id spec # reserved_case_ids s \<and>
        verify_grant lib tc g = Inr () \<and> pc_spec p = spec \<and> grant_to_wire lib g = Inr (pc_grant p) \<and>
        new_prepared_case p = Inr p \<and>
        list_all (\<lambda>r. requests_case tc spec r \<and> challenge_bound lib tc g (db s') r) (pc_requests p))
     (\<lambda>_ s'. s' = s \<or> cs_case_id spec \<notin> set (reserved_case_ids s) \<and> reserved_case_ids s' = cs_case_id spec # reserved_case_ids s)"
  unfolding prepare_case_def reserve_case_id_def
  by (auto simp: wp_simps Let_def new_prepared_case_def model_checks_Inr
      intro!: post_mono [OF post_conj [OF prepare_requests_post prepare_requests_frame]])

text \<open>C33: a prepared case names the case identifier, which was free and is now reserved, its grant passed
  verification, it validates, and each of its requests states the controller's policy and worker and
  carries a challenge that the store now holds, unconsumed and bound to the grant's credential and to the
  arguments and record of that request. A failed preparation leaves the state as it was or the identifier
  reserved.\<close>

theorem prepare_case_binds:
  fixes s :: "'a controller_state_scheme"
  shows "post (prepare_case lib tc g spec) s
     (\<lambda>p s'. cs_case_id spec \<notin> set (reserved_case_ids s) \<and> reserved_case_ids s' = cs_case_id spec # reserved_case_ids s \<and>
        verify_grant lib tc g = Inr () \<and> pc_spec p = spec \<and> grant_to_wire lib g = Inr (pc_grant p) \<and>
        new_prepared_case p = Inr p \<and>
        list_all (\<lambda>r. requests_case tc spec r \<and> challenge_bound lib tc g (db s') r) (pc_requests p))
     (\<lambda>_ s'. s' = s \<or> cs_case_id spec \<notin> set (reserved_case_ids s) \<and> reserved_case_ids s' = cs_case_id spec # reserved_case_ids s)"
  by (rule prepare_case_post)

section \<open>Honest workers\<close>

lemma verify_worker_response_Inr:
  "verify_worker_response lib tc r x = Inr u \<longleftrightarrow>
     ws_case_id x = wr_case_id r \<and> ws_run_id x = wr_run_id r \<and>
     canonical_digest (lib_dumps lib) (request_dump r) = Inr (ws_request_sha256 x) \<and>
     ws_worker_public_key x = tc_expected_worker_public_key tc \<and> ws_worker_image x = tc_worker_image tc \<and>
     ws_worker_code_digest x = tc_worker_code_digest tc \<and> body_valid x \<and>
     (\<exists>sig signed. bytes_fromhex (ws_holder_signature x) = Inr sig \<and> lib_dumps lib (obj (body_members x)) = Inr signed \<and>
        ed_verify (lib_ed lib) (tc_worker_key tc) sig signed = Inr ())"
  by (auto simp: verify_worker_response_def bindE_Inr_iff signed_body_def new_response_body_def canonical_json_def)

lemma new_trusted_controller_Inr:
  "new_trusted_controller lib app broker resource signer key_hex image' digest = Inr tc \<longleftrightarrow>
     (\<exists>key. bytes_fromhex key_hex = Inr key \<and> ed_load (lib_ed lib) key = Inr () \<and>
        tc = \<lparr>tc_inventory = app, tc_broker_receipt_verifier = broker, tc_resource_receipt_verifier = resource,
          tc_experiment_signer = signer, tc_worker_key = key, tc_expected_worker_public_key = key_hex,
          tc_worker_image = image', tc_worker_code_digest = digest\<rparr>)"
  by (auto simp: new_trusted_controller_def bindE_Inr_iff)

text \<open>What an honest worker answers, the controller accepts: a response generated by the worker whose key,
  image and code digest the controller was configured with passes the controller's verification of the
  worker's binding and signature. The hypothesis on Ed25519 is that signing and verifying fit together.\<close>

theorem honest_worker_accepted:
  assumes "worker_generate lib hl w r s = (Inr x, s')"
    and "w = new_worker lib key worker_image digest metadata" "ed25519_ok (lib_ed lib) key"
    and "new_trusted_controller lib app broker resource signer (hk_public_key w) worker_image digest = Inr tc"
  shows "verify_worker_response lib tc r x = Inr ()"
proof -
  have "answers lib w r x"
    using post_returnD [OF worker_generate_post assms(1)] .
  with assms(2-4) show ?thesis
    by (auto simp: verify_worker_response_Inr new_trusted_controller_Inr answers_def response_valid_def new_worker_def
        bytes_fromhex_def ed25519_ok_def)
qed

theorem honest_worker_accepted_witness:
  "\<forall>(s :: env) app broker resource signer. \<exists>x tc.
     worker_generate demo_worker_libs demo_holder_lib
       (new_worker demo_worker_libs (replicate 32 2) demo_worker_image (replicate 64 CHR ''1'') None) demo_worker_request s = (Inr x, s) \<and>
     new_trusted_controller demo_worker_libs app broker resource signer (bytes_hex (replicate 32 7)) demo_worker_image
       (replicate 64 CHR ''1'') = Inr tc \<and>
     verify_worker_response demo_worker_libs tc demo_worker_request x = Inr ()"
proof (intro allI)
  fix s :: env and app broker resource signer
  let ?lib = demo_worker_libs and ?digest = "replicate 64 CHR ''1''"
  let ?w = "new_worker demo_worker_libs (replicate 32 2) demo_worker_image ?digest None"
  obtain x where x: "worker_generate ?lib demo_holder_lib ?w demo_worker_request s = (Inr x, s)"
    using demo_worker_generates by blast
  have key: "hk_public_key ?w = bytes_hex (replicate 32 7)"
    by (simp add: new_worker_def demo_worker_libs_def del: bytes_hex.simps)
  have ed: "ed25519_ok (lib_ed ?lib) (replicate 32 2)"
    by (simp add: ed25519_ok_def demo_worker_libs_def)
  obtain tc where tc: "new_trusted_controller ?lib app broker resource signer (bytes_hex (replicate 32 7)) demo_worker_image ?digest = Inr tc"
    by (simp add: new_trusted_controller_def bytes_fromhex_def demo_worker_libs_def del: bytes_hex.simps)
  have "verify_worker_response ?lib tc demo_worker_request x = Inr ()"
    by (rule honest_worker_accepted [OF x refl ed, unfolded key, OF tc])
  with x tc show "\<exists>x tc. worker_generate ?lib demo_holder_lib ?w demo_worker_request s = (Inr x, s) \<and>
      new_trusted_controller ?lib app broker resource signer (bytes_hex (replicate 32 7)) demo_worker_image ?digest = Inr tc \<and>
      verify_worker_response ?lib tc demo_worker_request x = Inr ()"
    by blast
qed

section \<open>Cases are validated before the first is redeemed\<close>

definition validated_input :: "libs \<Rightarrow> holder_lib \<Rightarrow> trusted_controller \<Rightarrow> prepared_case \<times> worker_response list \<Rightarrow> bool" where
  "validated_input lib hl tc i \<longleftrightarrow> (\<exists>y. validate_case_inputs lib hl tc (fst i) (snd i) = Inr y)"

text \<open>What one observed case reports.\<close>

definition observes :: "trusted_controller \<Rightarrow> prepared_case \<Rightarrow> case_observation \<Rightarrow> bool" where
  "observes tc prepared co \<longleftrightarrow> co_valid co \<and> co_case_id co = cs_case_id (pc_spec prepared) \<and>
     co_variant co = cs_variant (pc_spec prepared) \<and> co_worker_public_key co = tc_expected_worker_public_key tc \<and>
     co_worker_image co = tc_worker_image tc \<and> co_worker_code_digest co = tc_worker_code_digest tc"

lemma redeem_validated_case_post:
  "post (redeem_validated_case lib tc rc prepared grant ordered) s
     (\<lambda>co s'. observes tc prepared co \<and> co_invocation_delta co = expected_count (cs_variant (pc_spec prepared)) \<and>
        invocation_count s' = invocation_count s + co_invocation_delta co)
     (\<lambda>_ _. True)"
proof -
  have any: "post (observe_case lib tc rc prepared ordered) s (\<lambda>_ _. True) (\<lambda>_ _. True)"
    by (rule postI) simp_all
  show ?thesis
    unfolding redeem_validated_case_def redemption_count_def
    by (auto simp: wp_simps Let_def new_case_observation_def model_checks_Inr co_valid_def observes_def intro!: post_mono [OF any])
qed

lemma redeem_all_post:
  "post (mapM_M (\<lambda>(prepared, grant, ordered). redeem_validated_case lib tc (races prepared) prepared grant ordered) vs) s
     (\<lambda>cos s'. list_all2 (\<lambda>v co. observes tc (fst v) co) vs cos \<and>
        invocation_count s' = invocation_count s + sum_list (map (\<lambda>v. expected_count (cs_variant (pc_spec (fst v)))) vs))
     (\<lambda>_ _. True)"
proof (induction vs arbitrary: s)
  case (Cons v vs)
  obtain p g xs where v: "v = (p, g, xs)" by (cases v)
  show ?case
    by (simp add: wp_simps v) (rule post_mono [OF redeem_validated_case_post], rule post_mono [OF Cons.IH], auto)
qed (simp add: wp_simps)

lemma validate_all_Inr:
  assumes "mapM_E (\<lambda>(p, xs). bindE (validate_case_inputs lib hl tc p xs) (\<lambda>(g, ys). Inr (p, g, ys))) inputs = Inr vs"
  shows "map fst vs = map fst inputs \<and> list_all (validated_input lib hl tc) inputs"
  using assms
  by (induction inputs arbitrary: vs) (auto simp: bindE_Inr_iff validated_input_def split_beta)

lemma finalize_cases_post:
  "post (finalize_cases lib hl tc races inputs) s
     (\<lambda>cos s'. list_all (validated_input lib hl tc) inputs \<and>
        list_all2 (\<lambda>i co. observes tc (fst i) co) inputs cos \<and>
        invocation_count s' = invocation_count s + sum_list (map (\<lambda>i. expected_count (cs_variant (pc_spec (fst i)))) inputs))
     (\<lambda>e s'. s' = s \<or> list_all (validated_input lib hl tc) inputs)"
proof -
  let ?n = "\<lambda>p. expected_count (cs_variant (pc_spec p))"
  have same: "list_all2 (\<lambda>v co. observes tc (fst v) co) vs cos = list_all2 (\<lambda>i co. observes tc (fst i) co) inputs cos"
    "sum_list (map (\<lambda>v. ?n (fst v)) vs) = sum_list (map (\<lambda>i. ?n (fst i)) inputs)"
    if "map fst vs = map fst inputs" for vs :: "(prepared_case \<times> capability_grant \<times> worker_response list) list" and cos
    using arg_cong [OF that, of "\<lambda>ps. list_all2 (observes tc) ps cos"] arg_cong [OF that, of "\<lambda>ps. sum_list (map ?n ps)"]
    unfolding list_all2_map1 map_map comp_def by simp_all
  show ?thesis
    unfolding finalize_cases_def
    by (simp add: wp_simps, intro allI impI, frule validate_all_Inr)
       (rule post_mono [OF redeem_all_post], simp_all add: same)
qed

text \<open>C32: finalizing a set of cases is all or nothing up to validation. An exception that leaves any trace in
  the state comes after every case of the set has passed validation. A returned list has one valid
  observation per case, in order, and the handler ran exactly as often as the variants prescribe.\<close>

theorem finalize_validates_first:
  "post (finalize_cases lib hl tc races inputs) s
     (\<lambda>cos s'. list_all (validated_input lib hl tc) inputs \<and>
        list_all2 (\<lambda>i co. observes tc (fst i) co) inputs cos \<and>
        invocation_count s' = invocation_count s + sum_list (map (\<lambda>i. expected_count (cs_variant (pc_spec (fst i)))) inputs))
     (\<lambda>e s'. s' = s \<or> list_all (validated_input lib hl tc) inputs)"
  by (rule finalize_cases_post)

end
