(* ===== verification/Lab_State.thy ===== *)
theory Lab_State
  imports Wire
begin

text \<open>
  The rest of the models of \<^verbatim>\<open>lab/wire.py\<close> as documents: the trusted state that the first half of a live
  run writes and the second half reads, and the public verifier of an evidence bundle. A case
  specification has members with a default, so more documents are accepted than are ever written; what
  such a model promises is that it reads back what it dumps.
\<close>

section \<open>Models that read back what they dump\<close>

locale readable_model =
  fixes members :: "'m \<Rightarrow> (string \<times> json) list" and rd :: "(string, json) fmap \<Rightarrow> exn + 'm" and valid :: "'m \<Rightarrow> bool"
  assumes reads_dump: "valid x \<Longrightarrow> rd (fmap_of_list (members x)) = Inr x"
begin

lemma get_model_dump: "fmlookup m k = Some (obj (members x)) \<Longrightarrow> valid x \<Longrightarrow> get_model rd m k = Inr x"
  by (simp add: get_model_def get_obj_def obj_def reads_dump)

lemma read_dumps: "list_all valid xs \<Longrightarrow> mapM_E (read_item rd) (map (\<lambda>x. obj (members x)) xs) = Inr xs"
  by (induction xs) (simp_all add: read_item_def obj_def reads_dump)

lemma get_list_dump:
  "fmlookup m k = Some (JArr (map (\<lambda>x. obj (members x)) xs)) \<Longrightarrow> list_all valid xs \<Longrightarrow> get_list rd m k = Inr xs"
  by (simp add: get_list_def read_dumps)

lemma dump_determines: "valid x \<Longrightarrow> valid y \<Longrightarrow> obj (members x) = obj (members y) \<Longrightarrow> x = y"
  by (metis json.inject(6) obj_def reads_dump sum.inject(2))

end

sublocale closed_model \<subseteq> readable_model members rd valid
  by unfold_locales (rule reads_back)

section \<open>Case specifications\<close>

definition cs_members :: "case_spec \<Rightarrow> (string \<times> json) list" where
  "cs_members x =
     [(''case_id'', JStr (cs_case_id x)), (''variant'', JStr (variant_str (cs_variant x))), (''sku'', JStr (cs_sku x)),
      (''record_id'', JStr (cs_record_id x)), (''concurrency'', JInt (cs_concurrency x))]"

definition cs_valid :: "case_spec \<Rightarrow> bool" where
  "cs_valid x \<longleftrightarrow> cs_fields x \<and> variant_count x = Inr ()"

definition cs_read :: "(string, json) fmap \<Rightarrow> exn + case_spec" where
  "cs_read m =
     bindE (closed_keys [''case_id'', ''variant'', ''sku'', ''record_id'', ''concurrency''] m) (\<lambda>_.
     bindE (get_str m ''case_id'') (\<lambda>case_id.
     bindE (get_variant m ''variant'') (\<lambda>variant.
     bindE (with_default ''widget-42'' get_str m ''sku'') (\<lambda>sku.
     bindE (get_str m ''record_id'') (\<lambda>record_id.
     bindE (with_default 1 get_int m ''concurrency'') (\<lambda>concurrency.
     new_case_spec \<lparr>cs_case_id = case_id, cs_variant = variant, cs_sku = sku, cs_record_id = record_id,
                    cs_concurrency = concurrency\<rparr>))))))"

lemma new_case_spec_valid: "cs_valid x \<Longrightarrow> new_case_spec x = Inr x"
  by (simp add: cs_valid_def new_case_spec_def model_checks_Inr)

interpretation cs: readable_model cs_members cs_read cs_valid
proof
  show "cs_read (fmap_of_list (cs_members x)) = Inr x" if "cs_valid x" for x
    using new_case_spec_valid [OF that]
    by (cases x) (simp add: cs_read_def cs_members_def bindE_Inr_iff closed_keys_Inr get_Inr get_variant_Inr with_default_def)
qed

section \<open>Prepared cases\<close>

definition gw_names :: "string list" where
  "gw_names = [''credential'', ''broker_receipt_jws'', ''expected_manifest_digest'', ''expected_broker_policy_sha256'',
     ''expected_broker_challenge_token_hash'', ''expected_tpm_attest_sha256'', ''expected_tpm_signature_sha256'',
     ''expected_tpm_ak_chain_sha256'', ''expected_issuance_request_sha256'']"

definition gw_members :: "capability_grant_wire \<Rightarrow> (string \<times> json) list" where
  "gw_members x =
     [(''credential'', JObj (gw_credential x)), (''broker_receipt_jws'', JStr (gw_broker_receipt_jws x)),
      (''expected_manifest_digest'', JStr (gw_manifest_digest x)),
      (''expected_broker_policy_sha256'', JStr (gw_broker_policy_sha256 x)),
      (''expected_broker_challenge_token_hash'', JStr (gw_broker_challenge_token_hash x)),
      (''expected_tpm_attest_sha256'', JStr (gw_tpm_attest_sha256 x)),
      (''expected_tpm_signature_sha256'', JStr (gw_tpm_signature_sha256 x)),
      (''expected_tpm_ak_chain_sha256'', JStr (gw_tpm_ak_chain_sha256 x)),
      (''expected_issuance_request_sha256'', JStr (gw_issuance_request_sha256 x))]"

definition gw_read :: "(string, json) fmap \<Rightarrow> exn + capability_grant_wire" where
  "gw_read m =
     bindE (closed_keys gw_names m) (\<lambda>_.
     bindE (get_obj m ''credential'') (\<lambda>credential.
     bindE (get_str m ''broker_receipt_jws'') (\<lambda>broker_receipt_jws.
     bindE (get_str m ''expected_manifest_digest'') (\<lambda>manifest_digest.
     bindE (get_str m ''expected_broker_policy_sha256'') (\<lambda>broker_policy_sha256.
     bindE (get_str m ''expected_broker_challenge_token_hash'') (\<lambda>broker_challenge_token_hash.
     bindE (get_str m ''expected_tpm_attest_sha256'') (\<lambda>tpm_attest_sha256.
     bindE (get_str m ''expected_tpm_signature_sha256'') (\<lambda>tpm_signature_sha256.
     bindE (get_str m ''expected_tpm_ak_chain_sha256'') (\<lambda>tpm_ak_chain_sha256.
     bindE (get_str m ''expected_issuance_request_sha256'') (\<lambda>issuance_request_sha256.
     new_grant_wire
       \<lparr>gw_credential = credential, gw_broker_receipt_jws = broker_receipt_jws, gw_manifest_digest = manifest_digest,
        gw_broker_policy_sha256 = broker_policy_sha256, gw_broker_challenge_token_hash = broker_challenge_token_hash,
        gw_tpm_attest_sha256 = tpm_attest_sha256, gw_tpm_signature_sha256 = tpm_signature_sha256,
        gw_tpm_ak_chain_sha256 = tpm_ak_chain_sha256, gw_issuance_request_sha256 = issuance_request_sha256\<rparr>))))))))))"

interpretation gw: closed_model gw_names gw_members gw_read gw_valid
proof
  show "gw_read m = Inr x \<longleftrightarrow> closed_keys gw_names m = Inr () \<and>
      (\<forall>(k, v) \<in> set (gw_members x). fmlookup m k = Some v) \<and> gw_valid x" for m x
    by (cases x) (auto simp: gw_read_def new_grant_wire_def gw_members_def bindE_Inr_iff get_Inr)
qed (simp_all add: gw_members_def gw_names_def)

definition pc_members :: "prepared_case \<Rightarrow> (string \<times> json) list" where
  "pc_members x =
     [(''spec'', obj (cs_members (pc_spec x))), (''grant'', obj (gw_members (pc_grant x))),
      (''requests'', JArr (map (\<lambda>r. obj (wr_members r)) (pc_requests x))),
      (''invocation_count_before'', JInt (pc_invocation_count_before x))]"

definition pc_read :: "(string, json) fmap \<Rightarrow> exn + prepared_case" where
  "pc_read m =
     bindE (closed_keys [''spec'', ''grant'', ''requests'', ''invocation_count_before''] m) (\<lambda>_.
     bindE (get_model cs_read m ''spec'') (\<lambda>spec.
     bindE (get_model gw_read m ''grant'') (\<lambda>grant.
     bindE (get_list wr_read m ''requests'') (\<lambda>requests.
     bindE (get_int m ''invocation_count_before'') (\<lambda>before.
     new_prepared_case \<lparr>pc_spec = spec, pc_grant = grant, pc_requests = requests, pc_invocation_count_before = before\<rparr>)))))"

lemma new_prepared_case_valid: "pc_valid x \<Longrightarrow> new_prepared_case x = Inr x"
  by (simp add: pc_valid_def new_prepared_case_def model_checks_Inr)

interpretation pc: readable_model pc_members pc_read pc_valid
proof
  fix x :: prepared_case
  assume valid: "pc_valid x"
  then have parts: "cs_valid (pc_spec x)" "gw_valid (pc_grant x)" "list_all wr_valid (pc_requests x)"
    by (simp_all add: pc_valid_def pc_fields_def cs_valid_def)
  let ?m = "fmap_of_list (pc_members x)"
  have "get_model cs_read ?m ''spec'' = Inr (pc_spec x)" "get_model gw_read ?m ''grant'' = Inr (pc_grant x)"
    "get_list wr_read ?m ''requests'' = Inr (pc_requests x)"
    using parts by (simp_all add: pc_members_def cs.get_model_dump gw.get_model_dump wr.get_list_dump)
  with new_prepared_case_valid [OF valid] show "pc_read ?m = Inr x"
    by (cases x) (simp add: pc_read_def pc_members_def bindE_Inr_iff closed_keys_Inr get_Inr)
qed

section \<open>The trusted state\<close>

definition ps_names :: "string list" where
  "ps_names = [''audience'', ''method'', ''qualified_scope'', ''trusted_broker_public_hex'', ''challenge_ttl_seconds'',
     ''max_credential_lifetime_seconds'']"

definition ps_members :: "resource_policy_state \<Rightarrow> (string \<times> json) list" where
  "ps_members x =
     [(''audience'', JStr (ps_audience x)), (''method'', JStr (ps_method x)), (''qualified_scope'', JStr (ps_qualified_scope x)),
      (''trusted_broker_public_hex'', JStr (ps_trusted_broker_public_hex x)),
      (''challenge_ttl_seconds'', JInt (ps_challenge_ttl_seconds x)),
      (''max_credential_lifetime_seconds'', JInt (ps_max_credential_lifetime_seconds x))]"

definition ps_read :: "(string, json) fmap \<Rightarrow> exn + resource_policy_state" where
  "ps_read m =
     bindE (closed_keys ps_names m) (\<lambda>_.
     bindE (get_str m ''audience'') (\<lambda>audience.
     bindE (get_str m ''method'') (\<lambda>method.
     bindE (get_str m ''qualified_scope'') (\<lambda>scope.
     bindE (get_str m ''trusted_broker_public_hex'') (\<lambda>key.
     bindE (get_int m ''challenge_ttl_seconds'') (\<lambda>ttl.
     bindE (get_int m ''max_credential_lifetime_seconds'') (\<lambda>lifetime.
     let x = \<lparr>ps_audience = audience, ps_method = method, ps_qualified_scope = scope, ps_trusted_broker_public_hex = key,
              ps_challenge_ttl_seconds = ttl, ps_max_credential_lifetime_seconds = lifetime\<rparr>
     in bindE (require (ps_valid x) invalid) (\<lambda>_. Inr x))))))))"

interpretation ps: closed_model ps_names ps_members ps_read ps_valid
proof
  show "ps_read m = Inr x \<longleftrightarrow> closed_keys ps_names m = Inr () \<and>
      (\<forall>(k, v) \<in> set (ps_members x). fmlookup m k = Some v) \<and> ps_valid x" for m x
    by (cases x) (auto simp: ps_read_def ps_members_def bindE_Inr_iff get_Inr Let_def)
qed (simp_all add: ps_members_def ps_names_def)

definition ts_names :: "string list" where
  "ts_names =
     [''schema_version'', ''experiment_id'', ''commit_sha'', ''uv_lock_sha256'', ''tpm_mode'', ''tpm_evidence_verified'',
      ''database_filename'', ''resource_policy'', ''resource_challenge_secret'', ''inventory_receipt_key_id'',
      ''inventory_receipt_private_jwk'', ''broker_receipt_key_id'', ''broker_receipt_public_jwk'', ''experiment_key_id'',
      ''experiment_private_jwk'', ''expected_worker_public_key'', ''worker_image'', ''worker_code_digest'',
      ''prepared_cases'']"

definition ts_members :: "trusted_lab_state \<Rightarrow> (string \<times> json) list" where
  "ts_members x =
     [(''schema_version'', JStr (ts_schema_version x)), (''experiment_id'', JStr (ts_experiment_id x)),
      (''commit_sha'', JStr (ts_commit_sha x)), (''uv_lock_sha256'', JStr (ts_uv_lock_sha256 x)),
      (''tpm_mode'', JStr (ts_tpm_mode x)), (''tpm_evidence_verified'', JBool (ts_tpm_evidence_verified x)),
      (''database_filename'', JStr (ts_database_filename x)),
      (''resource_policy'', obj (ps_members (ts_resource_policy x))),
      (''resource_challenge_secret'', JStr (ts_resource_challenge_secret x)),
      (''inventory_receipt_key_id'', JStr (ts_inventory_receipt_key_id x)),
      (''inventory_receipt_private_jwk'', JObj (ts_inventory_receipt_private_jwk x)),
      (''broker_receipt_key_id'', JStr (ts_broker_receipt_key_id x)),
      (''broker_receipt_public_jwk'', JObj (ts_broker_receipt_public_jwk x)),
      (''experiment_key_id'', JStr (ts_experiment_key_id x)),
      (''experiment_private_jwk'', JObj (ts_experiment_private_jwk x)),
      (''expected_worker_public_key'', JStr (ts_expected_worker_public_key x)),
      (''worker_image'', JStr (ts_worker_image x)), (''worker_code_digest'', JStr (ts_worker_code_digest x)),
      (''prepared_cases'', JArr (map (\<lambda>c. obj (pc_members c)) (ts_prepared_cases x)))]"

definition ts_valid :: "trusted_lab_state \<Rightarrow> bool" where
  "ts_valid x \<longleftrightarrow> ts_fields x \<and> complete_prepared_matrix x = Inr ()"

definition ts_read :: "(string, json) fmap \<Rightarrow> exn + trusted_lab_state" where
  "ts_read m =
     bindE (closed_keys ts_names m) (\<lambda>_.
     bindE (get_str m ''schema_version'') (\<lambda>schema_version.
     bindE (get_str m ''experiment_id'') (\<lambda>experiment_id.
     bindE (get_str m ''commit_sha'') (\<lambda>commit_sha.
     bindE (get_str m ''uv_lock_sha256'') (\<lambda>uv_lock_sha256.
     bindE (get_str m ''tpm_mode'') (\<lambda>tpm_mode.
     bindE (get_bool m ''tpm_evidence_verified'') (\<lambda>tpm_evidence_verified.
     bindE (get_str m ''database_filename'') (\<lambda>database_filename.
     bindE (get_model ps_read m ''resource_policy'') (\<lambda>resource_policy.
     bindE (get_str m ''resource_challenge_secret'') (\<lambda>resource_challenge_secret.
     bindE (get_str m ''inventory_receipt_key_id'') (\<lambda>inventory_receipt_key_id.
     bindE (get_obj m ''inventory_receipt_private_jwk'') (\<lambda>inventory_receipt_private_jwk.
     bindE (get_str m ''broker_receipt_key_id'') (\<lambda>broker_receipt_key_id.
     bindE (get_obj m ''broker_receipt_public_jwk'') (\<lambda>broker_receipt_public_jwk.
     bindE (get_str m ''experiment_key_id'') (\<lambda>experiment_key_id.
     bindE (get_obj m ''experiment_private_jwk'') (\<lambda>experiment_private_jwk.
     bindE (get_str m ''expected_worker_public_key'') (\<lambda>expected_worker_public_key.
     bindE (get_str m ''worker_image'') (\<lambda>worker_image.
     bindE (get_str m ''worker_code_digest'') (\<lambda>worker_code_digest.
     bindE (get_list pc_read m ''prepared_cases'') (\<lambda>prepared_cases.
     new_trusted_lab_state
       \<lparr>ts_schema_version = schema_version, ts_experiment_id = experiment_id, ts_commit_sha = commit_sha,
        ts_uv_lock_sha256 = uv_lock_sha256, ts_tpm_mode = tpm_mode, ts_tpm_evidence_verified = tpm_evidence_verified,
        ts_database_filename = database_filename, ts_resource_policy = resource_policy,
        ts_resource_challenge_secret = resource_challenge_secret, ts_inventory_receipt_key_id = inventory_receipt_key_id,
        ts_inventory_receipt_private_jwk = inventory_receipt_private_jwk, ts_broker_receipt_key_id = broker_receipt_key_id,
        ts_broker_receipt_public_jwk = broker_receipt_public_jwk, ts_experiment_key_id = experiment_key_id,
        ts_experiment_private_jwk = experiment_private_jwk, ts_expected_worker_public_key = expected_worker_public_key,
        ts_worker_image = worker_image, ts_worker_code_digest = worker_code_digest, ts_prepared_cases = prepared_cases\<rparr>))))))))))))))))))))"

lemma new_trusted_lab_state_valid: "ts_valid x \<Longrightarrow> new_trusted_lab_state x = Inr x"
  by (simp add: ts_valid_def new_trusted_lab_state_def model_checks_Inr)

interpretation ts: readable_model ts_members ts_read ts_valid
proof
  fix x :: trusted_lab_state
  assume valid: "ts_valid x"
  then have parts: "ps_valid (ts_resource_policy x)" "list_all pc_valid (ts_prepared_cases x)"
    by (simp_all add: ts_valid_def ts_fields_def)
  let ?m = "fmap_of_list (ts_members x)"
  have "get_model ps_read ?m ''resource_policy'' = Inr (ts_resource_policy x)"
    "get_list pc_read ?m ''prepared_cases'' = Inr (ts_prepared_cases x)"
    using parts by (simp_all add: ts_members_def ps.get_model_dump pc.get_list_dump)
  with new_trusted_lab_state_valid [OF valid] show "ts_read ?m = Inr x"
    by (cases x) (simp add: ts_read_def ts_members_def ts_names_def bindE_Inr_iff closed_keys_Inr get_Inr)
qed

section \<open>The public verifier of an evidence bundle\<close>

definition pe_members :: "public_experiment_verifier \<Rightarrow> (string \<times> json) list" where
  "pe_members x =
     [(''schema_version'', JStr (pe_schema_version x)), (''key_id'', JStr (pe_key_id x)),
      (''public_jwk'', obj (jk_members (pe_public_jwk x)))]"

definition pe_valid :: "public_experiment_verifier \<Rightarrow> bool" where
  "pe_valid x \<longleftrightarrow> pe_schema_version x = ''atcap-runpod-experiment-verifier/v1'' \<and> len_in 1 128 (pe_key_id x) \<and>
     jk_valid (pe_public_jwk x) \<and> jk_kid (pe_public_jwk x) = pe_key_id x"

definition pe_read :: "(string, json) fmap \<Rightarrow> exn + public_experiment_verifier" where
  "pe_read m =
     bindE (closed_keys [''schema_version'', ''key_id'', ''public_jwk''] m) (\<lambda>_.
     bindE (get_str m ''schema_version'') (\<lambda>schema_version.
     bindE (get_str m ''key_id'') (\<lambda>key_id.
     bindE (get_model jk_read m ''public_jwk'') (\<lambda>public_jwk.
     new_public_experiment_verifier \<lparr>pe_schema_version = schema_version, pe_key_id = key_id, pe_public_jwk = public_jwk\<rparr>))))"

lemma new_public_experiment_verifier_Inr: "new_public_experiment_verifier x = Inr y \<longleftrightarrow> y = x \<and> pe_valid x"
  by (auto simp: new_public_experiment_verifier_def model_checks_Inr pe_valid_def)

interpretation pe: closed_model "[''schema_version'', ''key_id'', ''public_jwk'']" pe_members pe_read pe_valid
proof
  show "pe_read m = Inr x \<longleftrightarrow> closed_keys [''schema_version'', ''key_id'', ''public_jwk''] m = Inr () \<and>
      (\<forall>(k, v) \<in> set (pe_members x). fmlookup m k = Some v) \<and> pe_valid x" for m x
    by (cases x) (auto simp: pe_read_def new_public_experiment_verifier_Inr pe_members_def pe_valid_def bindE_Inr_iff get_Inr jk.get_model_Inr)
qed (simp_all add: pe_members_def)

end
