(* ===== verification/Evidence.thy ===== *)
theory Evidence
  imports Experiment_Record Lab_State
begin

text \<open>
  \<^verbatim>\<open>lab/live_cli.py\<close>, the file side: reading a file under a bound, the digest of the worker's sources, and
  the verification of a complete evidence bundle.
\<close>

section \<open>Reading under a bound\<close>

text \<open>A file as its reader meets it: whether opening works, whether it is regular, the size \<^verbatim>\<open>fstat\<close> reported,
  the bytes that are read, and how many of them the operating system hands out at each call (at least
  one).\<close>

record file_under_test =
  fu_opens :: bool
  fu_regular :: bool
  fu_st_size :: nat
  fu_content :: bytes
  fu_handed :: "nat \<Rightarrow> nat"

definition bound_exceeded :: exn where
  "bound_exceeded = ValueError ''evidence file exceeds its verification bound''"

text \<open>The loop of \<^verbatim>\<open>os.read\<close> calls: the \<open>k\<close>-th call, the bytes left in the file and the bytes read.\<close>

function read_chunks :: "nat \<Rightarrow> (nat \<Rightarrow> nat) \<Rightarrow> nat \<Rightarrow> bytes \<Rightarrow> bytes \<Rightarrow> exn + bytes" where
  "read_chunks limit handed k rest chunks =
     (let chunk = take (min (min 65536 (limit + 1 - length chunks)) (max 1 (handed k))) rest in
      if chunk = [] then Inr chunks
      else if length (chunks @ chunk) > limit then Inl bound_exceeded
      else read_chunks limit handed (Suc k) (drop (length chunk) rest) (chunks @ chunk))"
  by pat_completeness auto

termination
proof (relation "measure (\<lambda>(limit, _, _, _, chunks). limit + 1 - length chunks)")
  fix limit k and handed :: "nat \<Rightarrow> nat" and rest chunks chunk :: bytes
  assume "chunk \<noteq> []" "\<not> length (chunks @ chunk) > limit"
  then show "((limit, handed, Suc k, drop (length chunk) rest, chunks @ chunk), limit, handed, k, rest, chunks)
      \<in> measure (\<lambda>(limit, _, _, _, chunks). limit + 1 - length chunks)"
    by (cases chunk) auto
qed simp

declare read_chunks.simps [simp del]

definition read_bounded_regular_file :: "nat \<Rightarrow> file_under_test \<Rightarrow> exn + bytes" where
  "read_bounded_regular_file limit f =
     bindE (require (fu_opens f) (OSError ''open'')) (\<lambda>_.
     bindE (require (\<not> (\<not> fu_regular f \<or> fu_st_size f > limit)) bound_exceeded) (\<lambda>_.
     read_chunks limit (fu_handed f) 0 (fu_content f) []))"

lemma read_chunks_eq:
  assumes "length chunks \<le> limit"
  shows "read_chunks limit handed k rest chunks =
    (if length chunks + length rest \<le> limit then Inr (chunks @ rest) else Inl bound_exceeded)"
  using assms
proof (induction limit handed k rest chunks rule: read_chunks.induct)
  case (1 limit handed k rest chunks)
  define n where "n = min (min 65536 (limit + 1 - length chunks)) (max 1 (handed k))"
  have "0 < n" using 1(2) by (simp add: n_def)
  then have empty: "take n rest = [] \<longleftrightarrow> rest = []" by simp
  have step: "read_chunks limit handed k rest chunks =
     (if rest = [] then Inr chunks
      else if length (chunks @ take n rest) > limit then Inl bound_exceeded
      else read_chunks limit handed (Suc k) (drop (length (take n rest)) rest) (chunks @ take n rest))"
    by (subst read_chunks.simps) (simp only: Let_def n_def [symmetric] empty)
  have split: "take n rest @ drop (length (take n rest)) rest = rest"
    by (cases "n \<le> length rest") simp_all
  then have total: "length (take n rest) + length (drop (length (take n rest)) rest) = length rest"
    by (metis length_append)
  have IH: "read_chunks limit handed (Suc k) (drop (length (take n rest)) rest) (chunks @ take n rest) =
      (if length (chunks @ take n rest) + length (drop (length (take n rest)) rest) \<le> limit
       then Inr ((chunks @ take n rest) @ drop (length (take n rest)) rest) else Inl bound_exceeded)"
    if "rest \<noteq> []" "\<not> length (chunks @ take n rest) > limit"
    using 1(1) [OF n_def [symmetric, THEN arg_cong [of _ _ "\<lambda>n. take n rest"], symmetric]] that empty by simp
  show ?case
    unfolding step using 1(2) IH split total by (auto simp del: length_take length_drop)
qed

text \<open>A file that is read: it opens, is regular, and neither the size it reports nor the bytes it yields exceed
  the bound.\<close>

definition readable_within :: "nat \<Rightarrow> file_under_test \<Rightarrow> bool" where
  "readable_within limit f \<longleftrightarrow> fu_opens f \<and> fu_regular f \<and> fu_st_size f \<le> limit \<and> length (fu_content f) \<le> limit"

lemma read_bounded_Inr:
  "read_bounded_regular_file limit f = Inr bs \<longleftrightarrow> readable_within limit f \<and> bs = fu_content f"
  by (auto simp: read_bounded_regular_file_def bindE_Inr_iff read_chunks_eq readable_within_def)

section \<open>The digest of the worker's sources\<close>

text \<open>\<^verbatim>\<open>n.to_bytes(k, "big")\<close>, which raises when the number does not fit.\<close>

primrec be_bytes :: "nat \<Rightarrow> nat \<Rightarrow> bytes" where
  "be_bytes 0 n = []"
| "be_bytes (Suc k) n = be_bytes k (n div 256) @ [byte_of (n mod 256)]"

definition to_bytes_big :: "nat \<Rightarrow> nat \<Rightarrow> exn + bytes" where
  "to_bytes_big k n = bindE (require (n < 256 ^ k) (OtherError ''OverflowError'')) (\<lambda>_. Inr (be_bytes k n))"

definition WORKER_SOURCE_FILES :: "string list" where
  "WORKER_SOURCE_FILES = [''handler.py'', ''lab/__init__.py'', ''lab/errors.py'', ''lab/worker.py'', ''lab/worker_wire.py'',
     ''requirements.lock'']"

definition source_frame :: "(string \<Rightarrow> exn + bytes) \<Rightarrow> string \<Rightarrow> exn + bytes" where
  "source_frame read_bytes relative =
     bindE (read_bytes relative) (\<lambda>contents.
     bindE (to_bytes_big 4 (length (utf8 relative))) (\<lambda>name_length.
     bindE (to_bytes_big 8 (length contents)) (\<lambda>content_length.
     Inr (name_length @ utf8 relative @ content_length @ contents))))"

text \<open>\<^verbatim>\<open>digest.update\<close> called in turn hashes the concatenation.\<close>

definition worker_source_text :: "(string \<Rightarrow> exn + bytes) \<Rightarrow> exn + bytes" where
  "worker_source_text read_bytes =
     bindE (mapM_E (source_frame read_bytes) WORKER_SOURCE_FILES) (\<lambda>frames.
     Inr (utf8 ''atcap-runpod-worker-source/v1'' @ [0] @ concat frames))"

definition worker_source_digest :: "(string \<Rightarrow> exn + bytes) \<Rightarrow> exn + string" where
  "worker_source_digest read_bytes = bindE (worker_source_text read_bytes) (\<lambda>text. Inr (sha256_hex text))"

lemma length_be_bytes [simp]: "length (be_bytes k n) = k"
  by (induction k arbitrary: n) simp_all

lemma be_bytes_inject: "n < 256 ^ k \<Longrightarrow> m < 256 ^ k \<Longrightarrow> be_bytes k n = be_bytes k m \<longleftrightarrow> n = m"
proof (induction k arbitrary: n m)
  case (Suc k)
  have last: "byte_of (n mod 256) = byte_of (m mod 256) \<longleftrightarrow> n mod 256 = m mod 256"
    by (metis mod_less_divisor unat_byte_of zero_less_numeral)
  have "n div 256 < 256 ^ k" "m div 256 < 256 ^ k"
    using Suc.prems by (simp_all add: less_mult_imp_div_less mult.commute)
  with Suc.IH last show ?case
    by (simp, metis div_mult_mod_eq)
qed simp

text \<open>Each frame states its lengths first, so that the text that is hashed determines the content of every
  file: moving bytes from one file to the next changes it.\<close>

lemma source_frame_split:
  assumes "source_frame f x = Inr a" "source_frame g x = Inr b" "a @ rest = b @ rest'"
  shows "f x = g x \<and> rest = rest'"
proof -
  from assms(1,2) obtain c d where c: "f x = Inr c" "g x = Inr d" "length c < 256 ^ 8" "length d < 256 ^ 8"
    "a = be_bytes 4 (length (utf8 x)) @ utf8 x @ be_bytes 8 (length c) @ c"
    "b = be_bytes 4 (length (utf8 x)) @ utf8 x @ be_bytes 8 (length d) @ d"
    by (auto simp: source_frame_def to_bytes_big_def bindE_Inr_iff)
  with assms(3) have "be_bytes 8 (length c) = be_bytes 8 (length d)" "c @ rest = d @ rest'" by simp_all
  with c(1-4) show ?thesis by (simp add: be_bytes_inject)
qed

lemma source_frames_determine:
  "mapM_E (source_frame f) names = Inr xs \<Longrightarrow> mapM_E (source_frame g) names = Inr ys \<Longrightarrow> concat xs = concat ys \<Longrightarrow>
   list_all (\<lambda>n. f n = g n) names"
proof (induction names arbitrary: xs ys)
  case (Cons n names)
  then obtain a b as bs where "source_frame f n = Inr a" "source_frame g n = Inr b" "xs = a # as" "ys = b # bs"
    "mapM_E (source_frame f) names = Inr as" "mapM_E (source_frame g) names = Inr bs"
    by (auto simp: bindE_Inr_iff)
  with source_frame_split [of f n a g b "concat as" "concat bs"] Cons.prems(3) Cons.IH show ?case by simp
qed simp

lemma worker_source_text_determines:
  assumes "worker_source_text f = Inr t" "worker_source_text g = Inr t"
  shows "list_all (\<lambda>n. f n = g n) WORKER_SOURCE_FILES"
  using assms by (auto simp: worker_source_text_def bindE_Inr_iff intro: source_frames_determine)

section \<open>Verifying a bundle\<close>

definition MAX_EXPERIMENT_RECORD_BYTES :: nat where "MAX_EXPERIMENT_RECORD_BYTES = 4194304"

definition MAX_EXPERIMENT_VERIFIER_BYTES :: nat where "MAX_EXPERIMENT_VERIFIER_BYTES = 16384"

text \<open>The three files of an evidence directory.\<close>

record evidence_files =
  ed_verifier :: file_under_test
  ed_record :: file_under_test
  ed_jws :: file_under_test

text \<open>\<^verbatim>\<open>bytes.decode("ascii")\<close>.\<close>

definition ascii_decode :: "bytes \<Rightarrow> string option" where
  "ascii_decode bs = (if list_all (\<lambda>b. unat b < 128) bs then Some (map (\<lambda>b. char_of (unat b)) bs) else None)"

definition require_canonical :: "libs \<Rightarrow> (string, json) fmap \<Rightarrow> bytes \<Rightarrow> string \<Rightarrow> exn + unit" where
  "require_canonical lib decoded raw message =
     bindE (canonical_json (lib_dumps lib) (JObj decoded)) (\<lambda>canonical. require (canonical = raw) (ValueError message))"

definition new_signed_record :: "string \<Rightarrow> exn + signed_experiment_record" where
  "new_signed_record compact = bindE (require (compact \<noteq> []) invalid) (\<lambda>_. Inr \<lparr>sr_compact_jws = compact\<rparr>)"

definition verify_evidence_bundle :: "libs \<Rightarrow> evidence_files \<Rightarrow> exn + signed_experiment_record" where
  "verify_evidence_bundle lib d =
     catching (\<lambda>_. True) (LabProtocolError ''experiment evidence bundle verification failed'')
       (bindE (read_bounded_regular_file MAX_EXPERIMENT_VERIFIER_BYTES (ed_verifier d)) (\<lambda>verifier_raw.
        bindE (read_bounded_regular_file MAX_EXPERIMENT_RECORD_BYTES (ed_record d)) (\<lambda>record_raw.
        bindE (read_bounded_regular_file MAX_EXPERIMENT_RECORD_BYTES (ed_jws d)) (\<lambda>jws_raw.
        bindE (strict_json_object (lib_scan lib) verifier_raw) (\<lambda>verifier_decoded.
        bindE (strict_json_object (lib_scan lib) record_raw) (\<lambda>record_decoded.
        bindE (require_canonical lib verifier_decoded verifier_raw ''experiment verifier is not canonical'') (\<lambda>_.
        bindE (require_canonical lib record_decoded record_raw ''experiment record projection is not canonical'') (\<lambda>_.
        bindE (require (\<not> (\<not> (jws_raw \<noteq> [] \<and> last jws_raw = 10) \<or> count_list jws_raw 10 \<noteq> 1))
                 (ValueError ''experiment JWS file has unexpected framing'')) (\<lambda>_.
        bindE (pe_read verifier_decoded) (\<lambda>verifier_document.
        bindE (of_option (ValueError ''UnicodeDecodeError'') (ascii_decode (butlast jws_raw))) (\<lambda>compact.
        bindE (new_signed_record compact) (\<lambda>sr.
        bindE (verifier_from_public_jwk (lib_jws lib) (obj (jk_members (pe_public_jwk verifier_document)))
                 (pe_key_id verifier_document)) (\<lambda>verifier.
        bindE (record_verify lib verifier sr) (\<lambda>payload.
        bindE (canonical_json (lib_dumps lib) (obj (er_members payload))) (\<lambda>canonical.
        bindE (require (canonical = record_raw)
                 (ValueError ''record projection does not match the authenticated JWS payload'')) (\<lambda>_.
        Inr sr))))))))))))))))"

text \<open>The JWS file of a compact serialization: its characters and one line feed.\<close>

definition jws_line :: "string \<Rightarrow> bytes \<Rightarrow> bool" where
  "jws_line compact bs \<longleftrightarrow>
     compact \<noteq> [] \<and> CHR ''\<newline>'' \<notin> set compact \<and> (\<exists>line. ascii_encode compact = Some line \<and> bs = line @ [10])"

lemma ascii_decode_Some: "ascii_decode bs = Some s \<longleftrightarrow> ascii_encode s = Some bs"
proof
  assume "ascii_decode bs = Some s"
  then have "list_all (\<lambda>b. unat b < 128) bs" "s = map (\<lambda>b. char_of (unat b)) bs"
    by (auto simp: ascii_decode_def split: if_splits)
  then show "ascii_encode s = Some bs"
    by (auto simp: ascii_encode_def list_all_iff comp_def intro!: map_idI)
next
  assume "ascii_encode s = Some bs"
  then have "list_all (\<lambda>c. of_char c < (128 :: nat)) s" "bs = map (\<lambda>c. byte_of (of_char c)) s"
    by (auto simp: ascii_encode_def split: if_splits)
  then show "ascii_decode bs = Some s"
    by (auto simp: ascii_decode_def list_all_iff comp_def intro!: map_idI)
qed

lemma ascii_encode_newline:
  assumes "ascii_encode s = Some bs"
  shows "10 \<in> set bs \<longleftrightarrow> CHR ''\<newline>'' \<in> set s"
proof -
  have "byte_of (of_char c) = 10 \<longleftrightarrow> c = CHR ''\<newline>''" if "of_char c < (128 :: nat)" for c :: char
  proof
    assume "byte_of (of_char c) = 10"
    then have "unat (byte_of (of_char c)) = unat (10 :: byte)" by simp
    then have "of_char c = (10 :: nat)" using that by simp
    then have "of_char c = (of_char (CHR ''\<newline>'') :: nat)" by simp
    then show "c = CHR ''\<newline>''" by (simp only: of_char_eq_iff)
  qed (simp add: byte_of_def)
  with assms show ?thesis
    by (fastforce simp: ascii_encode_def list_all_iff split: if_splits)
qed

lemma jws_line_iff:
  "jws_line compact bs \<longleftrightarrow>
   bs \<noteq> [] \<and> last bs = 10 \<and> count_list bs 10 = 1 \<and> ascii_decode (butlast bs) = Some compact \<and> compact \<noteq> []"
proof (cases bs rule: rev_cases)
  case (snoc line b)
  have "count_list (line @ [10 :: byte]) 10 = 1 \<longleftrightarrow> 10 \<notin> set line" for line
    by (simp add: count_list_0_iff)
  with snoc ascii_encode_newline [of compact line] show ?thesis
    by (auto simp: jws_line_def ascii_decode_Some)
qed (simp add: jws_line_def)

lemma require_canonical_Inr: "require_canonical lib m raw t = Inr u \<longleftrightarrow> lib_dumps lib (JObj m) = Inr raw"
  by (auto simp: require_canonical_def canonical_json_def bindE_Inr_iff)

lemma new_signed_record_Inr: "new_signed_record c = Inr sr \<longleftrightarrow> c \<noteq> [] \<and> sr = \<lparr>sr_compact_jws = c\<rparr>"
  by (auto simp: new_signed_record_def bindE_Inr_iff)

lemma verifier_from_public_jwk_Inr:
  "verifier_from_public_jwk jws jwk k = Inr v \<longleftrightarrow> okp_import jws jwk = Inr (ev_public_key v) \<and> ev_key_id v = k"
  by (cases v) (auto simp: verifier_from_public_jwk_def bindE_Inr_iff)

text \<open>The canonical text of the record that was read is the text it was read from.\<close>

lemma strict_canonical_dump: "strict_canonical lib er_read claims = Inr payload \<Longrightarrow> lib_dumps lib (obj (er_members payload)) = Inr claims"
  unfolding strict_canonical_Inr by (auto simp: er.accepts_iff obj_def)

lemma bundle_payload:
  "(\<exists>payload. record_verify lib v sr = Inr payload \<and> lib_dumps lib (obj (er_members payload)) = Inr raw \<and>
      (\<exists>m. strict_json_object (lib_scan lib) raw = Inr m \<and> lib_dumps lib (JObj m) = Inr raw)) \<longleftrightarrow>
   (\<exists>payload. deserialize_compact (lib_jws lib) (sr_compact_jws sr) (ev_public_key v) [JWS_ALGORITHM]
        = Inr (experiment_header (ev_key_id v), raw) \<and>
      strict_canonical lib er_read raw = Inr payload \<and> verify_embedded_receipts lib payload = Inr ())"
proof -
  have eq: "record_verify lib v sr = Inr payload \<and> lib_dumps lib (obj (er_members payload)) = Inr raw \<longleftrightarrow>
      deserialize_compact (lib_jws lib) (sr_compact_jws sr) (ev_public_key v) [JWS_ALGORITHM]
        = Inr (experiment_header (ev_key_id v), raw) \<and>
      strict_canonical lib er_read raw = Inr payload \<and> verify_embedded_receipts lib payload = Inr ()" for payload
    unfolding record_verify_Inr by (auto dest: strict_canonical_dump) (metis strict_canonical_dump sum.inject(2))
  have strict: "\<exists>m. strict_json_object (lib_scan lib) raw = Inr m \<and> lib_dumps lib (JObj m) = Inr raw"
    if "strict_canonical lib er_read raw = Inr payload" for payload
    using that unfolding strict_canonical_Inr by blast
  show ?thesis
    unfolding conj_assoc [symmetric] eq using strict by blast
qed

lemma evidence_bundle_accepted:
  "verify_evidence_bundle lib d = Inr sr \<longleftrightarrow>
   readable_within MAX_EXPERIMENT_VERIFIER_BYTES (ed_verifier d) \<and> readable_within MAX_EXPERIMENT_RECORD_BYTES (ed_record d) \<and>
   readable_within MAX_EXPERIMENT_RECORD_BYTES (ed_jws d) \<and> jws_line (sr_compact_jws sr) (fu_content (ed_jws d)) \<and>
   (\<exists>document key payload.
      strict_canonical lib pe_read (fu_content (ed_verifier d)) = Inr document \<and>
      okp_import (lib_jws lib) (obj (jk_members (pe_public_jwk document))) = Inr key \<and>
      deserialize_compact (lib_jws lib) (sr_compact_jws sr) key [JWS_ALGORITHM]
        = Inr (experiment_header (pe_key_id document), fu_content (ed_record d)) \<and>
      strict_canonical lib er_read (fu_content (ed_record d)) = Inr payload \<and> verify_embedded_receipts lib payload = Inr ())"
  (is "?L \<longleftrightarrow> ?read \<and> ?record \<and> ?jws \<and> ?line \<and> ?R")
proof -
  let ?raw = "fu_content (ed_record d)"
  have "?L \<longleftrightarrow> ?read \<and> ?record \<and> ?jws \<and> ?line \<and>
    (\<exists>document v. strict_canonical lib pe_read (fu_content (ed_verifier d)) = Inr document \<and>
       verifier_from_public_jwk (lib_jws lib) (obj (jk_members (pe_public_jwk document))) (pe_key_id document) = Inr v \<and>
       (\<exists>payload. record_verify lib v sr = Inr payload \<and> lib_dumps lib (obj (er_members payload)) = Inr ?raw \<and>
          (\<exists>m. strict_json_object (lib_scan lib) ?raw = Inr m \<and> lib_dumps lib (JObj m) = Inr ?raw)))"
    unfolding verify_evidence_bundle_def jws_line_iff strict_canonical_Inr
    by (cases sr) (auto simp: bindE_Inr_iff read_bounded_Inr require_canonical_Inr new_signed_record_Inr of_option_Inr_iff canonical_json_def)
  then show ?thesis
    unfolding bundle_payload verifier_from_public_jwk_Inr by (metis experiment_verifier.select_convs)
qed

text \<open>C38: an evidence bundle is accepted exactly when its three files can be read within their bounds, the
  verifier file is the canonical text of a verifier document, the JWS file is one ASCII line, the key of that
  document verifies the line over exactly the bytes of the record file, and these bytes are the canonical text
  of a record that validates and whose embedded receipts verify.\<close>

theorem evidence_bundle_accepted_iff:
  "verify_evidence_bundle lib d = Inr sr \<longleftrightarrow>
   readable_within MAX_EXPERIMENT_VERIFIER_BYTES (ed_verifier d) \<and> readable_within MAX_EXPERIMENT_RECORD_BYTES (ed_record d) \<and>
   readable_within MAX_EXPERIMENT_RECORD_BYTES (ed_jws d) \<and> jws_line (sr_compact_jws sr) (fu_content (ed_jws d)) \<and>
   (\<exists>document key payload.
      strict_canonical lib pe_read (fu_content (ed_verifier d)) = Inr document \<and>
      okp_import (lib_jws lib) (obj (jk_members (pe_public_jwk document))) = Inr key \<and>
      deserialize_compact (lib_jws lib) (sr_compact_jws sr) key [JWS_ALGORITHM]
        = Inr (experiment_header (pe_key_id document), fu_content (ed_record d)) \<and>
      strict_canonical lib er_read (fu_content (ed_record d)) = Inr payload \<and> verify_embedded_receipts lib payload = Inr ())"
  by (rule evidence_bundle_accepted)

end
