(* ===== verification/Live_Cli.thy ===== *)
theory Live_Cli
  imports Controller Evidence
begin

text \<open>
  \<^verbatim>\<open>lab/live_cli.py\<close>: the two halves of a live run. The first issues one capability per case, prepares the
  cases and writes the trusted state and the worker's payload; the second reads that state and the worker's
  answer, finalizes the cases, signs the record and writes the evidence bundle.

  The files are part of the state: directories with their permission bits, files with their permission bits
  and content. The database file of the state directory is the store of the state. Generated keys are
  arguments, and so is the part of the manifest package that signs a manifest.
\<close>

section \<open>Files\<close>

type_synonym path = "string \<times> string"

record live_state = controller_state +
  dir_modes :: "(string, nat) fmap"
  files :: "(path, nat \<times> bytes) fmap"

definition require_private_directory :: "string \<Rightarrow> ('a live_state_scheme, unit) prog" where
  "require_private_directory dir =
     bindM (getM dir_modes) (\<lambda>modes.
     liftE (require (fmlookup modes dir = Some 448)
       (LabProtocolError ''trusted state directory must exist with mode 0700'')))"

definition write_new_file :: "path \<Rightarrow> bytes \<Rightarrow> nat \<Rightarrow> ('a live_state_scheme, unit) prog" where
  "write_new_file p contents mode =
     bindM (getM dir_modes) (\<lambda>modes.
     bindM (getM files) (\<lambda>fs.
     bindM (liftE (require (fmlookup modes (fst p) \<noteq> None) (OSError ''FileNotFoundError''))) (\<lambda>_.
     bindM (liftE (require (fmlookup fs p = None) (OSError ''FileExistsError''))) (\<lambda>_.
     modifyM (\<lambda>s. s\<lparr>files := fmupd p (mode, contents) (files s)\<rparr>)))))"

definition STATE_FILENAME :: string where "STATE_FILENAME = ''trusted-state.json''"

text \<open>The permission bits of group and others are the six lower ones.\<close>

definition read_canonical_state :: "libs \<Rightarrow> path \<Rightarrow> ('a live_state_scheme, trusted_lab_state) prog" where
  "read_canonical_state lib p =
     bindM (getM files) (\<lambda>fs.
     bindM (liftE (of_option (OSError ''FileNotFoundError'') (fmlookup fs p))) (\<lambda>(mode, raw).
     bindM (liftE (require (mode mod 64 = 0) (LabProtocolError ''trusted state file permissions are too broad''))) (\<lambda>_.
     liftE (catching (\<lambda>_. True) (LabProtocolError ''trusted state failed strict validation'')
       (strict_canonical lib ts_read raw)))))"

section \<open>Cases\<close>

definition SCOPE :: string where "SCOPE = ''mcp://inventoryd/tool/inventory.lookup''"

definition AUDIENCE :: string where "AUDIENCE = ''inventoryd''"

definition METHOD :: string where "METHOD = ''inventory.lookup''"

definition BROKER_ID :: string where
  "BROKER_ID = ''spiffe://attested-capability.test/runpod-lab/broker/inventoryd''"

definition spec_of :: "int \<Rightarrow> variant \<Rightarrow> case_spec" where
  "spec_of concurrency v =
     \<lparr>cs_case_id = ''case-'' @ variant_str v, cs_variant = v, cs_sku = ''widget-42'', cs_record_id = ''record-'' @ variant_str v,
      cs_concurrency = concurrency\<rparr>"

definition case_specs :: "int \<Rightarrow> exn + case_spec list" where
  "case_specs concurrency =
     bindE (mapM_E (\<lambda>v. new_case_spec (spec_of 1 v))
              [Valid, Replay, ArgumentSubstitution, RecordSubstitution, WrongHolder, Malformed]) (\<lambda>result.
     bindE (new_case_spec (spec_of concurrency Concurrent)) (\<lambda>spec.
     Inr (result @ [spec])))"

definition prepare_capability_cases ::
  "libs \<Rightarrow> trusted_controller \<Rightarrow> capability_grant list \<Rightarrow> case_spec list \<Rightarrow> bytes
   \<Rightarrow> ('a controller_state_scheme, prepared_case list \<times> worker_payload) prog" where
  "prepare_capability_cases lib tc grants specs holder_private =
     bindM (liftE (require (length grants = length specs)
              (ValueError ''one independently issued capability is required per case''))) (\<lambda>_.
     bindM (liftE (require (bytes_hex (ed_public (lib_ed lib) holder_private) = tc_expected_worker_public_key tc)
              (ValueError ''disposable holder key does not match controller expectation''))) (\<lambda>_.
     bindM (mapM_M (\<lambda>(grant, spec). prepare_case lib tc grant spec) (zip grants specs)) (\<lambda>prepared.
     bindM (liftE (new_worker_payload
       \<lparr>wp_schema_version = ''atcap-runpod-worker-payload/v1'', wp_holder_private_key = bytes_hex holder_private,
        wp_worker_image = tc_worker_image tc, wp_worker_code_digest = tc_worker_code_digest tc,
        wp_requests = concat (map pc_requests prepared)\<rparr>)) (\<lambda>payload.
     returnM (prepared, payload)))))"

section \<open>Sources and manifest\<close>

text \<open>What the environment says of the repository: the commit it names, the answer of
  \<^verbatim>\<open>git rev-parse HEAD\<close> where git is installed, and the two kinds of source files.\<close>

record repository_view =
  rv_commit_env :: "string option"
  rv_git :: "(exn + string) option"
  rv_uv_lock :: "exn + bytes"
  rv_worker_source :: "string \<Rightarrow> exn + bytes"

definition repository_bindings :: "repository_view \<Rightarrow> exn + (string \<times> string)" where
  "repository_bindings rv =
     bindE (case rv_commit_env rv of
              Some supplied \<Rightarrow>
                bindE (require (lower_hex 40 supplied)
                         (LabProtocolError ''ATCAP_LAB_COMMIT_SHA is not a lowercase Git commit ID'')) (\<lambda>_. Inr supplied)
            | None \<Rightarrow>
                bindE (of_option (LabProtocolError ''git or an explicit ATCAP_LAB_COMMIT_SHA is required for source binding'')
                         (rv_git rv)) (\<lambda>run.
                bindE run (\<lambda>out. Inr (py_strip out)))) (\<lambda>commit_sha.
     bindE (rv_uv_lock rv) (\<lambda>lock.
     Inr (commit_sha, sha256_hex lock)))"

definition MANIFEST_ISSUER :: string where
  "MANIFEST_ISSUER = ''spiffe://attested-capability.test/runpod-lab/manifest-authority''"

definition pinned_hash :: "char \<Rightarrow> string" where
  "pinned_hash c = ''sha256:'' @ replicate 64 c"

definition SYSTEM_PROMPT_HASH :: string where "SYSTEM_PROMPT_HASH = pinned_hash CHR ''a''"

definition POLICY_BUNDLE_HASH :: string where "POLICY_BUNDLE_HASH = pinned_hash CHR ''b''"

definition MODEL_HASH :: string where "MODEL_HASH = pinned_hash CHR ''c''"

text \<open>The manifest authority: a key pair made by the package, its signing function, and how the package's
  model takes an instant.\<close>

record manifest_author =
  ma_key_id :: string
  ma_public_b64url :: string
  ma_sign :: "(string, json) fmap \<Rightarrow> json"
  ma_instant :: "int \<Rightarrow> json"

definition unsigned_manifest :: "manifest_author \<Rightarrow> int \<Rightarrow> json" where
  "unsigned_manifest ma now =
     obj [(''@context'', JStr ''https://manifest.agentrust-io.com/v0.2/context.json''), (''@type'', JStr ''AgentManifest''),
       (''manifest_id'', JStr ''01918e20-49c0-7b71-a6dd-0123456789ab''),
       (''agent_id'', JStr ''spiffe://attested-capability.test/runpod-lab/agent''), (''version'', JStr ''0.1''),
       (''issued_at'', ma_instant ma now), (''expires_at'', ma_instant ma (now + 3600)), (''issuer'', JStr MANIFEST_ISSUER),
       (''artifacts'', obj
         [(''system_prompt'', obj
            [(''hash'', JStr SYSTEM_PROMPT_HASH), (''version'', JStr ''1''), (''classification'', JStr ''internal''),
             (''bound_at'', ma_instant ma now)]),
          (''policy_bundle'', obj
            [(''hash'', JStr POLICY_BUNDLE_HASH), (''policy_language'', JStr ''cedar''), (''version'', JStr ''1''),
             (''enforcement_mode'', JStr ''enforce''), (''scope'', JArr [JStr SCOPE]), (''bound_at'', ma_instant ma now)]),
          (''model_identity'', obj
            [(''provider'', JStr ''local-test''), (''model_id'', JStr ''runpod-untrusted-caller-fixture''), (''version'', JStr ''1''),
             (''deployment_type'', JStr ''local''), (''model_hash'', JStr MODEL_HASH),
             (''model_attestation_type'', JStr ''hash-bound''), (''bound_at'', ma_instant ma now)])])]"

definition signed_manifest :: "libs \<Rightarrow> manifest_author \<Rightarrow> bytes \<Rightarrow> int \<Rightarrow> exn + (json \<times> manifest_policy)" where
  "signed_manifest lib ma identity_private now =
     (let ml = lib_manifest lib in
      bindE (model_validate_dump ml (unsigned_manifest ma now)) (\<lambda>document.
      bindE (model_validate_dump ml (JObj (fmupd ''signature'' (ma_sign ma document) document))) (\<lambda>signed_doc.
      bindE (signed_manifest_digest ml (JObj signed_doc)) (\<lambda>digest.
      Inr (JObj signed_doc,
           \<lparr>mp_expected_digest = digest, mp_issuer = MANIFEST_ISSUER, mp_signing_key_id = ma_key_id ma,
            mp_signing_public_b64url = ma_public_b64url ma, mp_identity_public_hex = public_key_hex (lib_ed lib) identity_private,
            mp_system_prompt_hash = SYSTEM_PROMPT_HASH, mp_policy_bundle_hash = POLICY_BUNDLE_HASH,
            mp_model_hash = MODEL_HASH\<rparr>)))))"

section \<open>Preparing a run\<close>

text \<open>The broker's call runs on the same environment and store, with locals of its own.\<close>

definition issue_view :: "'a live_state_scheme \<Rightarrow> issue_state" where
  "issue_view s =
     \<lparr>clock_at = clock_at s, ticks = ticks s, entropy = entropy s, drawn = drawn s, db_busy = db_busy s, db_calls = db_calls s,
      db = db s, il_token_hash = None, il_manifest_digest = None, il_artifact_hashes = fmempty\<rparr>"

definition on_broker :: "(issue_state, 'b) prog \<Rightarrow> ('a live_state_scheme, 'b) prog" where
  "on_broker m s =
     (case m (issue_view s) of
        (r, t) \<Rightarrow> (r, s\<lparr>clock_at := clock_at t, ticks := ticks t, entropy := entropy t, drawn := drawn t, db_busy := db_busy t,
                     db_calls := db_calls t, db := db t\<rparr>))"

text \<open>The keys that were generated.\<close>

record lab_keys =
  lk_holder :: bytes
  lk_identity :: bytes
  lk_issuer :: bytes
  lk_broker :: okp_key
  lk_inventory :: okp_key
  lk_experiment :: okp_key

text \<open>The arguments of \<^verbatim>\<open>_prepare_capabilities\<close>; taking evidence for a request may have effects.\<close>

record 's preparation =
  pa_worker_image :: string
  pa_state_dir :: string
  pa_payload_path :: path
  pa_concurrency :: int
  pa_ttl_seconds :: int
  pa_tpm_policy :: tpm_policy
  pa_tpm_appraiser :: appraiser
  pa_evidence_for :: "issuance_request \<Rightarrow> ('s, tpm_evidence) prog"
  pa_tpm_mode :: string
  pa_tpm_evidence_verified :: bool

definition lab_broker_policy :: "libs \<Rightarrow> lab_keys \<Rightarrow> manifest_policy \<Rightarrow> 's preparation \<Rightarrow> broker_policy" where
  "lab_broker_policy lib keys mp pa =
     \<lparr>bp_broker_id = BROKER_ID, bp_qualified_scope = SCOPE, bp_resource_issuer_kid = ''runpod-lab-inventoryd-ca2a-v1'',
      bp_resource_issuer_public_hex = public_key_hex (lib_ed lib) (lk_issuer keys), bp_challenge_ttl_seconds = 60,
      bp_credential_ttl_seconds = pa_ttl_seconds pa, bp_manifest = mp, bp_tpm = pa_tpm_policy pa\<rparr>"

definition lab_resource_policy :: "libs \<Rightarrow> lab_keys \<Rightarrow> 's preparation \<Rightarrow> resource_policy" where
  "lab_resource_policy lib keys pa =
     \<lparr>rp_audience = AUDIENCE, rp_method = METHOD, rp_qualified_scope = SCOPE,
      rp_trusted_broker_public_hex = public_key_hex (lib_ed lib) (lk_issuer keys), rp_challenge_ttl_seconds = pa_ttl_seconds pa,
      rp_max_credential_lifetime_seconds = pa_ttl_seconds pa\<rparr>"

definition lab_request :: "libs \<Rightarrow> lab_keys \<Rightarrow> broker_policy \<Rightarrow> string \<Rightarrow> issuance_request" where
  "lab_request lib keys bp challenge =
     \<lparr>ir_version = ''atcap-issuance/v1'', ir_broker_id = BROKER_ID, ir_challenge = challenge,
      ir_manifest_digest = mp_expected_digest (bp_manifest bp), ir_identity_key = public_key_hex (lib_ed lib) (lk_identity keys),
      ir_holder_key = public_key_hex (lib_ed lib) (lk_holder keys), ir_resource_issuer_kid = bp_resource_issuer_kid bp,
      ir_resource_issuer_key = public_key_hex (lib_ed lib) (lk_issuer keys), ir_requested_scope = SCOPE, ir_identity_signature = []\<rparr>"

text \<open>\<^verbatim>\<open>decision.result["credential"]\<close>, handed to \<^verbatim>\<open>DelegationCredential.from_dict\<close>.\<close>

definition result_credential :: "libs \<Rightarrow> json \<Rightarrow> exn + delegation_credential" where
  "result_credential lib result =
     (case result of
        JObj m \<Rightarrow> (case fmlookup m ''credential'' of
                     Some (JObj c) \<Rightarrow> credential_from_dict (lib_ca2a lib) c
                   | Some _ \<Rightarrow> Inl (TypeError ''from_dict'')
                   | None \<Rightarrow> Inl (OtherError ''KeyError''))
      | _ \<Rightarrow> Inl (TypeError ''result''))"

definition evidence_digest :: "tpm_evidence \<Rightarrow> string \<Rightarrow> exn + string" where
  "evidence_digest evidence name = of_option (OtherError ''KeyError'') (fmlookup (digestable evidence) name)"

text \<open>One turn of the issuance loop.\<close>

definition issue_grant ::
  "libs \<Rightarrow> capability_broker \<Rightarrow> lab_keys \<Rightarrow> json \<Rightarrow> 'a live_state_scheme preparation \<Rightarrow> ('a live_state_scheme, capability_grant) prog" where
  "issue_grant lib br keys manifest pa =
     (let bp = cb_policy br in
      bindM (new_challenge lib br) (\<lambda>challenge.
      bindM (liftE (endorse_request (lib_ed lib) (lib_dumps lib) (lab_request lib keys bp challenge) (lk_identity keys))) (\<lambda>endorsed.
      bindM (pa_evidence_for pa endorsed) (\<lambda>evidence.
      bindM (on_broker (issue lib br (request_obj endorsed) manifest (evidence_obj evidence))) (\<lambda>decision.
      bindM (liftE (require (\<not> (\<not> d_allowed decision \<or> d_reason decision \<noteq> ALLOW \<or> d_result decision = None))
               (LabProtocolError (pa_tpm_mode pa @ '' broker issuance failed: '' @ reason_str (d_reason decision))))) (\<lambda>_.
      bindM (liftE (result_credential lib (the (d_result decision)))) (\<lambda>credential.
      bindM (liftE (bindE (broker_public_dict bp) (canonical_digest (lib_dumps lib)))) (\<lambda>policy_digest.
      bindM (liftE (evidence_digest evidence ''tpm_attest_sha256'')) (\<lambda>attest.
      bindM (liftE (evidence_digest evidence ''tpm_signature_sha256'')) (\<lambda>signature.
      bindM (liftE (evidence_digest evidence ''tpm_ak_chain_sha256'')) (\<lambda>chain.
      bindM (liftE (canonical_digest (lib_dumps lib) (request_to_dict endorsed))) (\<lambda>request_digest.
      returnM
        \<lparr>cg_credential = credential, cg_broker_receipt = d_receipt decision,
         cg_manifest_digest = mp_expected_digest (bp_manifest bp), cg_broker_policy_sha256 = policy_digest,
         cg_broker_challenge_token_hash = challenge_token_hash challenge, cg_tpm_attest_sha256 = attest,
         cg_tpm_signature_sha256 = signature, cg_tpm_ak_chain_sha256 = chain,
         cg_issuance_request_sha256 = request_digest\<rparr>))))))))))))"

definition jwk_members :: "json \<Rightarrow> exn + (string, json) fmap" where
  "jwk_members jwk = (case jwk of JObj m \<Rightarrow> Inr m | _ \<Rightarrow> Inl invalid)"

text \<open>The state document, from what the run has put together.\<close>

definition lab_state_of ::
  "libs \<Rightarrow> lab_keys \<Rightarrow> 's preparation \<Rightarrow> trusted_controller \<Rightarrow> receipt_verifier \<Rightarrow> string \<Rightarrow> string \<Rightarrow> string \<Rightarrow> bytes \<Rightarrow> prepared_case list
   \<Rightarrow> exn + trusted_lab_state" where
  "lab_state_of lib keys pa tc broker_verifier experiment_id commit_sha uv_lock_sha256 resource_secret prepared =
     (let policy = controller_policy tc in
      bindE (jwk_members (okp_as_dict (lib_jws lib) (lk_inventory keys) True)) (\<lambda>inventory_jwk.
      bindE (jwk_members (verifier_public_jwk (lib_jws lib) broker_verifier)) (\<lambda>broker_jwk.
      bindE (jwk_members (signer_private_jwk (lib_jws lib) (tc_experiment_signer tc))) (\<lambda>experiment_jwk.
      new_trusted_lab_state
        \<lparr>ts_schema_version = ''atcap-runpod-trusted-state/v1'', ts_experiment_id = experiment_id, ts_commit_sha = commit_sha,
         ts_uv_lock_sha256 = uv_lock_sha256, ts_tpm_mode = pa_tpm_mode pa,
         ts_tpm_evidence_verified = pa_tpm_evidence_verified pa, ts_database_filename = ''lab.sqlite3'',
         ts_resource_policy =
           \<lparr>ps_audience = rp_audience policy, ps_method = rp_method policy, ps_qualified_scope = rp_qualified_scope policy,
            ps_trusted_broker_public_hex = rp_trusted_broker_public_hex policy,
            ps_challenge_ttl_seconds = rp_challenge_ttl_seconds policy,
            ps_max_credential_lifetime_seconds = rp_max_credential_lifetime_seconds policy\<rparr>,
         ts_resource_challenge_secret = bytes_hex resource_secret,
         ts_inventory_receipt_key_id = ''runpod-lab-inventory-receipt-v1'', ts_inventory_receipt_private_jwk = inventory_jwk,
         ts_broker_receipt_key_id = ''runpod-lab-broker-receipt-v1'', ts_broker_receipt_public_jwk = broker_jwk,
         ts_experiment_key_id = es_key_id (tc_experiment_signer tc), ts_experiment_private_jwk = experiment_jwk,
         ts_expected_worker_public_key = tc_expected_worker_public_key tc, ts_worker_image = tc_worker_image tc,
         ts_worker_code_digest = tc_worker_code_digest tc, ts_prepared_cases = prepared\<rparr>))))"

definition directory_empty :: "string \<Rightarrow> (path, nat \<times> bytes) fmap \<Rightarrow> bool" where
  "directory_empty dir fs \<longleftrightarrow> fBall (fmdom fs) (\<lambda>p. fst p \<noteq> dir)"

text \<open>A store opened by a new process, whose objects count from zero. \<^term>\<open>None\<close> is a database file that does not
  exist yet.\<close>

definition open_store :: "sqlite_store option \<Rightarrow> ('a controller_state_scheme, unit) prog" where
  "open_store file =
     bindM db_connect (\<lambda>_.
     modifyM (\<lambda>s. s\<lparr>db := initialize file, invocation_count := 0, reserved_case_ids := []\<rparr>))"

text \<open>The parties of a run: the broker, and the controller with its inventory; the verifier of broker receipts.\<close>

definition lab_parties ::
  "libs \<Rightarrow> lab_keys \<Rightarrow> broker_policy \<Rightarrow> 's preparation \<Rightarrow> string \<Rightarrow> ('a env_scheme, capability_broker \<times> trusted_controller \<times> receipt_verifier \<times> bytes) prog" where
  "lab_parties lib keys bp pa worker_code_digest =
     (let jws = lib_jws lib;
          broker_signer = \<lparr>signer_key = lk_broker keys, signer_key_id = ''runpod-lab-broker-receipt-v1''\<rparr>;
          inventory_signer = \<lparr>signer_key = lk_inventory keys, signer_key_id = ''runpod-lab-inventory-receipt-v1''\<rparr>;
          experiment_signer = \<lparr>es_private_key = lk_experiment keys, es_key_id = ''runpod-lab-experiment-v1''\<rparr> in
      bindM (token_bytes 32) (\<lambda>broker_secret.
      bindM (liftE (new_capability_broker lib bp broker_secret (lk_issuer keys) broker_signer (pa_tpm_appraiser pa))) (\<lambda>br.
      bindM (token_bytes 32) (\<lambda>resource_secret.
      bindM (liftE (new_inventory_application (lab_resource_policy lib keys pa) resource_secret inventory_signer None)) (\<lambda>app.
      bindM (liftE (signer_public_key jws broker_signer)) (\<lambda>broker_public.
      bindM (liftE (signer_public_key jws inventory_signer)) (\<lambda>inventory_public.
      let broker_verifier = \<lparr>verifier_key = broker_public, verifier_key_id = ''runpod-lab-broker-receipt-v1''\<rparr>;
          inventory_verifier = \<lparr>verifier_key = inventory_public, verifier_key_id = ''runpod-lab-inventory-receipt-v1''\<rparr> in
      bindM (liftE (new_trusted_controller lib app broker_verifier inventory_verifier experiment_signer
               (public_key_hex (lib_ed lib) (lk_holder keys)) (pa_worker_image pa) worker_code_digest)) (\<lambda>tc.
      returnM (br, tc, broker_verifier, resource_secret)))))))))"

text \<open>The end of the preparation: the cases, the state document and the payload.\<close>

definition write_preparation ::
  "libs \<Rightarrow> lab_keys \<Rightarrow> 'a live_state_scheme preparation \<Rightarrow> trusted_controller \<Rightarrow> receipt_verifier \<Rightarrow> string \<Rightarrow> string \<Rightarrow> bytes \<Rightarrow> capability_grant list
   \<Rightarrow> case_spec list \<Rightarrow> ('a live_state_scheme, worker_payload) prog" where
  "write_preparation lib keys pa tc broker_verifier commit_sha uv_lock_sha256 resource_secret grants specs =
     bindM (prepare_capability_cases lib tc grants specs (lk_holder keys)) (\<lambda>(prepared, payload).
     bindM (token_hex 8) (\<lambda>suffix.
     bindM (liftE (lab_state_of lib keys pa tc broker_verifier (''runpod-lab-'' @ suffix) commit_sha uv_lock_sha256 resource_secret prepared))
       (\<lambda>state.
     bindM (liftE (canonical_json (lib_dumps lib) (obj (ts_members state)))) (\<lambda>state_text.
     bindM (write_new_file (pa_state_dir pa, STATE_FILENAME) state_text 384) (\<lambda>_.
     bindM (liftE (canonical_json (lib_dumps lib) (obj (wp_members payload)))) (\<lambda>payload_text.
     bindM (write_new_file (pa_payload_path pa) payload_text 384) (\<lambda>_.
     returnM payload)))))))"

definition prepare_capabilities ::
  "libs \<Rightarrow> repository_view \<Rightarrow> manifest_author \<Rightarrow> lab_keys \<Rightarrow> 'a live_state_scheme preparation \<Rightarrow> ('a live_state_scheme, worker_payload) prog" where
  "prepare_capabilities lib rv ma keys pa =
     bindM (require_private_directory (pa_state_dir pa)) (\<lambda>_.
     bindM (getM files) (\<lambda>fs.
     bindM (liftE (require (directory_empty (pa_state_dir pa) fs)
              (LabProtocolError ''trusted state directory must be empty before prepare''))) (\<lambda>_.
     bindM (liftE (require (60 \<le> pa_ttl_seconds pa \<and> pa_ttl_seconds pa \<le> 3600)
              (LabProtocolError ''capability TTL must be between 60 and 3600 seconds''))) (\<lambda>_.
     bindM (liftE (repository_bindings rv)) (\<lambda>(commit_sha, uv_lock_sha256).
     bindM (liftE (worker_source_digest (rv_worker_source rv))) (\<lambda>worker_code_digest.
     bindM read_clock (\<lambda>now.
     bindM (liftE (signed_manifest lib ma (lk_identity keys) now)) (\<lambda>(manifest, manifest_policy).
     bindM (open_store None) (\<lambda>_.
     bindM (lab_parties lib keys (lab_broker_policy lib keys manifest_policy pa) pa worker_code_digest)
       (\<lambda>(br, tc, broker_verifier, resource_secret).
     bindM (liftE (case_specs (pa_concurrency pa))) (\<lambda>specs.
     bindM (mapM_M (\<lambda>_. issue_grant lib br keys manifest pa) specs) (\<lambda>grants.
     write_preparation lib keys pa tc broker_verifier commit_sha uv_lock_sha256 resource_secret grants specs))))))))))))"

text \<open>The explicit test double: fixed evidence, accepted by the test appraiser.\<close>

definition prepare_test_double ::
  "libs \<Rightarrow> repository_view \<Rightarrow> manifest_author \<Rightarrow> lab_keys \<Rightarrow> string \<Rightarrow> string \<Rightarrow> path \<Rightarrow> int \<Rightarrow> int \<Rightarrow> ('a live_state_scheme, worker_payload) prog" where
  "prepare_test_double lib rv ma keys worker_image state_dir payload_path concurrency ttl_seconds =
     bindM (token_bytes 96) (\<lambda>attest.
     bindM (token_bytes 64) (\<lambda>signature.
     bindM (token_bytes 32) (\<lambda>pcr_digest.
     let accepted = \<lparr>te_attest = attest, te_signature = signature, te_ak_chain_pem = utf8 ''explicit-test-double-ak-chain''\<rparr> in
     prepare_capabilities lib rv ma keys
       \<lparr>pa_worker_image = worker_image, pa_state_dir = state_dir, pa_payload_path = payload_path, pa_concurrency = concurrency,
        pa_ttl_seconds = ttl_seconds,
        pa_tpm_policy = \<lparr>tp_selection = [(''sha256'', [0, 7])], tp_expected_pcr_digest = pcr_digest,
          tp_trusted_roots_pem = utf8 ''explicit-test-double-root''\<rparr>,
        pa_tpm_appraiser = test_appraise accepted, pa_evidence_for = (\<lambda>_. returnM accepted), pa_tpm_mode = ''test-double'',
        pa_tpm_evidence_verified = False\<rparr>)))"

section \<open>Finalizing a run\<close>

definition MAX_RUNPOD_ENVELOPE_BYTES :: nat where "MAX_RUNPOD_ENVELOPE_BYTES = 2097152"

record finalization =
  fa_state_dir :: string
  fa_worker_response_path :: path
  fa_endpoint_id :: string
  fa_worker_image :: string
  fa_evidence_dir :: string

definition evidence_outputs :: "string list" where
  "evidence_outputs = [''experiment-record.jws'', ''experiment-record.json'', ''experiment-verifier.json'']"

definition read_envelope :: "libs \<Rightarrow> path \<Rightarrow> ('a live_state_scheme, runpod_job_envelope) prog" where
  "read_envelope lib p =
     bindM (getM files) (\<lambda>fs.
     liftE (catching (\<lambda>_. True) (LabProtocolError ''Runpod response envelope failed strict validation'')
       (bindE (of_option (OSError ''FileNotFoundError'') (fmlookup fs p)) (\<lambda>(_, raw).
        bindE (require (\<not> length raw > MAX_RUNPOD_ENVELOPE_BYTES) (ValueError ''response exceeds the bounded envelope size'')) (\<lambda>_.
        bindE (strict_json_object (lib_scan lib) raw) envelope_read)))))"

definition policy_of_state :: "resource_policy_state \<Rightarrow> resource_policy" where
  "policy_of_state x =
     \<lparr>rp_audience = ps_audience x, rp_method = ps_method x, rp_qualified_scope = ps_qualified_scope x,
      rp_trusted_broker_public_hex = ps_trusted_broker_public_hex x, rp_challenge_ttl_seconds = ps_challenge_ttl_seconds x,
      rp_max_credential_lifetime_seconds = ps_max_credential_lifetime_seconds x\<rparr>"

text \<open>The controller that a trusted state describes.\<close>

definition restore_controller :: "libs \<Rightarrow> trusted_lab_state \<Rightarrow> exn + trusted_controller" where
  "restore_controller lib st =
     (let jws = lib_jws lib in
      bindE (okp_import jws (JObj (ts_inventory_receipt_private_jwk st))) (\<lambda>inventory_key.
      let inventory_signer = \<lparr>signer_key = inventory_key, signer_key_id = ts_inventory_receipt_key_id st\<rparr> in
      bindE (signer_public_key jws inventory_signer) (\<lambda>inventory_public.
      bindE (okp_import jws (JObj (ts_broker_receipt_public_jwk st))) (\<lambda>broker_public.
      bindE (signer_from_private_jwk jws (JObj (ts_experiment_private_jwk st)) (ts_experiment_key_id st)) (\<lambda>experiment_signer.
      bindE (bytes_fromhex (ts_resource_challenge_secret st)) (\<lambda>secret.
      bindE (new_inventory_application (policy_of_state (ts_resource_policy st)) secret inventory_signer None) (\<lambda>app.
      new_trusted_controller lib app \<lparr>verifier_key = broker_public, verifier_key_id = ts_broker_receipt_key_id st\<rparr>
        \<lparr>verifier_key = inventory_public, verifier_key_id = ts_inventory_receipt_key_id st\<rparr> experiment_signer
        (ts_expected_worker_public_key st) (ts_worker_image st) (ts_worker_code_digest st))))))))"

definition new_runpod_observation :: "runpod_observation \<Rightarrow> exn + runpod_observation" where
  "new_runpod_observation x = bindE (require (ro_valid x) invalid) (\<lambda>_. Inr x)"

definition observation_of :: "finalization \<Rightarrow> runpod_job_envelope \<Rightarrow> runpod_observation" where
  "observation_of fa envelope =
     \<lparr>ro_provider = ''runpod'', ro_trust = ''untrusted'', ro_endpoint_id_sha256 = sha256_hex (utf8 (fa_endpoint_id fa)),
      ro_job_id_sha256 = sha256_hex (utf8 (je_id envelope)),
      ro_worker_id_sha256 = map_option (\<lambda>w. sha256_hex (utf8 w)) (je_worker_id envelope), ro_status = je_status envelope,
      ro_worker_image_argument = fa_worker_image fa, ro_delay_time_ms = je_delay_time envelope,
      ro_execution_time_ms = je_execution_time envelope\<rparr>"

definition case_inputs :: "trusted_lab_state \<Rightarrow> worker_response list \<Rightarrow> (prepared_case \<times> worker_response list) list" where
  "case_inputs st responses =
     map (\<lambda>prepared. (prepared, filter (\<lambda>x. ws_case_id x = cs_case_id (pc_spec prepared)) responses)) (ts_prepared_cases st)"

text \<open>Signing, checking and writing the evidence.\<close>

definition publish ::
  "libs \<Rightarrow> finalization \<Rightarrow> trusted_controller \<Rightarrow> experiment_record \<Rightarrow> signed_experiment_record \<Rightarrow> ('a live_state_scheme, unit) prog" where
  "publish lib fa tc payload sr =
     (let signer = tc_experiment_signer tc; jws = lib_jws lib in
      bindM (liftE (verifier_from_public_jwk jws (signer_public_jwk jws signer) (es_key_id signer))) (\<lambda>verifier.
      bindM (liftE (record_verify lib verifier sr)) (\<lambda>_.
      bindM (liftE (bindE (jwk_members (signer_public_jwk jws signer)) jk_read)) (\<lambda>jwk.
      bindM (liftE (new_public_experiment_verifier
        \<lparr>pe_schema_version = ''atcap-runpod-experiment-verifier/v1'', pe_key_id = es_key_id signer, pe_public_jwk = jwk\<rparr>)) (\<lambda>public_verifier.
      bindM (liftE (of_option (ValueError ''UnicodeEncodeError'') (ascii_encode (sr_compact_jws sr)))) (\<lambda>compact.
      bindM (write_new_file (fa_evidence_dir fa, ''experiment-record.jws'') (compact @ [10]) 420) (\<lambda>_.
      bindM (liftE (canonical_json (lib_dumps lib) (obj (er_members payload)))) (\<lambda>record_text.
      bindM (write_new_file (fa_evidence_dir fa, ''experiment-record.json'') record_text 420) (\<lambda>_.
      bindM (liftE (canonical_json (lib_dumps lib) (obj (pe_members public_verifier)))) (\<lambda>verifier_text.
      write_new_file (fa_evidence_dir fa, ''experiment-verifier.json'') verifier_text 420))))))))))"

text \<open>The end of \<^verbatim>\<open>finalize\<close>, once everything that was read has been checked.\<close>

definition settle ::
  "libs \<Rightarrow> holder_lib \<Rightarrow> (string \<Rightarrow> race) \<Rightarrow> finalization \<Rightarrow> trusted_controller \<Rightarrow> trusted_lab_state \<Rightarrow> worker_response list
   \<Rightarrow> runpod_observation \<Rightarrow> ('a live_state_scheme, signed_experiment_record) prog" where
  "settle lib hl races fa tc st responses observation =
     bindM (finalize_cases lib hl tc races (case_inputs st responses)) (\<lambda>cases.
     bindM (sign_record lib tc (ts_experiment_id st) (ts_commit_sha st) (ts_uv_lock_sha256 st) (ts_tpm_mode st)
              (ts_tpm_evidence_verified st) observation cases) (\<lambda>(payload, sr).
     bindM (publish lib fa tc payload sr) (\<lambda>_.
     returnM sr)))"

definition finalize ::
  "libs \<Rightarrow> holder_lib \<Rightarrow> (string \<Rightarrow> race) \<Rightarrow> finalization \<Rightarrow> ('a live_state_scheme, signed_experiment_record) prog" where
  "finalize lib hl races fa =
     bindM (require_private_directory (fa_state_dir fa)) (\<lambda>_.
     bindM (require_private_directory (fa_evidence_dir fa)) (\<lambda>_.
     bindM (getM files) (\<lambda>fs.
     bindM (liftE (require (list_all (\<lambda>name. fmlookup fs (fa_evidence_dir fa, name) = None) evidence_outputs)
              (LabProtocolError ''experiment evidence output already exists''))) (\<lambda>_.
     bindM (read_canonical_state lib (fa_state_dir fa, STATE_FILENAME)) (\<lambda>st.
     bindM (liftE (require (fa_worker_image fa = ts_worker_image st)
              (LabProtocolError ''finalize worker image does not match prepared state''))) (\<lambda>_.
     bindM (read_envelope lib (fa_worker_response_path fa)) (\<lambda>envelope.
     bindM (getM db) (\<lambda>file.
     bindM (open_store (Some file)) (\<lambda>_.
     bindM (liftE (restore_controller lib st)) (\<lambda>tc.
     let responses = wb_responses (je_output envelope) in
     bindM (liftE (require (set (map ws_run_id responses) = set (map wr_run_id (concat (map pc_requests (ts_prepared_cases st)))))
              (LabProtocolError ''Runpod response contains missing or unprepared run IDs''))) (\<lambda>_.
     bindM (liftE (new_runpod_observation (observation_of fa envelope))) (\<lambda>observation.
     bindM (liftE (canonical_json (lib_dumps lib) (obj (ro_members observation)))) (\<lambda>_.
     settle lib hl races fa tc st responses observation)))))))))))))"

end
