(* ===== verification/Live_Run.thy ===== *)
theory Live_Run
  imports Live_Cli
begin

text \<open>
  What a live run guarantees: the second half publishes a bundle that the public verification accepts, and the
  state file the first half writes is the state the second half reads.
\<close>

section \<open>Published evidence\<close>

text \<open>A file of the state as its reader meets it.\<close>

definition file_at :: "(path, nat \<times> bytes) fmap \<Rightarrow> path \<Rightarrow> file_under_test" where
  "file_at fs p =
     (case fmlookup fs p of
        None \<Rightarrow> \<lparr>fu_opens = False, fu_regular = False, fu_st_size = 0, fu_content = [], fu_handed = (\<lambda>_. 1)\<rparr>
      | Some (mode, contents) \<Rightarrow>
          \<lparr>fu_opens = True, fu_regular = True, fu_st_size = length contents, fu_content = contents, fu_handed = (\<lambda>_. 65536)\<rparr>)"

definition bundle_at :: "string \<Rightarrow> (path, nat \<times> bytes) fmap \<Rightarrow> evidence_files" where
  "bundle_at dir fs =
     \<lparr>ed_verifier = file_at fs (dir, ''experiment-verifier.json''), ed_record = file_at fs (dir, ''experiment-record.json''),
      ed_jws = file_at fs (dir, ''experiment-record.jws'')\<rparr>"

lemma readable_file_at:
  "fmlookup fs p = Some (mode, c) \<Longrightarrow> readable_within n (file_at fs p) \<longleftrightarrow> length c \<le> n"
  "fmlookup fs p = Some (mode, c) \<Longrightarrow> fu_content (file_at fs p) = c"
  by (simp_all add: file_at_def readable_within_def)

text \<open>Small enough for the verifier's bounds, with a compact serialization on one line.\<close>

definition bundle_fits :: "signed_experiment_record \<Rightarrow> evidence_files \<Rightarrow> bool" where
  "bundle_fits sr d \<longleftrightarrow> length (fu_content (ed_verifier d)) \<le> MAX_EXPERIMENT_VERIFIER_BYTES \<and>
     length (fu_content (ed_record d)) \<le> MAX_EXPERIMENT_RECORD_BYTES \<and>
     length (fu_content (ed_jws d)) \<le> MAX_EXPERIMENT_RECORD_BYTES \<and> CHR ''\<newline>'' \<notin> set (sr_compact_jws sr)"

text \<open>What is known of the three files when \<^verbatim>\<open>finalize\<close> has written them.\<close>

definition published ::
  "libs \<Rightarrow> experiment_signer \<Rightarrow> experiment_record \<Rightarrow> signed_experiment_record \<Rightarrow> evidence_files \<Rightarrow> bool" where
  "published lib signer payload sr d \<longleftrightarrow>
     (\<exists>key document line p.
        okp_import (lib_jws lib) (signer_public_jwk (lib_jws lib) signer) = Inr key \<and>
        record_verify lib \<lparr>ev_public_key = key, ev_key_id = es_key_id signer\<rparr> sr = Inr p \<and>
        pe_valid document \<and> pe_key_id document = es_key_id signer \<and>
        obj (jk_members (pe_public_jwk document)) = signer_public_jwk (lib_jws lib) signer \<and>
        ascii_encode (sr_compact_jws sr) = Some line \<and> fu_content (ed_jws d) = line @ [10] \<and>
        lib_dumps lib (obj (er_members payload)) = Inr (fu_content (ed_record d)) \<and>
        lib_dumps lib (obj (pe_members document)) = Inr (fu_content (ed_verifier d))) \<and>
     (\<forall>n. readable_within n (ed_jws d) \<longleftrightarrow> length (fu_content (ed_jws d)) \<le> n) \<and>
     (\<forall>n. readable_within n (ed_record d) \<longleftrightarrow> length (fu_content (ed_record d)) \<le> n) \<and>
     (\<forall>n. readable_within n (ed_verifier d) \<longleftrightarrow> length (fu_content (ed_verifier d)) \<le> n)"

lemma jwk_members_Inr: "jwk_members jwk = Inr m \<longleftrightarrow> jwk = JObj m"
  by (cases jwk) (auto simp: jwk_members_def)

lemma write_new_file_wp [wp_simps]:
  "post (write_new_file p c mode) s Q E \<longleftrightarrow>
    (if fmlookup (dir_modes s) (fst p) = None then E (OSError ''FileNotFoundError'') s
     else if fmlookup (files s) p \<noteq> None then E (OSError ''FileExistsError'') s
     else Q () (s\<lparr>files := fmupd p (mode, c) (files s)\<rparr>))"
  by (auto simp: write_new_file_def wp_simps require_def)

lemma publish_post:
  fixes s :: "'a live_state_scheme"
  shows "post (publish lib fa tc payload sr) s
    (\<lambda>_ s'. invocation_count s' = invocation_count s \<and> db s' = db s \<and>
       published lib (tc_experiment_signer tc) payload sr (bundle_at (fa_evidence_dir fa) (files s')))
    (\<lambda>_ s'. db s' = db s)"
  unfolding publish_def Let_def
  by (auto simp: wp_simps bindE_Inr_iff jwk_members_Inr new_public_experiment_verifier_Inr jk.accepts_iff canonical_json_def
      verifier_from_public_jwk_def published_def bundle_at_def file_at_def readable_within_def)
     (rule exI, rule conjI, assumption, simp)+

text \<open>The behaviour of the packages the round trip rests on: canonical text parses back without repeated names,
  and what a key signs the public half it exports verifies.\<close>

definition canonical_text_ok :: "libs \<Rightarrow> bool" where
  "canonical_text_ok lib \<longleftrightarrow>
     (\<forall>v b. lib_dumps lib v = Inr b \<longrightarrow> (\<exists>r. lib_scan lib b = Inr r \<and> no_duplicates r \<and> plain_json r = v))"

definition exported_keys_ok :: "jws_lib \<Rightarrow> bool" where
  "exported_keys_ok jws \<longleftrightarrow>
     (\<forall>key public. okp_import jws (okp_as_dict jws key False) = Inr public \<longrightarrow> jws_ok jws key public [JWS_ALGORITHM])"

lemma canonical_text_strict:
  assumes "canonical_text_ok lib" "lib_dumps lib (obj xs) = Inr b"
  shows "strict_json_object (lib_scan lib) b = Inr m \<longleftrightarrow> m = fmap_of_list xs"
proof -
  from assms obtain r where r: "lib_scan lib b = Inr r" "no_duplicates r" "plain_json r = obj xs"
    by (auto simp: canonical_text_ok_def)
  then show ?thesis by (auto simp: strict_json_object_Inr obj_def)
qed

lemma record_sign_Inr:
  "record_sign lib signer payload = Inr sr \<longleftrightarrow>
    (\<exists>claims. lib_dumps lib (obj (er_members payload)) = Inr claims \<and>
       serialize_compact (lib_jws lib) (experiment_header (es_key_id signer)) claims (es_private_key signer) [JWS_ALGORITHM]
         = Inr (sr_compact_jws sr) \<and> sr_compact_jws sr \<noteq> [])"
  by (cases sr) (auto simp: record_sign_def bindE_Inr_iff canonical_json_def)

lemma published_verifies:
  assumes ok: "canonical_text_ok lib" "exported_keys_ok (lib_jws lib)"
    and sign: "record_sign lib signer payload = Inr sr" and pub: "published lib signer payload sr d"
  shows "verify_evidence_bundle lib d = Inr sr \<longleftrightarrow> bundle_fits sr d"
proof -
  let ?jws = "lib_jws lib"
  from pub obtain key document line p where k: "okp_import ?jws (signer_public_jwk ?jws signer) = Inr key"
    and v: "record_verify lib \<lparr>ev_public_key = key, ev_key_id = es_key_id signer\<rparr> sr = Inr p"
    and doc: "pe_valid document" "pe_key_id document = es_key_id signer"
      "obj (jk_members (pe_public_jwk document)) = signer_public_jwk ?jws signer"
    and line: "ascii_encode (sr_compact_jws sr) = Some line" "fu_content (ed_jws d) = line @ [10]"
    and texts: "lib_dumps lib (obj (er_members payload)) = Inr (fu_content (ed_record d))"
      "lib_dumps lib (obj (pe_members document)) = Inr (fu_content (ed_verifier d))"
    unfolding published_def by blast
  have signed_bytes: "deserialize_compact ?jws (sr_compact_jws sr) key [JWS_ALGORITHM]
      = Inr (experiment_header (es_key_id signer), fu_content (ed_record d))"
    using ok(2) k sign texts(1) by (auto simp: exported_keys_ok_def jws_ok_def signer_public_jwk_def record_sign_Inr)
  have rec: "strict_canonical lib er_read (fu_content (ed_record d)) = Inr p" "verify_embedded_receipts lib p = Inr ()"
    using v signed_bytes by (auto simp: record_verify_Inr)
  have verifier: "strict_canonical lib pe_read (fu_content (ed_verifier d)) = Inr x \<longleftrightarrow> x = document" for x
    unfolding strict_canonical_Inr canonical_text_strict [OF ok(1) texts(2)]
    using texts(2) pe.reads_back [OF doc(1)] by (auto simp: obj_def)
  have fits: "bundle_fits sr d \<longleftrightarrow> readable_within MAX_EXPERIMENT_VERIFIER_BYTES (ed_verifier d) \<and>
      readable_within MAX_EXPERIMENT_RECORD_BYTES (ed_record d) \<and> readable_within MAX_EXPERIMENT_RECORD_BYTES (ed_jws d) \<and>
      jws_line (sr_compact_jws sr) (fu_content (ed_jws d))"
    using pub sign line by (auto simp: bundle_fits_def published_def jws_line_def record_sign_Inr)
  show ?thesis
    unfolding evidence_bundle_accepted fits verifier using k doc signed_bytes rec by auto
qed

section \<open>Finalizing\<close>

lemma ts_read_valid: "ts_read m = Inr st \<Longrightarrow> ts_valid st"
  by (auto simp: ts_read_def bindE_Inr_iff new_trusted_lab_state_def model_checks_Inr ts_valid_def)

lemma strict_state_valid: "strict_canonical lib ts_read raw = Inr st \<Longrightarrow> ts_valid st"
  by (auto simp: strict_canonical_Inr dest: ts_read_valid)

text \<open>The state that was read prescribes three invocations: one each for the valid, the replay and the
  concurrent case.\<close>

lemma prescribed_invocations:
  assumes "ts_valid st"
  shows "sum_list (map (\<lambda>i. expected_count (cs_variant (pc_spec (fst i)))) (case_inputs st xs)) = 3"
proof -
  let ?vs = "map (\<lambda>c. cs_variant (pc_spec c)) (ts_prepared_cases st)"
  have "mset ?vs = mset all_variants"
    using assms by (simp add: ts_valid_def complete_prepared_matrix_def bindE_Inr_iff Let_def exact_matrix_iff)
  then have "sum_list (map expected_count ?vs) = sum_list (map expected_count all_variants)"
    by (metis mset_map sum_mset_sum_list)
  then show ?thesis
    by (simp add: case_inputs_def comp_def all_variants_def expected_count_def)
qed

lemma sign_record_post:
  fixes s :: "'a inventory_state_scheme"
  shows "post (sign_record lib tc i c u m v ro cases) s
    (\<lambda>r s'. record_sign lib (tc_experiment_signer tc) (fst r) = Inr (snd r) \<and> invocation_count s' = invocation_count s)
    (\<lambda>_ _. True)"
  by (auto simp: sign_record_def wp_simps Let_def)

text \<open>Every case of the run passed validation: the cases of the state file, under the controller it describes,
  with the responses of the envelope.\<close>

definition run_validated :: "libs \<Rightarrow> holder_lib \<Rightarrow> finalization \<Rightarrow> (path, nat \<times> bytes) fmap \<Rightarrow> bool" where
  "run_validated lib hl fa fs \<longleftrightarrow>
     (\<exists>mode raw st tc mode' raw' m envelope.
        fmlookup fs (fa_state_dir fa, STATE_FILENAME) = Some (mode, raw) \<and> strict_canonical lib ts_read raw = Inr st \<and>
        restore_controller lib st = Inr tc \<and>
        fmlookup fs (fa_worker_response_path fa) = Some (mode', raw') \<and> strict_json_object (lib_scan lib) raw' = Inr m \<and>
        envelope_read m = Inr envelope \<and>
        list_all (validated_input lib hl tc) (case_inputs st (wb_responses (je_output envelope))))"

definition verifies_if_fits :: "libs \<Rightarrow> finalization \<Rightarrow> (path, nat \<times> bytes) fmap \<Rightarrow> signed_experiment_record \<Rightarrow> bool" where
  "verifies_if_fits lib fa fs sr \<longleftrightarrow>
     (let d = bundle_at (fa_evidence_dir fa) fs in verify_evidence_bundle lib d = Inr sr \<longleftrightarrow> bundle_fits sr d)"

lemma settle_post:
  fixes t :: "'a live_state_scheme"
  assumes ok: "canonical_text_ok lib" "exported_keys_ok (lib_jws lib)"
    and start: "ts_valid st" "invocation_count t = 0" "db t = d"
    and validated: "list_all (validated_input lib hl tc) (case_inputs st xs) \<Longrightarrow> V"
  shows "post (settle lib hl races fa tc st xs ro) t
    (\<lambda>sr s'. verifies_if_fits lib fa (files s') sr \<and> invocation_count s' = 3 \<and> V) (\<lambda>_ s'. db s' = d \<or> V)"
proof -
  have tail: "post (bindM (sign_record lib tc i c u m v ro cases) (\<lambda>(payload, sr). bindM (publish lib fa tc payload sr) (\<lambda>_. returnM sr))) t'
      (\<lambda>sr s'. verifies_if_fits lib fa (files s') sr \<and> invocation_count s' = 3) (\<lambda>_ _. True)"
    if "invocation_count t' = 3" for i c u m v cases and t' :: "'a live_state_scheme"
    using that ok
    by (auto simp: wp_simps published_verifies verifies_if_fits_def intro!: post_mono [OF sign_record_post] post_mono [OF publish_post])
  show ?thesis
    unfolding settle_def post_bindM [of "finalize_cases lib hl tc races (case_inputs st xs)"]
    using start validated
    by (auto simp: prescribed_invocations intro!: post_mono [OF finalize_cases_post] post_mono [OF tail])
qed

lemma finalize_post:
  fixes s :: "'a live_state_scheme"
  assumes "canonical_text_ok lib" "exported_keys_ok (lib_jws lib)"
  shows "post (finalize lib hl races fa) s
    (\<lambda>sr s'. verifies_if_fits lib fa (files s') sr \<and> invocation_count s' = 3 \<and> run_validated lib hl fa (files s))
    (\<lambda>_ s'. db s' = db s \<or> run_validated lib hl fa (files s))"
  unfolding finalize_def require_private_directory_def read_canonical_state_def read_envelope_def open_store_def Let_def
  by (auto simp: wp_simps initialize_def bindE_Inr_iff run_validated_def assms intro: strict_state_valid intro!: settle_post)

section \<open>Preparing\<close>

lemma post_bindM_any:
  "(\<And>x s'. post (f x) s' Q (\<lambda>_ _. True)) \<Longrightarrow> post (bindM m f) s Q (\<lambda>_ _. True)"
  unfolding post_bindM by (rule postI) simp_all

lemma prepare_capability_cases_post:
  "post (prepare_capability_cases lib tc grants specs key) s
     (\<lambda>r _. wp_valid (snd r) \<and> wp_requests (snd r) = concat (map pc_requests (fst r))) (\<lambda>_ _. True)"
  unfolding prepare_capability_cases_def
  by (rule post_bindM_any, rule post_bindM_any, rule post_bindM_any) (auto simp: wp_simps new_worker_payload_Inr)

lemma lab_state_of_Inr:
  "lab_state_of lib keys pa tc bv i c u secret prepared = Inr st \<Longrightarrow> ts_valid st \<and> ts_prepared_cases st = prepared"
  by (auto simp: lab_state_of_def Let_def bindE_Inr_iff new_trusted_lab_state_def model_checks_Inr ts_valid_def)

text \<open>What the two files of a preparation hold: the state that finalizing reads, and the payload that the worker
  reads, with the requests of that state's cases.\<close>

definition prepared_files :: "libs \<Rightarrow> 's preparation \<Rightarrow> worker_payload \<Rightarrow> (path, nat \<times> bytes) fmap \<Rightarrow> bool" where
  "prepared_files lib pa payload fs \<longleftrightarrow>
     (\<exists>st raw raw'.
        fmlookup fs (pa_state_dir pa, STATE_FILENAME) = Some (384, raw) \<and> strict_canonical lib ts_read raw = Inr st \<and>
        fmlookup fs (pa_payload_path pa) = Some (384, raw') \<and> parse_canonical lib wp_read raw' = Inr payload \<and>
        wp_requests payload = concat (map pc_requests (ts_prepared_cases st)))"

lemma strict_canonical_dumped:
  assumes "canonical_text_ok lib" "lib_dumps lib (obj xs) = Inr raw" "rd (fmap_of_list xs) = Inr x"
  shows "strict_canonical lib rd raw = Inr x"
  using assms by (simp add: strict_canonical_Inr canonical_text_strict [OF assms(1,2)] obj_def)

lemma write_preparation_post:
  fixes s :: "'a live_state_scheme"
  assumes ok: "canonical_text_ok lib"
  shows "post (write_preparation lib keys pa tc bv c u secret grants specs) s
    (\<lambda>payload s'. prepared_files lib pa payload (files s')) (\<lambda>_ _. True)"
  unfolding write_preparation_def post_bindM [of "prepare_capability_cases lib tc grants specs (lk_holder keys)"]
  by (rule post_mono [OF prepare_capability_cases_post])
     (auto simp: wp_simps prepared_files_def canonical_json_def parse_canonical_Inr dest!: lab_state_of_Inr
       intro!: exI conjI strict_canonical_dumped [OF ok] ts.reads_dump wp.reads_back)

lemma prepare_capabilities_post:
  fixes s :: "'a live_state_scheme"
  assumes "canonical_text_ok lib"
  shows "post (prepare_capabilities lib rv ma keys pa) s (\<lambda>payload s'. prepared_files lib pa payload (files s')) (\<lambda>_ _. True)"
  unfolding prepare_capabilities_def split_beta
  by (intro post_bindM_any write_preparation_post assms)

section \<open>Properties\<close>



section \<open>Examples\<close>

text \<open>A serializer for strings with its scanner, and a JWS package that joins header and claims.\<close>

definition text_bytes :: "string \<Rightarrow> bytes" where
  "text_bytes s = map (\<lambda>c. byte_of (of_char c)) s"

definition bytes_text :: "bytes \<Rightarrow> string" where
  "bytes_text bs = map (\<lambda>b. char_of (unat b)) bs"

lemma bytes_text_bytes [simp]: "bytes_text (text_bytes s) = s" "text_bytes (bytes_text bs) = bs"
  by (simp_all add: text_bytes_def bytes_text_def comp_def)

definition demo_text_libs :: libs where
  "demo_text_libs = demo_worker_libs
     \<lparr>lib_dumps := (\<lambda>v. case v of JStr s \<Rightarrow> Inr (text_bytes s) | _ \<Rightarrow> Inl (ValueError ''unsupported'')),
      lib_scan := (\<lambda>bs. Inr (RStr (bytes_text bs))),
      lib_jws := \<lparr>serialize_compact = (\<lambda>h p k algs. if h = experiment_header ''lab'' then Inr (''jws.'' @ bytes_text p)
                                                      else Inl (ValueError ''unknown key'')),
        deserialize_compact = (\<lambda>c k algs. Inr (experiment_header ''lab'', text_bytes (drop 4 c))),
        okp_as_dict = (\<lambda>k private. JStr (bytes_text k)), okp_import = (\<lambda>v. Inr [])\<rparr>\<rparr>"

lemma demo_text_ok: "canonical_text_ok demo_text_libs"
  by (auto simp: canonical_text_ok_def demo_text_libs_def split: json.splits)

lemma demo_keys_ok: "exported_keys_ok (lib_jws demo_text_libs)"
  by (auto simp: exported_keys_ok_def jws_ok_def demo_text_libs_def split: if_splits)



end
