(* ===== verification/Swtpm.thy ===== *)
theory Swtpm
  imports Live_Cli
begin

text \<open>
  \<^verbatim>\<open>lab/swtpm.py\<close>: evidence from a local software TPM. The \<^verbatim>\<open>tpm2\<close> tools are a parameter: which of them are
  installed, and what a command does to the device and to the files of the temporary directory. The
  certificate builder is a parameter that turns the requested contents of a certificate into PEM text.
\<close>

section \<open>The tools\<close>

type_synonym temp_files = "(string, bytes) fmap"

record 't tpm_tools =
  tl_which :: "string \<Rightarrow> bool"
  tl_run :: "string \<Rightarrow> string list \<Rightarrow> 't \<Rightarrow> temp_files \<Rightarrow> bool \<times> 't \<times> temp_files"

record 't swtpm_state = live_state +
  sw_device :: 't
  sw_files :: temp_files
  sw_quote_index :: nat

definition tool :: "'t tpm_tools \<Rightarrow> string \<Rightarrow> exn + unit" where
  "tool tools name = require (tl_which tools name)
     (LabProtocolError (''required software-TPM integration tool is missing: '' @ name))"

text \<open>A command with its arguments; a failing one raises unless the caller does not check.\<close>

definition run_tpm :: "'t tpm_tools \<Rightarrow> string \<Rightarrow> bool \<Rightarrow> string list \<Rightarrow> (('t, 'z) swtpm_state_scheme, unit) prog" where
  "run_tpm tools tcti check arguments =
     bindM (liftE (tool tools (hd arguments))) (\<lambda>_.
     (\<lambda>s. case tl_run tools tcti arguments (sw_device s) (sw_files s) of
            (succeeded, device, fs) \<Rightarrow>
              (if check \<and> \<not> succeeded then Inl (LabProtocolError ''local software-TPM command failed'') else Inr (),
               s\<lparr>sw_device := device, sw_files := fs\<rparr>)))"

definition read_temp :: "string \<Rightarrow> (('t, 'z) swtpm_state_scheme, bytes) prog" where
  "read_temp name =
     bindM (getM sw_files) (\<lambda>fs. liftE (of_option (OSError ''FileNotFoundError'') (fmlookup fs name)))"

definition write_temp :: "string \<Rightarrow> bytes \<Rightarrow> (('t, 'z) swtpm_state_scheme, unit) prog" where
  "write_temp name contents = modifyM (\<lambda>s. s\<lparr>sw_files := fmupd name contents (sw_files s)\<rparr>)"

section \<open>The pinned profile\<close>

definition EVENT_DIGEST :: string where
  "EVENT_DIGEST = sha256_hex (utf8 ''attested-capability-broker:swtpm-profile:v1'')"

definition EXPECTED_PCR_VALUE :: bytes where
  "EXPECTED_PCR_VALUE = the (fromhex ''1e5545acda784ccc7ddb39597a58d3d416b269e22aa16f3360cb1663d0a9cda7'')"

definition EXPECTED_COMPOSITE_DIGEST :: bytes where
  "EXPECTED_COMPOSITE_DIGEST = the (fromhex ''d01da9398dafb3b978b02af56ef39fd50c84546cb9e5271bcce508eb75fff3bf'')"

definition SELECTION :: pcr_selection where
  "SELECTION = [(''sha256'', [16])]"

section \<open>The synthetic certificate chain\<close>

text \<open>What a certificate is asked to contain. Instants are microseconds.\<close>

record certificate_request =
  xr_subject :: string
  xr_issuer :: string
  xr_public_key :: bytes
  xr_not_before :: int
  xr_not_after :: int
  xr_basic_constraints :: basic_constraints
  xr_key_usage :: key_usage

record x509_builder =
  xb_load_public_key :: "bytes \<Rightarrow> exn + bool"
  xb_pem :: "bytes \<Rightarrow> certificate_request \<Rightarrow> bytes"

definition days :: "int \<Rightarrow> int" where "days n = n * 86400000000"

definition hours :: "int \<Rightarrow> int" where "hours n = n * 3600000000"

definition root_request :: "ed25519_lib \<Rightarrow> bytes \<Rightarrow> int \<Rightarrow> certificate_request" where
  "root_request ed root_private evaluation_time =
     \<lparr>xr_subject = ''Runpod Lab Synthetic swtpm Root'', xr_issuer = ''Runpod Lab Synthetic swtpm Root'',
      xr_public_key = ed_public ed root_private, xr_not_before = evaluation_time - days 1, xr_not_after = evaluation_time + days 1,
      xr_basic_constraints = \<lparr>bc_ca = True, bc_path_length = Some 0\<rparr>,
      xr_key_usage = \<lparr>ku_digital_signature = False, ku_key_cert_sign = True\<rparr>\<rparr>"

definition leaf_request :: "bytes \<Rightarrow> int \<Rightarrow> certificate_request" where
  "leaf_request ak_public_pem evaluation_time =
     \<lparr>xr_subject = ''Runpod Lab swtpm AK'', xr_issuer = ''Runpod Lab Synthetic swtpm Root'', xr_public_key = ak_public_pem,
      xr_not_before = evaluation_time - hours 1, xr_not_after = evaluation_time + hours 1,
      xr_basic_constraints = \<lparr>bc_ca = False, bc_path_length = None\<rparr>,
      xr_key_usage = \<lparr>ku_digital_signature = True, ku_key_cert_sign = False\<rparr>\<rparr>"

definition synthetic_ak_chain ::
  "ed25519_lib \<Rightarrow> x509_builder \<Rightarrow> bytes \<Rightarrow> bytes \<Rightarrow> int \<Rightarrow> exn + (bytes \<times> bytes)" where
  "synthetic_ak_chain ed xb root_private ak_public_pem evaluation_time =
     (let root_pem = xb_pem xb root_private (root_request ed root_private evaluation_time) in
      bindE (catching is_value_error (LabProtocolError ''software-TPM AK public key is malformed'')
               (xb_load_public_key xb ak_public_pem)) (\<lambda>is_rsa.
      bindE (require is_rsa (LabProtocolError ''software-TPM AK public key is not the required RSA profile'')) (\<lambda>_.
      Inr (xb_pem xb root_private (leaf_request ak_public_pem evaluation_time) @ root_pem, root_pem))))"

section \<open>Quotes\<close>

definition prepare_ak :: "'t tpm_tools \<Rightarrow> string \<Rightarrow> (('t, 'z) swtpm_state_scheme, unit) prog" where
  "prepare_ak tools tcti =
     bindM (run_tpm tools tcti False [''tpm2_flushcontext'', ''-t'']) (\<lambda>_.
     bindM (run_tpm tools tcti True [''tpm2_pcrreset'', ''16'']) (\<lambda>_.
     bindM (run_tpm tools tcti True [''tpm2_pcrextend'', ''16:sha256='' @ EVENT_DIGEST]) (\<lambda>_.
     bindM (run_tpm tools tcti True [''tpm2_pcrread'', ''sha256:16'', ''-o'', ''pcr.bin'']) (\<lambda>_.
     bindM (read_temp ''pcr.bin'') (\<lambda>pcr.
     bindM (liftE (require (pcr = EXPECTED_PCR_VALUE)
              (LabProtocolError ''software-TPM PCR 16 does not match the approved fixture state''))) (\<lambda>_.
     bindM (run_tpm tools tcti True [''tpm2_createek'', ''-G'', ''rsa'', ''-c'', ''ek.ctx'', ''-u'', ''ek.pub'']) (\<lambda>_.
     bindM (run_tpm tools tcti True [''tpm2_createak'', ''-C'', ''ek.ctx'', ''-G'', ''rsa'', ''-g'', ''sha256'', ''-s'', ''rsassa'',
       ''-c'', ''ak.ctx'', ''-u'', ''ak.pem'', ''-f'', ''pem'', ''-n'', ''ak.name'']) (\<lambda>_.
     run_tpm tools tcti True [''tpm2_flushcontext'', ''-t'']))))))))"

definition quote_commands :: "string \<Rightarrow> string list list" where
  "quote_commands label =
     [[''tpm2_quote'', ''-Q'', ''-c'', ''ak.ctx'', ''-l'', ''sha256:16'', ''-q'', label @ ''.qualifying.bin'', ''-g'', ''sha256'',
       ''-f'', ''tss'', ''-m'', label @ ''.quote.attest'', ''-s'', label @ ''.quote.sig'', ''-o'', label @ ''.quote.pcr'',
       ''-F'', ''values''],
      [''tpm2_checkquote'', ''-u'', ''ak.pem'', ''-m'', label @ ''.quote.attest'', ''-s'', label @ ''.quote.sig'',
       ''-f'', label @ ''.quote.pcr'', ''-g'', ''sha256'', ''-q'', label @ ''.qualifying.bin'', ''-l'', ''sha256:16'']]"

definition evidence_for ::
  "libs \<Rightarrow> 't tpm_tools \<Rightarrow> string \<Rightarrow> bytes \<Rightarrow> issuance_request \<Rightarrow> (('t, 'z) swtpm_state_scheme, tpm_evidence) prog" where
  "evidence_for lib tools tcti chain_pem request =
     bindM (modifyM (\<lambda>s. s\<lparr>sw_quote_index := sw_quote_index s + 1\<rparr>)) (\<lambda>_.
     bindM (getM (\<lambda>s. ''issuance-'' @ two_digits (sw_quote_index s))) (\<lambda>label.
     bindM (liftE (issuance_qualifying_data (lib_dumps lib) request)) (\<lambda>qualifying_data.
     bindM (write_temp (label @ ''.qualifying.bin'') qualifying_data) (\<lambda>_.
     bindM (run_tpm tools tcti False [''tpm2_flushcontext'', ''-t'']) (\<lambda>_.
     bindM (mapM_M (run_tpm tools tcti True) (quote_commands label)) (\<lambda>_.
     bindM (read_temp (label @ ''.quote.pcr'')) (\<lambda>pcr_values.
     bindM (liftE (require (\<not> (pcr_values \<noteq> EXPECTED_PCR_VALUE \<or> sha256 pcr_values \<noteq> EXPECTED_COMPOSITE_DIGEST))
              (LabProtocolError ''quoted software-TPM PCR values do not match policy''))) (\<lambda>_.
     bindM (read_temp (label @ ''.quote.attest'')) (\<lambda>attest.
     bindM (read_temp (label @ ''.quote.sig'')) (\<lambda>signature.
     returnM \<lparr>te_attest = attest, te_signature = signature, te_ak_chain_pem = chain_pem\<rparr>))))))))))"

section \<open>The profile\<close>

record real_swtpm_profile =
  sp_chain_pem :: bytes
  sp_policy :: tpm_policy
  sp_evaluation_time :: int

definition required_tools :: "string list" where
  "required_tools = [''tpm2_checkquote'', ''tpm2_createak'', ''tpm2_createek'', ''tpm2_flushcontext'', ''tpm2_pcrextend'',
     ''tpm2_pcrread'', ''tpm2_pcrreset'', ''tpm2_quote'']"

definition enter_profile ::
  "libs \<Rightarrow> x509_builder \<Rightarrow> bytes \<Rightarrow> 't tpm_tools \<Rightarrow> string \<Rightarrow> (('t, 'z) swtpm_state_scheme, real_swtpm_profile) prog" where
  "enter_profile lib xb root_private tools tcti =
     bindM (liftE (require (tcti \<noteq> []) (LabProtocolError ''ATCAP_SWTPM_TCTI must name the local software TPM''))) (\<lambda>_.
     bindM (liftE (forE (tool tools) required_tools)) (\<lambda>_.
     bindM read_clock (\<lambda>now.
     let evaluation_time = now * 1000000 in
     bindM (modifyM (\<lambda>s. s\<lparr>sw_files := fmempty, sw_quote_index := 0\<rparr>)) (\<lambda>_.
     bindM (prepare_ak tools tcti) (\<lambda>_.
     bindM (read_temp ''ak.pem'') (\<lambda>ak_public.
     bindM (liftE (synthetic_ak_chain (lib_ed lib) xb root_private ak_public evaluation_time)) (\<lambda>(chain_pem, root_pem).
     returnM
       \<lparr>sp_chain_pem = chain_pem,
        sp_policy = \<lparr>tp_selection = SELECTION, tp_expected_pcr_digest = EXPECTED_COMPOSITE_DIGEST, tp_trusted_roots_pem = root_pem\<rparr>,
        sp_evaluation_time = evaluation_time\<rparr>)))))))"

text \<open>\<^verbatim>\<open>try: yield ... finally: flush\<close>, and the temporary directory that goes away.\<close>

definition with_profile ::
  "libs \<Rightarrow> x509_builder \<Rightarrow> bytes \<Rightarrow> 't tpm_tools \<Rightarrow> string \<Rightarrow> (real_swtpm_profile \<Rightarrow> (('t, 'z) swtpm_state_scheme, 'b) prog)
   \<Rightarrow> (('t, 'z) swtpm_state_scheme, 'b) prog" where
  "with_profile lib xb root_private tools tcti body s =
     (case (bindM (enter_profile lib xb root_private tools tcti) (\<lambda>profile.
            bindM (attemptM (body profile)) (\<lambda>result.
            bindM (run_tpm tools tcti False [''tpm2_flushcontext'', ''-t'']) (\<lambda>_.
            liftE result)))) s of
        (r, s') \<Rightarrow> (r, s'\<lparr>sw_files := fmempty\<rparr>))"

definition profile_appraiser :: "tpm_lib \<Rightarrow> load_pem \<Rightarrow> real_swtpm_profile \<Rightarrow> appraiser" where
  "profile_appraiser tpm load profile =
     released_appraise tpm load (tpm2_pytss_selection_reader tpm) (Inr (AwareTime (sp_evaluation_time profile)))"

definition prepare_real_swtpm ::
  "libs \<Rightarrow> tpm_lib \<Rightarrow> load_pem \<Rightarrow> x509_builder \<Rightarrow> bytes \<Rightarrow> 't tpm_tools \<Rightarrow> repository_view \<Rightarrow> manifest_author \<Rightarrow> lab_keys \<Rightarrow> string
   \<Rightarrow> string \<Rightarrow> path \<Rightarrow> string \<Rightarrow> int \<Rightarrow> int \<Rightarrow> (('t, 'z) swtpm_state_scheme, worker_payload) prog" where
  "prepare_real_swtpm lib tpm load xb root_private tools rv ma keys worker_image state_dir payload_path tcti concurrency ttl_seconds =
     with_profile lib xb root_private tools tcti (\<lambda>profile.
     prepare_capabilities lib rv ma keys
       \<lparr>pa_worker_image = worker_image, pa_state_dir = state_dir, pa_payload_path = payload_path, pa_concurrency = concurrency,
        pa_ttl_seconds = ttl_seconds, pa_tpm_policy = sp_policy profile, pa_tpm_appraiser = profile_appraiser tpm load profile,
        pa_evidence_for = evidence_for lib tools tcti (sp_chain_pem profile), pa_tpm_mode = ''real-swtpm'',
        pa_tpm_evidence_verified = True\<rparr>)"

section \<open>The synthetic chain satisfies the certificate profile\<close>

text \<open>The certificate a loader finds in text the builder made.\<close>

definition certificate_of :: "certificate_request \<Rightarrow> certificate" where
  "certificate_of r =
     \<lparr>not_valid_before_utc = xr_not_before r, not_valid_after_utc = xr_not_after r,
      ext_basic_constraints = Inr (xr_basic_constraints r), ext_key_usage = Inr (xr_key_usage r)\<rparr>"

definition pem_loads_back :: "x509_builder \<Rightarrow> bytes \<Rightarrow> load_pem \<Rightarrow> bool" where
  "pem_loads_back xb key load \<longleftrightarrow>
     (\<forall>r r'. xb_pem xb key r \<noteq> [] \<and> load (xb_pem xb key r) = Inr [certificate_of r] \<and>
        load (xb_pem xb key r @ xb_pem xb key r') = Inr [certificate_of r, certificate_of r'])"

lemma synthetic_chain_profile:
  "ak_profile now [certificate_of (leaf_request ak now), certificate_of (root_request ed key now)]
     [certificate_of (root_request ed key now)]"
  by (auto simp: ak_profile_def less_Suc_eq nth_Cons' certificate_of_def leaf_request_def root_request_def signing_leaf_def
      issuing_ca_def path_allows_def current_at_def days_def hours_def)

text \<open>What the appraiser of a profile has left to decide of its evidence: with certificates that load back, it
  accepts exactly when the signed selection is PCR 16 of the SHA-256 bank and the quote verifier returned
  true for the pinned PCR digest at the profile's instant.\<close>

lemma profile_appraiser_accepts:
  assumes "synthetic_ak_chain ed xb key ak now = Inr (chain_pem, root_pem)" "pem_loads_back xb key load"
    and "profile = \<lparr>sp_chain_pem = chain_pem,
      sp_policy = \<lparr>tp_selection = SELECTION, tp_expected_pcr_digest = EXPECTED_COMPOSITE_DIGEST, tp_trusted_roots_pem = root_pem\<rparr>,
      sp_evaluation_time = now\<rparr>"
  shows "profile_appraiser tpm load profile \<lparr>te_attest = attest, te_signature = sig, te_ak_chain_pem = chain_pem\<rparr> qd (sp_policy profile)
      = Inr () \<longleftrightarrow>
    tpm2_pytss_selection_reader tpm attest = Inr SELECTION \<and>
    verify_tpm_quote tpm attest sig chain_pem root_pem qd EXPECTED_COMPOSITE_DIGEST now = Inr True"
  using assms synthetic_chain_profile [of now ak ed key]
  by (auto simp: profile_appraiser_def released_appraise_Inr synthetic_ak_chain_def Let_def bindE_Inr_iff pem_loads_back_def)

section \<open>Evidence\<close>

lemma run_tpm_wp [wp_simps]:
  "post (run_tpm tools tcti check arguments) s Q E \<longleftrightarrow>
    (if \<not> tl_which tools (hd arguments)
     then E (LabProtocolError (''required software-TPM integration tool is missing: '' @ hd arguments)) s
     else (case tl_run tools tcti arguments (sw_device s) (sw_files s) of (succeeded, device, fs) \<Rightarrow>
       if check \<and> \<not> succeeded then E (LabProtocolError ''local software-TPM command failed'') (s\<lparr>sw_device := device, sw_files := fs\<rparr>)
       else Q () (s\<lparr>sw_device := device, sw_files := fs\<rparr>)))"
  by (auto simp: run_tpm_def run_simps tool_def require_def post_def split: prod.splits)

text \<open>Evidence that is returned carries the profile's chain, and the PCR values quoted with it were the pinned
  ones.\<close>

lemma evidence_for_post:
  "post (evidence_for lib tools tcti chain_pem request) s
     (\<lambda>ev s'. te_ak_chain_pem ev = chain_pem \<and> sw_quote_index s' = sw_quote_index s + 1 \<and>
        fmlookup (sw_files s') (''issuance-'' @ two_digits (sw_quote_index s') @ ''.quote.pcr'') = Some EXPECTED_PCR_VALUE \<and>
        fmlookup (sw_files s') (''issuance-'' @ two_digits (sw_quote_index s') @ ''.quote.attest'') = Some (te_attest ev) \<and>
        sha256 EXPECTED_PCR_VALUE = EXPECTED_COMPOSITE_DIGEST)
     (\<lambda>_ s'. sw_quote_index s' = sw_quote_index s + 1)"
  by (auto simp: evidence_for_def wp_simps quote_commands_def read_temp_def write_temp_def split: prod.splits)

end
