(* ===== verification/Command_Line.thy ===== *)
theory Command_Line
  imports Readback_Command Bounded_Capture Deadline_Supervisor Evidence_Manifest Live_Run Swtpm
begin

text \<open>
  The command lines of the lab, from their parsed arguments on: the result file of the capture, the supervisor, the
  manifest and billing tools, the worker, and the live command with its four subcommands. An error that a command
  line reports through \<^verbatim>\<open>parser.error\<close> is the exit status 2; any other exception leaves the program.
\<close>

section \<open>The capture and its result file\<close>

definition opt_int_value :: "int option \<Rightarrow> pjson" where
  "opt_int_value x = (case x of None \<Rightarrow> PNull | Some i \<Rightarrow> PInt i)"

definition result_document :: "capture_result \<Rightarrow> document" where
  "result_document r =
     [(''schema_version'', PStr ''atcap-bounded-capture/v1''), (''outcome'', PStr (outcome_str (cr_outcome r))),
      (''child_returncode'', opt_int_value (cr_child_returncode r)), (''child_signal'', opt_int_value (cr_child_signal r)),
      (''stdout_bytes_written'', PInt (cr_stdout_bytes_written r)), (''stdout_total_bytes'', PInt (cr_stdout_total_bytes r)),
      (''stderr_bytes_written'', PInt (cr_stderr_bytes_written r)), (''stderr_total_bytes'', PInt (cr_stderr_total_bytes r))]"

text \<open>A file that was created exclusively is a regular one, so the check after \<^verbatim>\<open>fstat\<close> passes.\<close>

definition write_result :: "disk \<Rightarrow> string \<Rightarrow> capture_result \<Rightarrow> (command_state, unit) prog" where
  "write_result dk path r =
     bindM (liftE (projection_bytes (result_document r))) (\<lambda>encoded.
     os_errors_as (CaptureError ''capture result could not be written'')
       (bindM (create_exclusively dk path) (\<lambda>_. write_contents dk path encoded)))"

text \<open>\<^verbatim>\<open>if command and command[0] == "--": command = command[1:]\<close>\<close>

definition without_separator :: "string list \<Rightarrow> string list" where
  "without_separator command = (if command \<noteq> [] \<and> hd command = ''--'' then tl command else command)"

text \<open>The capture with its result file on disk: the child runs, then the result is written, and a result that
  cannot be written is the wrapper's own status.\<close>

definition finish_capture :: "disk \<Rightarrow> string \<Rightarrow> capture_report \<Rightarrow> (command_state, int) prog" where
  "finish_capture dk path report =
     (case cp_result report of
        None \<Rightarrow> returnM (cp_exit_status report)
      | Some r \<Rightarrow> tryM (bindM (write_result dk path r) (\<lambda>_. returnM (cp_exit_status report)))
                   (\<lambda>e. case e of CaptureError _ \<Rightarrow> returnM EXIT_WRAPPER_ERROR | _ \<Rightarrow> raiseM e))"

definition capture_with_result :: "capture_request \<Rightarrow> capture_world \<Rightarrow> disk \<Rightarrow> command_state \<Rightarrow> ((exn + int) \<times> command_state) option" where
  "capture_with_result q w dk s =
     (case capture_command (q\<lparr>cq_command := without_separator (cq_command q)\<rparr>) (w\<lparr>cw_result_written := True\<rparr>) of
        None \<Rightarrow> None
      | Some (Inl e) \<Rightarrow>
          Some (case e of CaptureError _ \<Rightarrow> Inr EXIT_WRAPPER_ERROR
                | _ \<Rightarrow> if is_value_error e then Inr EXIT_WRAPPER_ERROR else Inl e, s)
      | Some (Inr report) \<Rightarrow> Some (finish_capture dk (cq_result_path q) report s))"

lemma result_has_text: "\<exists>t. json_text (PObj (result_document r)) = Inr t"
  by (rule json_text_total) (auto simp: result_document_def opt_int_value_def split: option.splits)

lemma finish_capture_runs:
  "\<exists>t. finish_capture dk path report s =
     (case cp_result report of
        None \<Rightarrow> (Inr (cp_exit_status report), s)
      | Some r \<Rightarrow> (case after_write dk path (utf8 (t @ [CHR 0x0A])) s of
                    (code, s') \<Rightarrow> (Inr (if code = 0 then cp_exit_status report else EXIT_WRAPPER_ERROR), s'))) \<and>
     (\<forall>r. cp_result report = Some r \<longrightarrow> json_text (PObj (result_document r)) = Inr t)"
proof (cases "cp_result report")
  case None
  then show ?thesis by (simp add: finish_capture_def run_simps)
next
  case (Some r)
  obtain t where "json_text (PObj (result_document r)) = Inr t"
    using result_has_text by blast
  then show ?thesis
    using Some by (intro exI [of _ t]) (auto simp: finish_capture_def write_result_def projection_bytes_def os_errors_as_def
        create_exclusively_def write_contents_def run_simps require_def after_write_def is_os_error_def split: option.splits)
qed

text \<open>The flag that \<^verbatim>\<open>capture_command\<close> takes for the result file is what happens to it on disk: the exit status with
  the file modelled is the status of the capture for one of the two values of the flag.\<close>

lemma report_of_unwritten:
  "report_of (w\<lparr>cw_result_written := False\<rparr>) ending signals s =
   (report_of (w\<lparr>cw_result_written := True\<rparr>) ending signals s)\<lparr>cp_exit_status := EXIT_WRAPPER_ERROR, cp_result := None\<rparr>"
  "\<exists>r. cp_result (report_of (w\<lparr>cw_result_written := True\<rparr>) ending signals s) = Some r"
  by (simp_all add: report_of_def Let_def split: prod.splits)

lemma capture_command_unwritten:
  "capture_command q (w\<lparr>cw_result_written := False\<rparr>) =
   map_option (map_sum (\<lambda>e. e) (\<lambda>r. r\<lparr>cp_exit_status := EXIT_WRAPPER_ERROR, cp_result := None\<rparr>))
     (capture_command q (w\<lparr>cw_result_written := True\<rparr>))"
  by (simp add: capture_command_def open_captures_def ending_of_loop_def signals_of_loop_def report_of_unwritten(1) Let_def
      split: sum.splits option.splits prod.splits)

lemma capture_with_result_refines:
  assumes "capture_with_result q w dk s = Some (r, s')"
  shows "\<exists>b. capture_main (q\<lparr>cq_command := without_separator (cq_command q)\<rparr>) (w\<lparr>cw_result_written := b\<rparr>) = Some r"
proof -
  let ?q = "q\<lparr>cq_command := without_separator (cq_command q)\<rparr>"
  from assms obtain out where out: "capture_command ?q (w\<lparr>cw_result_written := True\<rparr>) = Some out"
    by (auto simp: capture_with_result_def split: option.splits)
  show ?thesis
  proof (cases out)
    case (Inl e)
    with assms out show ?thesis
      by (intro exI [of _ True]) (auto simp: capture_with_result_def capture_main_def split: exn.splits)
  next
    case (Inr report)
    obtain t where "finish_capture dk (cq_result_path q) report s =
      (case cp_result report of
        None \<Rightarrow> (Inr (cp_exit_status report), s)
      | Some r \<Rightarrow> (case after_write dk (cq_result_path q) (utf8 (t @ [CHR 0x0A])) s of
                    (code, s') \<Rightarrow> (Inr (if code = 0 then cp_exit_status report else EXIT_WRAPPER_ERROR), s')))"
      using finish_capture_runs by blast
    with assms out Inr have "r = Inr (cp_exit_status report) \<or> r = Inr EXIT_WRAPPER_ERROR"
      by (auto simp: capture_with_result_def split: option.splits prod.splits if_splits)
    with out Inr show ?thesis
      by (auto simp: capture_main_def capture_command_unwritten intro: exI [of _ True] exI [of _ False])
  qed
qed

section \<open>Supervisor, manifest and billing\<close>

definition supervise_main :: "supervise_request \<Rightarrow> supervise_world \<Rightarrow> (exn + supervision) option" where
  "supervise_main q w = supervise (q\<lparr>sq_command := without_separator (sq_command q)\<rparr>) w"

definition or_none :: "string \<Rightarrow> string option" where
  "or_none s = (if s = [] then None else Some s)"

definition manifest_main ::
  "tree_entry list option \<Rightarrow> string \<Rightarrow> string \<Rightarrow> string \<Rightarrow> string \<Rightarrow> exn + (bytes \<times> json)" where
  "manifest_main root worker_image endpoint_id_sha256 template_id_sha256 cleanup_complete =
     write_manifest root worker_image (or_none endpoint_id_sha256) (or_none template_id_sha256) (cleanup_complete = ''true'')"

definition billing_main :: "raw_response \<Rightarrow> bool \<Rightarrow> string \<Rightarrow> string \<Rightarrow> exn + (billing_projection \<times> json)" where
  "billing_main raw output_exists endpoint_id_sha256 command_status =
     project_billing_response raw output_exists endpoint_id_sha256 (command_status = ''success'')"

section \<open>The worker\<close>

definition read_bytes :: "path \<Rightarrow> ('a live_state_scheme, bytes) prog" where
  "read_bytes p = bindM (getM files) (\<lambda>fs. liftE (of_option (OSError ''FileNotFoundError'') (map_option snd (fmlookup fs p))))"

definition exit_on :: "(exn \<Rightarrow> bool) \<Rightarrow> ('s, 'a) prog \<Rightarrow> ('s, int) prog" where
  "exit_on caught m = tryM (bindM m (\<lambda>_. returnM 0)) (\<lambda>e. if caught e then returnM 2 else raiseM e)"

definition worker_main :: "libs \<Rightarrow> holder_lib \<Rightarrow> path \<Rightarrow> path \<Rightarrow> ('a live_state_scheme, int) prog" where
  "worker_main lib hl payload output =
     exit_on (\<lambda>e. case e of OSError _ \<Rightarrow> True | LabProtocolError _ \<Rightarrow> True | ValidationError _ \<Rightarrow> True | _ \<Rightarrow> False)
       (bindM (read_bytes payload) (\<lambda>raw_payload.
        bindM (process_payload lib hl raw_payload None) (\<lambda>response.
        write_new_file output response 384)))"

section \<open>The live command\<close>

text \<open>The subclasses of \<^verbatim>\<open>LabError\<close>, and \<^verbatim>\<open>(LabError, OSError, ValueError, subprocess.SubprocessError)\<close>.\<close>

fun is_lab_error :: "exn \<Rightarrow> bool" where
  "is_lab_error (LabProtocolError _) = True"
| "is_lab_error (LabBindingError _) = True"
| "is_lab_error (DuplicateRunIdError _) = True"
| "is_lab_error (LabTimeoutError _) = True"
| "is_lab_error (ExperimentRecordError _) = True"
| "is_lab_error _ = False"

definition reported_to_user :: "exn \<Rightarrow> bool" where
  "reported_to_user e \<longleftrightarrow> is_lab_error e \<or> is_os_error e \<or> is_value_error e \<or>
     (case e of OtherError cls \<Rightarrow> cls \<in> {''CalledProcessError'', ''TimeoutExpired''} | _ \<Rightarrow> False)"

datatype live_command =
  Prepare string string path bool int
| Finalize finalization
| RunWorker path path
| VerifyRecord string

record 't lab_host =
  lh_lib :: libs
  lh_holder :: holder_lib
  lh_tpm :: tpm_lib
  lh_load_pem :: load_pem
  lh_x509 :: x509_builder
  lh_root_key :: bytes
  lh_tools :: "'t tpm_tools"
  lh_repository :: repository_view
  lh_author :: manifest_author
  lh_keys :: lab_keys
  lh_races :: "string \<Rightarrow> race"
  lh_tcti_env :: "string option"

definition run_live_command :: "'t lab_host \<Rightarrow> live_command \<Rightarrow> (('t, 'z) swtpm_state_scheme, unit) prog" where
  "run_live_command h c =
     (case c of
        Prepare worker_image state_dir payload real_swtpm ttl_seconds \<Rightarrow>
          if real_swtpm
          then bindM (prepare_real_swtpm (lh_lib h) (lh_tpm h) (lh_load_pem h) (lh_x509 h) (lh_root_key h) (lh_tools h) (lh_repository h)
                 (lh_author h) (lh_keys h) worker_image state_dir payload (case lh_tcti_env h of None \<Rightarrow> [] | Some t \<Rightarrow> t) 8 ttl_seconds)
                 (\<lambda>_. returnM ())
          else bindM (prepare_test_double (lh_lib h) (lh_repository h) (lh_author h) (lh_keys h) worker_image state_dir payload 8 ttl_seconds)
                 (\<lambda>_. returnM ())
      | RunWorker payload response \<Rightarrow>
          bindM (read_bytes payload) (\<lambda>raw.
          bindM (process_payload (lh_lib h) (lh_holder h) raw None) (\<lambda>answer.
          write_new_file response answer 384))
      | Finalize fa \<Rightarrow> bindM (finalize (lh_lib h) (lh_holder h) (lh_races h) fa) (\<lambda>_. returnM ())
      | VerifyRecord dir \<Rightarrow>
          bindM (getM files) (\<lambda>fs.
          bindM (liftE (verify_evidence_bundle (lh_lib h) (bundle_at dir fs))) (\<lambda>_. returnM ())))"

definition live_main :: "'t lab_host \<Rightarrow> live_command \<Rightarrow> (('t, 'z) swtpm_state_scheme, int) prog" where
  "live_main h c = exit_on reported_to_user (run_live_command h c)"

section \<open>Exit statuses\<close>

lemma exit_on_zero:
  "exit_on caught m s = (Inr 0, s') \<longleftrightarrow> (\<exists>x. m s = (Inr x, s'))"
  by (auto simp: exit_on_def run_simps split: prod.splits sum.splits if_splits)

lemma catching_all_Inl: "catching (\<lambda>_. True) new m = Inl e \<Longrightarrow> e = new"
  by (cases m) (simp_all add: catching_def)

text \<open>Verifying a bundle changes nothing, and its exit status is exactly the verdict.\<close>

lemma verify_record_exit:
  "live_main h (VerifyRecord dir) s =
   (Inr (if isl (verify_evidence_bundle (lh_lib h) (bundle_at dir (files s))) then 2 else 0), s)"
proof (cases "verify_evidence_bundle (lh_lib h) (bundle_at dir (files s))")
  case (Inl e)
  then have "e = LabProtocolError ''experiment evidence bundle verification failed''"
    unfolding verify_evidence_bundle_def by (rule catching_all_Inl)
  with Inl show ?thesis
    by (simp add: live_main_def exit_on_def run_live_command_def run_simps reported_to_user_def)
qed (simp add: live_main_def exit_on_def run_live_command_def run_simps)

text \<open>The worker draws random bytes and touches nothing else of the state.\<close>

lemma process_payload_frame:
  assumes f: "\<And>s n. f (s\<lparr>drawn := n\<rparr>) = f s"
  shows "post (process_payload lib hl raw md) s (\<lambda>_ s'. f s' = f s) (\<lambda>_ s'. f s' = f s)"
proof -
  have one: "post (worker_generate lib hl w r) t (\<lambda>y t'. True \<and> f t' = f s) (\<lambda>_ t'. f t' = f s)" if "f t = f s" for w r t
    using that by (intro post_mono [OF worker_generate_frame [where f = f, OF f]]) simp_all
  have all: "post (mapM_M (worker_generate lib hl w) rs) s (\<lambda>ys t'. list_all2 (\<lambda>_ _. True) rs ys \<and> f t' = f s) (\<lambda>_ t'. f t' = f s)" for w rs
    by (rule post_mapM_M [where R = "\<lambda>_ _. True" and I = "\<lambda>t. f t = f s"]) (simp_all add: one [simplified])
  show ?thesis
    unfolding process_payload_def by (auto simp: wp_simps intro!: post_mono [OF all])
qed

text \<open>A worker command that exits with zero has written one new file of mode 0600, the canonical text of a bundle
  for the payload it read; in every other case no file has changed.\<close>

definition answered :: "libs \<Rightarrow> holder_lib \<Rightarrow> path \<Rightarrow> path \<Rightarrow> (path, nat \<times> bytes) fmap \<Rightarrow> (path, nat \<times> bytes) fmap \<Rightarrow> bool" where
  "answered lib hl payload output fs fs' \<longleftrightarrow>
     (\<exists>mode raw p answer. fmlookup fs payload = Some (mode, raw) \<and> strict_canonical lib wp_read raw = Inr p \<and>
        fmlookup fs output = None \<and> fs' = fmupd output (384, answer) fs)"

lemma process_payload_parses:
  "post (process_payload lib hl raw md) s (\<lambda>_ _. \<exists>p. strict_canonical lib wp_read raw = Inr p) (\<lambda>_ _. True)"
  by (auto simp: process_payload_def wp_simps parse_canonical_Inr intro!: post_mono [OF worker_generate_all_post])

lemma worker_main_files:
  fixes s :: "'a live_state_scheme"
  shows "post (worker_main lib hl payload output) s
    (\<lambda>code s'. if code = 0 then answered lib hl payload output (files s) (files s') else code = 2 \<and> files s' = files s)
    (\<lambda>_ s'. files s' = files s)"
proof -
  let ?frame = "\<lambda>s'. files s' = files s \<and> dir_modes s' = dir_modes s"
  have p: "post (process_payload lib hl raw None) s (\<lambda>_ s'. (\<exists>p. strict_canonical lib wp_read raw = Inr p) \<and> ?frame s') (\<lambda>_ s'. True \<and> ?frame s')" for raw
    using post_conj [OF process_payload_parses process_payload_frame [where f = "\<lambda>s. (files s, dir_modes s)"]]
    by (rule post_mono) auto
  show ?thesis
    unfolding worker_main_def exit_on_def read_bytes_def write_new_file_def
    by (auto simp: wp_simps answered_def intro!: post_mono [OF p] split: exn.splits)
qed

end
