(* ===== verification/Package_Verifier.thy ===== *)
theory Package_Verifier
  imports Json "HOL-Library.Multiset"
begin

text \<open>
  \<^verbatim>\<open>scripts/verify-package.py\<close>: the fail-closed checks of the built wheel and source distribution. Archives are
  lists of members, the project table is the decoded TOML in the order of the file, and the parsers of mail
  headers and of CSV are arguments. The texts of the errors leave out the values they quote. The isolated
  installation and the script as a whole are in \<^verbatim>\<open>Package_Check\<close>.
\<close>

section \<open>Paths and text\<close>

definition starts_with :: "string \<Rightarrow> string \<Rightarrow> bool" where
  "starts_with p s \<longleftrightarrow> take (length p) s = p"

definition ends_with :: "string \<Rightarrow> string \<Rightarrow> bool" where
  "ends_with p s \<longleftrightarrow> length p \<le> length s \<and> drop (length s - length p) s = p"

text \<open>\<^verbatim>\<open>PurePosixPath(s)\<close>: its parts, without empty ones and single dots, and back.\<close>

definition posix_parts :: "string \<Rightarrow> string list" where
  "posix_parts s = filter (\<lambda>p. p \<noteq> [] \<and> p \<noteq> ''.'') (split_on CHR ''/'' s)"

definition is_absolute :: "string \<Rightarrow> bool" where
  "is_absolute s \<longleftrightarrow> starts_with ''/'' s"

primrec join_with :: "string \<Rightarrow> string list \<Rightarrow> string" where
  "join_with sep [] = []"
| "join_with sep (x # xs) = (if xs = [] then x else x @ sep @ join_with sep xs)"

definition posix_of :: "string list \<Rightarrow> string" where
  "posix_of parts = (if parts = [] then ''.'' else join_with ''/'' parts)"

definition path_name :: "string list \<Rightarrow> string" where
  "path_name parts = (if parts = [] then [] else last parts)"

text \<open>\<^verbatim>\<open>.suffix\<close>: from the last dot of the name, unless that is its first or last character.\<close>

definition path_suffix :: "string list \<Rightarrow> string" where
  "path_suffix parts =
     (let name = path_name parts; ext = rev (takeWhile (\<lambda>c. c \<noteq> CHR ''.'') (rev name)) in
      if length ext < length name - 1 \<and> ext \<noteq> [] then CHR ''.'' # ext else [])"

text \<open>\<^verbatim>\<open>value.partition(sep)\<close> for a separator that occurs, and \<^term>\<open>None\<close> otherwise.\<close>

fun partition_at :: "string \<Rightarrow> string \<Rightarrow> (string \<times> string) option" where
  "partition_at sep [] = None"
| "partition_at sep (c # cs) =
     (if starts_with sep (c # cs) then Some ([], drop (length sep) (c # cs))
      else map_option (\<lambda>(a, b). (c # a, b)) (partition_at sep cs))"

section \<open>The project table\<close>

datatype toml = TStr string | TArr "toml list" | TTab "(string \<times> toml) list" | TOther string

text \<open>The parts of the standard library that are taken as they are: \<^verbatim>\<open>str\<close> of a list or a dictionary, \<^verbatim>\<open>repr\<close>,
  \<^verbatim>\<open>email.utils.formataddr\<close>, the header parser and the CSV reader.\<close>

record message =
  ms_defects :: bool
  ms_headers :: "(string \<times> string) list"

record package_tools =
  pt_str_container :: "toml \<Rightarrow> string"
  pt_repr :: "toml \<Rightarrow> string"
  pt_formataddr :: "string \<Rightarrow> string \<Rightarrow> string"
  pt_parse_message :: "bytes \<Rightarrow> message"
  pt_read_csv :: "bytes \<Rightarrow> exn + string list list"

definition py_str :: "package_tools \<Rightarrow> toml \<Rightarrow> string" where
  "py_str pt v = (case v of TStr s \<Rightarrow> s | TOther s \<Rightarrow> s | _ \<Rightarrow> pt_str_container pt v)"

definition get_all :: "message \<Rightarrow> string \<Rightarrow> string list" where
  "get_all m name = map snd (filter (\<lambda>h. str_lower (fst h) = str_lower name) (ms_headers m))"

type_synonym project = "(string \<times> toml) list"

definition as_list :: "toml option \<Rightarrow> string \<Rightarrow> exn + toml list" where
  "as_list v msg = (case v of Some (TArr xs) \<Rightarrow> Inr xs | _ \<Rightarrow> Inl (VerificationError msg))"

definition as_table :: "toml option \<Rightarrow> string \<Rightarrow> exn + (string \<times> toml) list" where
  "as_table v msg = (case v of Some (TTab t) \<Rightarrow> Inr t | _ \<Rightarrow> Inl (VerificationError msg))"

definition opt_text :: "toml option \<Rightarrow> string \<Rightarrow> exn + string" where
  "opt_text v msg = (case v of None \<Rightarrow> Inr [] | Some (TStr s) \<Rightarrow> Inr s | _ \<Rightarrow> Inl (VerificationError msg))"

text \<open>\<^verbatim>\<open>project[key]\<close>\<close>

definition item :: "project \<Rightarrow> string \<Rightarrow> exn + toml" where
  "item p key = of_option (OtherError ''KeyError'') (map_of p key)"

definition metadata_from_bytes :: "package_tools \<Rightarrow> bytes \<Rightarrow> exn + message" where
  "metadata_from_bytes pt raw =
     (let m = pt_parse_message pt raw in
      bindE (require (\<not> ms_defects m) (VerificationError ''metadata is malformed'')) (\<lambda>_.
      bindE (require (get_all m ''Metadata-Version'' = [''2.5'']) (VerificationError ''unsupported or repeated Metadata-Version'')) (\<lambda>_.
      Inr m)))"

text \<open>One author: the names without an address and the formatted addresses, in order.\<close>

definition add_author :: "package_tools \<Rightarrow> toml \<Rightarrow> string list \<times> string list \<Rightarrow> exn + (string list \<times> string list)" where
  "add_author pt author acc =
     (case acc of (names, addresses) \<Rightarrow>
      bindE (as_table (Some author) ''pyproject project.authors is malformed'') (\<lambda>t.
      bindE (require (list_all (\<lambda>(k, _). k \<in> {''name'', ''email''}) t)
               (VerificationError ''pyproject project.authors has unsupported fields'')) (\<lambda>_.
      bindE (opt_text (map_of t ''name'') ''project author name is malformed'') (\<lambda>name.
      bindE (opt_text (map_of t ''email'') ''project author email is malformed'') (\<lambda>email.
      bindE (require (name \<noteq> [] \<or> email \<noteq> []) (VerificationError ''project author must have a name or email'')) (\<lambda>_.
      Inr (if email \<noteq> [] then (names, addresses @ [pt_formataddr pt name email]) else (names @ [name], addresses))))))))"

definition expected_author_metadata :: "package_tools \<Rightarrow> project \<Rightarrow> exn + (string list \<times> string list)" where
  "expected_author_metadata pt p =
     bindE (as_list (map_of p ''authors'') ''pyproject project.authors is malformed'') (\<lambda>authors.
     bindE (require (authors \<noteq> []) (VerificationError ''pyproject project.authors is malformed'')) (\<lambda>_.
     bindE (foldE (add_author pt) authors ([], [])) (\<lambda>(names, addresses).
     Inr (if names = [] then [] else [join_with '', '' names], if addresses = [] then [] else [join_with '', '' addresses]))))"

definition content_types :: "(string \<times> string) list" where
  "content_types = [(''.md'', ''text/markdown''), (''.rst'', ''text/x-rst''), (''.txt'', ''text/plain'')]"

definition expected_description_content_type :: "project \<Rightarrow> exn + string" where
  "expected_description_content_type p =
     bindE (case map_of p ''readme'' of Some (TStr s) \<Rightarrow> Inr s
            | _ \<Rightarrow> Inl (VerificationError ''verify-package.py requires a string project.readme'')) (\<lambda>readme.
     of_option (VerificationError ''verify-package.py does not recognize project.readme'')
       (map_of content_types (str_lower (path_suffix (posix_parts readme)))))"

definition extra_requirement :: "string \<Rightarrow> string \<Rightarrow> exn + string" where
  "extra_requirement extra text =
     bindE (require (CHR '';'' \<notin> set text)
              (VerificationError ''verify-package.py needs an explicit marker rule for optional dependencies'')) (\<lambda>_.
     Inr (text @ ''; extra == '' @ [CHR 0x27] @ extra @ [CHR 0x27]))"

definition expected_requirements :: "package_tools \<Rightarrow> project \<Rightarrow> exn + string list" where
  "expected_requirements pt p =
     bindE (as_list (map_of p ''dependencies'') ''pyproject project.dependencies is malformed'') (\<lambda>dependencies.
     bindE (as_table (map_of p ''optional-dependencies'') ''pyproject optional-dependencies is malformed'') (\<lambda>optional.
     bindE (mapM_E (\<lambda>(extra, requirements).
              bindE (as_list (Some requirements) ''optional dependency group is malformed'') (\<lambda>rs.
              mapM_E (\<lambda>r. extra_requirement extra (py_str pt r)) rs)) optional) (\<lambda>groups.
     let expected = map (py_str pt) dependencies @ concat groups in
     bindE (require (distinct expected) (VerificationError ''pyproject contains duplicate requirements'')) (\<lambda>_.
     Inr expected))))"

definition specifier_parts :: "string \<Rightarrow> string set" where
  "specifier_parts value = set (filter (\<lambda>p. p \<noteq> []) (map py_strip (split_on CHR '','' value)))"

section \<open>Metadata\<close>

definition scalar_fields :: "(string \<times> string) list" where
  "scalar_fields = [(''Name'', ''name''), (''Version'', ''version''), (''Summary'', ''description''), (''License-Expression'', ''license'')]"

definition require_headers :: "message \<Rightarrow> string \<Rightarrow> string list \<Rightarrow> exn + unit" where
  "require_headers m field expected = require (get_all m field = expected) (VerificationError (''incorrect '' @ field))"

definition require_scalar :: "message \<Rightarrow> string \<Rightarrow> toml \<Rightarrow> exn + unit" where
  "require_scalar m field expected =
     require (case expected of TStr s \<Rightarrow> get_all m field = [s] | _ \<Rightarrow> False) (VerificationError (''incorrect '' @ field))"

definition add_url :: "string \<Rightarrow> (string \<times> string) list \<Rightarrow> exn + (string \<times> string) list" where
  "add_url v urls =
     bindE (of_option (VerificationError ''malformed Project-URL'') (partition_at '', '' v)) (\<lambda>(name, url).
     bindE (require (name \<notin> fst ` set urls) (VerificationError ''duplicate Project-URL names'')) (\<lambda>_.
     Inr (urls @ [(name, url)])))"

definition same_urls :: "(string \<times> string) list \<Rightarrow> (string \<times> toml) list \<Rightarrow> bool" where
  "same_urls actual expected \<longleftrightarrow>
     list_all (\<lambda>(k, u). map_of expected k = Some (TStr u)) actual \<and> list_all (\<lambda>(k, _). map_of actual k \<noteq> None) expected"

definition verify_metadata :: "package_tools \<Rightarrow> message \<Rightarrow> project \<Rightarrow> exn + unit" where
  "verify_metadata pt m p =
     bindE (mapM_E (\<lambda>(field, key). bindE (item p key) (\<lambda>v. Inr (field, v))) scalar_fields) (\<lambda>scalars.
     bindE (forE (\<lambda>(field, v). require_scalar m field v) scalars) (\<lambda>_.
     bindE (expected_author_metadata pt p) (\<lambda>(authors, emails).
     bindE (require_headers m ''Author'' authors) (\<lambda>_.
     bindE (require_headers m ''Author-email'' emails) (\<lambda>_.
     bindE (as_list (map_of p ''keywords'') ''pyproject project.keywords is malformed'') (\<lambda>keywords.
     bindE (as_list (map_of p ''classifiers'') ''pyproject project.classifiers is malformed'') (\<lambda>classifiers.
     bindE (require_headers m ''Keywords'' [join_with '','' (map (py_str pt) keywords)]) (\<lambda>_.
     bindE (require_headers m ''Classifier'' (map (py_str pt) classifiers)) (\<lambda>_.
     bindE (expected_description_content_type p) (\<lambda>content_type.
     bindE (require_headers m ''Description-Content-Type'' [content_type]) (\<lambda>_.
     bindE (case get_all m ''Requires-Python'' of [v] \<Rightarrow> Inr v
            | _ \<Rightarrow> Inl (VerificationError ''lacks exact Requires-Python metadata'')) (\<lambda>requires_python.
     bindE (item p ''requires-python'') (\<lambda>expected_python.
     bindE (require (specifier_parts requires_python = specifier_parts (py_str pt expected_python))
              (VerificationError ''incorrect Requires-Python'')) (\<lambda>_.
     bindE (require_headers m ''License-File'' [''LICENSE'']) (\<lambda>_.
     bindE (as_table (map_of p ''optional-dependencies'') ''pyproject optional-dependencies is malformed'') (\<lambda>optional.
     bindE (require_headers m ''Provides-Extra'' (map fst optional)) (\<lambda>_.
     bindE (expected_requirements pt p) (\<lambda>requirements.
     bindE (require (mset (get_all m ''Requires-Dist'') = mset requirements)
              (VerificationError ''dependency metadata does not match pyproject.toml'')) (\<lambda>_.
     bindE (as_table (map_of p ''urls'') ''pyproject project.urls is malformed'') (\<lambda>expected_urls.
     bindE (foldE add_url (get_all m ''Project-URL'') []) (\<lambda>actual_urls.
     require (same_urls actual_urls expected_urls) (VerificationError ''project URLs do not match pyproject.toml''))))))))))))))))))))))"

section \<open>Allowlists\<close>

definition ROOT_SDIST_FILES :: "string list" where
  "ROOT_SDIST_FILES = [''.dockerignore'', ''.gitignore'', ''Dockerfile'', ''LICENSE'', ''PKG-INFO'', ''README.md'', ''SECURITY.md'',
     ''compose.yaml'', ''pyproject.toml'', ''uv.lock'']"

definition DOC_SDIST_FILES :: "string list" where
  "DOC_SDIST_FILES = [''docs/audit-guide.md'', ''docs/threat-model.md'']"

definition SCRIPT_SDIST_FILES :: "string list" where
  "SCRIPT_SDIST_FILES = [''examples/runpod-untrusted-caller/scripts/run-live.sh'', ''scripts/container-smoke.sh'',
     ''scripts/run-swtpm.sh'', ''scripts/verify-coverage.sh'', ''scripts/verify-package.py'']"

definition EXAMPLE_ROOT_FILES :: "string list" where
  "EXAMPLE_ROOT_FILES = [''.dockerignore'', ''Dockerfile'', ''README.md'', ''billing_observation.py'', ''bounded_capture.py'',
     ''deadline_supervisor.py'', ''evidence_manifest.py'', ''handler.py'', ''handler_self_test.py'', ''lab_test_support.py'',
     ''provider_readback.py'', ''requirements.in'', ''requirements.lock'', ''self_test.py'']"

definition EXAMPLE_LAB_FILES :: "string list" where
  "EXAMPLE_LAB_FILES = [''__init__.py'', ''controller.py'', ''errors.py'', ''live_cli.py'', ''record.py'', ''swtpm.py'',
     ''transport.py'', ''wire.py'', ''worker.py'', ''worker_wire.py'']"

definition EXAMPLE_TEST_FILES :: "string list" where
  "EXAMPLE_TEST_FILES = [''conftest.py'', ''test_billing_observation.py'', ''test_bounded_capture.py'', ''test_controller.py'',
     ''test_deadline_supervisor.py'', ''test_evidence_manifest.py'', ''test_live_cli.py'', ''test_provider_readback.py'',
     ''test_real_swtpm_lab.py'', ''test_record.py'', ''test_run_live_script.py'', ''test_worker_image_contract.py'']"

definition EXAMPLE_FIXTURE_FILES :: "string list" where
  "EXAMPLE_FIXTURE_FILES = [''runpodctl-2.12-endpoint-create.json'', ''runpodctl-2.12-endpoint-get.json'',
     ''runpodctl-2.12-template-get.json'']"

definition EXAMPLE_PREFIX :: string where "EXAMPLE_PREFIX = ''examples/runpod-untrusted-caller''"

definition EXAMPLE_SDIST_FILES :: "string list" where
  "EXAMPLE_SDIST_FILES =
     map (\<lambda>n. EXAMPLE_PREFIX @ ''/'' @ n) EXAMPLE_ROOT_FILES @ map (\<lambda>n. EXAMPLE_PREFIX @ ''/lab/'' @ n) EXAMPLE_LAB_FILES @
     map (\<lambda>n. EXAMPLE_PREFIX @ ''/tests/'' @ n) EXAMPLE_TEST_FILES @
     map (\<lambda>n. EXAMPLE_PREFIX @ ''/tests/fixtures/'' @ n) EXAMPLE_FIXTURE_FILES @ [EXAMPLE_PREFIX @ ''/scripts/run-live.sh'']"

definition FORBIDDEN_PARTS :: "string list" where
  "FORBIDDEN_PARTS = [''.git'', ''.github'', ''.mypy_cache'', ''.pytest_cache'', ''.ruff_cache'', ''.venv'', ''__pycache__'', ''artifacts'',
     ''build'', ''dist'', ''evidence'', ''htmlcov'', ''logs'', ''private'', ''run'']"

definition FORBIDDEN_NAMES :: "string list" where
  "FORBIDDEN_NAMES = [''.coverage'', ''.env'', ''.secrets.baseline'', ''coverage.xml'', ''pytest.xml'']"

definition FORBIDDEN_SUFFIXES :: "string list" where
  "FORBIDDEN_SUFFIXES = [''.db'', ''.log'', ''.sqlite'', ''.sqlite3'']"

definition is_forbidden :: "string list \<Rightarrow> bool" where
  "is_forbidden parts =
     (let name = path_name parts in
      list_ex (\<lambda>part. part \<in> set FORBIDDEN_PARTS) parts \<or> name \<in> set FORBIDDEN_NAMES \<or>
      starts_with ''.coverage.'' name \<or> starts_with ''.env.'' name \<or> list_ex (\<lambda>suffix. ends_with suffix name) FORBIDDEN_SUFFIXES \<or>
      starts_with ''junit'' name \<or> ends_with ''-pytest.xml'' name \<or> str_contains ''.db-'' name \<or> str_contains ''.sqlite-'' name \<or>
      str_contains ''.sqlite3-'' name)"

text \<open>The tables do not contradict each other: no file of the root, documentation and script lists is forbidden.\<close>

lemma allowlist_not_forbidden:
  "list_all (\<lambda>f. \<not> is_forbidden (posix_parts f)) (ROOT_SDIST_FILES @ DOC_SDIST_FILES @ SCRIPT_SDIST_FILES)"
  by code_simp

text \<open>The two directories of the repository that are listed: name and whether it is a file.\<close>

record source_tree =
  sf_atcap :: "(string \<times> bool) list"
  sf_tests :: "(string \<times> bool) list"

definition package_sources :: "source_tree \<Rightarrow> string list" where
  "package_sources root =
     map fst (filter (\<lambda>(name, is_file). is_file \<and> (path_suffix [name] = ''.py'' \<or> name = ''py.typed'')) (sf_atcap root))"

definition source_distribution_allowlist :: "source_tree \<Rightarrow> exn + string list" where
  "source_distribution_allowlist root =
     (let source_files = map (\<lambda>n. ''src/atcap/'' @ n) (package_sources root);
          test_files = map (\<lambda>(n, _). ''tests/'' @ n) (filter (\<lambda>(name, is_file). is_file \<and> path_suffix [name] = ''.py'') (sf_tests root)) in
      bindE (require (source_files \<noteq> []) (VerificationError ''source allowlist is unexpectedly empty'')) (\<lambda>_.
      bindE (require (test_files \<noteq> []) (VerificationError ''test allowlist is unexpectedly empty'')) (\<lambda>_.
      Inr (ROOT_SDIST_FILES @ DOC_SDIST_FILES @ SCRIPT_SDIST_FILES @ EXAMPLE_SDIST_FILES @ source_files @ test_files))))"

section \<open>The source distribution\<close>

record tar_member =
  tm_name :: string
  tm_isdir :: bool
  tm_isfile :: bool
  tm_mode :: nat
  tm_content :: "bytes option"

definition REGULAR_FILE_MODE :: nat where "REGULAR_FILE_MODE = 420"

definition SCRIPT_FILE_MODE :: nat where "SCRIPT_FILE_MODE = 493"

definition DIRECTORY_MODE :: nat where "DIRECTORY_MODE = 493"

text \<open>The parents of the expected files; a path without parents is the root.\<close>

definition parents :: "string \<Rightarrow> string list" where
  "parents filename =
     (let parts = posix_parts filename in map (\<lambda>n. posix_of (take n parts)) [1..<length parts])"

definition expected_sdist_directories :: "string list \<Rightarrow> string list" where
  "expected_sdist_directories expected_files = ''.'' # concat (map parents expected_files)"

text \<open>\<^verbatim>\<open>stat.S_IMODE\<close> keeps the twelve lower bits.\<close>

definition require_sdist_mode :: "tar_member \<Rightarrow> string \<Rightarrow> exn + unit" where
  "require_sdist_mode m relative =
     (let expected_mode = (if tm_isdir m then DIRECTORY_MODE
                           else if relative \<in> set SCRIPT_SDIST_FILES then SCRIPT_FILE_MODE else REGULAR_FILE_MODE) in
      require (tm_mode m mod 4096 = expected_mode) (VerificationError ''sdist member has an unexpected mode''))"

record sdist_scan =
  sc_actual_files :: "string list"
  sc_seen_member_paths :: "string list"
  sc_pkg_info :: "bytes option"

definition scan_member :: "string \<Rightarrow> string list \<Rightarrow> tar_member \<Rightarrow> sdist_scan \<Rightarrow> exn + sdist_scan" where
  "scan_member expected_prefix expected_directories m sc =
     (let parts = posix_parts (tm_name m); path = posix_of parts; relative = posix_of (tl parts) in
      bindE (require (\<not> is_absolute (tm_name m) \<and> ''..'' \<notin> set parts) (VerificationError ''sdist has unsafe path'')) (\<lambda>_.
      bindE (require (path \<notin> set (sc_seen_member_paths sc)) (VerificationError ''sdist has duplicate member path'')) (\<lambda>_.
      let sc1 = sc\<lparr>sc_seen_member_paths := sc_seen_member_paths sc @ [path]\<rparr> in
      bindE (require (parts \<noteq> [] \<and> hd parts = expected_prefix) (VerificationError ''sdist root is unexpected'')) (\<lambda>_.
      bindE (require (tm_isdir m \<or> tm_isfile m) (VerificationError ''sdist has non-regular member'')) (\<lambda>_.
      if tm_isdir m
      then bindE (require (relative \<in> set expected_directories) (VerificationError ''sdist contains unexpected directory'')) (\<lambda>_.
           bindE (require_sdist_mode m relative) (\<lambda>_. Inr sc1))
      else bindE (require (\<not> is_forbidden (tl parts)) (VerificationError ''sdist contains forbidden file'')) (\<lambda>_.
           bindE (require_sdist_mode m relative) (\<lambda>_.
           let sc2 = sc1\<lparr>sc_actual_files := sc_actual_files sc1 @ [relative]\<rparr> in
           if relative = ''PKG-INFO''
           then bindE (of_option (VerificationError ''could not read sdist PKG-INFO'') (tm_content m)) (\<lambda>contents.
                Inr (sc2\<lparr>sc_pkg_info := Some contents\<rparr>))
           else Inr sc2)))))))"

definition dashes_replaced :: "string \<Rightarrow> string" where
  "dashes_replaced s = map (\<lambda>c. if c = CHR ''-'' then CHR ''_'' else c) s"

definition distribution_name :: "package_tools \<Rightarrow> project \<Rightarrow> exn + string" where
  "distribution_name pt p =
     bindE (item p ''name'') (\<lambda>name. bindE (item p ''version'') (\<lambda>version.
     Inr (dashes_replaced (py_str pt name) @ ''-'' @ py_str pt version)))"

text \<open>Opening the archive may fail; that happens after the checks of its name and of the source tree.\<close>

definition verify_sdist :: "package_tools \<Rightarrow> string \<Rightarrow> exn + tar_member list \<Rightarrow> source_tree \<Rightarrow> project \<Rightarrow> exn + nat" where
  "verify_sdist pt filename archive root p =
     bindE (distribution_name pt p) (\<lambda>expected_prefix.
     bindE (require (filename = expected_prefix @ ''.tar.gz'') (VerificationError ''unexpected sdist filename'')) (\<lambda>_.
     bindE (source_distribution_allowlist root) (\<lambda>expected_files.
     bindE archive (\<lambda>members.
     bindE (foldE (scan_member expected_prefix (expected_sdist_directories expected_files)) members
              \<lparr>sc_actual_files = [], sc_seen_member_paths = [], sc_pkg_info = None\<rparr>) (\<lambda>sc.
     let actual = set (sc_actual_files sc); expected = set expected_files in
     bindE (require (actual - expected = {}) (VerificationError ''sdist contains files outside allowlist'')) (\<lambda>_.
     bindE (require (expected - actual = {}) (VerificationError ''sdist is missing allowlisted files'')) (\<lambda>_.
     bindE (of_option (VerificationError ''sdist lacks PKG-INFO'') (sc_pkg_info sc)) (\<lambda>pkg_info.
     bindE (metadata_from_bytes pt pkg_info) (\<lambda>metadata.
     bindE (verify_metadata pt metadata p) (\<lambda>_.
     Inr (card actual)))))))))))"

section \<open>The wheel\<close>

record zip_member =
  zm_filename :: string
  zm_create_system :: nat
  zm_external_attr :: nat
  zm_content :: bytes

definition zip_is_dir :: "zip_member \<Rightarrow> bool" where
  "zip_is_dir z \<longleftrightarrow> ends_with ''/'' (zm_filename z)"

text \<open>The upper half of the attribute is the Unix mode: file type in its four upper bits, permissions in the
  twelve lower ones.\<close>

definition require_wheel_mode :: "zip_member \<Rightarrow> exn + unit" where
  "require_wheel_mode z =
     (let raw_mode = zm_external_attr z div 65536 in
      if zm_create_system z \<noteq> 3 \<or> raw_mode = 0 then Inr ()
      else bindE (require (raw_mode div 4096 mod 16 \<in> {0, 8}) (VerificationError ''wheel has a non-regular member mode'')) (\<lambda>_.
           require (raw_mode mod 4096 = REGULAR_FILE_MODE) (VerificationError ''wheel member has an unexpected mode'')))"

text \<open>\<^verbatim>\<open>base64.urlsafe_b64encode(b).rstrip(b"=")\<close>\<close>

definition b64_alphabet :: string where
  "b64_alphabet = ''ABCDEFGHIJKLMNOPQRSTUVWXYZabcdefghijklmnopqrstuvwxyz0123456789-_''"

definition b64_chars :: "nat \<Rightarrow> nat \<Rightarrow> string" where
  "b64_chars n value = map (\<lambda>i. b64_alphabet ! (value div 64 ^ (3 - i) mod 64)) [0..<n]"

fun b64url :: "bytes \<Rightarrow> string" where
  "b64url [] = []"
| "b64url [a] = b64_chars 2 (unat a * 65536)"
| "b64url [a, b] = b64_chars 3 (unat a * 65536 + unat b * 256)"
| "b64url (a # b # c # rest) = b64_chars 4 (unat a * 65536 + unat b * 256 + unat c) @ b64url rest"

definition read_zip :: "zip_member list \<Rightarrow> string \<Rightarrow> exn + bytes" where
  "read_zip members path = of_option (OtherError ''KeyError'') (map_of (map (\<lambda>z. (zm_filename z, zm_content z)) members) path)"

definition check_record_row :: "zip_member list \<Rightarrow> string \<Rightarrow> string list \<Rightarrow> exn + unit" where
  "check_record_row members record_path row =
     (case row of
        [path, encoded_hash, encoded_size] \<Rightarrow>
          if path = record_path
          then require (encoded_hash = [] \<and> encoded_size = []) (VerificationError ''wheel RECORD self-entry must omit hash and size'')
          else bindE (read_zip members path) (\<lambda>contents.
               bindE (case partition_at ''='' encoded_hash of
                        Some (algorithm, digest) \<Rightarrow> bindE (require (algorithm = ''sha256'') (VerificationError ''invalid RECORD hash'')) (\<lambda>_. Inr digest)
                      | None \<Rightarrow> Inl (VerificationError ''invalid RECORD hash'')) (\<lambda>digest.
               bindE (of_option (ValueError ''UnicodeEncodeError'') (ascii_encode digest)) (\<lambda>_.
               bindE (require (digest = b64url (sha256 contents)) (VerificationError ''wheel RECORD hash mismatch'')) (\<lambda>_.
               require (encoded_size = nat_str (length contents)) (VerificationError ''wheel RECORD size mismatch'')))))
      | _ \<Rightarrow> Inl (ValueError ''unpack''))"

definition expected_wheel_files :: "string \<Rightarrow> source_tree \<Rightarrow> string list" where
  "expected_wheel_files dist_info root =
     map (\<lambda>n. ''atcap/'' @ n) (package_sources root) @
     map (\<lambda>n. dist_info @ ''/'' @ n) [''METADATA'', ''RECORD'', ''WHEEL'', ''licenses/LICENSE'']"

definition verify_record :: "package_tools \<Rightarrow> zip_member list \<Rightarrow> string \<Rightarrow> exn + unit" where
  "verify_record pt members record_path =
     bindE (read_zip members record_path) (\<lambda>raw.
     bindE (pt_read_csv pt raw) (\<lambda>rows.
     bindE (require (list_all (\<lambda>row. length row = 3) rows) (VerificationError ''wheel RECORD has malformed rows'')) (\<lambda>_.
     bindE (require (distinct (map hd rows)) (VerificationError ''wheel RECORD contains duplicate paths'')) (\<lambda>_.
     bindE (require (set (map hd rows) = set (map zm_filename members))
              (VerificationError ''wheel RECORD does not cover the exact archive contents'')) (\<lambda>_.
     forE (check_record_row members record_path) rows)))))"

definition verify_wheel :: "package_tools \<Rightarrow> string \<Rightarrow> exn + zip_member list \<Rightarrow> source_tree \<Rightarrow> project \<Rightarrow> exn + nat" where
  "verify_wheel pt filename archive root p =
     bindE (distribution_name pt p) (\<lambda>distribution.
     bindE (require (filename = distribution @ ''-py3-none-any.whl'') (VerificationError ''unexpected wheel filename'')) (\<lambda>_.
     bindE archive (\<lambda>members.
     let dist_info = distribution @ ''.dist-info''; names = map zm_filename members in
     bindE (require (distinct names) (VerificationError ''wheel contains duplicate member names'')) (\<lambda>_.
     bindE (require (\<not> list_ex zip_is_dir members) (VerificationError ''wheel contains directory members'')) (\<lambda>_.
     bindE (forE require_wheel_mode members) (\<lambda>_.
     bindE (require (set names = set (expected_wheel_files dist_info root))
              (VerificationError ''wheel contents differ from strict allowlist'')) (\<lambda>_.
     bindE (bindE (read_zip members (dist_info @ ''/METADATA'')) (metadata_from_bytes pt)) (\<lambda>metadata.
     bindE (read_zip members (dist_info @ ''/WHEEL'')) (\<lambda>wheel_raw.
     let wheel_metadata = pt_parse_message pt wheel_raw in
     bindE (require (\<not> ms_defects wheel_metadata) (VerificationError ''wheel WHEEL metadata is malformed'')) (\<lambda>_.
     bindE (verify_record pt members (dist_info @ ''/RECORD'')) (\<lambda>_.
     bindE (verify_metadata pt metadata p) (\<lambda>_.
     bindE (require_headers wheel_metadata ''Wheel-Version'' [''1.0'']) (\<lambda>_.
     bindE (require_headers wheel_metadata ''Root-Is-Purelib'' [''true'']) (\<lambda>_.
     bindE (require_headers wheel_metadata ''Tag'' [''py3-none-any'']) (\<lambda>_.
     Inr (card (set names)))))))))))))))))"

section \<open>What is accepted\<close>

lemma as_table_Inr: "as_table v msg = Inr t \<longleftrightarrow> v = Some (TTab t)"
  by (auto simp: as_table_def split: option.splits toml.splits)

text \<open>A member that fits: a safe path below the expected root, a directory or a regular file, expected or not
  forbidden, with its mode, and readable where it is the metadata.\<close>

definition member_path :: "tar_member \<Rightarrow> string" where
  "member_path m = posix_of (posix_parts (tm_name m))"

definition member_relative :: "tar_member \<Rightarrow> string" where
  "member_relative m = posix_of (tl (posix_parts (tm_name m)))"

definition member_fits :: "string \<Rightarrow> string list \<Rightarrow> tar_member \<Rightarrow> bool" where
  "member_fits prefix dirs m \<longleftrightarrow>
     (let parts = posix_parts (tm_name m) in
      \<not> is_absolute (tm_name m) \<and> ''..'' \<notin> set parts \<and> parts \<noteq> [] \<and> hd parts = prefix \<and> (tm_isdir m \<or> tm_isfile m) \<and>
      require_sdist_mode m (member_relative m) = Inr () \<and>
      (if tm_isdir m then member_relative m \<in> set dirs
       else \<not> is_forbidden (tl parts) \<and> (member_relative m = ''PKG-INFO'' \<longrightarrow> tm_content m \<noteq> None)))"

definition listed_files :: "tar_member list \<Rightarrow> string list" where
  "listed_files ms = map member_relative (filter (\<lambda>m. \<not> tm_isdir m) ms)"

definition package_info :: "tar_member list \<Rightarrow> bytes option \<Rightarrow> bytes option" where
  "package_info ms = fold (\<lambda>m info. if \<not> tm_isdir m \<and> member_relative m = ''PKG-INFO'' then tm_content m else info) ms"

definition advance :: "tar_member list \<Rightarrow> sdist_scan \<Rightarrow> sdist_scan" where
  "advance ms sc =
     \<lparr>sc_actual_files = sc_actual_files sc @ listed_files ms, sc_seen_member_paths = sc_seen_member_paths sc @ map member_path ms,
      sc_pkg_info = package_info ms (sc_pkg_info sc)\<rparr>"

lemma advance_simps: "advance [] sc = sc" "advance (m # ms) sc = advance ms (advance [m] sc)"
  by (simp_all add: advance_def listed_files_def package_info_def)

lemma scan_member_Inr:
  "scan_member prefix dirs m sc = Inr sc' \<longleftrightarrow>
   member_fits prefix dirs m \<and> member_path m \<notin> set (sc_seen_member_paths sc) \<and> sc' = advance [m] sc"
  by (cases sc) (auto simp: scan_member_def Let_def bindE_Inr_iff member_fits_def member_path_def member_relative_def listed_files_def
      package_info_def advance_def)

lemma scan_members_Inr:
  "distinct (sc_seen_member_paths sc) \<Longrightarrow> foldE (scan_member prefix dirs) ms sc = Inr sc' \<longleftrightarrow>
   list_all (member_fits prefix dirs) ms \<and> distinct (sc_seen_member_paths sc @ map member_path ms) \<and> sc' = advance ms sc"
proof (induction ms arbitrary: sc)
  case (Cons m ms)
  have seen: "sc_seen_member_paths (advance [m] sc) = sc_seen_member_paths sc @ [member_path m]"
    by (simp add: advance_def)
  have "foldE (scan_member prefix dirs) (m # ms) sc = Inr sc' \<longleftrightarrow>
      member_fits prefix dirs m \<and> member_path m \<notin> set (sc_seen_member_paths sc) \<and>
      foldE (scan_member prefix dirs) ms (advance [m] sc) = Inr sc'"
    by (auto simp: bindE_Inr_iff scan_member_Inr)
  with Cons.IH [of "advance [m] sc"] Cons.prems show ?case
    unfolding seen advance_simps(2) [of m ms] by auto
qed (auto simp: advance_simps)

text \<open>C40: The check of the source distribution accepts exactly the archives that have the expected file name, whose
  members are pairwise different safe paths below the one expected root, each an expected directory or a regular
  file that is not forbidden and has its mode, whose files are exactly the allowlist computed from the source
  tree, and whose \<^verbatim>\<open>PKG-INFO\<close> matches the project table.\<close>

theorem sdist_accepted_iff:
  "verify_sdist pt filename archive root p = Inr n \<longleftrightarrow>
   (\<exists>prefix allowed members info metadata.
      distribution_name pt p = Inr prefix \<and> archive = Inr members \<and> filename = prefix @ ''.tar.gz'' \<and> source_distribution_allowlist root = Inr allowed \<and>
      list_all (member_fits prefix (expected_sdist_directories allowed)) members \<and> distinct (map member_path members) \<and>
      set (listed_files members) = set allowed \<and> package_info members None = Some info \<and>
      metadata_from_bytes pt info = Inr metadata \<and> verify_metadata pt metadata p = Inr () \<and> n = card (set allowed))"
  by (auto simp: verify_sdist_def bindE_Inr_iff scan_members_Inr advance_def Let_def)

lemma partition_at_Some: "partition_at sep s = Some (a, b) \<Longrightarrow> s = a @ sep @ b"
proof (induction s arbitrary: a)
  case (Cons c cs)
  then show ?case
    by (auto simp: starts_with_def split: if_splits) (metis append_take_drop_id)
qed simp

text \<open>The row that the record must have for a member.\<close>

definition record_row :: "string \<Rightarrow> zip_member \<Rightarrow> string list" where
  "record_row record_path z =
     (if zm_filename z = record_path then [record_path, [], []]
      else [zm_filename z, ''sha256='' @ b64url (sha256 (zm_content z)), nat_str (length (zm_content z))])"

lemma hd_record_row [simp]: "hd (record_row rp z) = zm_filename z"
  by (simp add: record_row_def)

lemma b64_alphabet_ascii: "n < 64 \<Longrightarrow> of_char (b64_alphabet ! n) < (128 :: nat)"
proof -
  have "list_all (\<lambda>c. of_char c < (128 :: nat)) b64_alphabet"
    by (simp add: b64_alphabet_def)
  moreover have "length b64_alphabet = 64"
    by (simp add: b64_alphabet_def)
  ultimately show "n < 64 \<Longrightarrow> of_char (b64_alphabet ! n) < (128 :: nat)"
    by (simp add: list_all_length)
qed

lemma b64url_ascii: "c \<in> set (b64url bs) \<Longrightarrow> of_char c < (128 :: nat)"
  by (induction bs rule: b64url.induct) (auto simp: b64_chars_def b64_alphabet_ascii simp del: of_char_eq_iff)

lemma ascii_encode_b64url: "\<exists>bs. ascii_encode (b64url d) = Some bs"
  using b64url_ascii by (auto simp: ascii_encode_def list_all_iff)

lemma read_zip_member:
  "distinct (map zm_filename members) \<Longrightarrow> z \<in> set members \<Longrightarrow> read_zip members (zm_filename z) = Inr (zm_content z)"
  unfolding read_zip_def by (simp add: map_of_is_SomeI comp_def)

lemma record_row_checked:
  assumes "distinct (map zm_filename members)" "z \<in> set members"
  shows "hd row = zm_filename z \<and> length row = 3 \<and> check_record_row members rp row = Inr () \<longleftrightarrow> row = record_row rp z"
proof -
  have part: "partition_at ''='' (''sha256='' @ d) = Some (''sha256'', d)" for d
    by (simp add: starts_with_def)
  obtain bs where bs: "ascii_encode (b64url (sha256 (zm_content z))) = Some bs"
    using ascii_encode_b64url by blast
  note found = read_zip_member [OF assms]
  show ?thesis
  proof
    assume "hd row = zm_filename z \<and> length row = 3 \<and> check_record_row members rp row = Inr ()"
    then show "row = record_row rp z"
      using found by (auto simp: check_record_row_def record_row_def bindE_Inr_iff length_Suc_conv numeral_3_eq_3
          split: option.splits if_splits dest!: partition_at_Some)
  next
    assume "row = record_row rp z"
    then show "hd row = zm_filename z \<and> length row = 3 \<and> check_record_row members rp row = Inr ()"
      using found bs by (simp add: check_record_row_def record_row_def part del: partition_at.simps append.simps)
  qed
qed

lemma rows_checked_iff:
  assumes "distinct (map zm_filename members)"
  shows "list_all (\<lambda>row. length row = 3) rows \<and> distinct (map hd rows) \<and> set (map hd rows) = set (map zm_filename members) \<and>
      (\<forall>row \<in> set rows. check_record_row members rp row = Inr ()) \<longleftrightarrow> mset rows = mset (map (record_row rp) members)"
    (is "?l \<longleftrightarrow> ?r")
proof
  assume l: ?l
  have "set rows = record_row rp ` set members"
  proof (intro equalityI subsetI)
    fix row assume "row \<in> set rows"
    with l obtain z where "z \<in> set members" "hd row = zm_filename z"
      by (metis (no_types, lifting) imageE image_eqI list.set_map)
    with l \<open>row \<in> set rows\<close> have "row = record_row rp z"
      using record_row_checked [OF assms, of z row rp] by (simp add: list_all_iff)
    with \<open>z \<in> set members\<close> show "row \<in> record_row rp ` set members" by blast
  next
    fix row assume "row \<in> record_row rp ` set members"
    then obtain z where z: "z \<in> set members" "row = record_row rp z" by blast
    with l obtain row' where "row' \<in> set rows" "hd row' = zm_filename z"
      by (metis (no_types, lifting) imageE image_eqI list.set_map)
    with l z have "row' = row"
      using record_row_checked [OF assms, of z row' rp] by (simp add: list_all_iff)
    with \<open>row' \<in> set rows\<close> show "row \<in> set rows" by simp
  qed
  moreover have "distinct rows" "distinct (map (record_row rp) members)"
    using l assms by (auto simp: distinct_map inj_on_def) (metis hd_record_row)
  ultimately show ?r
    by (simp only: set_eq_iff_mset_eq_distinct [symmetric] list.set_map)
next
  assume r: ?r
  then have s: "set rows = record_row rp ` set members"
    by (metis list.set_map set_mset_mset)
  have "mset (map hd rows) = mset (map zm_filename members)"
    unfolding mset_map [of hd] r by (simp add: image_mset.compositionality comp_def)
  then have "distinct (map hd rows)" "set (map hd rows) = set (map zm_filename members)"
    using assms by (metis mset_eq_imp_distinct_iff, metis mset_eq_setD)
  with s show ?l
    using record_row_checked [OF assms _, THEN iffD2, OF _ refl] by (auto simp: list_all_iff)
qed

text \<open>The record is accepted exactly when it can be read as one row per member, in any order.\<close>

lemma record_accepted_iff:
  assumes "distinct (map zm_filename members)"
  shows "verify_record pt members rp = Inr () \<longleftrightarrow>
    (\<exists>raw rows. read_zip members rp = Inr raw \<and> pt_read_csv pt raw = Inr rows \<and> mset rows = mset (map (record_row rp) members))"
  unfolding rows_checked_iff [OF assms, symmetric] verify_record_def by (simp add: bindE_Inr_iff forE_Inr_iff)

text \<open>Everything a wheel is checked for besides its name and its list of members.\<close>

definition wheel_metadata_fits :: "package_tools \<Rightarrow> zip_member list \<Rightarrow> string \<Rightarrow> project \<Rightarrow> bool" where
  "wheel_metadata_fits pt members dist_info p \<longleftrightarrow>
     (\<exists>raw metadata wheel_raw. read_zip members (dist_info @ ''/METADATA'') = Inr raw \<and> metadata_from_bytes pt raw = Inr metadata \<and>
        verify_metadata pt metadata p = Inr () \<and> read_zip members (dist_info @ ''/WHEEL'') = Inr wheel_raw \<and>
        (let w = pt_parse_message pt wheel_raw in
         \<not> ms_defects w \<and> get_all w ''Wheel-Version'' = [''1.0''] \<and> get_all w ''Root-Is-Purelib'' = [''true''] \<and>
         get_all w ''Tag'' = [''py3-none-any'']))"

definition wheel_record_fits :: "package_tools \<Rightarrow> zip_member list \<Rightarrow> string \<Rightarrow> bool" where
  "wheel_record_fits pt members record_path \<longleftrightarrow>
     (\<exists>raw rows. read_zip members record_path = Inr raw \<and> pt_read_csv pt raw = Inr rows \<and>
        mset rows = mset (map (record_row record_path) members))"

definition wheel_mode_fits :: "zip_member \<Rightarrow> bool" where
  "wheel_mode_fits z \<longleftrightarrow>
     zm_create_system z = 3 \<longrightarrow> (let mode = zm_external_attr z div 65536 in
       mode = 0 \<or> mode div 4096 mod 16 \<in> {0, 8} \<and> mode mod 4096 = REGULAR_FILE_MODE)"

lemma require_wheel_mode_Inr: "require_wheel_mode z = Inr u \<longleftrightarrow> wheel_mode_fits z"
  by (auto simp: require_wheel_mode_def wheel_mode_fits_def Let_def bindE_Inr_iff)

text \<open>C39: The wheel check accepts exactly the archives that have the expected file name, list every member once
  and none as a directory, carry the mode of a regular file wherever a Unix mode is recorded, consist of exactly
  the package sources and the four metadata files, have a record with exactly one row per member giving the
  SHA-256 and the size of its content, and have metadata that matches the project table.\<close>

theorem wheel_accepted_iff:
  "verify_wheel pt filename archive root p = Inr n \<longleftrightarrow>
   (\<exists>distribution members.
      distribution_name pt p = Inr distribution \<and> archive = Inr members \<and> filename = distribution @ ''-py3-none-any.whl'' \<and>
      distinct (map zm_filename members) \<and> \<not> list_ex zip_is_dir members \<and> list_all wheel_mode_fits members \<and>
      (let dist_info = distribution @ ''.dist-info'' in
       set (map zm_filename members) = set (expected_wheel_files dist_info root) \<and>
       wheel_record_fits pt members (dist_info @ ''/RECORD'') \<and> wheel_metadata_fits pt members dist_info p) \<and>
      n = card (set (map zm_filename members)))"
  by (auto simp: verify_wheel_def bindE_Inr_iff forE_Inr_iff require_wheel_mode_Inr record_accepted_iff Let_def require_headers_def
      wheel_record_fits_def wheel_metadata_fits_def list_all_iff)

end
