(* ===== verification/Package_Check.thy ===== *)
theory Package_Check
  imports Package_Verifier Runtime
begin

text \<open>
  The rest of \<^verbatim>\<open>scripts/verify-package.py\<close>: the choice of the artifacts, the isolated installation of the
  wheel, and the script as a whole. The host is an argument: what a command exits with after the commands that
  ran before it, which files a directory lists, and how paths are joined and resolved. The state holds the
  commands that were run and the temporary directories that exist.
\<close>

section \<open>The host\<close>

record smoke_command =
  cm_argv :: "string list"
  cm_cwd :: "string option"
  cm_virtual_env :: "string option"

record package_host =
  ph_root :: string
  ph_pyproject :: "exn + (string \<times> toml) list"
  ph_tree :: source_tree
  ph_absolute :: "string \<Rightarrow> bool"
  ph_join :: "string \<Rightarrow> string \<Rightarrow> string"
  ph_resolve :: "string \<Rightarrow> string"
  ph_is_dir :: "string \<Rightarrow> bool"
  ph_listing :: "string \<Rightarrow> string list"
  ph_wheel :: "string \<Rightarrow> exn + zip_member list"
  ph_sdist :: "string \<Rightarrow> exn + tar_member list"
  ph_which_uv :: "string option"
  ph_executable :: string
  ph_nt :: bool
  ph_temp_dir :: string
  ph_run :: "smoke_command list \<Rightarrow> smoke_command \<Rightarrow> exn + int"

record smoke_state =
  sm_commands :: "smoke_command list"
  sm_temporary :: "string list"

text \<open>\<^verbatim>\<open>subprocess.run(..., check=True)\<close>\<close>

definition run_checked :: "package_host \<Rightarrow> smoke_command \<Rightarrow> (smoke_state, unit) prog" where
  "run_checked host c s =
     (bindE (ph_run host (sm_commands s) c) (\<lambda>code. require (code = 0) (OtherError ''CalledProcessError'')),
      s\<lparr>sm_commands := sm_commands s @ [c]\<rparr>)"

text \<open>\<^verbatim>\<open>with tempfile.TemporaryDirectory(...)\<close>: the directory is removed however the body ends.\<close>

definition with_temporary_directory :: "package_host \<Rightarrow> (string \<Rightarrow> (smoke_state, unit) prog) \<Rightarrow> (smoke_state, unit) prog" where
  "with_temporary_directory host body s =
     (case body (ph_temp_dir host) (s\<lparr>sm_temporary := ph_temp_dir host # sm_temporary s\<rparr>) of
        (r, s') \<Rightarrow> (r, s'\<lparr>sm_temporary := remove1 (ph_temp_dir host) (sm_temporary s')\<rparr>))"

section \<open>The isolated installation\<close>

definition venv_command :: "package_host \<Rightarrow> string \<Rightarrow> string \<Rightarrow> smoke_command" where
  "venv_command host uv environment =
     \<lparr>cm_argv = [uv, ''venv'', ''--python'', ph_executable host, environment], cm_cwd = None, cm_virtual_env = None\<rparr>"

definition sync_command :: "package_host \<Rightarrow> string \<Rightarrow> string \<Rightarrow> smoke_command" where
  "sync_command host uv environment =
     \<lparr>cm_argv = [uv, ''sync'', ''--offline'', ''--frozen'', ''--no-install-project'', ''--active''],
      cm_cwd = Some (ph_root host), cm_virtual_env = Some environment\<rparr>"

definition install_command :: "package_host \<Rightarrow> string \<Rightarrow> string \<Rightarrow> string \<Rightarrow> smoke_command" where
  "install_command host uv python wheel =
     \<lparr>cm_argv = [uv, ''pip'', ''install'', ''--offline'', ''--python'', python, ''--no-deps'', ph_resolve host wheel],
      cm_cwd = None, cm_virtual_env = None\<rparr>"

definition smoke_source :: "package_tools \<Rightarrow> toml \<Rightarrow> toml \<Rightarrow> string" where
  "smoke_source pt name version =
     ''import atcap, importlib.metadata as metadata; '' @
     ''from atcap.broker import CapabilityBroker; '' @
     ''from atcap.inventory import InventoryApplication; '' @
     ''from atcap.tpm import ReleasedTpmAppraiser; '' @
     ''assert atcap.__version__ == '' @ pt_repr pt version @ ''; '' @
     ''assert metadata.version('' @ pt_repr pt name @ '') == '' @ pt_repr pt version @ ''; '' @
     ''assert all((CapabilityBroker, InventoryApplication, ReleasedTpmAppraiser))''"

definition import_command :: "string \<Rightarrow> string \<Rightarrow> smoke_command" where
  "import_command python smoke = \<lparr>cm_argv = [python, ''-I'', ''-c'', smoke], cm_cwd = None, cm_virtual_env = None\<rparr>"

definition venv_python :: "package_host \<Rightarrow> string \<Rightarrow> string" where
  "venv_python host environment = ph_join host environment (if ph_nt host then ''Scripts/python.exe'' else ''bin/python'')"

definition verify_isolated_wheel_install :: "package_tools \<Rightarrow> package_host \<Rightarrow> string \<Rightarrow> project \<Rightarrow> (smoke_state, unit) prog" where
  "verify_isolated_wheel_install pt host wheel p =
     with_temporary_directory host (\<lambda>temp_dir.
       let environment = ph_join host temp_dir ''venv''; python = venv_python host environment in
       bindM (liftE (of_option (VerificationError ''uv is required for the isolated wheel smoke'') (ph_which_uv host))) (\<lambda>uv.
       bindM (run_checked host (venv_command host uv environment)) (\<lambda>_.
       bindM (run_checked host (sync_command host uv environment)) (\<lambda>_.
       bindM (run_checked host (install_command host uv python wheel)) (\<lambda>_.
       bindM (liftE (item p ''version'')) (\<lambda>version.
       bindM (liftE (item p ''name'')) (\<lambda>name.
       run_checked host (import_command python (smoke_source pt name version)))))))))"

section \<open>The script\<close>

text \<open>\<^verbatim>\<open>dist_dir.glob("*" + suffix)\<close> lists the names with that ending; of a list of one element the sorted
  order is the list itself.\<close>

definition one_artifact :: "package_host \<Rightarrow> string \<Rightarrow> string \<Rightarrow> exn + string" where
  "one_artifact host dist_dir suffix =
     (let matches = filter (ends_with suffix) (ph_listing host dist_dir) in
      bindE (require (length matches = 1) (VerificationError ''expected exactly one artifact'')) (\<lambda>_. Inr (hd matches)))"

definition chosen_dist_dir :: "package_host \<Rightarrow> string \<Rightarrow> string" where
  "chosen_dist_dir host dist_dir = (if \<not> ph_absolute host dist_dir then ph_resolve host (ph_join host (ph_root host) dist_dir) else dist_dir)"

definition package_main :: "package_tools \<Rightarrow> package_host \<Rightarrow> string \<Rightarrow> (smoke_state, int) prog" where
  "package_main pt host arg_dist_dir =
     bindM (liftE (ph_pyproject host)) (\<lambda>configuration.
     bindM (liftE (as_table (map_of configuration ''project'') ''pyproject.toml lacks [project]'')) (\<lambda>p.
     let dist_dir = chosen_dist_dir host arg_dist_dir in
     bindM (liftE (require (ph_is_dir host dist_dir) (VerificationError ''distribution directory does not exist''))) (\<lambda>_.
     bindM (liftE (one_artifact host dist_dir ''.whl'')) (\<lambda>wheel.
     bindM (liftE (one_artifact host dist_dir ''.tar.gz'')) (\<lambda>sdist.
     bindM (liftE (verify_wheel pt wheel (ph_wheel host (ph_join host dist_dir wheel)) (ph_tree host) p)) (\<lambda>_.
     bindM (liftE (verify_sdist pt sdist (ph_sdist host (ph_join host dist_dir sdist)) (ph_tree host) p)) (\<lambda>_.
     bindM (verify_isolated_wheel_install pt host (ph_join host dist_dir wheel) p) (\<lambda>_.
     returnM 0))))))))"

text \<open>The exit status of the script; an exception that is not a verification error ends it with a traceback.\<close>

definition script_exit_status :: "exn + int \<Rightarrow> int" where
  "script_exit_status r = (case r of Inr code \<Rightarrow> code | Inl _ \<Rightarrow> 1)"

section \<open>When the script succeeds\<close>

text \<open>The commands of a list all exit with zero, each after the ones before it.\<close>

fun all_succeed :: "package_host \<Rightarrow> smoke_command list \<Rightarrow> smoke_command list \<Rightarrow> bool" where
  "all_succeed host before [] \<longleftrightarrow> True"
| "all_succeed host before (c # cs) \<longleftrightarrow> ph_run host before c = Inr 0 \<and> all_succeed host (before @ [c]) cs"

definition smoke_commands :: "package_tools \<Rightarrow> package_host \<Rightarrow> string \<Rightarrow> string \<Rightarrow> toml \<Rightarrow> toml \<Rightarrow> smoke_command list" where
  "smoke_commands pt host uv wheel name version =
     (let environment = ph_join host (ph_temp_dir host) ''venv''; python = venv_python host environment in
      [venv_command host uv environment, sync_command host uv environment, install_command host uv python wheel,
       import_command python (smoke_source pt name version)])"

lemma run_checked_Inr:
  "run_checked host c s = (Inr u, s') \<longleftrightarrow> ph_run host (sm_commands s) c = Inr 0 \<and> s' = s\<lparr>sm_commands := sm_commands s @ [c]\<rparr>"
  by (auto simp: run_checked_def bindE_Inr_iff)

lemma bindM_Inr_iff: "bindM m f s = (Inr y, t) \<longleftrightarrow> (\<exists>x s'. m s = (Inr x, s') \<and> f x s' = (Inr y, t))"
  by (auto simp: bindM_def split: prod.splits sum.splits)

lemma liftE_Inr_iff: "liftE m s = (Inr x, s') \<longleftrightarrow> m = Inr x \<and> s' = s"
  by (auto simp: liftE_def)

lemma with_temporary_directory_Inr:
  "with_temporary_directory host body s = (Inr u, s') \<longleftrightarrow>
   (\<exists>t. body (ph_temp_dir host) (s\<lparr>sm_temporary := ph_temp_dir host # sm_temporary s\<rparr>) = (Inr u, t) \<and>
        s' = t\<lparr>sm_temporary := remove1 (ph_temp_dir host) (sm_temporary t)\<rparr>)"
  by (auto simp: with_temporary_directory_def split: prod.splits)

lemma isolated_install_Inr:
  "verify_isolated_wheel_install pt host wheel p s = (Inr u, s') \<longleftrightarrow>
   (\<exists>uv name version. ph_which_uv host = Some uv \<and> map_of p ''name'' = Some name \<and> map_of p ''version'' = Some version \<and>
      all_succeed host (sm_commands s) (smoke_commands pt host uv wheel name version) \<and>
      s' = s\<lparr>sm_commands := sm_commands s @ smoke_commands pt host uv wheel name version\<rparr>)"
  by (auto simp: verify_isolated_wheel_install_def with_temporary_directory_Inr Let_def smoke_commands_def item_def
      bindM_Inr_iff liftE_Inr_iff run_checked_Inr)

text \<open>However the installation ends, its temporary directory is gone.\<close>

lemma run_checked_temporary: "sm_temporary (snd (run_checked host c s)) = sm_temporary s"
  by (simp add: run_checked_def)

lemma isolated_install_temporary: "sm_temporary (snd (verify_isolated_wheel_install pt host wheel p s)) = sm_temporary s"
  by (auto simp: verify_isolated_wheel_install_def with_temporary_directory_def Let_def bindM_def liftE_def run_checked_def
      split: prod.splits sum.splits)

lemma one_artifact_Inr: "one_artifact host dir suffix = Inr name \<longleftrightarrow> filter (ends_with suffix) (ph_listing host dir) = [name]"
  by (auto simp: one_artifact_def Let_def bindE_Inr_iff length_Suc_conv)

text \<open>The script exits with zero exactly when the project table is there, the directory holds one wheel and one
  source distribution, both are accepted, and the four commands succeed in order; then it has run those four and
  nothing else, and the temporary directory is gone.\<close>

theorem package_main_passes_iff:
  "package_main pt host arg s = (Inr code, s') \<longleftrightarrow>
   (\<exists>configuration p wheel sdist files n uv name version.
      ph_pyproject host = Inr configuration \<and> map_of configuration ''project'' = Some (TTab p) \<and>
      (let dir = chosen_dist_dir host arg in
       ph_is_dir host dir \<and> filter (ends_with ''.whl'') (ph_listing host dir) = [wheel] \<and>
       filter (ends_with ''.tar.gz'') (ph_listing host dir) = [sdist] \<and>
       verify_wheel pt wheel (ph_wheel host (ph_join host dir wheel)) (ph_tree host) p = Inr files \<and>
       verify_sdist pt sdist (ph_sdist host (ph_join host dir sdist)) (ph_tree host) p = Inr n \<and>
       ph_which_uv host = Some uv \<and> map_of p ''name'' = Some name \<and> map_of p ''version'' = Some version \<and>
       (let commands = smoke_commands pt host uv (ph_join host dir wheel) name version in
        all_succeed host (sm_commands s) commands \<and> code = 0 \<and> s' = s\<lparr>sm_commands := sm_commands s @ commands\<rparr>)))"
  by (auto simp: package_main_def bindM_Inr_iff liftE_Inr_iff one_artifact_Inr isolated_install_Inr Let_def as_table_Inr returnM_def)

end
