(* ===== verification/Spec2Isabelle.thy ===== *)
theory Spec2Isabelle
  imports Issuance Resource_Access Command_Line Package_Check
begin

text \<open>
  A verification development for the attested capability broker: the library \<^verbatim>\<open>src/src/atcap\<close>, the adversarial
  lab \<^verbatim>\<open>src/examples/runpod-untrusted-caller\<close> that exercises it with an untrusted remote worker, and the release
  check \<^verbatim>\<open>src/scripts/verify-package.py\<close>.

  \<^bold>\<open>The program.\<close> A workload asks the \<^emph>\<open>broker\<close> for a challenge, endorses an issuance request, takes a TPM quote over
  it and presents both. The broker checks the challenge, the signed manifest, the endorsement and the quote, burns
  the challenge in the \<^emph>\<open>store\<close> and signs one delegation credential. With it and a \<^emph>\<open>resource challenge\<close> bound to one
  call the holder redeems the credential at the \<^emph>\<open>inventory resource\<close>, which consumes the challenge and spends the
  credential in one transaction before the protected handler runs. Both services answer every decision with a
  signed \<^emph>\<open>receipt\<close>. In the lab a \<^emph>\<open>trusted controller\<close> prepares seven cases (honest, replayed, substituted, forged,
  malformed, concurrent), hands their requests to a \<^emph>\<open>holder worker\<close> over a transport or a remote job, appraises the
  responses, redeems them and signs an \<^emph>\<open>experiment record\<close> that anybody can verify from an \<^emph>\<open>evidence bundle\<close>. Around
  it stand the live command line, the read-back checks of the cloud provider's state, a bounded capture of an
  untrusted command, a deadline supervisor and the manifest of the evidence directory.

  \<^bold>\<open>How code is modelled.\<close> A value that may be an exception is \<^typ>\<open>exn + 'a\<close>; every raise is an \<^const>\<open>Inl\<close> branch. An
  operation with effects is a \<^typ>\<open>('s, 'a) prog\<close>, a function from a state to a result and the state left behind, so
  an exception undoes nothing. The state every service sees is the environment of \<open>Runtime\<close>: streams of clock readings,
  random bytes and SQLite lock failures, about which nothing is assumed. The store, the counters, the run identifiers
  and the files of a live run are fields added to it. Strings are lists of characters, bytes are 8-bit words, SHA-256
  works on 32-bit words that wrap around, Python's integers are \<^typ>\<open>int\<close>; integers that reach SQLite carry its 64-bit
  bound as a check. Packages are records of functions (\<open>External\<close>): Ed25519, X.509, the canonical JSON encoder, JWS,
  the manifest verifier, the credential package, the quote verifier. Theorems that rely on one name the documented
  behaviour they use (\<open>ed25519_ok\<close>, \<open>jws_ok\<close>, \<open>credential_ok\<close>, \<open>canonical_text_ok\<close>, \<open>exported_keys_ok\<close>, \<open>reads_json\<close>) as a
  hypothesis, and \<open>Instances\<close> and the witnesses instantiate it.

  \<^bold>\<open>Theories and sources.\<close>
  \<^item> \<open>Prelude\<close>, \<open>Errors\<close>, \<open>Runtime\<close>, \<open>Polling\<close>, \<open>Sha256\<close>, \<open>Json\<close>, \<open>Schema\<close>: encodings and the lemma collections \<open>res_simps\<close>
    and \<open>wp_simps\<close>; \<^verbatim>\<open>errors.py\<close>; effects with a postcondition calculus (\<open>post\<close>); loops that poll; \<^verbatim>\<open>hashlib\<close> and
    \<^verbatim>\<open>hmac\<close>; \<^verbatim>\<open>canonical.py\<close>; strict closed models of pydantic.
  \<^item> \<open>Models\<close>, \<open>External\<close>, \<open>Challenge\<close>, \<open>Identity\<close>, \<open>Manifest_Verifier\<close>, \<open>Receipt\<close>, \<open>Tpm\<close>, \<open>Storage\<close>, \<open>Broker\<close>, \<open>Inventory\<close>: the
    file of \<^verbatim>\<open>src/atcap\<close> of the same name (\<open>Models\<close> also \<^verbatim>\<open>policy.py\<close>), one record per class, one definition per
    method, long methods cut at their blocks (\<open>issue_prepare\<close>, \<open>appraise_request\<close>, \<open>issue_mint\<close>; \<open>redeem_check\<close>,
    \<open>redeem_spend\<close>, \<open>redeem_invoke\<close>).
  \<^item> \<open>Redemption\<close>: the same redemption as a step relation \<open>redeem_world\<close> of any number of threads, interleaved at every
    database access and at the counter, with crashes and other clients. \<open>Issuance\<close>, \<open>Resource_Access\<close>: the properties of
    the two services with concrete runs.
  \<^item> \<open>Worker_Wire\<close>, \<open>Wire\<close>, \<open>Lab_State\<close>, \<open>Worker\<close>, \<open>Transport\<close>, \<open>Experiment_Record\<close>, \<open>Controller\<close>: \<^verbatim>\<open>lab/worker_wire.py\<close>,
    \<^verbatim>\<open>lab/wire.py\<close> (twice), \<^verbatim>\<open>lab/worker.py\<close> with \<^verbatim>\<open>handler.py\<close>, \<^verbatim>\<open>lab/transport.py\<close>, \<^verbatim>\<open>lab/record.py\<close>,
    \<^verbatim>\<open>lab/controller.py\<close>.
  \<^item> \<open>Evidence\<close>, \<open>Live_Cli\<close>, \<open>Live_Run\<close>: \<^verbatim>\<open>lab/live_cli.py\<close>, its reading and verifying side, its two halves on a file
    system with permission bits, and what they guarantee. \<open>Swtpm\<close>: \<^verbatim>\<open>lab/swtpm.py\<close>.
  \<^item> \<open>Provider_Readback\<close>, \<open>Readback_Command\<close>, \<open>Bounded_Capture\<close>, \<open>Deadline_Supervisor\<close>, \<open>Evidence_Manifest\<close>: the scripts of
    these names; \<open>Readback_Command\<close> has the JSON text writer and exclusive file creation, \<open>Evidence_Manifest\<close> also
    \<^verbatim>\<open>billing_observation.py\<close>. \<open>Command_Line\<close>: the command lines of the lab from their parsed arguments on.
  \<^item> \<open>Package_Verifier\<close>, \<open>Package_Check\<close>: \<^verbatim>\<open>scripts/verify-package.py\<close>, its checks, and the script as a whole.

  \<^bold>\<open>Interfaces.\<close> \<open>one_shot\<close> (\<open>Storage\<close>) is the contract of a ledger: a step keeps the invariant, a key that is won was not
  claimed before, is claimed after, and stays claimed; then no sequence of steps wins a key twice. It is interpreted
  on the three tables of the store, on whole issuance calls (\<open>Broker\<close>), whole redemption calls (\<open>Redemption\<close>) and the
  transport's identifiers (\<open>Transport\<close>). \<open>closed_model\<close> (\<open>Schema\<close>) is the contract of a strict pydantic model, a reader that
  accepts exactly the documents of valid values; \<open>readable_model\<close> (\<open>Lab_State\<close>) is what nested models keep of it. They are
  interpreted on the receipt payload and on every wire and state model, which gives each its round trip.

  \<^bold>\<open>What is shown.\<close> At most once: a credential's handler runs at most once and a challenge yields at most one credential,
  for sequences of calls and, for redemption, under any interleaving (C1, C4, C5, C31). Soundness: an allow decision
  implies every check for exactly this call (C2, C3), the tool interface is the only way to the handler (C11). Liveness:
  a qualified request is granted and an authorized one completes (C6, C7). Errors: a denial runs no handler and keeps the
  store, an exception is accounted for (C8 to C10), the read-back command never lets one escape (C35). The store refines
  an abstract ledger, keeps its invariant and its transactions are atomic (C14 to C16). Receipts, endorsements, quotes,
  records, bundles, provider documents and release archives are accepted exactly under their written conditions (C17,
  C21 to C23, C28, C34, C36, C38 to C40), decisions are described truthfully (C19, C20), and what is signed or written
  reads back (C12, C18, C26, C37). Challenges are live and bound (C24, C25, C33); worker answers are complete (C27); a
  valid record adds up (C29, C30) and finalizing validates everything before it changes anything (C32). The capture
  returns and stays within its limits (C13).

  \<^bold>\<open>Termination and bounds.\<close> No definition takes fuel. Loops over data are structural; \<open>read_chunks\<close> and \<open>sha_blocks\<close> have
  a measure. The two loops that wait for the outside world are \<open>poll\<close>, whose value \<^const>\<open>None\<close> means that they never
  stop; they are shown to stop when the clock reaches the deadline in some round. The limits of the sources (sizes,
  depths, counts) are definitions with the same values.

  \<^bold>\<open>Not modelled.\<close> Argument parsers, help and diagnostic texts on standard error; the generation of keys (keys are
  arguments); the server loop of the MCP package and its sessions, of which \<open>call_tool\<close> is the entry point; the
  parsers of X.509, TOML, mail headers, CSV, tar and zip (arguments); text of the indented JSON that the billing and
  manifest tools write (its value is modelled); characters beyond code point 255; the self tests and test drivers,
  which only call the components above.
\<close>

text \<open>From one command to the other: after a finalize command that exits with zero, the verify command on its
  evidence directory exits with zero whenever the bundle is within the verifier's bounds, and changes nothing.\<close>

theorem finalized_run_verifies:
  fixes s :: "('t, 'z) swtpm_state_scheme"
  assumes "canonical_text_ok (lh_lib h)" "exported_keys_ok (lib_jws (lh_lib h))"
    and run: "live_main h (Finalize fa) s = (Inr 0, s')"
  shows "\<exists>sr. finalize (lh_lib h) (lh_holder h) (lh_races h) fa s = (Inr sr, s') \<and>
    (bundle_fits sr (bundle_at (fa_evidence_dir fa) (files s')) \<longrightarrow>
      verify_evidence_bundle (lh_lib h) (bundle_at (fa_evidence_dir fa) (files s')) = Inr sr \<and>
      live_main h (VerifyRecord (fa_evidence_dir fa)) s' = (Inr 0, s'))"
proof -
  from run obtain sr where sr: "finalize (lh_lib h) (lh_holder h) (lh_races h) fa s = (Inr sr, s')"
    by (auto simp: live_main_def exit_on_zero run_live_command_def run_simps split: prod.splits sum.splits)
  have "verify_evidence_bundle (lh_lib h) (bundle_at (fa_evidence_dir fa) (files s')) = Inr sr"
    if "bundle_fits sr (bundle_at (fa_evidence_dir fa) (files s'))"
    using post_returnD [OF finalize_post [OF assms(1,2)] sr] that by (simp add: verifies_if_fits_def Let_def)
  with sr show ?thesis by (auto simp: verify_record_exit intro!: exI [of _ sr])
qed

end
